(* ===== verification/Prelude.thy ===== *)
theory Prelude
  imports Complex_Main "HOL-Library.Word"
begin

text \<open>
  The shared vocabulary of the development: results of fallible code, the Python string
  and integer functions the sources call, and the row operations by which the components
  read and write database tables.

  A Python string is a \<^typ>\<open>string\<close> whose characters are the code points below 256.
  On these code points \<open>py_strip\<close>, \<open>py_lower\<close> and \<open>py_int\<close> agree with
  \<^verbatim>\<open>str.strip\<close>, \<^verbatim>\<open>str.lower\<close> and \<^verbatim>\<open>int\<close>.
\<close>

named_theorems res_simps "elimination of the result monad in hypotheses and goals"
named_theorems row_simps "reads of a table after an insert, an update or a delete"
named_theorems op_defs "definitions of the operations of a component"
named_theorems py_eval "evaluation of string and number conversions on literals"

section \<open>Results\<close>

text \<open>A computation that may raise returns a sum: \<open>Inl\<close> is the exception raised.\<close>

fun res_bind :: "'e + 'a \<Rightarrow> ('a \<Rightarrow> 'e + 'b) \<Rightarrow> 'e + 'b" where
  "res_bind (Inl e) f = Inl e"
| "res_bind (Inr a) f = f a"

definition guard :: "bool \<Rightarrow> 'e \<Rightarrow> 'e + unit" where
  "guard b e = (if b then Inr () else Inl e)"

definition of_option :: "'e \<Rightarrow> 'a option \<Rightarrow> 'e + 'a" where
  "of_option e x = (case x of None \<Rightarrow> Inl e | Some a \<Rightarrow> Inr a)"

lemma res_bind_Inr_iff [res_simps]:
  "res_bind m f = Inr b \<longleftrightarrow> (\<exists>a. m = Inr a \<and> f a = Inr b)"
  by (cases m) auto

lemma res_bind_Inl_iff [res_simps]:
  "res_bind m f = Inl e \<longleftrightarrow> m = Inl e \<or> (\<exists>a. m = Inr a \<and> f a = Inl e)"
  by (cases m) auto

lemma guard_Inr_iff [res_simps]: "guard b e = Inr u \<longleftrightarrow> b"
  by (simp add: guard_def)

lemma guard_Inl_iff [res_simps]: "guard b e = Inl e' \<longleftrightarrow> \<not> b \<and> e' = e"
  by (auto simp: guard_def)

lemma guard_True [simp]: "guard True e = Inr ()"
  by (simp add: guard_def)

lemma guard_False [simp]: "guard False e = Inl e"
  by (simp add: guard_def)

lemma of_option_Inr_iff [res_simps]: "of_option e x = Inr a \<longleftrightarrow> x = Some a"
  by (simp add: of_option_def split: option.split)

lemma of_option_Inl_iff [res_simps]: "of_option e x = Inl e' \<longleftrightarrow> x = None \<and> e' = e"
  by (auto simp: of_option_def split: option.split)

lemma of_option_Some [simp]: "of_option e (Some a) = Inr a"
  by (simp add: of_option_def)

lemma of_option_None [simp]: "of_option e None = Inl e"
  by (simp add: of_option_def)

text \<open>All results of a list, or the first exception, as a comprehension would raise it.\<close>

fun res_map :: "('a \<Rightarrow> 'e + 'b) \<Rightarrow> 'a list \<Rightarrow> 'e + 'b list" where
  "res_map f [] = Inr []"
| "res_map f (x # xs) = res_bind (f x) (\<lambda>y. res_bind (res_map f xs) (\<lambda>ys. Inr (y # ys)))"

fun opt_map :: "('a \<Rightarrow> 'b option) \<Rightarrow> 'a list \<Rightarrow> 'b list option" where
  "opt_map f [] = Some []"
| "opt_map f (x # xs) =
     (case f x of None \<Rightarrow> None
      | Some y \<Rightarrow> (case opt_map f xs of None \<Rightarrow> None | Some ys \<Rightarrow> Some (y # ys)))"

lemma opt_map_Some_iff:
  "opt_map f xs = Some ys \<longleftrightarrow> list_all2 (\<lambda>x y. f x = Some y) xs ys"
proof (induction xs arbitrary: ys)
  case (Cons x xs)
  show ?case
    by (auto simp: list_all2_Cons1 Cons.IH [symmetric] split: option.splits)
qed auto

lemma opt_map_map: "(\<And>x. x \<in> set xs \<Longrightarrow> f (g x) = Some x) \<Longrightarrow> opt_map f (map g xs) = Some xs"
  by (induction xs) auto

lemma opt_map_length: "opt_map f xs = Some ys \<Longrightarrow> length ys = length xs"
  by (auto simp: opt_map_Some_iff dest: list_all2_lengthD)

lemma opt_map_in: "opt_map f xs = Some ys \<Longrightarrow> y \<in> set ys \<Longrightarrow> \<exists>x \<in> set xs. f x = Some y"
  by (induction xs arbitrary: ys) (auto split: option.splits)

section \<open>Characters and strings\<close>

abbreviation code :: "char \<Rightarrow> nat" where
  "code c \<equiv> of_char c"

definition is_digit :: "char \<Rightarrow> bool" where
  "is_digit c \<longleftrightarrow> 48 \<le> code c \<and> code c \<le> 57"

definition is_upper :: "char \<Rightarrow> bool" where
  "is_upper c \<longleftrightarrow> 65 \<le> code c \<and> code c \<le> 90"

definition is_lower :: "char \<Rightarrow> bool" where
  "is_lower c \<longleftrightarrow> 97 \<le> code c \<and> code c \<le> 122"

definition is_alnum :: "char \<Rightarrow> bool" where
  "is_alnum c \<longleftrightarrow> is_digit c \<or> is_upper c \<or> is_lower c"

text \<open>White space as \<^verbatim>\<open>str.isspace\<close> has it below code point 256.\<close>

definition is_space :: "char \<Rightarrow> bool" where
  "is_space c \<longleftrightarrow> (9 \<le> code c \<and> code c \<le> 13) \<or> (28 \<le> code c \<and> code c \<le> 32)
     \<or> code c = 133 \<or> code c = 160"

definition py_lstrip :: "string \<Rightarrow> string" where
  "py_lstrip s = dropWhile is_space s"

definition py_strip :: "string \<Rightarrow> string" where
  "py_strip s = rev (dropWhile is_space (rev (dropWhile is_space s)))"

definition lower_char :: "char \<Rightarrow> char" where
  "lower_char c =
     (if (65 \<le> code c \<and> code c \<le> 90) \<or> (192 \<le> code c \<and> code c \<le> 222 \<and> code c \<noteq> 215)
      then char_of (code c + 32) else c)"

definition py_lower :: "string \<Rightarrow> string" where
  "py_lower s = map lower_char s"

text \<open>
  \<^verbatim>\<open>str.upper\<close>: sharp s becomes two letters; the two code points whose capital lies
  above 255 (181 and 255) are left as they are.
\<close>

definition upper_char :: "char \<Rightarrow> string" where
  "upper_char c =
     (if (97 \<le> code c \<and> code c \<le> 122) \<or> (224 \<le> code c \<and> code c \<le> 254 \<and> code c \<noteq> 247)
      then [char_of (code c - 32)]
      else if code c = 223 then ''SS'' else [c])"

definition py_upper :: "string \<Rightarrow> string" where
  "py_upper s = concat (map upper_char s)"

definition starts_with :: "string \<Rightarrow> string \<Rightarrow> bool" where
  "starts_with p s \<longleftrightarrow> take (length p) s = p"

text \<open>The Python test \<^verbatim>\<open>sub in s\<close>.\<close>

fun occurs_in :: "string \<Rightarrow> string \<Rightarrow> bool" where
  "occurs_in p [] = (p = [])"
| "occurs_in p (c # s) = (starts_with p (c # s) \<or> occurs_in p s)"

text \<open>\<^verbatim>\<open>s.split(c)\<close> and \<^verbatim>\<open>c.join(parts)\<close> for a one-character separator.\<close>

fun py_split :: "char \<Rightarrow> string \<Rightarrow> string list" where
  "py_split c [] = [[]]"
| "py_split c (x # xs) =
     (if x = c then [] # py_split c xs
      else (case py_split c xs of [] \<Rightarrow> [[x]] | p # ps \<Rightarrow> (x # p) # ps))"

fun py_join :: "string \<Rightarrow> string list \<Rightarrow> string" where
  "py_join sep [] = []"
| "py_join sep [p] = p"
| "py_join sep (p # q # ps) = p @ sep @ py_join sep (q # ps)"

text \<open>\<^verbatim>\<open>s.partition(c)\<close>: what precedes the first \<open>c\<close>, and what follows it if there is one.\<close>

fun py_partition :: "char \<Rightarrow> string \<Rightarrow> string \<times> string option" where
  "py_partition c [] = ([], None)"
| "py_partition c (x # xs) =
     (if x = c then ([], Some xs)
      else (case py_partition c xs of (a, r) \<Rightarrow> (x # a, r)))"

lemma py_split_nonempty [simp]: "py_split c s \<noteq> []"
  by (induction s) (auto split: list.splits)

lemma py_split_no_sep: "c \<notin> set s \<Longrightarrow> py_split c s = [s]"
  by (induction s) auto

lemma py_split_append_sep:
  "c \<notin> set s \<Longrightarrow> py_split c (s @ c # t) = s # py_split c t"
  by (induction s) auto

lemma py_split_join:
  "ps \<noteq> [] \<Longrightarrow> (\<And>p. p \<in> set ps \<Longrightarrow> c \<notin> set p) \<Longrightarrow> py_split c (py_join [c] ps) = ps"
proof (induction "[c]" ps rule: py_join.induct)
  case (3 p q ps)
  then show ?case by (simp add: py_split_append_sep)
qed (auto simp: py_split_no_sep)

lemma py_join_split: "py_join [c] (py_split c s) = s"
proof (induction s)
  case (Cons x xs)
  show ?case
  proof (cases "py_split c xs")
    case Nil
    then show ?thesis by simp
  next
    case (Cons p ps)
    with Cons.IH show ?thesis by (cases ps) auto
  qed
qed simp

lemma py_split_parts: "p \<in> set (py_split c s) \<Longrightarrow> c \<notin> set p \<and> set p \<subseteq> set s"
  by (induction s arbitrary: p) (fastforce split: list.splits if_splits)+

lemma py_partition_no_sep: "c \<notin> set s \<Longrightarrow> py_partition c s = (s, None)"
  by (induction s) auto

lemma py_partition_append: "c \<notin> set s \<Longrightarrow> py_partition c (s @ c # t) = (s, Some t)"
  by (induction s) auto

lemma py_partition_join:
  "py_partition c s = (a, r) \<Longrightarrow>
     c \<notin> set a \<and> s = (case r of None \<Rightarrow> a | Some b \<Rightarrow> a @ c # b)"
  by (induction s arbitrary: a) (auto split: if_splits prod.splits option.splits)

lemma set_py_join: "set (py_join sep ps) \<subseteq> set sep \<union> \<Union>(set ` set ps)"
  by (induction sep ps rule: py_join.induct) auto

text \<open>Stripping: a stripped string has no white space at either end, and is its own strip.\<close>

lemma py_strip_id:
  "s = [] \<or> (\<not> is_space (hd s) \<and> \<not> is_space (last s)) \<Longrightarrow> py_strip s = s"
proof -
  assume a: "s = [] \<or> (\<not> is_space (hd s) \<and> \<not> is_space (last s))"
  then have "dropWhile is_space s = s"
    by (cases s) auto
  moreover have "dropWhile is_space (rev s) = rev s"
    using a by (cases s rule: rev_cases) auto
  ultimately show ?thesis by (simp add: py_strip_def)
qed

lemma dropWhile_rev_hd:
  "dropWhile P s \<noteq> [] \<Longrightarrow> rev (dropWhile P (rev (dropWhile P s))) \<noteq> [] \<Longrightarrow>
     hd (rev (dropWhile P (rev (dropWhile P s)))) = hd (dropWhile P s)"
  by (metis hd_append2 rev_append rev_rev_ident takeWhile_dropWhile_id)

lemma py_strip_ends:
  assumes "py_strip s \<noteq> []"
  shows "\<not> is_space (hd (py_strip s)) \<and> \<not> is_space (last (py_strip s))"
proof -
  let ?d = "dropWhile is_space (rev (dropWhile is_space s))"
  from assms have d: "?d \<noteq> []" by (simp add: py_strip_def)
  then have "dropWhile is_space s \<noteq> []" by (cases "dropWhile is_space s") auto
  with d have "hd (rev ?d) = hd (dropWhile is_space s)"
    by (intro dropWhile_rev_hd) auto
  with \<open>dropWhile is_space s \<noteq> []\<close> have "\<not> is_space (hd (rev ?d))"
    by (simp add: hd_dropWhile)
  moreover have "\<not> is_space (last (rev ?d))"
    using d by (simp add: hd_dropWhile last_rev)
  ultimately show ?thesis by (simp add: py_strip_def)
qed

lemma py_strip_idem [simp]: "py_strip (py_strip s) = py_strip s"
  by (rule py_strip_id) (use py_strip_ends in blast)

lemma set_py_strip: "set (py_strip s) \<subseteq> set s"
  unfolding py_strip_def by (auto dest!: set_dropWhileD)

section \<open>Numbers in strings\<close>

definition digit_char :: "nat \<Rightarrow> char" where
  "digit_char d = char_of (48 + d)"

definition digit_val :: "char \<Rightarrow> nat" where
  "digit_val c = code c - 48"

lemma digit_val_char [simp]: "d < 10 \<Longrightarrow> digit_val (digit_char d) = d"
  by (simp add: digit_val_def digit_char_def of_char_of)

lemma is_digit_char [simp]: "d < 10 \<Longrightarrow> is_digit (digit_char d)"
  by (simp add: is_digit_def digit_char_def of_char_of)

text \<open>\<^verbatim>\<open>str(n)\<close> of a non-negative integer, and of an integer.\<close>

fun nat_str :: "nat \<Rightarrow> string" where
  "nat_str n = (if n < 10 then [digit_char n] else nat_str (n div 10) @ [digit_char (n mod 10)])"

declare nat_str.simps [simp del]

definition int_str :: "int \<Rightarrow> string" where
  "int_str i = (if i < 0 then ''-'' @ nat_str (nat (- i)) else nat_str (nat i))"

definition dec_val :: "string \<Rightarrow> nat" where
  "dec_val s = foldl (\<lambda>a c. 10 * a + digit_val c) 0 s"

definition dec_int :: "string \<Rightarrow> int" where
  "dec_int s = foldl (\<lambda>a c. 10 * a + int (digit_val c)) 0 s"

lemma dec_int_val [code_unfold]: "int (dec_val s) = dec_int s"
proof -
  have "int (foldl (\<lambda>a c. 10 * a + digit_val c) n s) = foldl (\<lambda>a c. 10 * a + int (digit_val c)) (int n) s" for n
    by (induction s arbitrary: n) simp_all
  from this [of 0] show ?thesis by (simp add: dec_val_def dec_int_def)
qed

lemma dec_val_snoc [simp]: "dec_val (s @ [c]) = 10 * dec_val s + digit_val c"
  by (simp add: dec_val_def)

lemma nat_str_small: "n < 10 \<Longrightarrow> nat_str n = [digit_char n]"
  by (subst nat_str.simps) simp

lemma nat_str_step: "10 \<le> n \<Longrightarrow> nat_str n = nat_str (n div 10) @ [digit_char (n mod 10)]"
  by (subst nat_str.simps) simp

lemma nat_str_nonempty [simp]: "nat_str n \<noteq> []"
  by (subst nat_str.simps) simp

lemma nat_str_digits: "c \<in> set (nat_str n) \<Longrightarrow> is_digit c"
proof (induction n rule: nat_str.induct)
  case (1 n)
  show ?case
  proof (cases "n < 10")
    case True
    with "1.prems" show ?thesis by (simp add: nat_str_small)
  next
    case False
    with "1.prems" "1.IH" show ?thesis by (auto simp: nat_str_step)
  qed
qed

lemma dec_val_nat_str [simp]: "dec_val (nat_str n) = n"
proof (induction n rule: nat_str.induct)
  case (1 n)
  show ?case
  proof (cases "n < 10")
    case True
    then show ?thesis by (simp add: nat_str_small dec_val_def)
  next
    case False
    with "1.IH" show ?thesis by (simp add: nat_str_step)
  qed
qed

text \<open>The same on integers, which evaluate by their binary digits\<close>

function pos_str :: "int \<Rightarrow> string" where
  "pos_str i = (if i < 10 then [digit_char (nat i)] else pos_str (i div 10) @ [digit_char (nat (i mod 10))])"
  by pat_completeness auto

termination pos_str
  by (relation "measure nat") (auto simp: nat_less_iff)

declare pos_str.simps [simp del]

lemma pos_str_nat: "0 \<le> i \<Longrightarrow> pos_str i = nat_str (nat i)"
proof (induction i rule: pos_str.induct)
  case (1 i)
  show ?case
  proof (cases "i < 10")
    case True
    then show ?thesis using 1 by (subst pos_str.simps) (simp add: nat_str_small nat_less_iff)
  next
    case False
    then show ?thesis
      using 1 by (subst pos_str.simps) (simp add: nat_str_step [of "nat i"] nat_div_distrib nat_mod_distrib le_nat_iff)
  qed
qed

lemma int_str_code [code]: "int_str i = (if i < 0 then ''-'' @ pos_str (- i) else pos_str i)"
  by (simp add: int_str_def pos_str_nat)

lemma nat_str_inj: "nat_str m = nat_str n \<longleftrightarrow> m = n"
  by (metis dec_val_nat_str)

lemma nat_str_hd_zero: "hd (nat_str n) = CHR ''0'' \<longleftrightarrow> n = 0"
proof (induction n rule: nat_str.induct)
  case (1 n)
  show ?case
  proof (cases "n < 10")
    case True
    then have "hd (nat_str n) = char_of (48 + n)"
      by (simp add: nat_str_small digit_char_def)
    moreover have "CHR ''0'' = char_of (48 :: nat)" by code_simp
    ultimately show ?thesis using True by (auto simp: char_of_eq_iff take_bit_nat_def)
  next
    case False
    with "1.IH" show ?thesis by (auto simp: nat_str_step)
  qed
qed

lemma length_nat_str_le: "n < 10 ^ k \<Longrightarrow> 0 < k \<Longrightarrow> length (nat_str n) \<le> k"
proof (induction k arbitrary: n)
  case (Suc k)
  show ?case
  proof (cases "n < 10")
    case True
    then show ?thesis by (simp add: nat_str_small)
  next
    case False
    with Suc.prems have "n div 10 < 10 ^ k" and "0 < k"
      by (auto simp: less_mult_imp_div_less mult.commute intro: gr0I)
    with Suc.IH False show ?thesis by (simp add: nat_str_step)
  qed
qed simp

text \<open>
  \<^verbatim>\<open>int(s)\<close>: white space around, an optional sign, then digits with single underscores
  between them. (The interpreter's limit of 4300 digits is not part of the model.)
\<close>

fun int_body :: "string \<Rightarrow> bool" where
  "int_body [] = False"
| "int_body [c] = is_digit c"
| "int_body (c # d # s) =
     (is_digit c \<and> (if d = CHR ''_'' then int_body s else int_body (d # s)))"

definition py_int :: "string \<Rightarrow> int option" where
  "py_int s =
     (let t = py_strip s;
          neg = (t \<noteq> [] \<and> hd t = CHR ''-'');
          u = (if t \<noteq> [] \<and> (hd t = CHR ''-'' \<or> hd t = CHR ''+'') then tl t else t)
      in if int_body u
         then (let v = int (dec_val (filter (\<lambda>c. c \<noteq> CHR ''_'') u))
               in Some (if neg then - v else v))
         else None)"

text \<open>Evaluation of the conversions on literals.\<close>

lemma digit_char_eval [py_eval]:
  "digit_char 0 = CHR ''0''" "digit_char (Suc 0) = CHR ''1''" "digit_char 1 = CHR ''1''"
  "digit_char 2 = CHR ''2''" "digit_char 3 = CHR ''3''" "digit_char 4 = CHR ''4''"
  "digit_char 5 = CHR ''5''" "digit_char 6 = CHR ''6''" "digit_char 7 = CHR ''7''"
  "digit_char 8 = CHR ''8''" "digit_char 9 = CHR ''9''"
  by code_simp+

lemmas string_eval [py_eval] = is_digit_def is_upper_def is_lower_def is_alnum_def is_space_def
  py_strip_def starts_with_def dec_val_def digit_val_def py_int_def Let_def nat_str.simps
  int_str_def

section \<open>Rows of a table\<close>

text \<open>
  A table is the list of its rows, in the order of insertion. \<open>key\<close> reads the primary key.
\<close>

definition row_get :: "('r \<Rightarrow> 'k) \<Rightarrow> 'k \<Rightarrow> 'r list \<Rightarrow> 'r option" where
  "row_get key k rows = find (\<lambda>r. key r = k) rows"

definition row_upd :: "('r \<Rightarrow> 'k) \<Rightarrow> 'k \<Rightarrow> ('r \<Rightarrow> 'r) \<Rightarrow> 'r list \<Rightarrow> 'r list" where
  "row_upd key k f rows = map (\<lambda>r. if key r = k then f r else r) rows"

definition row_del :: "('r \<Rightarrow> 'k) \<Rightarrow> 'k \<Rightarrow> 'r list \<Rightarrow> 'r list" where
  "row_del key k rows = filter (\<lambda>r. key r \<noteq> k) rows"

lemma row_get_None_iff [row_simps]: "row_get key k rows = None \<longleftrightarrow> k \<notin> key ` set rows"
  by (auto simp: row_get_def find_None_iff)

lemma row_get_SomeD: "row_get key k rows = Some r \<Longrightarrow> r \<in> set rows \<and> key r = k"
  by (auto simp: row_get_def find_Some_iff)

lemma row_get_distinct:
  "distinct (map key rows) \<Longrightarrow> r \<in> set rows \<Longrightarrow> row_get key (key r) rows = Some r"
  by (induction rows) (auto simp: row_get_def)

lemma row_get_Nil [row_simps]: "row_get key k [] = None"
  by (simp add: row_get_def)

lemma row_get_Cons [row_simps]:
  "row_get key k (r # rows) = (if key r = k then Some r else row_get key k rows)"
  by (simp add: row_get_def)

lemma row_get_append [row_simps]:
  "row_get key k (xs @ ys) = (case row_get key k xs of None \<Rightarrow> row_get key k ys | Some r \<Rightarrow> Some r)"
  by (induction xs) (auto simp: row_simps)

lemma row_get_upd [row_simps]:
  "(\<And>r. key (f r) = key r) \<Longrightarrow>
     row_get key k (row_upd key k' f rows)
       = (if k = k' then map_option f (row_get key k rows) else row_get key k rows)"
  by (induction rows) (auto simp: row_upd_def row_get_def)

lemma row_get_del [row_simps]:
  "row_get key k (row_del key k' rows) = (if k = k' then None else row_get key k rows)"
  by (induction rows) (auto simp: row_del_def row_get_def)

lemma map_row_upd:
  "(\<And>r. g (f r) = g r) \<Longrightarrow> map g (row_upd key k f rows) = map g rows"
  by (simp add: row_upd_def)

lemma set_row_upd: "r \<in> set (row_upd key k f rows) \<longleftrightarrow>
    (\<exists>r0 \<in> set rows. r = (if key r0 = k then f r0 else r0))"
  unfolding row_upd_def set_map image_iff ..

lemma set_row_del [simp]: "set (row_del key k rows) = {r \<in> set rows. key r \<noteq> k}"
  by (simp add: row_del_def)

lemma distinct_row_del: "distinct (map g rows) \<Longrightarrow> distinct (map g (row_del key k rows))"
  by (simp add: row_del_def distinct_map_filter)

text \<open>A query on a unique column selects at most one row.\<close>

lemma filter_key_pred:
  assumes "distinct (map key xs)" and "x \<in> set xs"
  shows "filter (\<lambda>y. key y = key x \<and> P y) xs = (if P x then [x] else [])"
  using assms
proof (induction xs)
  case (Cons y ys)
  show ?case
  proof (cases "y = x")
    case True
    then have "key z \<noteq> key x" if "z \<in> set ys" for z using Cons.prems(1) that by (auto simp: image_iff)
    then have "filter (\<lambda>y. key y = key x \<and> P y) ys = []" by (auto simp: filter_empty_conv)
    with True show ?thesis by simp
  next
    case False
    with Cons.prems have "key y \<noteq> key x" by (auto simp: image_iff)
    with False Cons show ?thesis by simp
  qed
qed simp

lemma filter_key_single:
  assumes "distinct (map key xs)" and "k \<in> key ` set xs"
  shows "\<exists>x \<in> set xs. filter (\<lambda>x. key x = k) xs = [x]"
  using assms filter_key_pred [of key xs _ "\<lambda>_. True"] by auto

lemma filter_key_absent: "k \<notin> key ` set xs \<Longrightarrow> filter (\<lambda>y. key y = k \<and> P y) xs = []"
  by (auto simp: filter_empty_conv)

lemma find_filter: "find P xs = (case filter P xs of [] \<Rightarrow> None | x # _ \<Rightarrow> Some x)"
  by (induction xs) auto

lemma find_key_distinct:
  assumes "distinct (map key xs)" and "x \<in> set xs"
  shows "find (\<lambda>y. key y = key x \<and> P y) xs = (if P x then Some x else None)"
  using filter_key_pred [OF assms, of P] by (simp add: find_filter)

end
