(* ===== verification/Py_Values.thy ===== *)
theory Py_Values
  imports Prelude
begin

text \<open>
  The dynamic values the services exchange: the exceptions they raise, the JSON documents
  of request bodies and of JSON columns, floating point numbers, and the conversions
  \<^verbatim>\<open>str\<close>, \<^verbatim>\<open>int\<close>, \<^verbatim>\<open>float\<close> and \<^verbatim>\<open>round\<close> the sources apply to them.

  A float is an exact rational or one of the three special values; the rounding of a decimal
  literal to the nearest double is not part of the model, its overflow to infinity is.
\<close>

section \<open>Exceptions\<close>

text \<open>
  One constructor per exception class that the modelled code raises or catches. The network
  errors of the operating system and of the SSH library are classified as the handlers
  classify them.
\<close>

datatype net_error = NetTimeout | NetOS | SshAuthentication | SshBadHostKey | SshOther

datatype exn =
    ValueError string
  | TypeError
  | OverflowError
  | ZeroDivisionError
  | KeyError
  | AttributeError
  | NetError net_error
  | InvalidMagicPacketError string
  | ConfigError string
  | WebConfigError string
  | FortiGateError string
  | DriverValidationError string
  | DriverOperationError string
  | CredentialCryptoError string
  | ResourceNotFoundError
  | ResourceConflictError
  | ResourceInUseError
  | StaleVersionError
  | MasterKeyRequiredError
  | IntegrityError
  | DataError
  | NoResultFound
  | MultipleResultsFound
  | SetupAlreadyCompletedError
  | InvalidCredentialsError
  | IdentityNotFoundError
  | IdentityConflictError
  | LastOwnerError
  | InvalidTokenError
  | SmtpNotConfiguredError
  | IdentityMasterKeyError
  | InvitationNotAcceptedError
  | EmailDeliveryError string
  | UdpRangeOutsidePublishedError
  | UdpRangeExcludesListenersError
  | PasswordVerificationError
  | FileNotFoundError
  | OSError
  | TimeoutExpired
  | JSONDecodeError
  | IndexError
  | AgentError string int
  | HostAgentError string int
  | HTTPException int string

text \<open>\<^verbatim>\<open>str(exc)\<close>: the first argument, empty for a class raised without arguments.\<close>

fun str_exn :: "exn \<Rightarrow> string" where
  "str_exn (ValueError s) = s"
| "str_exn (InvalidMagicPacketError s) = s"
| "str_exn (ConfigError s) = s"
| "str_exn (WebConfigError s) = s"
| "str_exn (FortiGateError s) = s"
| "str_exn (DriverValidationError s) = s"
| "str_exn (DriverOperationError s) = s"
| "str_exn (CredentialCryptoError s) = s"
| "str_exn (EmailDeliveryError s) = s"
| "str_exn (AgentError s n) = s"
| "str_exn (HostAgentError s n) = s"
| "str_exn (HTTPException n s) = int_str n @ '': '' @ s"
| "str_exn _ = []"

section \<open>Environment variables\<close>

text \<open>\<^verbatim>\<open>os.environ.get(k, v)\<close>\<close>

definition env_or :: "(string \<rightharpoonup> string) \<Rightarrow> string \<Rightarrow> string \<Rightarrow> string" where
  "env_or env k v = (case env k of None \<Rightarrow> v | Some w \<Rightarrow> w)"

section \<open>Floating point numbers\<close>

datatype pyfloat = Fin rat | PInf | NInf | NaN

text \<open>The comparison \<open><\<close> of floats: false whenever an operand is not a number.\<close>

fun fl_less :: "pyfloat \<Rightarrow> pyfloat \<Rightarrow> bool" where
  "fl_less (Fin a) (Fin b) = (a < b)"
| "fl_less (Fin a) PInf = True"
| "fl_less NInf (Fin b) = True"
| "fl_less NInf PInf = True"
| "fl_less _ _ = False"

text \<open>The comparison \<open>\<le>\<close>: not the negation of the converse \<open><\<close>, because of NaN.\<close>

definition fl_le :: "pyfloat \<Rightarrow> pyfloat \<Rightarrow> bool" where
  "fl_le a b \<longleftrightarrow> fl_less a b \<or> (a = b \<and> a \<noteq> NaN)"

text \<open>\<^verbatim>\<open>round(x)\<close> to an integer, halves to the even neighbour.\<close>

definition py_round :: "rat \<Rightarrow> int" where
  "py_round x =
     (let f = \<lfloor>x\<rfloor>; d = x - of_int f
      in if d < 1 / 2 then f
         else if d > 1 / 2 then f + 1
         else if even f then f else f + 1)"

lemma py_round_mono_zero: "0 \<le> x \<Longrightarrow> 0 \<le> py_round x"
  by (auto simp: py_round_def Let_def)

text \<open>
  \<^verbatim>\<open>float(s)\<close>. Each digit group may hold single underscores; the integral or the
  fractional group may be empty, not both.
\<close>

definition max_double :: rat where
  "max_double = 2 ^ 1024 - 2 ^ 970"

definition digit_group :: "string \<Rightarrow> bool" where
  "digit_group s \<longleftrightarrow> s = [] \<or> int_body s"

definition group_digits :: "string \<Rightarrow> string" where
  "group_digits s = filter (\<lambda>c. c \<noteq> CHR ''_'') s"

definition scale10 :: "int \<Rightarrow> rat" where
  "scale10 e = (if 0 \<le> e then 10 ^ nat e else 1 / 10 ^ nat (- e))"

definition py_float_body :: "string \<Rightarrow> rat option" where
  "py_float_body u =
     (let (m, ex) = py_partition (CHR ''e'') u;
          (ip, fp) = py_partition (CHR ''.'') m;
          fs = (case fp of None \<Rightarrow> [] | Some f \<Rightarrow> f);
          e = (case ex of None \<Rightarrow> Some 0
               | Some x \<Rightarrow>
                   (let y = (if x \<noteq> [] \<and> (hd x = CHR ''-'' \<or> hd x = CHR ''+'') then tl x else x)
                    in if int_body y
                       then (let v = int (dec_val (group_digits y))
                             in Some (if hd x = CHR ''-'' then - v else v))
                       else None))
      in if digit_group ip \<and> digit_group fs \<and> (ip \<noteq> [] \<or> fs \<noteq> [])
         then map_option (\<lambda>k. rat_of_nat (dec_val (group_digits ip @ group_digits fs))
                * scale10 (k - int (length (group_digits fs)))) e
         else None)"

definition py_float :: "string \<Rightarrow> pyfloat option" where
  "py_float s =
     (let t = py_lower (py_strip s);
          neg = (t \<noteq> [] \<and> hd t = CHR ''-'');
          u = (if t \<noteq> [] \<and> (hd t = CHR ''-'' \<or> hd t = CHR ''+'') then tl t else t)
      in if u = ''inf'' \<or> u = ''infinity'' then Some (if neg then NInf else PInf)
         else if u = ''nan'' then Some NaN
         else (case py_float_body u of
             None \<Rightarrow> None
           | Some v \<Rightarrow> Some (if max_double \<le> v then (if neg then NInf else PInf)
                              else Fin (if neg then - v else v))))"

lemma small_below_max_double: "v \<le> 1000000 \<Longrightarrow> \<not> max_double \<le> v"
proof -
  have "(1000000::rat) < 2 ^ 970" by (simp add: power_eq_if)
  moreover have "(2::rat) ^ 970 + 2 ^ 970 \<le> 2 ^ 1024"
    by (simp add: power_add [symmetric])
  ultimately show "v \<le> 1000000 \<Longrightarrow> ?thesis" by (simp add: max_double_def)
qed

section \<open>JSON values\<close>

datatype json =
    JNull
  | JBool bool
  | JInt int
  | JFloat pyfloat
  | JStr string
  | JList "json list"
  | JObj "(string \<times> json) list"

text \<open>
  A \<^verbatim>\<open>dict[str, Any]\<close> is the list of its items in insertion order; a key occurs once.
  Assigning to a present key keeps its position.
\<close>

type_synonym dict = "(string \<times> json) list"

definition dict_get :: "dict \<Rightarrow> string \<Rightarrow> json option" where
  "dict_get d k = map_of d k"

definition dict_get_or :: "dict \<Rightarrow> string \<Rightarrow> json \<Rightarrow> json" where
  "dict_get_or d k v = (case map_of d k of None \<Rightarrow> v | Some w \<Rightarrow> w)"

fun dict_set :: "('k \<times> 'v) list \<Rightarrow> 'k \<Rightarrow> 'v \<Rightarrow> ('k \<times> 'v) list" where
  "dict_set [] k v = [(k, v)]"
| "dict_set ((k', w) # d) k v = (if k' = k then (k, v) # d else (k', w) # dict_set d k v)"

definition dict_pop :: "('k \<times> 'v) list \<Rightarrow> 'k \<Rightarrow> ('k \<times> 'v) list" where
  "dict_pop d k = filter (\<lambda>(k', w). k' \<noteq> k) d"

lemma map_of_dict_set [simp]: "map_of (dict_set d k v) = (map_of d)(k \<mapsto> v)"
  by (induction d k v rule: dict_set.induct) auto

lemma map_of_dict_pop [simp]: "map_of (dict_pop d k) = (map_of d)(k := None)"
  by (induction d) (auto simp: dict_pop_def fun_eq_iff)

lemma keys_dict_set: "fst ` set (dict_set d k v) = insert k (fst ` set d)"
  by (induction d k v rule: dict_set.induct) auto

lemma in_dict_set: "x \<in> set (dict_set d k v) \<Longrightarrow> x = (k, v) \<or> x \<in> set d"
  by (induction d k v rule: dict_set.induct) (auto split: if_splits)

lemma distinct_dict_set: "distinct (map fst d) \<Longrightarrow> distinct (map fst (dict_set d k v))"
  by (induction d k v rule: dict_set.induct) (auto simp: keys_dict_set)

text \<open>
  \<^verbatim>\<open>str(v)\<close>. The textual form of floats and of containers is the argument \<open>repr\<close>.
\<close>

fun py_str :: "(json \<Rightarrow> string) \<Rightarrow> json \<Rightarrow> string" where
  "py_str repr (JStr s) = s"
| "py_str repr JNull = ''None''"
| "py_str repr (JBool b) = (if b then ''True'' else ''False'')"
| "py_str repr (JInt i) = int_str i"
| "py_str repr v = repr v"

fun py_int_of :: "json \<Rightarrow> exn + int" where
  "py_int_of (JInt i) = Inr i"
| "py_int_of (JBool b) = Inr (if b then 1 else 0)"
| "py_int_of (JFloat (Fin r)) = Inr (if 0 \<le> r then \<lfloor>r\<rfloor> else \<lceil>r\<rceil>)"
| "py_int_of (JFloat NaN) = Inl (ValueError ''cannot convert float NaN to integer'')"
| "py_int_of (JFloat _) = Inl OverflowError"
| "py_int_of (JStr s) = of_option (ValueError ''invalid literal for int() with base 10'') (py_int s)"
| "py_int_of _ = Inl TypeError"

fun py_float_of :: "json \<Rightarrow> exn + pyfloat" where
  "py_float_of (JFloat f) = Inr f"
| "py_float_of (JInt i) =
     (if max_double \<le> \<bar>of_int i\<bar> then Inl OverflowError else Inr (Fin (of_int i)))"
| "py_float_of (JBool b) = Inr (Fin (if b then 1 else 0))"
| "py_float_of (JStr s) = of_option (ValueError ''could not convert string to float'') (py_float s)"
| "py_float_of _ = Inl TypeError"

text \<open>The truth value of a JSON value.\<close>

fun py_truthy :: "json \<Rightarrow> bool" where
  "py_truthy JNull = False"
| "py_truthy (JBool b) = b"
| "py_truthy (JInt i) = (i \<noteq> 0)"
| "py_truthy (JFloat f) = (f \<noteq> Fin 0)"
| "py_truthy (JStr s) = (s \<noteq> [])"
| "py_truthy (JList xs) = (xs \<noteq> [])"
| "py_truthy (JObj d) = (d \<noteq> [])"

end
