(* ===== verification/Regex.thy ===== *)
theory Regex
  imports Prelude
begin

text \<open>
  The patterns of the sources are matched with \<^verbatim>\<open>re.fullmatch\<close>. A pattern is a value of
  type \<open>rx\<close>, matched by derivatives; \<open>re_fullmatch_iff\<close> says the matcher decides the
  language of the pattern. (The anchors \<^verbatim>\<open>^\<close> and \<^verbatim>\<open>$\<close> add nothing to a full match.)
\<close>

datatype rx =
    REmpty
  | REps
  | RCls "char \<Rightarrow> bool"
  | RSeq rx rx
  | RAlt rx rx
  | RStar rx

fun rx_nullable :: "rx \<Rightarrow> bool" where
  "rx_nullable REmpty = False"
| "rx_nullable REps = True"
| "rx_nullable (RCls P) = False"
| "rx_nullable (RSeq r q) = (rx_nullable r \<and> rx_nullable q)"
| "rx_nullable (RAlt r q) = (rx_nullable r \<or> rx_nullable q)"
| "rx_nullable (RStar r) = True"

text \<open>Derivatives drop a branch as soon as it can no longer match, which keeps them small.\<close>

definition rx_seq :: "rx \<Rightarrow> rx \<Rightarrow> rx" where
  "rx_seq r q = (case r of REmpty \<Rightarrow> REmpty | REps \<Rightarrow> q | _ \<Rightarrow> RSeq r q)"

definition rx_alt :: "rx \<Rightarrow> rx \<Rightarrow> rx" where
  "rx_alt r q = (case r of REmpty \<Rightarrow> q | _ \<Rightarrow> (case q of REmpty \<Rightarrow> r | _ \<Rightarrow> RAlt r q))"

fun rx_deriv :: "char \<Rightarrow> rx \<Rightarrow> rx" where
  "rx_deriv c REmpty = REmpty"
| "rx_deriv c REps = REmpty"
| "rx_deriv c (RCls P) = (if P c then REps else REmpty)"
| "rx_deriv c (RSeq r q) =
     (if rx_nullable r then rx_alt (rx_seq (rx_deriv c r) q) (rx_deriv c q)
      else rx_seq (rx_deriv c r) q)"
| "rx_deriv c (RAlt r q) = rx_alt (rx_deriv c r) (rx_deriv c q)"
| "rx_deriv c (RStar r) = rx_seq (rx_deriv c r) (RStar r)"

fun re_fullmatch :: "rx \<Rightarrow> string \<Rightarrow> bool" where
  "re_fullmatch r [] = rx_nullable r"
| "re_fullmatch r (c # s) = re_fullmatch (rx_deriv c r) s"

section \<open>Derived forms\<close>

definition rx_opt :: "rx \<Rightarrow> rx" where
  "rx_opt r = RAlt REps r"

definition rx_plus :: "rx \<Rightarrow> rx" where
  "rx_plus r = RSeq r (RStar r)"

definition rx_chr :: "char \<Rightarrow> rx" where
  "rx_chr c = RCls (\<lambda>d. d = c)"

fun rx_lit :: "string \<Rightarrow> rx" where
  "rx_lit [] = REps"
| "rx_lit (c # s) = RSeq (rx_chr c) (rx_lit s)"

text \<open>\<^verbatim>\<open>r{n}\<close> and \<^verbatim>\<open>r{0,n}\<close>\<close>

fun rx_rep :: "nat \<Rightarrow> rx \<Rightarrow> rx" where
  "rx_rep 0 r = REps"
| "rx_rep (Suc n) r = RSeq r (rx_rep n r)"

fun rx_upto :: "nat \<Rightarrow> rx \<Rightarrow> rx" where
  "rx_upto 0 r = REps"
| "rx_upto (Suc n) r = RAlt REps (RSeq r (rx_upto n r))"

section \<open>The language of a pattern\<close>

inductive rx_in :: "string \<Rightarrow> rx \<Rightarrow> bool" where
  eps: "rx_in [] REps"
| cls: "P c \<Longrightarrow> rx_in [c] (RCls P)"
| seq: "rx_in s r \<Longrightarrow> rx_in t q \<Longrightarrow> rx_in (s @ t) (RSeq r q)"
| altl: "rx_in s r \<Longrightarrow> rx_in s (RAlt r q)"
| altr: "rx_in s q \<Longrightarrow> rx_in s (RAlt r q)"
| star_nil: "rx_in [] (RStar r)"
| star_step: "rx_in s r \<Longrightarrow> rx_in t (RStar r) \<Longrightarrow> rx_in (s @ t) (RStar r)"

inductive_simps rx_in_simps [simp]:
  "rx_in s REmpty"
  "rx_in s REps"
  "rx_in s (RCls P)"
  "rx_in s (RAlt r q)"

inductive_simps rx_in_seq: "rx_in s (RSeq r q)"

lemma rx_nullable_iff: "rx_nullable r \<longleftrightarrow> rx_in [] r"
  by (induction r) (auto simp: rx_in_seq intro: rx_in.star_nil)

lemma rx_in_seq_smart [simp]: "rx_in s (rx_seq r q) \<longleftrightarrow> rx_in s (RSeq r q)"
  by (auto simp: rx_seq_def rx_in_seq split: rx.splits)

lemma rx_in_alt_smart [simp]: "rx_in s (rx_alt r q) \<longleftrightarrow> rx_in s (RAlt r q)"
  by (auto simp: rx_alt_def split: rx.splits)

lemma rx_in_star_Cons:
  "rx_in (c # s) (RStar r) \<longleftrightarrow> (\<exists>u v. s = u @ v \<and> rx_in (c # u) r \<and> rx_in v (RStar r))"
proof
  have "rx_in w q \<Longrightarrow> q = RStar r \<Longrightarrow> w = c # s \<Longrightarrow>
      \<exists>u v. s = u @ v \<and> rx_in (c # u) r \<and> rx_in v (RStar r)" for w q
  proof (induction arbitrary: s rule: rx_in.induct)
    case (star_step u r' t)
    show ?case
    proof (cases u)
      case Nil
      with star_step show ?thesis by auto
    next
      case (Cons d u')
      with star_step show ?thesis by auto
    qed
  qed auto
  then show "rx_in (c # s) (RStar r) \<Longrightarrow>
      \<exists>u v. s = u @ v \<and> rx_in (c # u) r \<and> rx_in v (RStar r)"
    by blast
next
  assume "\<exists>u v. s = u @ v \<and> rx_in (c # u) r \<and> rx_in v (RStar r)"
  then show "rx_in (c # s) (RStar r)"
    by (metis append_Cons rx_in.star_step)
qed

lemma rx_deriv_iff: "rx_in s (rx_deriv c r) \<longleftrightarrow> rx_in (c # s) r"
proof (induction r arbitrary: s)
  case (RSeq r q)
  show ?case
    by (auto simp: rx_in_seq RSeq rx_nullable_iff Cons_eq_append_conv)
next
  case (RStar r)
  show ?case
    by (auto simp: rx_in_seq RStar rx_in_star_Cons)
qed auto

theorem re_fullmatch_iff: "re_fullmatch r s \<longleftrightarrow> rx_in s r"
  by (induction r s rule: re_fullmatch.induct) (auto simp: rx_nullable_iff rx_deriv_iff)

section \<open>Languages of the derived forms\<close>

lemma rx_in_star_cls [simp]: "rx_in s (RStar (RCls P)) \<longleftrightarrow> list_all P s"
  by (induction s) (auto simp: rx_in_star_Cons intro: rx_in.star_nil)

lemma rx_in_seq_cls [simp]:
  "rx_in s (RSeq (RCls P) q) \<longleftrightarrow> (\<exists>c t. s = c # t \<and> P c \<and> rx_in t q)"
proof
  show "rx_in s (RSeq (RCls P) q) \<Longrightarrow> \<exists>c t. s = c # t \<and> P c \<and> rx_in t q"
    unfolding rx_in_seq by auto
next
  assume "\<exists>c t. s = c # t \<and> P c \<and> rx_in t q"
  then obtain c t where "s = [c] @ t" "P c" "rx_in t q" by auto
  then show "rx_in s (RSeq (RCls P) q)"
    using rx_in.seq rx_in.cls by metis
qed

lemma rx_in_seq_assoc [simp]: "rx_in s (RSeq (RSeq r q) p) \<longleftrightarrow> rx_in s (RSeq r (RSeq q p))"
  unfolding rx_in_seq by (metis append_assoc)

lemma rx_in_seq_eps [simp]: "rx_in s (RSeq REps q) \<longleftrightarrow> rx_in s q"
  unfolding rx_in_seq by auto

lemma rx_in_seq_alt [simp]:
  "rx_in s (RSeq (RAlt r q) p) \<longleftrightarrow> rx_in s (RSeq r p) \<or> rx_in s (RSeq q p)"
  unfolding rx_in_seq by auto

lemma rx_in_seq_chr [simp]:
  "rx_in s (RSeq (rx_chr c) q) \<longleftrightarrow> (\<exists>t. s = c # t \<and> rx_in t q)"
  unfolding rx_chr_def by auto

lemma rx_in_plus_cls [simp]: "rx_in s (rx_plus (RCls P)) \<longleftrightarrow> s \<noteq> [] \<and> list_all P s"
  by (cases s) (auto simp: rx_plus_def)

lemma rx_in_opt [simp]: "rx_in s (rx_opt r) \<longleftrightarrow> s = [] \<or> rx_in s r"
  by (simp add: rx_opt_def)

lemma rx_in_chr [simp]: "rx_in s (rx_chr c) \<longleftrightarrow> s = [c]"
  by (auto simp: rx_chr_def)

lemma rx_in_lit [simp]: "rx_in s (rx_lit t) \<longleftrightarrow> s = t"
  by (induction t arbitrary: s) auto

lemma rx_in_rep_cls [simp]:
  "rx_in s (rx_rep n (RCls P)) \<longleftrightarrow> length s = n \<and> list_all P s"
proof (induction n arbitrary: s)
  case (Suc n)
  then show ?case by (cases s) auto
qed auto

lemma rx_in_upto_cls [simp]:
  "rx_in s (rx_upto n (RCls P)) \<longleftrightarrow> length s \<le> n \<and> list_all P s"
proof (induction n arbitrary: s)
  case (Suc n)
  then show ?case by (cases s) auto
qed auto

declare re_fullmatch.simps [simp del]

end
