(* ===== verification/Ip_Address.thy ===== *)
theory Ip_Address
  imports Prelude
begin

text \<open>
  \<^verbatim>\<open>ipaddress.ip_address\<close> and \<^verbatim>\<open>str\<close> of its result, which every component that takes
  an address uses to validate and normalise it. An address is four octets, or eight
  16-bit groups with an optional scope identifier. The main fact is \<open>ip_roundtrip\<close>: the
  text of an address parses back to the address, so normalising is idempotent.
\<close>

datatype ip = V4 "nat list" | V6 "nat list" "string option"

section \<open>Parsing\<close>

definition parse_octet :: "string \<Rightarrow> nat option" where
  "parse_octet s =
     (if s = [] \<or> \<not> list_all is_digit s \<or> length s > 3 then None
      else if s \<noteq> ''0'' \<and> hd s = CHR ''0'' then None
      else if dec_val s > 255 then None else Some (dec_val s))"

definition v4_parse :: "string \<Rightarrow> nat list option" where
  "v4_parse s =
     (let octets = py_split (CHR ''.'') s
      in if s = [] \<or> length octets \<noteq> 4 then None else opt_map parse_octet octets)"

definition hex_digit_val :: "char \<Rightarrow> nat option" where
  "hex_digit_val c =
     (if is_digit c then Some (code c - 48)
      else if 65 \<le> code c \<and> code c \<le> 70 then Some (code c - 55)
      else if 97 \<le> code c \<and> code c \<le> 102 then Some (code c - 87)
      else None)"

definition hex_num :: "nat list \<Rightarrow> nat" where
  "hex_num ds = foldl (\<lambda>a d. 16 * a + d) 0 ds"

definition parse_hextet :: "string \<Rightarrow> nat option" where
  "parse_hextet s =
     (if s = [] \<or> length s > 4 then None else map_option hex_num (opt_map hex_digit_val s))"

text \<open>\<^verbatim>\<open>'%x' % n\<close>\<close>

definition hex_lower :: "nat \<Rightarrow> char" where
  "hex_lower d = char_of (if d < 10 then 48 + d else 87 + d)"

fun hex_str :: "nat \<Rightarrow> string" where
  "hex_str n = (if n < 16 then [hex_lower n] else hex_str (n div 16) @ [hex_lower (n mod 16)])"

declare hex_str.simps [simp del]

text \<open>The positions, first and last excluded, of the empty parts: where \<^verbatim>\<open>::\<close> stands.\<close>

definition v6_skips :: "string list \<Rightarrow> nat list" where
  "v6_skips parts = filter (\<lambda>i. parts ! i = []) [1..<length parts - 1]"

definition v6_expand :: "string list \<Rightarrow> nat list option" where
  "v6_expand parts =
     (case v6_skips parts of
        [] \<Rightarrow>
          if length parts \<noteq> 8 \<or> hd parts = [] \<or> last parts = [] then None
          else opt_map parse_hextet parts
      | [k] \<Rightarrow>
          (let hi = (if hd parts = [] then k - 1 else k);
               lo = (if last parts = [] then length parts - k - 2 else length parts - k - 1)
           in if hd parts = [] \<and> hi \<noteq> 0 then None
              else if last parts = [] \<and> lo \<noteq> 0 then None
              else if 8 < hi + lo + 1 then None
              else (case opt_map parse_hextet (take hi parts) of
                  None \<Rightarrow> None
                | Some hs \<Rightarrow>
                    (case opt_map parse_hextet (drop (length parts - lo) parts) of
                       None \<Rightarrow> None
                     | Some ls \<Rightarrow> Some (hs @ replicate (8 - (hi + lo)) 0 @ ls))))
      | _ \<Rightarrow> None)"

definition v6_parse :: "string \<Rightarrow> nat list option" where
  "v6_parse s =
     (let parts = py_split (CHR '':'') s
      in if s = [] \<or> length parts < 3 then None
         else (let parts' =
             (if CHR ''.'' \<in> set (last parts)
              then map_option (\<lambda>os. butlast parts @ [hex_str (os ! 0 * 256 + os ! 1),
                                                       hex_str (os ! 2 * 256 + os ! 3)])
                     (if CHR ''/'' \<in> set (last parts) then None else v4_parse (last parts))
              else Some parts)
           in case parts' of
                None \<Rightarrow> None
              | Some ps \<Rightarrow> if length ps > 9 then None else v6_expand ps))"

definition ip_address :: "string \<Rightarrow> ip option" where
  "ip_address s =
     (if CHR ''/'' \<in> set s then None
      else case v4_parse s of
          Some os \<Rightarrow> Some (V4 os)
        | None \<Rightarrow>
            (case py_partition (CHR ''%'') s of
               (addr, None) \<Rightarrow> map_option (\<lambda>hs. V6 hs None) (v6_parse addr)
             | (addr, Some scope) \<Rightarrow>
                 if scope = [] \<or> CHR ''%'' \<in> set scope then None
                 else map_option (\<lambda>hs. V6 hs (Some scope)) (v6_parse addr)))"

section \<open>Printing\<close>

text \<open>The longest run of \<^verbatim>\<open>'0'\<close> groups, the first of equal ones: start and length.\<close>

fun best_run :: "nat \<Rightarrow> string list \<Rightarrow> nat \<times> nat \<Rightarrow> nat option \<times> nat \<Rightarrow> nat \<times> nat" where
  "best_run i [] best cur = best"
| "best_run i (h # hs) (bs, bl) (cs, cl) =
     (if h = ''0''
      then (let cl' = Suc cl;
                cs' = (case cs of None \<Rightarrow> i | Some j \<Rightarrow> j);
                best' = (if bl < cl' then (cs', cl') else (bs, bl))
            in best_run (Suc i) hs best' (Some cs', cl'))
      else best_run (Suc i) hs (bs, bl) (None, 0))"

definition compress_hextets :: "string list \<Rightarrow> string list" where
  "compress_hextets hs =
     (case best_run 0 hs (0, 0) (None, 0) of
        (bs, bl) \<Rightarrow>
          if 1 < bl
          then (let be = bs + bl;
                    hs1 = (if be = length hs then hs @ [[]] else hs);
                    hs2 = take bs hs1 @ [[]] @ drop be hs1
                in if bs = 0 then [] # hs2 else hs2)
          else hs)"

fun ip_str :: "ip \<Rightarrow> string" where
  "ip_str (V4 os) = py_join ''.'' (map nat_str os)"
| "ip_str (V6 hs scope) =
     py_join '':'' (compress_hextets (map hex_str hs))
       @ (case scope of None \<Rightarrow> [] | Some z \<Rightarrow> CHR ''%'' # z)"

text \<open>The well-formed addresses: what the parser returns.\<close>

fun ip_wf :: "ip \<Rightarrow> bool" where
  "ip_wf (V4 os) = (length os = 4 \<and> (\<forall>n \<in> set os. n \<le> 255))"
| "ip_wf (V6 hs scope) =
     (length hs = 8 \<and> (\<forall>n \<in> set hs. n < 65536)
      \<and> (\<forall>z. scope = Some z \<longrightarrow> z \<noteq> [] \<and> CHR ''%'' \<notin> set z \<and> CHR ''/'' \<notin> set z))"

text \<open>\<^verbatim>\<open>str(ipaddress.ip_address(s))\<close>\<close>

definition normalize_ip :: "string \<Rightarrow> string option" where
  "normalize_ip s = map_option ip_str (ip_address s)"

section \<open>Hexadecimal groups\<close>

lemma hex_lower_val [simp]: "d < 16 \<Longrightarrow> hex_digit_val (hex_lower d) = Some d"
  by (auto simp: hex_lower_def hex_digit_val_def is_digit_def of_char_of)

lemma hex_str_small: "n < 16 \<Longrightarrow> hex_str n = [hex_lower n]"
  by (subst hex_str.simps) simp

lemma hex_str_step: "16 \<le> n \<Longrightarrow> hex_str n = hex_str (n div 16) @ [hex_lower (n mod 16)]"
  by (subst hex_str.simps) simp

lemma hex_str_nonempty [simp]: "hex_str n \<noteq> []"
  by (subst hex_str.simps) simp

lemma opt_map_append:
  "opt_map f (xs @ ys) = (case opt_map f xs of None \<Rightarrow> None
     | Some us \<Rightarrow> (case opt_map f ys of None \<Rightarrow> None | Some vs \<Rightarrow> Some (us @ vs)))"
  by (induction xs) (auto split: option.splits)

lemma hex_str_digits: "\<exists>ds. opt_map hex_digit_val (hex_str n) = Some ds \<and> hex_num ds = n"
proof (induction n rule: hex_str.induct)
  case (1 n)
  show ?case
  proof (cases "n < 16")
    case True
    then show ?thesis by (simp add: hex_str_small hex_num_def)
  next
    case False
    with "1.IH" obtain ds where "opt_map hex_digit_val (hex_str (n div 16)) = Some ds"
      and "hex_num ds = n div 16" by blast
    with False show ?thesis
      by (simp add: hex_str_step opt_map_append hex_num_def)
  qed
qed

lemma length_hex_str_le: "n < 16 ^ k \<Longrightarrow> 0 < k \<Longrightarrow> length (hex_str n) \<le> k"
proof (induction k arbitrary: n)
  case (Suc k)
  show ?case
  proof (cases "n < 16")
    case True
    then show ?thesis by (simp add: hex_str_small)
  next
    case False
    with Suc.prems have "n div 16 < 16 ^ k" and "0 < k"
      by (auto simp: less_mult_imp_div_less mult.commute intro: gr0I)
    with Suc.IH False show ?thesis by (simp add: hex_str_step)
  qed
qed simp

lemma parse_hextet_hex_str: "n < 65536 \<Longrightarrow> parse_hextet (hex_str n) = Some n"
  using hex_str_digits [of n] length_hex_str_le [of n 4]
  by (auto simp: parse_hextet_def)

lemma hex_lower_range:
  "d < 16 \<Longrightarrow> is_digit (hex_lower d) \<or> (97 \<le> code (hex_lower d) \<and> code (hex_lower d) \<le> 102)"
  by (auto simp: hex_lower_def is_digit_def of_char_of)

lemma hex_str_chars: "c \<in> set (hex_str n) \<Longrightarrow> is_digit c \<or> (97 \<le> code c \<and> code c \<le> 102)"
proof (induction n rule: hex_str.induct)
  case (1 n)
  with hex_lower_range [of n] hex_lower_range [of "n mod 16"] show ?case
    by (cases "n < 16") (auto simp: hex_str_small hex_str_step)
qed

lemma hex_str_0 [simp]: "hex_str 0 = ''0''"
  by code_simp

lemma hex_str_zero_iff: "hex_str n = ''0'' \<longleftrightarrow> n = 0"
proof
  assume "hex_str n = ''0''"
  then show "n = 0" using hex_str_digits [of n]
    by (auto simp: hex_digit_val_def is_digit_def hex_num_def)
qed simp

text \<open>The separators never occur in a printed group.\<close>

lemma sep_not_digit:
  "is_digit c \<Longrightarrow> c \<notin> {CHR '':'', CHR ''.'', CHR ''%'', CHR ''/'', CHR ''_'', CHR '' '', CHR ''-'', CHR ''+''}"
  by (auto simp: is_digit_def)

lemma sep_not_hex: "c \<in> set (hex_str n) \<Longrightarrow> c \<notin> {CHR '':'', CHR ''.'', CHR ''%'', CHR ''/'', CHR '' ''}"
  by (drule hex_str_chars) (auto simp: is_digit_def)

section \<open>Round trip of dotted addresses\<close>

lemma parse_octet_nat_str: "n \<le> 255 \<Longrightarrow> parse_octet (nat_str n) = Some n"
  using length_nat_str_le [of n 3] nat_str_hd_zero [of n]
  by (auto simp: parse_octet_def list_all_iff nat_str_digits nat_str_small)

lemma v4_roundtrip:
  assumes "length os = 4" and "\<forall>n \<in> set os. n \<le> 255"
  shows "v4_parse (py_join ''.'' (map nat_str os)) = Some os"
proof -
  have "py_split (CHR ''.'') (py_join ''.'' (map nat_str os)) = map nat_str os"
    using assms(1) nat_str_digits sep_not_digit by (intro py_split_join) auto
  moreover have "opt_map parse_octet (map nat_str os) = Some os"
    using assms(2) by (intro opt_map_map) (auto simp: parse_octet_nat_str)
  moreover have "py_join ''.'' (map nat_str os) \<noteq> []"
    using assms(1) by (auto simp: length_Suc_conv numeral_eq_Suc)
  ultimately show ?thesis using assms(1) by (simp add: v4_parse_def)
qed

lemma parse_octet_SomeD: "parse_octet s = Some n \<Longrightarrow> list_all is_digit s \<and> n \<le> 255"
  by (auto simp: parse_octet_def split: if_splits)

lemma v4_parseD:
  assumes "v4_parse s = Some os"
  shows "length os = 4 \<and> (\<forall>n \<in> set os. n \<le> 255) \<and> (\<forall>c \<in> set s. is_digit c \<or> c = CHR ''.'')"
proof -
  let ?ps = "py_split (CHR ''.'') s"
  from assms have o: "length ?ps = 4" "list_all2 (\<lambda>x y. parse_octet x = Some y) ?ps os"
    by (auto simp: v4_parse_def Let_def opt_map_Some_iff split: if_splits)
  then have os: "\<forall>n \<in> set os. n \<le> 255" and ps: "\<forall>p \<in> set ?ps. list_all is_digit p"
    by (auto simp: list_all2_conv_all_nth in_set_conv_nth dest!: parse_octet_SomeD)
  have "set s \<subseteq> {CHR ''.''} \<union> \<Union>(set ` set ?ps)"
    using set_py_join [of "''.''" ?ps] by (simp add: py_join_split)
  with ps have "\<forall>c \<in> set s. is_digit c \<or> c = CHR ''.''"
    by (fastforce simp: list_all_iff)
  with o os show ?thesis by (auto dest: list_all2_lengthD)
qed

section \<open>Round trip of colon addresses\<close>

text \<open>What \<open>best_run\<close> returns is a run of zero groups inside the list.\<close>

definition zero_run :: "string list \<Rightarrow> nat \<Rightarrow> nat \<Rightarrow> bool" where
  "zero_run xs s l \<longleftrightarrow> s + l \<le> length xs \<and> (\<forall>j. s \<le> j \<and> j < s + l \<longrightarrow> xs ! j = ''0'')"

definition cur_ok :: "string list \<Rightarrow> nat option \<times> nat \<Rightarrow> bool" where
  "cur_ok pre cur \<longleftrightarrow>
     (case cur of (None, n) \<Rightarrow> n = 0 | (Some c, n) \<Rightarrow> c + n = length pre \<and> zero_run pre c n)"

lemma zero_run_snoc: "zero_run pre s l \<Longrightarrow> zero_run (pre @ [h]) s l"
  by (auto simp: zero_run_def nth_append)

lemma zero_run_extend:
  "zero_run pre c n \<Longrightarrow> c + n = length pre \<Longrightarrow> zero_run (pre @ [''0'']) c (Suc n)"
  by (auto simp: zero_run_def nth_append less_Suc_eq)

lemma best_run_zero_run:
  assumes "zero_run pre bs bl" and "cur_ok pre cur"
    and "best_run (length pre) hs (bs, bl) cur = (s, l)"
  shows "zero_run (pre @ hs) s l"
  using assms
proof (induction hs arbitrary: pre bs bl cur)
  case (Cons h hs)
  obtain cs cl where cur: "cur = (cs, cl)" by (cases cur)
  show ?case
  proof (cases "h = ''0''")
    case True
    let ?c = "case cs of None \<Rightarrow> length pre | Some j \<Rightarrow> j"
    have c: "?c + cl = length pre \<and> zero_run pre ?c cl"
      using Cons.prems(2) cur by (auto simp: cur_ok_def zero_run_def split: option.splits)
    then have z: "zero_run (pre @ [h]) ?c (Suc cl)" and "cur_ok (pre @ [h]) (Some ?c, Suc cl)"
      using True zero_run_extend by (auto simp: cur_ok_def)
    moreover have "zero_run (pre @ [h]) bs bl"
      using Cons.prems(1) by (rule zero_run_snoc)
    ultimately show ?thesis
      using Cons.prems(3) cur True Cons.IH [of "pre @ [h]"]
      by (cases "bl < Suc cl") (simp_all add: Let_def)
  next
    case False
    have "cur_ok (pre @ [h]) (None, 0)" by (simp add: cur_ok_def)
    with Cons False cur zero_run_snoc [OF Cons.prems(1), of h] show ?thesis
      using Cons.IH [of "pre @ [h]" bs bl "(None, 0)"] by simp
  qed
qed simp

lemma best_run_start:
  assumes "best_run 0 hs (0, 0) (None, 0) = (s, l)"
  shows "zero_run hs s l"
  using best_run_zero_run [of "[]" 0 0 "(None, 0)" hs s l] assms
  by (simp add: zero_run_def cur_ok_def)

text \<open>Finding the gap again: the only inner empty part is the one between \<open>L\<close> and \<open>R\<close>.\<close>

lemma v6_skips_gap:
  assumes "L \<noteq> []" and "R \<noteq> []" and "[] \<notin> set (tl L)" and "[] \<notin> set (butlast R)"
  shows "v6_skips (L @ [[]] @ R) = [length L]"
proof -
  let ?P = "L @ [[]] @ R"
  have "1 \<le> length L" and "length L < length L + length R"
    using assms(1,2) by (auto simp: Suc_le_eq)
  then have "[1..<length L + length R]
      = [1..<length L] @ length L # [Suc (length L)..<length L + length R]"
    using upt_add_eq_append [of 1 "length L" "length R"] by (simp add: upt_conv_Cons)
  moreover have "?P ! i \<noteq> []" if "i \<in> set [1..<length L]" for i
  proof -
    have "?P ! i = tl L ! (i - 1)" and "i - 1 < length (tl L)"
      using that by (auto simp: nth_append nth_tl)
    with assms(3) show ?thesis by (metis nth_mem)
  qed
  moreover have "?P ! i \<noteq> []" if "i \<in> set [Suc (length L)..<length L + length R]" for i
  proof -
    let ?j = "i - Suc (length L)"
    have "?P ! i = R ! ?j" and "?j < length (butlast R)"
      using that by (auto simp: nth_append nth_Cons')
    then have "?P ! i = butlast R ! ?j" by (simp add: nth_butlast)
    with \<open>?j < length (butlast R)\<close> assms(4) show ?thesis by (metis nth_mem)
  qed
  ultimately show ?thesis by (simp add: v6_skips_def nth_append filter_empty_conv)
qed

lemma v6_skips_none:
  assumes "[] \<notin> set xs"
  shows "v6_skips xs = []"
proof -
  have "xs ! i \<noteq> []" if "i \<in> set [1..<length xs - 1]" for i
    using that assms nth_mem [of i xs] by (metis Suc_lessD atLeastLessThan_iff atLeastLessThan_upt less_diff_conv Suc_eq_plus1)
  then show ?thesis by (simp add: v6_skips_def filter_empty_conv)
qed

lemma opt_map_hextets:
  "\<forall>n \<in> set hs. n < 65536 \<Longrightarrow> opt_map parse_hextet (map hex_str hs) = Some hs"
  by (intro opt_map_map) (auto simp: parse_hextet_hex_str)

lemma v6_expand_gap:
  assumes L: "L = (if s = 0 then [[]] else map hex_str (take s hs))"
    and R: "R = (if e = 8 then [[]] else map hex_str (drop e hs))"
    and hs: "length hs = 8" "\<forall>n \<in> set hs. n < 65536"
    and se: "s < e" "e \<le> 8" and zeros: "\<forall>j. s \<le> j \<and> j < e \<longrightarrow> hs ! j = 0"
  shows "v6_expand (L @ [[]] @ R) = Some hs"
proof -
  let ?P = "L @ [[]] @ R"
  have ne: "L \<noteq> []" "R \<noteq> []" using L R hs se by auto
  have hex: "[] \<notin> set (map hex_str xs)" for xs by (metis hex_str_nonempty imageE set_map)
  have "[] \<notin> set (tl L)" "[] \<notin> set (butlast R)"
    using L R hex [of "tl (take s hs)"] hex [of "butlast (drop e hs)"]
    by (auto simp flip: map_tl map_butlast)
  then have sk: "v6_skips ?P = [length L]" using ne by (intro v6_skips_gap)
  have hd: "hd ?P = [] \<longleftrightarrow> s = 0"
    using L ne hs se by (cases hs) (auto simp: take_Cons')
  have la: "last ?P = [] \<longleftrightarrow> e = 8"
    using R ne hs se by (auto simp: last_map)
  have lL: "length L = (if s = 0 then 1 else s)" and lR: "length R = (if e = 8 then 1 else 8 - e)"
    using L R hs se by auto
  let ?hi = "if hd ?P = [] then length L - 1 else length L"
  let ?lo = "if last ?P = [] then length ?P - length L - 2 else length ?P - length L - 1"
  have hi: "?hi = s" and lo: "?lo = 8 - e" using hd la lL lR by auto
  have "take s ?P = map hex_str (take s hs)" and "drop (length ?P - (8 - e)) ?P = map hex_str (drop e hs)"
    using L R lL lR hs se by auto
  moreover have "opt_map parse_hextet (map hex_str (take s hs)) = Some (take s hs)"
    and "opt_map parse_hextet (map hex_str (drop e hs)) = Some (drop e hs)"
    using hs(2) by (auto intro!: opt_map_hextets dest: in_set_takeD in_set_dropD)
  moreover have "take s hs @ replicate (e - s) 0 @ drop e hs = hs"
  proof (rule nth_equalityI)
    show "length (take s hs @ replicate (e - s) 0 @ drop e hs) = length hs" using hs se by simp
    show "(take s hs @ replicate (e - s) 0 @ drop e hs) ! i = hs ! i"
      if "i < length (take s hs @ replicate (e - s) 0 @ drop e hs)" for i
      using that hs(1) se zeros by (auto simp: nth_append)
  qed
  ultimately show ?thesis
    unfolding v6_expand_def sk list.case Let_def hi lo
    using hd la se by auto
qed

lemma compress_hextets_shape:
  assumes "length hs = 8"
  obtains "compress_hextets (map hex_str hs) = map hex_str hs"
  | s e where "compress_hextets (map hex_str hs)
        = (if s = 0 then [[]] else map hex_str (take s hs)) @ [[]]
            @ (if e = 8 then [[]] else map hex_str (drop e hs))"
      and "s < e" and "e \<le> 8" and "\<forall>j. s \<le> j \<and> j < e \<longrightarrow> hs ! j = 0"
proof -
  obtain s l where b: "best_run 0 (map hex_str hs) (0, 0) (None, 0) = (s, l)"
    by (cases "best_run 0 (map hex_str hs) (0, 0) (None, 0)")
  then have z: "zero_run (map hex_str hs) s l" by (rule best_run_start)
  show ?thesis
  proof (cases "1 < l")
    case True
    from z assms have e: "s + l \<le> 8" and zero: "\<forall>j. s \<le> j \<and> j < s + l \<longrightarrow> hs ! j = 0"
      by (auto simp: zero_run_def hex_str_zero_iff)
    show ?thesis
      using b True e assms zero
      by (intro that(2) [of s "s + l"]) (auto simp: compress_hextets_def Let_def take_map drop_map)
  next
    case False
    with b show ?thesis by (intro that(1)) (simp add: compress_hextets_def)
  qed
qed

lemma v6_expand_compress:
  assumes "length hs = 8" and "\<forall>n \<in> set hs. n < 65536"
  shows "v6_expand (compress_hextets (map hex_str hs)) = Some hs"
  using assms(1)
proof (cases rule: compress_hextets_shape)
  case 1
  have "[] \<notin> set (map hex_str hs)" by (metis hex_str_nonempty imageE set_map)
  moreover from this assms(1) have "hd (map hex_str hs) \<noteq> [] \<and> last (map hex_str hs) \<noteq> []"
    by (metis hd_in_set last_in_set length_0_conv length_map zero_neq_numeral)
  ultimately show ?thesis
    using assms 1 by (simp add: v6_expand_def v6_skips_none opt_map_hextets del: set_map)
next
  case (2 s e)
  with assms v6_expand_gap [OF refl refl assms 2(2-4)] show ?thesis by simp
qed

text \<open>The printed groups: no separator occurs in one, and there are at least three of them.\<close>

lemma compress_parts:
  assumes "length hs = 8"
  shows "length (compress_hextets (map hex_str hs)) \<in> {3..9}"
    and "p \<in> set (compress_hextets (map hex_str hs)) \<Longrightarrow> p = [] \<or> (\<exists>n. p = hex_str n)"
  using assms
  by (cases rule: compress_hextets_shape; auto dest: in_set_takeD in_set_dropD split: if_splits)+

lemma v6_roundtrip:
  assumes "length hs = 8" and "\<forall>n \<in> set hs. n < 65536"
  shows "v6_parse (py_join '':'' (compress_hextets (map hex_str hs))) = Some hs"
    and "set (py_join '':'' (compress_hextets (map hex_str hs)))
           \<inter> {CHR ''.'', CHR ''%'', CHR ''/'', CHR '' ''} = {}"
    and "CHR '':'' \<in> set (py_join '':'' (compress_hextets (map hex_str hs)))"
proof -
  let ?ps = "compress_hextets (map hex_str hs)"
  let ?t = "py_join '':'' ?ps"
  have len: "length ?ps \<in> {3..9}" using assms(1) by (rule compress_parts)
  have chars: "set p \<inter> {CHR '':'', CHR ''.'', CHR ''%'', CHR ''/'', CHR '' ''} = {}"
    if "p \<in> set ?ps" for p
    using compress_parts(2) [OF assms(1) that] sep_not_hex by fastforce
  then have split: "py_split (CHR '':'') ?t = ?ps"
    using len by (intro py_split_join) auto
  show "set ?t \<inter> {CHR ''.'', CHR ''%'', CHR ''/'', CHR '' ''} = {}"
    using set_py_join [of "'':''" ?ps] chars by fastforce
  show colon: "CHR '':'' \<in> set ?t"
  proof (rule ccontr)
    assume "CHR '':'' \<notin> set ?t"
    then have "?ps = [?t]" using py_split_no_sep split by metis
    then have "length ?ps = 1" by (metis length_Cons list.size(3) One_nat_def)
    with len show False by simp
  qed
  then have "?t \<noteq> []" by auto
  moreover have "CHR ''.'' \<notin> set (last ?ps)"
    using chars [of "last ?ps"] len by (cases ?ps) auto
  ultimately show "v6_parse ?t = Some hs"
    using split len v6_expand_compress [OF assms] by (auto simp: v6_parse_def Let_def)
qed

section \<open>Addresses as a whole\<close>

theorem ip_roundtrip:
  assumes "ip_wf a"
  shows "ip_address (ip_str a) = Some a"
proof (cases a)
  case (V4 os)
  with assms have wf: "length os = 4" "\<forall>n \<in> set os. n \<le> 255" by auto
  have v4: "v4_parse (py_join ''.'' (map nat_str os)) = Some os" using wf by (rule v4_roundtrip)
  from v4_parseD [OF this] have "CHR ''/'' \<notin> set (py_join ''.'' (map nat_str os))"
    using sep_not_digit by fastforce
  with V4 v4 show ?thesis by (simp add: ip_address_def)
next
  case (V6 hs scope)
  let ?t = "py_join '':'' (compress_hextets (map hex_str hs))"
  from V6 assms have wf: "length hs = 8" "\<forall>n \<in> set hs. n < 65536" by auto
  note rt = v6_roundtrip [OF wf]
  have "CHR '':'' \<in> set (ip_str a)" using rt(3) V6 by simp
  moreover have "\<not> is_digit (CHR '':'')" by (simp add: is_digit_def)
  ultimately have "v4_parse (ip_str a) = None"
    using v4_parseD [of "ip_str a"] by (cases "v4_parse (ip_str a)") auto
  moreover have "CHR ''/'' \<notin> set (ip_str a)"
    using rt(2) V6 assms by (auto split: option.splits)
  moreover have "py_partition (CHR ''%'') (ip_str a) = (?t, scope)"
    using rt(2) V6 by (auto simp: py_partition_no_sep py_partition_append split: option.splits)
  ultimately show ?thesis
    using V6 assms rt(1) by (auto simp: ip_address_def split: option.splits)
qed

lemma hex_num_bound: "\<forall>d \<in> set ds. d < 16 \<Longrightarrow> hex_num ds < 16 ^ length ds"
proof (induction ds rule: rev_induct)
  case (snoc d ds)
  then have "hex_num ds < 16 ^ length ds" and "d < 16" by auto
  then have "16 * hex_num ds + d < 16 * 16 ^ length ds" by simp
  then show ?case by (simp add: hex_num_def)
qed (simp add: hex_num_def)

lemma parse_hextet_bound: "parse_hextet s = Some n \<Longrightarrow> n < 65536"
proof -
  assume "parse_hextet s = Some n"
  then obtain ds where ds: "opt_map hex_digit_val s = Some ds" "n = hex_num ds" "length s \<le> 4"
    by (auto simp: parse_hextet_def split: if_splits)
  then have len: "length ds \<le> 4" using opt_map_length by fastforce
  have "\<forall>d \<in> set ds. d < 16"
    using opt_map_in [OF ds(1)] by (force simp: hex_digit_val_def is_digit_def split: if_splits)
  then have "hex_num ds < 16 ^ length ds" by (intro hex_num_bound)
  also have "(16 :: nat) ^ length ds \<le> 16 ^ 4" using len by (intro power_increasing) auto
  finally show "n < 65536" using ds by simp
qed

lemma opt_map_hextet_bound: "opt_map parse_hextet ps = Some hs \<Longrightarrow> \<forall>n \<in> set hs. n < 65536"
  by (metis opt_map_in parse_hextet_bound)

lemma v6_skips_range: "k \<in> set (v6_skips ps) \<Longrightarrow> 1 \<le> k \<and> k < length ps - 1"
  by (auto simp: v6_skips_def)

lemma v6_expand_wf:
  assumes "v6_expand ps = Some hs"
  shows "length hs = 8 \<and> (\<forall>n \<in> set hs. n < 65536)"
proof (cases "v6_skips ps")
  case Nil
  with assms show ?thesis
    by (auto simp: v6_expand_def dest: opt_map_length opt_map_hextet_bound split: if_splits)
next
  case (Cons k ks)
  with assms have sk: "v6_skips ps = [k]" by (auto simp: v6_expand_def split: list.splits)
  then have k: "1 \<le> k" "k < length ps - 1" using v6_skips_range [of k ps] by auto
  define hi where "hi = (if hd ps = [] then k - 1 else k)"
  define lo where "lo = (if last ps = [] then length ps - k - 2 else length ps - k - 1)"
  from assms sk obtain as bs where ab: "opt_map parse_hextet (take hi ps) = Some as"
    "opt_map parse_hextet (drop (length ps - lo) ps) = Some bs"
    "hs = as @ replicate (8 - (hi + lo)) 0 @ bs" and le: "hi + lo + 1 \<le> 8"
    unfolding v6_expand_def hi_def [symmetric] lo_def [symmetric]
    by (auto simp: Let_def simp flip: hi_def lo_def split: if_splits option.splits)
  have "length as = hi" "length bs = lo"
    using ab k by (auto dest!: opt_map_length simp: hi_def lo_def)
  with ab le show ?thesis by (auto dest: opt_map_hextet_bound)
qed

lemma v6_parse_wf: "v6_parse s = Some hs \<Longrightarrow> length hs = 8 \<and> (\<forall>n \<in> set hs. n < 65536)"
  by (auto simp: v6_parse_def Let_def dest: v6_expand_wf split: if_splits option.splits)

lemma ip_address_wf:
  assumes "ip_address s = Some a"
  shows "ip_wf a"
proof (cases "v4_parse s")
  case (Some os)
  with assms v4_parseD [OF Some] show ?thesis by (auto simp: ip_address_def split: if_splits)
next
  case None
  with assms have slash: "CHR ''/'' \<notin> set s" by (auto simp: ip_address_def split: if_splits)
  obtain addr r where pt: "py_partition (CHR ''%'') s = (addr, r)" by (cases "py_partition (CHR ''%'') s")
  from py_partition_join [OF pt] slash have "\<forall>z. r = Some z \<longrightarrow> CHR ''/'' \<notin> set z" by auto
  with assms None pt show ?thesis
    by (auto simp: ip_address_def dest: v6_parse_wf split: if_splits option.splits)
qed

text \<open>Normalising an address twice is normalising it once.\<close>

lemma normalize_ip_idem: "normalize_ip s = Some t \<Longrightarrow> normalize_ip t = Some t"
  using ip_address_wf ip_roundtrip by (fastforce simp: normalize_ip_def)

text \<open>A printed address without a scope identifier holds only digits, letters and separators.\<close>

lemma ip_str_no_scope_chars:
  assumes "ip_address s = Some a" and "CHR ''%'' \<notin> set s" and "c \<in> set (ip_str a)"
  shows "is_digit c \<or> (97 \<le> code c \<and> code c \<le> 102) \<or> c = CHR '':'' \<or> c = CHR ''.''"
proof (cases a)
  case (V4 os)
  with assms(3) set_py_join [of "''.''" "map nat_str os"] show ?thesis
    using nat_str_digits by fastforce
next
  case (V6 hs scope)
  with assms(1,2) have "scope = None"
    by (auto simp: ip_address_def py_partition_no_sep split: if_splits option.splits)
  moreover have "length hs = 8" using ip_address_wf [OF assms(1)] V6 by simp
  ultimately show ?thesis
    using assms(3) V6 set_py_join [of "'':''" "compress_hextets (map hex_str hs)"]
      compress_parts(2) [of hs] hex_str_chars
    by fastforce
qed

lemma hextets_no_space:
  assumes "length hs = 8" and "c \<in> set (py_join '':'' (compress_hextets (map hex_str hs)))"
  shows "\<not> is_space c"
proof -
  from assms have "is_digit c \<or> (97 \<le> code c \<and> code c \<le> 102) \<or> c = CHR '':''"
    using set_py_join [of "'':''" "compress_hextets (map hex_str hs)"]
      compress_parts(2) [of hs] hex_str_chars by fastforce
  then show ?thesis by (auto simp: is_space_def is_digit_def)
qed

text \<open>The normal form of a stripped text is stripped: only a scope identifier could end in a space.\<close>

lemma normalize_ip_stripped:
  assumes "normalize_ip (py_strip s) = Some t"
  shows "py_strip t = t"
proof -
  let ?s = "py_strip s"
  from assms obtain a where a: "ip_address ?s = Some a" and t: "t = ip_str a"
    by (auto simp: normalize_ip_def)
  have ne: "?s \<noteq> []" using a by (auto simp: ip_address_def v4_parse_def v6_parse_def)
  show ?thesis
  proof (cases "CHR ''%'' \<in> set ?s")
    case False
    then have "\<not> is_space c" if "c \<in> set t" for c
      using ip_str_no_scope_chars [OF a] that unfolding t by (fastforce simp: is_space_def is_digit_def)
    then show ?thesis
      by (intro py_strip_id) (metis hd_in_set last_in_set)
  next
    case True
    then have "v4_parse ?s = None"
      using v4_parseD [of ?s] py_split_parts by (cases "v4_parse ?s") (fastforce simp: is_digit_def)+
    moreover obtain addr r where pt: "py_partition (CHR ''%'') ?s = (addr, r)"
      by (cases "py_partition (CHR ''%'') ?s")
    moreover from py_partition_join [OF pt] True obtain z where "r = Some z" by (cases r) auto
    ultimately obtain hs where z: "py_partition (CHR ''%'') ?s = (addr, Some z)" "z \<noteq> []"
      and aa: "a = V6 hs (Some z)"
      using a by (auto simp: ip_address_def split: if_splits)
    have "length hs = 8" using ip_address_wf [OF a] aa by simp
    let ?x = "py_join '':'' (compress_hextets (map hex_str hs))"
    have t2: "t = ?x @ CHR ''%'' # z" using t aa by simp
    have "last t = last ?s"
      using py_partition_join [OF z(1)] z(2) t2 by simp
    then have "\<not> is_space (last t)" using py_strip_ends [OF ne] by simp
    moreover have "\<not> is_space (hd t)"
      using t2 hextets_no_space [OF \<open>length hs = 8\<close>, of "hd ?x"]
      by (cases "?x = []") (auto simp: is_space_def)
    ultimately show ?thesis by (intro py_strip_id) simp
  qed
qed

lemmas ip_eval [py_eval] = ip_address_def v4_parse_def parse_octet_def normalize_ip_def

end
