(* ===== verification/Headless_Config.thy ===== *)
theory Headless_Config
  imports Py_Values Regex Ip_Address
begin

text \<open>
  \<^verbatim>\<open>app/config.py\<close>: the settings of the headless translator from environment variables,
  and its port mappings from a YAML document. The environment is a map; the parsed YAML
  node tree and the textual form \<open>repr\<close> of keys that are not scalars are arguments.
\<close>

section \<open>Patterns and records\<close>

definition interface_char :: "char \<Rightarrow> bool" where
  "interface_char c \<longleftrightarrow> is_alnum c \<or> c = CHR ''_'' \<or> c = CHR ''.'' \<or> c = CHR ''-''"

definition INTERFACE_PATTERN :: rx where
  "INTERFACE_PATTERN = rx_plus (RCls interface_char)"

record interface_mapping =
  im_interface :: string
  im_gateway_ip :: string

record settings =
  fortigate_host :: string
  fortigate_ssh_port :: int
  fortigate_username :: string
  fortigate_password :: string
  guacamole_allowed_ip :: string
  ssh_connect_timeout :: pyfloat
  ssh_command_timeout :: pyfloat
  wol_rate_limit_seconds :: pyfloat
  log_level :: string
  mapping_file :: string
  known_hosts_file :: string

section \<open>Environment\<close>

type_synonym environ = "string \<rightharpoonup> string"

definition env_get :: "environ \<Rightarrow> string \<Rightarrow> string \<Rightarrow> string" where
  "env_get env name d = (case env name of None \<Rightarrow> d | Some v \<Rightarrow> v)"

definition required_var :: "environ \<Rightarrow> string \<Rightarrow> exn + string" where
  "required_var env name =
     (let value = py_strip (env_get env name [])
      in if value = [] then Inl (ConfigError (''required environment variable is missing: '' @ name))
         else Inr value)"

definition integer_var :: "string \<Rightarrow> string \<Rightarrow> int \<Rightarrow> int \<Rightarrow> exn + int" where
  "integer_var value name minimum maximum =
     (case py_int value of
        None \<Rightarrow> Inl (ConfigError (name @ '' must be an integer''))
      | Some parsed \<Rightarrow>
          if \<not> (minimum \<le> parsed \<and> parsed \<le> maximum)
          then Inl (ConfigError (name @ '' must be between '' @ int_str minimum @ '' and '' @ int_str maximum))
          else Inr parsed)"

text \<open>\<open>shown\<close> is the literal of the minimum as the message prints it.\<close>

definition number_var :: "string \<Rightarrow> string \<Rightarrow> rat \<Rightarrow> string \<Rightarrow> exn + pyfloat" where
  "number_var value name minimum shown =
     (case py_float value of
        None \<Rightarrow> Inl (ConfigError (name @ '' must be a number''))
      | Some parsed \<Rightarrow>
          if fl_less parsed (Fin minimum)
          then Inl (ConfigError (name @ '' must be at least '' @ shown))
          else Inr parsed)"

definition is_ip :: "string \<Rightarrow> bool" where
  "is_ip s \<longleftrightarrow> ip_address s \<noteq> None"

definition LOG_LEVELS :: "string list" where
  "LOG_LEVELS = [''DEBUG'', ''INFO'', ''WARNING'', ''ERROR'', ''CRITICAL'']"

definition load_settings :: "environ \<Rightarrow> exn + settings" where
  "load_settings env =
     res_bind (required_var env ''FORTIGATE_HOST'') (\<lambda>host.
     res_bind (required_var env ''GUACAMOLE_ALLOWED_IP'') (\<lambda>allowed.
     res_bind (guard (is_ip host) (ConfigError ''FORTIGATE_HOST must be an IP address'')) (\<lambda>_.
     res_bind (guard (is_ip allowed) (ConfigError ''GUACAMOLE_ALLOWED_IP must be an IP address'')) (\<lambda>_.
     (let level = py_upper (env_get env ''LOG_LEVEL'' ''INFO'') in
     res_bind (guard (level \<in> set LOG_LEVELS) (ConfigError ''LOG_LEVEL is invalid'')) (\<lambda>_.
     res_bind (integer_var (env_get env ''FORTIGATE_SSH_PORT'' ''22'') ''FORTIGATE_SSH_PORT'' 1 65535) (\<lambda>port.
     res_bind (required_var env ''FORTIGATE_USERNAME'') (\<lambda>user.
     res_bind (required_var env ''FORTIGATE_PASSWORD'') (\<lambda>pass.
     res_bind (number_var (env_get env ''SSH_CONNECT_TIMEOUT'' ''5'') ''SSH_CONNECT_TIMEOUT'' (1/10) ''0.1'') (\<lambda>ct.
     res_bind (number_var (env_get env ''SSH_COMMAND_TIMEOUT'' ''10'') ''SSH_COMMAND_TIMEOUT'' (1/10) ''0.1'') (\<lambda>xt.
     res_bind (number_var (env_get env ''WOL_RATE_LIMIT_SECONDS'' ''30'') ''WOL_RATE_LIMIT_SECONDS'' 0 ''0'') (\<lambda>rl.
     Inr \<lparr>fortigate_host = host, fortigate_ssh_port = port, fortigate_username = user,
          fortigate_password = pass, guacamole_allowed_ip = allowed,
          ssh_connect_timeout = ct, ssh_command_timeout = xt, wol_rate_limit_seconds = rl,
          log_level = level,
          mapping_file = env_get env ''MAPPING_FILE'' ''/app/config/interfaces.yaml'',
          known_hosts_file = env_get env ''KNOWN_HOSTS_FILE'' ''/home/wolt/.ssh/known_hosts''\<rparr>))))))))))))"

section \<open>The mapping file\<close>

text \<open>
  The YAML library hands over a node tree whose scalars are resolved; the loader of this
  module constructs the mappings and refuses a repeated key. Keys compare as Python values:
  numbers by value, whatever their type.
\<close>

datatype ynode = YScalar json | YSeq "ynode list" | YMap "(ynode \<times> ynode) list"

datatype yval = VScalar json | VSeq "yval list" | VMap "(yval \<times> yval) list"

fun num_value :: "json \<Rightarrow> pyfloat option" where
  "num_value (JInt i) = Some (Fin (of_int i))"
| "num_value (JBool b) = Some (Fin (if b then 1 else 0))"
| "num_value (JFloat f) = (if f = NaN then None else Some f)"
| "num_value _ = None"

definition key_eq :: "json \<Rightarrow> json \<Rightarrow> bool" where
  "key_eq a b \<longleftrightarrow> a = b \<or> (num_value a \<noteq> None \<and> num_value a = num_value b)"

function construct_object :: "(json \<Rightarrow> string) \<Rightarrow> ynode \<Rightarrow> exn + yval"
  and construct_unique_mapping :: "(json \<Rightarrow> string) \<Rightarrow> (ynode \<times> ynode) list \<Rightarrow> (yval \<times> yval) list
        \<Rightarrow> exn + (yval \<times> yval) list"
  and construct_items :: "(json \<Rightarrow> string) \<Rightarrow> ynode list \<Rightarrow> exn + yval list" where
  "construct_object repr (YScalar v) = Inr (VScalar v)"
| "construct_object repr (YSeq ns) = res_bind (construct_items repr ns) (\<lambda>vs. Inr (VSeq vs))"
| "construct_object repr (YMap ps) =
     res_bind (construct_unique_mapping repr ps []) (\<lambda>m. Inr (VMap m))"
| "construct_unique_mapping repr [] m = Inr m"
| "construct_unique_mapping repr ((kn, vn) # ps) m =
     res_bind (construct_object repr kn) (\<lambda>key.
       (case key of
          VScalar k \<Rightarrow>
            if \<exists>(k', _) \<in> set m. (case k' of VScalar j \<Rightarrow> key_eq j k | _ \<Rightarrow> False)
            then Inl (ConfigError (''duplicate YAML key: '' @ py_str repr k))
            else res_bind (construct_object repr vn) (\<lambda>v.
                   construct_unique_mapping repr ps (m @ [(key, v)]))
        | _ \<Rightarrow> Inl TypeError))"
| "construct_items repr [] = Inr []"
| "construct_items repr (n # ns) =
     res_bind (construct_object repr n) (\<lambda>v.
       res_bind (construct_items repr ns) (\<lambda>vs. Inr (v # vs)))"
  by pat_completeness auto
termination
  by (relation "measure (case_sum (\<lambda>(_, n). size n)
        (case_sum (\<lambda>(_, ps, _). size_list (size_prod size size) ps) (\<lambda>(_, ns). size_list size ns)))")
    auto

definition ymap_get :: "(yval \<times> yval) list \<Rightarrow> string \<Rightarrow> yval option" where
  "ymap_get m k = map_of m (VScalar (JStr k))"

fun yval_str :: "(json \<Rightarrow> string) \<Rightarrow> (yval \<Rightarrow> string) \<Rightarrow> yval \<Rightarrow> string" where
  "yval_str repr vrepr (VScalar v) = py_str repr v"
| "yval_str repr vrepr v = vrepr v"

text \<open>One entry of \<^verbatim>\<open>listeners\<close>, then the loop over them.\<close>

definition load_mapping_entry :: "int \<Rightarrow> yval \<Rightarrow> exn + interface_mapping" where
  "load_mapping_entry port raw =
     (case raw of
        VMap m \<Rightarrow>
          if set (map fst m) \<noteq> {VScalar (JStr ''interface''), VScalar (JStr ''gateway_ip'')}
          then Inl (ConfigError (''mapping for port '' @ int_str port @ '' must contain only interface and gateway_ip''))
          else (case ymap_get m ''interface'' of
              Some (VScalar (JStr interface)) \<Rightarrow>
                if \<not> re_fullmatch INTERFACE_PATTERN interface
                then Inl (ConfigError (''invalid interface for port '' @ int_str port))
                else (case ymap_get m ''gateway_ip'' of
                    Some (VScalar (JStr gateway)) \<Rightarrow>
                      (case normalize_ip gateway of
                         None \<Rightarrow> Inl (ConfigError (''invalid gateway_ip for port '' @ int_str port))
                       | Some ip \<Rightarrow> Inr \<lparr>im_interface = interface, im_gateway_ip = ip\<rparr>)
                  | _ \<Rightarrow> Inl (ConfigError (''invalid gateway_ip for port '' @ int_str port)))
            | _ \<Rightarrow> Inl (ConfigError (''invalid interface for port '' @ int_str port)))
      | _ \<Rightarrow> Inl (ConfigError (''mapping for port '' @ int_str port @ '' must be an object'')))"

fun load_mapping_loop :: "(yval \<Rightarrow> string) \<Rightarrow> (yval \<times> yval) list \<Rightarrow> (int \<times> interface_mapping) list
    \<Rightarrow> exn + (int \<times> interface_mapping) list" where
  "load_mapping_loop str [] mappings = Inr mappings"
| "load_mapping_loop str ((raw_port, raw) # rest) mappings =
     res_bind (integer_var (str raw_port) ''listener port'' 1024 65535) (\<lambda>port.
     res_bind (guard (port \<notin> set (map fst mappings))
                 (ConfigError (''duplicate listener port: '' @ int_str port))) (\<lambda>_.
     res_bind (load_mapping_entry port raw) (\<lambda>im.
     load_mapping_loop str rest (mappings @ [(port, im)]))))"

text \<open>
  \<open>stream\<close> is what reading and parsing the file gives: \<open>Inl detail\<close> for an I/O or syntax
  error, otherwise the node tree.
\<close>

definition load_mappings :: "(json \<Rightarrow> string) \<Rightarrow> (yval \<Rightarrow> string) \<Rightarrow> string + ynode
    \<Rightarrow> exn + (int \<times> interface_mapping) list" where
  "load_mappings repr vrepr stream =
     (case stream of
        Inl detail \<Rightarrow> Inl (ConfigError (''cannot load mapping file: '' @ detail))
      | Inr node \<Rightarrow>
          res_bind (construct_object repr node) (\<lambda>document.
            (case document of
               VMap d \<Rightarrow>
                 (case ymap_get d ''listeners'' of
                    Some (VMap listeners) \<Rightarrow>
                      if listeners = [] then Inl (ConfigError ''mapping must define at least one listener'')
                      else load_mapping_loop (yval_str repr vrepr) listeners []
                  | _ \<Rightarrow> Inl (ConfigError ''mapping must contain a listeners object''))
             | _ \<Rightarrow> Inl (ConfigError ''mapping must contain a listeners object''))))"

section \<open>What a loaded configuration satisfies\<close>

definition mapping_ok :: "interface_mapping \<Rightarrow> bool" where
  "mapping_ok im \<longleftrightarrow> im_interface im \<noteq> [] \<and> list_all interface_char (im_interface im)
     \<and> normalize_ip (im_gateway_ip im) = Some (im_gateway_ip im)"

lemma INTERFACE_PATTERN_iff:
  "re_fullmatch INTERFACE_PATTERN s \<longleftrightarrow> s \<noteq> [] \<and> list_all interface_char s"
  by (simp add: re_fullmatch_iff INTERFACE_PATTERN_def)

lemma integer_var_Inr: "integer_var v n lo hi = Inr i \<Longrightarrow> lo \<le> i \<and> i \<le> hi"
  by (auto simp: integer_var_def split: option.splits if_splits)

lemma load_mapping_entry_ok: "load_mapping_entry port raw = Inr im \<Longrightarrow> mapping_ok im"
  by (auto simp: load_mapping_entry_def mapping_ok_def INTERFACE_PATTERN_iff normalize_ip_idem
      split: yval.splits if_splits option.splits json.splits)

definition mappings_ok :: "(int \<times> interface_mapping) list \<Rightarrow> bool" where
  "mappings_ok ms \<longleftrightarrow> distinct (map fst ms)
     \<and> (\<forall>(port, im) \<in> set ms. 1024 \<le> port \<and> port \<le> 65535 \<and> mapping_ok im)"

lemma load_mapping_loop_ok:
  assumes "load_mapping_loop str rest ms = Inr ms'" and "mappings_ok ms"
  shows "mappings_ok ms' \<and> length ms' = length ms + length rest"
  using assms
proof (induction str rest ms rule: load_mapping_loop.induct)
  case (2 str raw_port raw rest ms)
  from "2.prems"(1) obtain port im where
    port: "integer_var (str raw_port) ''listener port'' 1024 65535 = Inr port"
    and new: "port \<notin> set (map fst ms)" and im: "load_mapping_entry port raw = Inr im"
    and rest: "load_mapping_loop str rest (ms @ [(port, im)]) = Inr ms'"
    by (auto simp: res_simps)
  have "mappings_ok (ms @ [(port, im)])"
    using "2.prems"(2) new integer_var_Inr [OF port] load_mapping_entry_ok [OF im]
    by (auto simp: mappings_ok_def)
  from "2.IH" [OF rest this] show ?case by simp
qed simp

lemma load_mappings_nonempty_ok:
  assumes "load_mappings repr vrepr stream = Inr ms"
  shows "mappings_ok ms \<and> ms \<noteq> []"
proof -
  from assms obtain node document where "stream = Inr node"
    and doc: "construct_object repr node = Inr document"
    by (cases stream) (auto simp: load_mappings_def res_simps)
  with assms obtain listeners where "listeners \<noteq> []"
    and l: "load_mapping_loop (yval_str repr vrepr) listeners [] = Inr ms"
    by (cases document) (auto simp: load_mappings_def split: yval.splits option.splits if_splits)
  moreover have "mappings_ok []" by (simp add: mappings_ok_def)
  ultimately show ?thesis using load_mapping_loop_ok [OF l] by auto
qed

text \<open>
  A mapping file that loads gives at least one listener, no port twice, every port in
  1024..65535, every interface name made of letters, digits, dots, dashes and underscores,
  and every gateway in the normal form that \<^verbatim>\<open>ipaddress\<close> prints.
\<close>

theorem load_mappings_sound:
  assumes "load_mappings repr vrepr stream = Inr ms"
  shows "ms \<noteq> [] \<and> distinct (map fst ms)
    \<and> (\<forall>(port, im) \<in> set ms. 1024 \<le> port \<and> port \<le> 65535
         \<and> im_interface im \<noteq> [] \<and> list_all interface_char (im_interface im)
         \<and> normalize_ip (im_gateway_ip im) = Some (im_gateway_ip im))"
  using load_mappings_nonempty_ok [OF assms] by (auto simp: mappings_ok_def mapping_ok_def)

definition sample_mapping_file :: ynode where
  "sample_mapping_file = YMap [(YScalar (JStr ''listeners''),
     YMap [(YScalar (JInt 40001),
            YMap [(YScalar (JStr ''interface''), YScalar (JStr ''vlan10'')),
                  (YScalar (JStr ''gateway_ip''), YScalar (JStr ''10.0.0.1''))])])]"

lemma load_sample_mappings:
  "load_mappings repr vrepr (Inr sample_mapping_file)
    = Inr [(40001, \<lparr>im_interface = ''vlan10'', im_gateway_ip = ''10.0.0.1''\<rparr>)]"
  by (simp add: load_mappings_def sample_mapping_file_def key_eq_def ymap_get_def integer_var_def
      load_mapping_entry_def INTERFACE_PATTERN_iff interface_char_def insert_commute py_eval)

theorem load_mappings_sound_witness:
  "list_all interface_char ''vlan10'' \<and> normalize_ip ''10.0.0.1'' = Some ''10.0.0.1''"
  using load_mappings_sound [OF load_sample_mappings] by simp

text \<open>The settings that load: bounds on the port, non-empty credentials, valid addresses.\<close>

lemma required_var_Inr: "required_var env n = Inr v \<Longrightarrow> v \<noteq> [] \<and> py_strip v = v"
  by (auto simp: required_var_def Let_def split: if_splits)

lemma number_var_Inr: "number_var v n m t = Inr f \<Longrightarrow> f = NaN \<or> fl_le (Fin m) f"
  by (cases f) (auto simp: number_var_def fl_le_def not_less split: option.splits if_splits)

text \<open>
  Settings that load have a valid FortiGate address and a valid allowed source address,
  a port in 1..65535, non-empty stripped credentials, a known log level, and time limits that
  are at least their minimum, or not a number.
\<close>

theorem load_settings_sound:
  assumes "load_settings env = Inr st"
  shows "ip_address (fortigate_host st) \<noteq> None \<and> ip_address (guacamole_allowed_ip st) \<noteq> None
    \<and> 1 \<le> fortigate_ssh_port st \<and> fortigate_ssh_port st \<le> 65535
    \<and> fortigate_username st \<noteq> [] \<and> fortigate_password st \<noteq> []
    \<and> log_level st \<in> {''DEBUG'', ''INFO'', ''WARNING'', ''ERROR'', ''CRITICAL''}
    \<and> (ssh_connect_timeout st = NaN \<or> fl_le (Fin (1/10)) (ssh_connect_timeout st))
    \<and> (ssh_command_timeout st = NaN \<or> fl_le (Fin (1/10)) (ssh_command_timeout st))
    \<and> (wol_rate_limit_seconds st = NaN \<or> fl_le (Fin 0) (wol_rate_limit_seconds st))"
proof -
  from assms obtain host allowed level port user pass ct xt rl where
    vars: "is_ip host" "is_ip allowed" "level \<in> set LOG_LEVELS"
    and req: "required_var env ''FORTIGATE_USERNAME'' = Inr user"
      "required_var env ''FORTIGATE_PASSWORD'' = Inr pass"
    and port: "integer_var (env_get env ''FORTIGATE_SSH_PORT'' ''22'') ''FORTIGATE_SSH_PORT'' 1 65535 = Inr port"
    and ct: "number_var (env_get env ''SSH_CONNECT_TIMEOUT'' ''5'') ''SSH_CONNECT_TIMEOUT'' (1/10) ''0.1'' = Inr ct"
    and xt: "number_var (env_get env ''SSH_COMMAND_TIMEOUT'' ''10'') ''SSH_COMMAND_TIMEOUT'' (1/10) ''0.1'' = Inr xt"
    and rl: "number_var (env_get env ''WOL_RATE_LIMIT_SECONDS'' ''30'') ''WOL_RATE_LIMIT_SECONDS'' 0 ''0'' = Inr rl"
    and st: "fortigate_host st = host" "guacamole_allowed_ip st = allowed" "log_level st = level"
      "fortigate_ssh_port st = port" "fortigate_username st = user" "fortigate_password st = pass"
      "ssh_connect_timeout st = ct" "ssh_command_timeout st = xt" "wol_rate_limit_seconds st = rl"
    unfolding load_settings_def Let_def res_simps by fastforce
  show ?thesis
    unfolding st using vars integer_var_Inr [OF port] required_var_Inr [OF req(1)]
      required_var_Inr [OF req(2)] number_var_Inr [OF ct] number_var_Inr [OF xt] number_var_Inr [OF rl]
    by (simp add: is_ip_def LOG_LEVELS_def)
qed

definition sample_environ :: "string \<Rightarrow> environ" where
  "sample_environ rate = [''FORTIGATE_HOST'' \<mapsto> ''10.0.0.254'', ''GUACAMOLE_ALLOWED_IP'' \<mapsto> ''10.0.0.9'',
     ''FORTIGATE_USERNAME'' \<mapsto> ''wolt'', ''FORTIGATE_PASSWORD'' \<mapsto> ''secret'',
     ''WOL_RATE_LIMIT_SECONDS'' \<mapsto> rate]"

definition sample_settings :: "pyfloat \<Rightarrow> settings" where
  "sample_settings rate = \<lparr>fortigate_host = ''10.0.0.254'', fortigate_ssh_port = 22,
     fortigate_username = ''wolt'', fortigate_password = ''secret'',
     guacamole_allowed_ip = ''10.0.0.9'', ssh_connect_timeout = Fin 5,
     ssh_command_timeout = Fin 10, wol_rate_limit_seconds = rate, log_level = ''INFO'',
     mapping_file = ''/app/config/interfaces.yaml'',
     known_hosts_file = ''/home/wolt/.ssh/known_hosts''\<rparr>"

lemmas float_eval = py_float_def py_float_body_def digit_group_def group_digits_def
  scale10_def small_below_max_double py_lower_def lower_char_def py_eval

lemma sample_numbers:
  "py_float ''5'' = Some (Fin 5)" "py_float ''10'' = Some (Fin 10)"
  "py_float ''30'' = Some (Fin 30)" "py_float ''nan'' = Some NaN" "py_int ''22'' = Some 22"
  by (simp_all add: float_eval)

lemma sample_addresses:
  "ip_address ''10.0.0.254'' = Some (V4 [10, 0, 0, 254])"
  "ip_address ''10.0.0.9'' = Some (V4 [10, 0, 0, 9])"
  by (simp_all add: py_eval)

lemma load_sample_settings:
  assumes "py_float rate = Some f" and "\<not> fl_less f (Fin 0)"
  shows "load_settings (sample_environ rate) = Inr (sample_settings f)"
proof -
  have "py_upper ''INFO'' = ''INFO''"
    by (simp add: py_upper_def upper_char_def)
  with assms show ?thesis
    by (simp add: load_settings_def sample_environ_def sample_settings_def env_get_def
        required_var_def integer_var_def number_var_def is_ip_def LOG_LEVELS_def
        sample_numbers sample_addresses py_strip_def is_space_def Let_def)
qed

theorem load_settings_sound_witness:
  "ip_address (fortigate_host (sample_settings (Fin 30))) \<noteq> None
   \<and> 1 \<le> fortigate_ssh_port (sample_settings (Fin 30))"
  using load_settings_sound [OF load_sample_settings [OF sample_numbers(3)]] by simp

end
