(* ===== verification/Magic_Packet.thy ===== *)
theory Magic_Packet
  imports Py_Values
begin

text \<open>
  The wake-on-LAN magic packet: \<^verbatim>\<open>app/parser.py\<close>. A UDP payload is a list of bytes.
  The lemmas characterise the accepted payloads exactly and relate the parser to the builder.
\<close>

type_synonym byte = "8 word"

record parsed_magic_packet =
  mac_address :: string
  packet_length :: nat

text \<open>\<^verbatim>\<open>f"{byte:02X}"\<close>\<close>

definition hex_upper :: "nat \<Rightarrow> char" where
  "hex_upper d = char_of (if d < 10 then 48 + d else 55 + d)"

definition format_02X :: "byte \<Rightarrow> string" where
  "format_02X b = [hex_upper (unat b div 16), hex_upper (unat b mod 16)]"

definition mac_str :: "byte list \<Rightarrow> string" where
  "mac_str mac = py_join '':'' (map format_02X mac)"

text \<open>\<^verbatim>\<open>mac * 16\<close> and \<^verbatim>\<open>b"\xff" * 6\<close>\<close>

definition bytes_times :: "byte list \<Rightarrow> nat \<Rightarrow> byte list" where
  "bytes_times bs n = concat (replicate n bs)"

definition sync_stream :: "byte list" where
  "sync_stream = bytes_times [0xFF] 6"

definition parse_magic_packet :: "byte list \<Rightarrow> exn + parsed_magic_packet" where
  "parse_magic_packet data =
     (if length data \<noteq> 102
      then Inl (InvalidMagicPacketError ''magic packet must be exactly 102 bytes'')
      else if take 6 data \<noteq> sync_stream
      then Inl (InvalidMagicPacketError ''invalid magic packet header'')
      else (let mac = take 6 (drop 6 data)
            in if drop 6 data \<noteq> bytes_times mac 16
               then Inl (InvalidMagicPacketError ''destination MAC is not repeated 16 times'')
               else Inr \<lparr>mac_address = mac_str mac, packet_length = length data\<rparr>))"

definition build_magic_packet :: "byte list \<Rightarrow> exn + byte list" where
  "build_magic_packet mac =
     (if length mac \<noteq> 6 then Inl (ValueError ''MAC must contain exactly 6 bytes'')
      else Inr (sync_stream @ bytes_times mac 16))"

section \<open>Lengths and shapes\<close>

lemma length_bytes_times [simp]: "length (bytes_times bs n) = n * length bs"
  by (induction n) (auto simp: bytes_times_def)

lemma length_sync_stream [simp]: "length sync_stream = 6"
  by (simp add: sync_stream_def)

lemma take_bytes_times: "0 < n \<Longrightarrow> take (length bs) (bytes_times bs n) = bs"
  by (cases n) (auto simp: bytes_times_def)

lemma build_magic_packet_length:
  "build_magic_packet mac = Inr d \<Longrightarrow> length d = 102"
  by (auto simp: build_magic_packet_def split: if_splits)

section \<open>Text form of the address\<close>

lemma hex_upper_range:
  "d < 16 \<Longrightarrow> is_digit (hex_upper d) \<or> (65 \<le> code (hex_upper d) \<and> code (hex_upper d) \<le> 70)"
  by (auto simp: hex_upper_def is_digit_def of_char_of)

lemma hex_upper_inj: "d < 16 \<Longrightarrow> e < 16 \<Longrightarrow> hex_upper d = hex_upper e \<longleftrightarrow> d = e"
proof -
  assume "d < 16" "e < 16"
  then have "code (hex_upper d) = code (hex_upper e) \<longleftrightarrow> d = e"
    by (simp add: hex_upper_def of_char_of)
  then show ?thesis by auto
qed

lemma unat_byte_bound: "unat (b :: byte) < 256"
  using unsigned_less [of b] by simp

lemma byte_nibbles: "unat (b :: byte) div 16 < 16" "unat b mod 16 < 16"
  using unat_byte_bound [of b] by auto

lemma format_02X_inj: "format_02X a = format_02X b \<longleftrightarrow> a = b"
proof
  assume "format_02X a = format_02X b"
  then have "unat a div 16 = unat b div 16" and "unat a mod 16 = unat b mod 16"
    by (auto simp: format_02X_def hex_upper_inj byte_nibbles)
  then have "unat a = unat b"
    by (metis div_mult_mod_eq)
  then show "a = b" by (simp add: word_unat_eq_iff)
qed simp

lemma length_format_02X [simp]: "length (format_02X b) = 2"
  by (simp add: format_02X_def)

lemma code_colon: "code (CHR '':'') = 58"
  by simp

lemma colon_not_in_format_02X: "CHR '':'' \<notin> set (format_02X b)"
  using hex_upper_range [OF byte_nibbles(1) [of b]] hex_upper_range [OF byte_nibbles(2) [of b]]
  by (auto simp: format_02X_def is_digit_def dest!: arg_cong [where f = "of_char :: char \<Rightarrow> nat"])

lemma mac_str_inj:
  assumes "length m = length n" and "mac_str m = mac_str n"
  shows "m = n"
proof (cases "m = []")
  case True
  with assms(1) show ?thesis by simp
next
  case False
  with assms(1) have n: "n \<noteq> []" by auto
  have split: "py_split (CHR '':'') (mac_str x) = map format_02X x" if "x \<noteq> []" for x
    unfolding mac_str_def using that colon_not_in_format_02X
    by (intro py_split_join) auto
  from assms(2) have "map format_02X m = map format_02X n"
    using split [OF False] split [OF n] by simp
  then show ?thesis
    by (metis format_02X_inj inj_map_eq_map injI)
qed

section \<open>What the parser accepts\<close>

lemma parse_build:
  assumes "length mac = 6"
  shows "parse_magic_packet (sync_stream @ bytes_times mac 16)
           = Inr \<lparr>mac_address = mac_str mac, packet_length = 102\<rparr>"
  using assms take_bytes_times [of 16 mac] by (simp add: parse_magic_packet_def)

lemma parse_magic_packetD:
  assumes "parse_magic_packet data = Inr p"
  obtains mac where "length mac = 6" and "data = sync_stream @ bytes_times mac 16"
    and "mac_address p = mac_str mac" and "packet_length p = 102"
proof -
  let ?mac = "take 6 (drop 6 data)"
  from assms have "length data = 102" and "take 6 data = sync_stream"
    and "drop 6 data = bytes_times ?mac 16"
    and "p = \<lparr>mac_address = mac_str ?mac, packet_length = length data\<rparr>"
    by (auto simp: parse_magic_packet_def Let_def split: if_splits)
  moreover from this have "data = sync_stream @ bytes_times ?mac 16"
    by (metis append_take_drop_id)
  ultimately show ?thesis
    by (intro that [of ?mac]) auto
qed

text \<open>
  C24: the parser accepts a payload exactly when it is the packet \<^verbatim>\<open>build_magic_packet\<close>
  makes for some six-byte address, and then returns that address in the
  \<^verbatim>\<open>AA:BB:CC:DD:EE:FF\<close> form together with the length 102.
\<close>

theorem parse_magic_packet_accepts_iff:
  "parse_magic_packet data = Inr p \<longleftrightarrow>
     (\<exists>mac. build_magic_packet mac = Inr data
          \<and> p = \<lparr>mac_address = mac_str mac, packet_length = 102\<rparr>)"
proof
  assume "parse_magic_packet data = Inr p"
  then show "\<exists>mac. build_magic_packet mac = Inr data
          \<and> p = \<lparr>mac_address = mac_str mac, packet_length = 102\<rparr>"
    by (elim parse_magic_packetD) (auto simp: build_magic_packet_def)
next
  assume "\<exists>mac. build_magic_packet mac = Inr data
          \<and> p = \<lparr>mac_address = mac_str mac, packet_length = 102\<rparr>"
  then show "parse_magic_packet data = Inr p"
    by (auto simp: build_magic_packet_def parse_build split: if_splits)
qed

text \<open>
  The address text identifies the packet: two payloads that parse to the same address
  text are the same payload, so the rate limiter's key is as fine as the payload.
\<close>

lemma parse_magic_packet_injective:
  assumes "parse_magic_packet d1 = Inr p1" and "parse_magic_packet d2 = Inr p2"
    and "mac_address p1 = mac_address p2"
  shows "d1 = d2"
  using assms by (elim parse_magic_packetD) (metis mac_str_inj)

end
