(* ===== verification/Fortigate.thy ===== *)
theory Fortigate
  imports Headless_Config Magic_Packet
begin

text \<open>
  \<^verbatim>\<open>app/fortigate.py\<close>: the wake command sent to the FortiGate, and the SSH client that
  sends it. The SSH library is the argument \<open>ssh\<close>, a record of what its calls return; every
  operation also returns the trace of the calls it made on the client, in order.
\<close>

section \<open>The SSH library\<close>

text \<open>
  \<open>'k\<close> is the type of host keys. \<open>ssh_connect\<close> gets the pinned keys under their lookup
  names (unknown hosts are rejected), host, port, user, password and time limit.
  \<open>ssh_exec\<close> gives the exit status and the decoded output.
\<close>

record 'k ssh =
  ssh_load_host_keys :: "string \<Rightarrow> net_error + (string \<times> 'k) list"
  ssh_connect :: "(string \<times> 'k) list \<Rightarrow> string \<Rightarrow> int \<Rightarrow> string \<Rightarrow> string \<Rightarrow> pyfloat \<Rightarrow> net_error + unit"
  ssh_exec :: "string \<Rightarrow> pyfloat \<Rightarrow> net_error + int \<times> string"

datatype ssh_event = SshCreate | SshConnect string int | SshExec string | SshClose

definition commands :: "ssh_event list \<Rightarrow> string list" where
  "commands tr = concat (map (\<lambda>e. case e of SshExec c \<Rightarrow> [c] | _ \<Rightarrow> []) tr)"

lemma commands_simps [simp]:
  "commands [] = []"
  "commands (SshExec c # tr) = c # commands tr"
  "commands (SshCreate # tr) = commands tr"
  "commands (SshConnect h p # tr) = commands tr"
  "commands (SshClose # tr) = commands tr"
  "commands (tr @ tr') = commands tr @ commands tr'"
  by (simp_all add: commands_def)

text \<open>A trace that creates a client at most once, and closes every client it created.\<close>

definition closed_trace :: "ssh_event list \<Rightarrow> bool" where
  "closed_trace tr \<longleftrightarrow> tr = [] \<or>
     (\<exists>mid. tr = SshCreate # mid @ [SshClose] \<and> SshCreate \<notin> set mid \<and> SshClose \<notin> set mid)"

section \<open>The command\<close>

definition upper_hex :: "char \<Rightarrow> bool" where
  "upper_hex c \<longleftrightarrow> is_digit c \<or> (65 \<le> code c \<and> code c \<le> 70)"

definition MAC_PATTERN :: rx where
  "MAC_PATTERN = RSeq (rx_rep 5 (RSeq (rx_rep 2 (RCls upper_hex)) (rx_chr (CHR '':''))))
                      (rx_rep 2 (RCls upper_hex))"

definition ERROR_MARKERS :: "string list" where
  "ERROR_MARKERS = [''command fail'', ''parse error'', ''unknown action'', ''error'', ''failed'']"

definition build_wol_command :: "string \<Rightarrow> string \<Rightarrow> string \<Rightarrow> exn + string" where
  "build_wol_command interface mac gateway_ip =
     (if \<not> re_fullmatch INTERFACE_PATTERN interface then Inl (ValueError ''invalid FortiGate interface'')
      else if \<not> re_fullmatch MAC_PATTERN mac then Inl (ValueError ''invalid MAC address'')
      else (case normalize_ip gateway_ip of
          None \<Rightarrow> Inl (ValueError ''invalid gateway IP'')
        | Some normalized_ip \<Rightarrow>
            Inr (''execute wake-on-lan '' @ interface @ '' '' @ mac @ '' 2 9 '' @ normalized_ip)))"

section \<open>The client\<close>

fun ssh_reason :: "net_error \<Rightarrow> string" where
  "ssh_reason NetTimeout = ''ssh_timeout''"
| "ssh_reason SshAuthentication = ''ssh_authentication_failed''"
| "ssh_reason SshBadHostKey = ''host_key_verification_failed''"
| "ssh_reason _ = ''ssh_connection_failed''"

definition has_error :: "string \<Rightarrow> bool" where
  "has_error output = (let lowered = py_lower output in list_ex (\<lambda>m. occurs_in m lowered) ERROR_MARKERS)"

definition client_connect :: "'k ssh \<Rightarrow> settings \<Rightarrow> (exn + unit) \<times> ssh_event list" where
  "client_connect ssh st =
     (case ssh_load_host_keys ssh (known_hosts_file st) of
        Inl e \<Rightarrow> (Inl (FortiGateError (ssh_reason e)), [SshCreate, SshClose])
      | Inr keys \<Rightarrow>
          (let ev = SshConnect (fortigate_host st) (fortigate_ssh_port st)
           in case ssh_connect ssh keys (fortigate_host st) (fortigate_ssh_port st)
                     (fortigate_username st) (fortigate_password st) (ssh_connect_timeout st) of
                Inl e \<Rightarrow> (Inl (FortiGateError (ssh_reason e)), [SshCreate, ev, SshClose])
              | Inr _ \<Rightarrow> (Inr (), [SshCreate, ev])))"

definition execute_command :: "'k ssh \<Rightarrow> settings \<Rightarrow> string \<Rightarrow> (exn + unit) \<times> ssh_event list" where
  "execute_command ssh st command =
     (case ssh_exec ssh command (ssh_command_timeout st) of
        Inl e \<Rightarrow> (Inl (FortiGateError (ssh_reason e)), [SshExec command])
      | Inr (status, output) \<Rightarrow>
          ((if status \<noteq> 0 \<or> has_error output then Inl (FortiGateError ''command_failed'') else Inr ()),
           [SshExec command]))"

definition execute_wol :: "'k ssh \<Rightarrow> settings \<Rightarrow> string \<Rightarrow> string \<Rightarrow> string
    \<Rightarrow> (exn + unit) \<times> ssh_event list" where
  "execute_wol ssh st interface mac gateway_ip =
     (case build_wol_command interface mac gateway_ip of
        Inl e \<Rightarrow> (Inl e, [])
      | Inr command \<Rightarrow>
          (case client_connect ssh st of
             (Inl e, tr) \<Rightarrow> (Inl e, tr)
           | (Inr _, tr) \<Rightarrow>
               (case execute_command ssh st command of
                  (r, tr') \<Rightarrow> (r, tr @ tr' @ [SshClose]))))"

section \<open>The address pattern\<close>

lemma upper_hex_hex_upper: "d < 16 \<Longrightarrow> upper_hex (hex_upper d)"
  using hex_upper_range by (simp add: upper_hex_def)

lemma upper_hex_ex: "upper_hex c \<Longrightarrow> \<exists>d<16. c = hex_upper d"
proof -
  assume "upper_hex c"
  then consider "48 \<le> code c" "code c \<le> 57" | "65 \<le> code c" "code c \<le> 70"
    by (auto simp: upper_hex_def is_digit_def)
  then show ?thesis
  proof cases
    case 1
    then have "code c - 48 < 10" by linarith
    with 1 have "c = hex_upper (code c - 48)" by (simp add: hex_upper_def)
    with 1 show ?thesis by (intro exI [of _ "code c - 48"]) auto
  next
    case 2
    then have "\<not> code c - 55 < 10" by linarith
    with 2 have "c = hex_upper (code c - 55)" by (simp add: hex_upper_def)
    with 2 show ?thesis by (intro exI [of _ "code c - 55"]) auto
  qed
qed

lemma two_hex_byte:
  assumes "upper_hex c" and "upper_hex d"
  obtains b where "format_02X b = [c, d]"
proof -
  from assms obtain x y where x: "x < 16" "c = hex_upper x" and y: "y < 16" "d = hex_upper y"
    using upper_hex_ex by metis
  have "unat (of_nat (16 * x + y) :: byte) = 16 * x + y"
    using x y by (simp add: unat_of_nat del: of_nat_add of_nat_mult)
  with x y have "format_02X (of_nat (16 * x + y)) = [c, d]"
    by (simp add: format_02X_def)
  then show ?thesis by (rule that)
qed

lemma format_02X_upper_hex: "\<exists>c d. format_02X b = [c, d] \<and> upper_hex c \<and> upper_hex d"
  by (simp add: format_02X_def upper_hex_hex_upper byte_nibbles)

lemma octet_iff: "rx_in s (rx_rep 2 (RCls upper_hex)) \<longleftrightarrow> (\<exists>b. s = format_02X b)"
proof
  assume "rx_in s (rx_rep 2 (RCls upper_hex))"
  then obtain c d where "s = [c, d]" "upper_hex c" "upper_hex d"
    by (auto simp: numeral_2_eq_2 length_Suc_conv)
  then show "\<exists>b. s = format_02X b"
    using two_hex_byte [of c d] by metis
next
  assume "\<exists>b. s = format_02X b"
  then obtain c d where "s = [c, d]" "upper_hex c" "upper_hex d"
    using format_02X_upper_hex by metis
  then show "rx_in s (rx_rep 2 (RCls upper_hex))" by simp
qed

lemma mac_str_Cons: "m \<noteq> [] \<Longrightarrow> mac_str (b # m) = format_02X b @ '':'' @ mac_str m"
  by (cases m) (auto simp: mac_str_def)

lemma octets_iff:
  "rx_in s (RSeq (rx_rep n (RSeq (rx_rep 2 (RCls upper_hex)) (rx_chr (CHR '':''))))
                 (rx_rep 2 (RCls upper_hex)))
     \<longleftrightarrow> (\<exists>mac. length mac = Suc n \<and> s = mac_str mac)"
  (is "rx_in s (RSeq (rx_rep n ?oc) ?o) \<longleftrightarrow> _")
proof (induction n arbitrary: s)
  case 0
  then show ?case
    by (auto simp: octet_iff length_Suc_conv mac_str_def simp del: rx_in_rep_cls)
next
  case (Suc n)
  have "rx_in s (RSeq (rx_rep (Suc n) ?oc) ?o) \<longleftrightarrow>
      (\<exists>b t. s = format_02X b @ CHR '':'' # t \<and> rx_in t (RSeq (rx_rep n ?oc) ?o))"
    unfolding rx_rep.simps(2) rx_in_seq_assoc rx_in_seq [of s] rx_in_seq_chr octet_iff by blast
  also have "\<dots> \<longleftrightarrow> (\<exists>b mac. length mac = Suc n \<and> s = mac_str (b # mac))"
  proof -
    have "mac_str (b # mac) = format_02X b @ CHR '':'' # mac_str mac" if "length mac = Suc n" for b mac
      using that mac_str_Cons [of mac b] by fastforce
    then show ?thesis unfolding Suc.IH by metis
  qed
  also have "\<dots> \<longleftrightarrow> (\<exists>mac. length mac = Suc (Suc n) \<and> s = mac_str mac)"
    by (metis length_Suc_conv)
  finally show ?case .
qed

lemma MAC_PATTERN_iff: "re_fullmatch MAC_PATTERN s \<longleftrightarrow> (\<exists>mac. length mac = 6 \<and> s = mac_str mac)"
  by (simp only: re_fullmatch_iff MAC_PATTERN_def octets_iff) simp


lemma mac_str_chars: "c \<in> set (mac_str mac) \<Longrightarrow> upper_hex c \<or> c = CHR '':''"
proof -
  assume "c \<in> set (mac_str mac)"
  then have "c = CHR '':'' \<or> (\<exists>b \<in> set mac. c \<in> set (format_02X b))"
    using set_py_join [of "'':''" "map format_02X mac"] by (auto simp: mac_str_def)
  moreover have "upper_hex c" if "c \<in> set (format_02X b)" for b
    using that format_02X_upper_hex [of b] by auto
  ultimately show ?thesis by blast
qed

section \<open>What is sent\<close>

text \<open>The characters a command may be made of: no quote, no control character, no separator.\<close>

definition cli_char :: "char \<Rightarrow> bool" where
  "cli_char c \<longleftrightarrow> is_alnum c \<or> c \<in> {CHR ''_'', CHR ''.'', CHR ''-'', CHR '':''}"

lemma cli_char_not_space: "cli_char c \<Longrightarrow> c \<noteq> CHR '' ''"
  by (auto simp: cli_char_def is_alnum_def is_digit_def is_upper_def is_lower_def)

lemma interface_cli: "re_fullmatch INTERFACE_PATTERN s \<Longrightarrow> c \<in> set s \<Longrightarrow> cli_char c"
  by (auto simp: INTERFACE_PATTERN_iff interface_char_def cli_char_def list_all_iff)

lemma mac_cli: "re_fullmatch MAC_PATTERN s \<Longrightarrow> c \<in> set s \<Longrightarrow> cli_char c"
  by (auto simp: MAC_PATTERN_iff cli_char_def upper_hex_def is_alnum_def is_upper_def
      dest!: mac_str_chars)

lemma ip_cli:
  assumes "normalize_ip g = Some ip" and "CHR ''%'' \<notin> set g" and "c \<in> set ip"
  shows "cli_char c"
  using assms ip_str_no_scope_chars
  by (fastforce simp: normalize_ip_def cli_char_def is_alnum_def is_lower_def)

lemma py_split_words:
  "(\<And>w c. w \<in> set ws \<Longrightarrow> c \<in> set w \<Longrightarrow> cli_char c) \<Longrightarrow> ws \<noteq> [] \<Longrightarrow>
     py_split (CHR '' '') (py_join '' '' ws) = ws"
  using cli_char_not_space by (intro py_split_join) blast+

lemma build_wol_command_Inr:
  assumes "build_wol_command interface mac gateway = Inr command"
  obtains ip where "normalize_ip gateway = Some ip"
    and "re_fullmatch INTERFACE_PATTERN interface" and "re_fullmatch MAC_PATTERN mac"
    and "command = py_join '' '' [''execute'', ''wake-on-lan'', interface, mac, ''2'', ''9'', ip]"
  using assms by (auto simp: build_wol_command_def split: if_splits option.splits)

text \<open>
  C27: a command that is built for a gateway address without a scope identifier is one line
  of exactly seven words (the verb, the interface, the address, the two constants and the
  normalised gateway), and no argument holds a character outside letters, digits and
  \<^verbatim>\<open>_.-:\<close>. So no field can add a word or a line to the command.
\<close>

theorem build_wol_command_words:
  assumes "build_wol_command interface mac gateway = Inr command"
    and "CHR ''%'' \<notin> set gateway"
  shows "\<exists>ip. normalize_ip gateway = Some ip
    \<and> py_split (CHR '' '') command
        = [''execute'', ''wake-on-lan'', interface, mac, ''2'', ''9'', ip]
    \<and> (\<forall>c \<in> set command. cli_char c \<or> c = CHR '' '')"
proof -
  from assms(1) obtain ip where ip: "normalize_ip gateway = Some ip"
    and i: "re_fullmatch INTERFACE_PATTERN interface" and m: "re_fullmatch MAC_PATTERN mac"
    and cmd: "command = py_join '' '' [''execute'', ''wake-on-lan'', interface, mac, ''2'', ''9'', ip]"
    by (rule build_wol_command_Inr)
  let ?ws = "[''execute'', ''wake-on-lan'', interface, mac, ''2'', ''9'', ip]"
  have lits: "\<forall>w \<in> {''execute'', ''wake-on-lan'', ''2'', ''9''}. \<forall>c \<in> set w. cli_char c"
    by (simp add: cli_char_def is_alnum_def is_digit_def is_lower_def)
  have safe: "cli_char c" if "w \<in> set ?ws" "c \<in> set w" for w c
    using that lits interface_cli [OF i] mac_cli [OF m] ip_cli [OF ip assms(2)]
    by (auto simp del: cli_char_def)
  from py_split_words [of ?ws] safe have "py_split (CHR '' '') command = ?ws"
    unfolding cmd by blast
  moreover have "cli_char c \<or> c = CHR '' ''" if "c \<in> set command" for c
    using that set_py_join [of "'' ''" ?ws] safe unfolding cmd by fastforce
  ultimately show ?thesis using ip by blast
qed

lemma hex_upper_zero: "hex_upper 0 = CHR ''0''"
  by code_simp

lemma mac_zero: "mac_str [0, 0, 0, 0, 0, 0] = ''00:00:00:00:00:00''"
  by (simp add: mac_str_def format_02X_def hex_upper_zero)

lemma sample_command_builds:
  "build_wol_command ''vlan10'' ''00:00:00:00:00:00'' ''10.0.0.1''
     = Inr ''execute wake-on-lan vlan10 00:00:00:00:00:00 2 9 10.0.0.1''"
proof -
  have "re_fullmatch MAC_PATTERN ''00:00:00:00:00:00''"
    unfolding MAC_PATTERN_iff using mac_zero by (intro exI [of _ "[0, 0, 0, 0, 0, 0]"]) simp
  moreover have "normalize_ip ''10.0.0.1'' = Some ''10.0.0.1''"
    by (simp add: py_eval)
  ultimately show ?thesis
    by (simp add: build_wol_command_def INTERFACE_PATTERN_iff interface_char_def py_eval)
qed

theorem build_wol_command_words_witness:
  "\<exists>ip. py_split (CHR '' '') ''execute wake-on-lan vlan10 00:00:00:00:00:00 2 9 10.0.0.1''
     = [''execute'', ''wake-on-lan'', ''vlan10'', ''00:00:00:00:00:00'', ''2'', ''9'', ip]"
  using build_wol_command_words [OF sample_command_builds] by auto

text \<open>
  The restriction on the gateway matters: \<^verbatim>\<open>ipaddress\<close> accepts any text but
  \<^verbatim>\<open>/\<close> and \<^verbatim>\<open>%\<close> as the scope identifier of an IPv6 address and prints it back, so a
  gateway with a scope identifier puts a second line into the command.
\<close>

definition scoped_gateway :: string where
  "scoped_gateway = ''::%x'' @ [CHR 0x0A] @ ''execute reboot''"

lemma hex_str_zero: "hex_str 0 = ''0''"
  by code_simp

lemma scoped_gateway_normal: "normalize_ip scoped_gateway = Some scoped_gateway"
proof -
  have "v4_parse scoped_gateway = None"
    by (simp add: scoped_gateway_def v4_parse_def)
  moreover have "v6_parse ''::'' = Some (replicate 8 0)"
    by (simp add: v6_parse_def v6_expand_def v6_skips_def upt_conv_Cons)
  ultimately have "ip_address scoped_gateway
      = Some (V6 (replicate 8 0) (Some (''x'' @ [CHR 0x0A] @ ''execute reboot'')))"
    by (simp add: ip_address_def) (simp add: scoped_gateway_def)
  moreover have "py_join '':'' (compress_hextets (replicate 8 ''0'')) = ''::''"
    by (simp add: compress_hextets_def numeral_eq_Suc)
  ultimately show ?thesis
    by (simp add: normalize_ip_def hex_str_zero scoped_gateway_def)
qed

lemma build_wol_command_scope_injection:
  "build_wol_command ''vlan10'' (mac_str (replicate 6 0)) scoped_gateway
     = Inr (''execute wake-on-lan vlan10 '' @ mac_str (replicate 6 0) @ '' 2 9 ::%x'' @ [CHR 0x0A]
            @ ''execute reboot'')"
proof -
  have "re_fullmatch MAC_PATTERN (mac_str (replicate 6 0))"
    unfolding MAC_PATTERN_iff by (metis length_replicate)
  then show ?thesis
    by (simp add: build_wol_command_def scoped_gateway_normal INTERFACE_PATTERN_iff
        interface_char_def is_alnum_def is_digit_def is_lower_def)
      (simp add: scoped_gateway_def)
qed

text \<open>For a loaded mapping and a parsed packet the command always builds.\<close>

lemma build_wol_command_total:
  assumes "mapping_ok im" and "parse_magic_packet data = Inr p"
  shows "\<exists>command. build_wol_command (im_interface im) (mac_address p) (im_gateway_ip im) = Inr command"
proof -
  from assms(2) have "re_fullmatch MAC_PATTERN (mac_address p)"
    unfolding MAC_PATTERN_iff by (metis parse_magic_packetD)
  with assms(1) show ?thesis
    by (simp add: build_wol_command_def mapping_ok_def INTERFACE_PATTERN_iff)
qed

section \<open>Outcome of a wake\<close>

lemma client_connect_cases:
  obtains (failed) e tr where "client_connect ssh st = (Inl (FortiGateError e), tr)"
    and "closed_trace tr" and "commands tr = []"
  | (ok) keys where "ssh_load_host_keys ssh (known_hosts_file st) = Inr keys"
    and "ssh_connect ssh keys (fortigate_host st) (fortigate_ssh_port st) (fortigate_username st)
           (fortigate_password st) (ssh_connect_timeout st) = Inr ()"
    and "client_connect ssh st
      = (Inr (), [SshCreate, SshConnect (fortigate_host st) (fortigate_ssh_port st)])"
proof (cases "ssh_load_host_keys ssh (known_hosts_file st)")
  case (Inl e)
  then show ?thesis
    by (intro failed [of "ssh_reason e" "[SshCreate, SshClose]"])
      (auto simp: client_connect_def closed_trace_def)
next
  case (Inr keys)
  let ?c = "SshConnect (fortigate_host st) (fortigate_ssh_port st)"
  show ?thesis
  proof (cases "ssh_connect ssh keys (fortigate_host st) (fortigate_ssh_port st)
      (fortigate_username st) (fortigate_password st) (ssh_connect_timeout st)")
    case (Inl e)
    with Inr have "client_connect ssh st
        = (Inl (FortiGateError (ssh_reason e)), SshCreate # [?c] @ [SshClose])"
      by (simp add: client_connect_def)
    moreover have "closed_trace (SshCreate # [?c] @ [SshClose])"
      unfolding closed_trace_def by (intro disjI2 exI [of _ "[?c]"]) simp
    ultimately show ?thesis by (intro failed) auto
  next
    case Inr': (Inr u)
    with Inr show ?thesis by (intro ok [of keys]) (auto simp: client_connect_def)
  qed
qed

lemma execute_command_trace [simp]: "snd (execute_command ssh st c) = [SshExec c]"
  by (simp add: execute_command_def split: sum.split prod.split)

lemma execute_wol_trace:
  assumes "execute_wol ssh st interface mac gateway = (r, tr)"
  shows "closed_trace tr \<and> (commands tr = [] \<or>
    (\<exists>c. build_wol_command interface mac gateway = Inr c \<and> commands tr = [c]))"
proof (cases "build_wol_command interface mac gateway")
  case (Inl e)
  with assms show ?thesis by (simp add: execute_wol_def closed_trace_def)
next
  case (Inr c)
  show ?thesis
  proof (cases rule: client_connect_cases [of ssh st])
    case failed
    with assms Inr show ?thesis by (auto simp: execute_wol_def)
  next
    case ok
    obtain r' where "execute_command ssh st c = (r', [SshExec c])"
      using execute_command_trace by (metis prod.collapse)
    with ok assms Inr have "tr = SshCreate #
        [SshConnect (fortigate_host st) (fortigate_ssh_port st), SshExec c] @ [SshClose]"
      by (auto simp: execute_wol_def)
    with Inr show ?thesis by (auto simp: closed_trace_def)
  qed
qed

text \<open>
  A wake succeeds exactly when the command builds, the host keys load, the connection is
  made and the command exits with status 0 and no error marker in its output. It then sent
  that one command on one client, which it closed.
\<close>

theorem execute_wol_success_iff:
  "execute_wol ssh st interface mac gateway = (Inr (), tr) \<longleftrightarrow>
     (\<exists>command keys output.
        build_wol_command interface mac gateway = Inr command
      \<and> ssh_load_host_keys ssh (known_hosts_file st) = Inr keys
      \<and> ssh_connect ssh keys (fortigate_host st) (fortigate_ssh_port st) (fortigate_username st)
          (fortigate_password st) (ssh_connect_timeout st) = Inr ()
      \<and> ssh_exec ssh command (ssh_command_timeout st) = Inr (0, output)
      \<and> \<not> list_ex (\<lambda>marker. occurs_in marker (py_lower output)) ERROR_MARKERS
      \<and> tr = [SshCreate, SshConnect (fortigate_host st) (fortigate_ssh_port st),
              SshExec command, SshClose])"
  by (auto simp: execute_wol_def client_connect_def execute_command_def has_error_def Let_def
      split: sum.splits if_splits prod.splits)

end
