(* ===== verification/Rate_Limit.thy ===== *)
theory Rate_Limit
  imports Py_Values
begin

text \<open>
  The two throttles: \<^verbatim>\<open>RateLimiter\<close> of \<^verbatim>\<open>app/rate_limit.py\<close>, which keeps the time of
  the last wake it let through per (port, address), and \<^verbatim>\<open>LoginAttemptLimiter\<close> of
  \<^verbatim>\<open>app/web/auth_routes.py\<close>, which keeps a sliding window of attempts per client address.
  Both share the interface \<open>keyed_limiter\<close>: a key's decisions depend on that key's
  requests only. Each is proved equivalent to a reference that remembers the whole history.
  The clock values the calls read are part of the requests.
\<close>

section \<open>The shared interface\<close>

text \<open>A run of requests, each with the decision it got.\<close>

fun decisions :: "('k \<Rightarrow> rat \<Rightarrow> 's \<Rightarrow> bool \<times> 's) \<Rightarrow> ('k \<times> rat) list \<Rightarrow> 's \<Rightarrow> ('k \<times> rat \<times> bool) list" where
  "decisions allow [] s = []"
| "decisions allow ((k, t) # rs) s =
     (case allow k t s of (b, s') \<Rightarrow> (k, t, b) # decisions allow rs s')"

text \<open>The times at which requests of a key were let through.\<close>

definition allowed_times :: "'k \<Rightarrow> ('k \<times> rat \<times> bool) list \<Rightarrow> rat list" where
  "allowed_times k ds = map (\<lambda>(k', t, b). t) (filter (\<lambda>(k', t, b). k' = k \<and> b) ds)"

lemma allowed_times_simps [simp]:
  "allowed_times k [] = []"
  "allowed_times k ((k', t, b) # ds)
     = (if k' = k \<and> b then t # allowed_times k ds else allowed_times k ds)"
  "allowed_times k (ds @ ds') = allowed_times k ds @ allowed_times k ds'"
  by (auto simp: allowed_times_def)

locale keyed_limiter =
  fixes allow :: "'k \<Rightarrow> rat \<Rightarrow> 's \<Rightarrow> bool \<times> 's"
    and view :: "'s \<Rightarrow> 'k \<Rightarrow> 'v"
  assumes allow_local: "view s k = view s' k \<Longrightarrow>
      fst (allow k t s) = fst (allow k t s')
      \<and> view (snd (allow k t s)) k = view (snd (allow k t s')) k"
    and allow_frame: "k' \<noteq> k \<Longrightarrow> view (snd (allow k t s)) k' = view s k'"
begin

lemma isolation:
  "view s k = view s' k \<Longrightarrow>
     filter (\<lambda>(k', t, b). k' = k) (decisions allow rs s)
       = decisions allow (filter (\<lambda>(k', t). k' = k) rs) s'"
proof (induction rs arbitrary: s s')
  case (Cons r rs)
  obtain k' t where r: "r = (k', t)" by (cases r)
  obtain b u where a: "allow k' t s = (b, u)" by (cases "allow k' t s")
  obtain b' u' where a': "allow k' t s' = (b', u')" by (cases "allow k' t s'")
  show ?case
  proof (cases "k' = k")
    case True
    with allow_local [OF Cons.prems, of t] a a' have "b = b'" and "view u k = view u' k"
      by auto
    with Cons.IH [of u u'] True r a a' show ?thesis by simp
  next
    case False
    with allow_frame [of k k' t s] a have "view u k = view s k" by auto
    with Cons.prems Cons.IH [of u s'] False r a show ?thesis by simp
  qed
qed simp

text \<open>Two runs that agree on a key's requests give that key the same decisions.\<close>

lemma other_keys_irrelevant:
  assumes "filter (\<lambda>(k', t). k' = k) rs = filter (\<lambda>(k', t). k' = k) rs'"
  shows "filter (\<lambda>(k', t, b). k' = k) (decisions allow rs s)
       = filter (\<lambda>(k', t, b). k' = k) (decisions allow rs' s)"
  using isolation [of s k s rs] isolation [of s k s rs'] assms by simp

end

section \<open>RateLimiter\<close>

type_synonym wake_key = "int \<times> string"

record rate_limiter =
  rl_interval :: pyfloat
  rl_last_allowed :: "wake_key \<rightharpoonup> rat"

definition rate_limiter_init :: "pyfloat \<Rightarrow> exn + rate_limiter" where
  "rate_limiter_init interval_seconds =
     (if fl_less interval_seconds (Fin 0)
      then Inl (ValueError ''interval_seconds cannot be negative'')
      else Inr \<lparr>rl_interval = interval_seconds, rl_last_allowed = Map.empty\<rparr>)"

definition rate_allow :: "int \<Rightarrow> string \<Rightarrow> rat \<Rightarrow> rate_limiter \<Rightarrow> bool \<times> rate_limiter" where
  "rate_allow listen_port mac now rl =
     (let key = (listen_port, mac)
      in case rl_last_allowed rl key of
           Some previous \<Rightarrow>
             if fl_less (Fin (now - previous)) (rl_interval rl) then (False, rl)
             else (True, rl\<lparr>rl_last_allowed := (rl_last_allowed rl)(key \<mapsto> now)\<rparr>)
         | None \<Rightarrow> (True, rl\<lparr>rl_last_allowed := (rl_last_allowed rl)(key \<mapsto> now)\<rparr>))"

abbreviation rate_allow_key :: "wake_key \<Rightarrow> rat \<Rightarrow> rate_limiter \<Rightarrow> bool \<times> rate_limiter" where
  "rate_allow_key k \<equiv> rate_allow (fst k) (snd k)"

interpretation wake: keyed_limiter rate_allow_key "\<lambda>rl k. (rl_interval rl, rl_last_allowed rl k)"
  by unfold_locales
    (auto simp: rate_allow_def Let_def split: option.splits)

text \<open>The reference: a request passes when no earlier one of its key passed too recently.\<close>

fun rate_reference :: "rat \<Rightarrow> (wake_key \<times> rat \<times> bool) list \<Rightarrow> (wake_key \<times> rat) list
    \<Rightarrow> (wake_key \<times> rat \<times> bool) list" where
  "rate_reference iv h [] = []"
| "rate_reference iv h ((k, t) # rs) =
     (let b = (\<forall>p \<in> set (allowed_times k h). iv \<le> t - p)
      in (k, t, b) # rate_reference iv (h @ [(k, t, b)]) rs)"

definition spaced :: "rat \<Rightarrow> rat list \<Rightarrow> bool" where
  "spaced iv ts \<longleftrightarrow> sorted_wrt (\<lambda>a b. iv \<le> b - a) ts"

lemma spaced_Nil [simp]: "spaced iv []"
  by (simp add: spaced_def)

lemma spaced_snoc:
  assumes "0 \<le> iv" and "spaced iv ts"
  shows "(ts \<noteq> [] \<longrightarrow> iv \<le> t - last ts) \<longleftrightarrow> (\<forall>p \<in> set ts. iv \<le> t - p)"
proof (cases ts rule: rev_cases)
  case (snoc us u)
  with assms have "\<forall>p \<in> set us. iv \<le> u - p"
    by (auto simp: spaced_def sorted_wrt_append)
  with assms(1) snoc show ?thesis by fastforce
qed simp

text \<open>The limiter's state agrees with a history: the last time let through, per key.\<close>

definition rate_tracks :: "rat \<Rightarrow> (wake_key \<times> rat \<times> bool) list \<Rightarrow> rate_limiter \<Rightarrow> bool" where
  "rate_tracks iv h rl \<longleftrightarrow> rl_interval rl = Fin iv \<and>
     (\<forall>k. spaced iv (allowed_times k h) \<and>
          rl_last_allowed rl k
            = (if allowed_times k h = [] then None else Some (last (allowed_times k h))))"

lemma rate_tracks_step:
  assumes iv: "0 \<le> iv" and tr: "rate_tracks iv h rl"
    and a: "rate_allow_key k t rl = (b, rl')"
  shows "b = (\<forall>p \<in> set (allowed_times k h). iv \<le> t - p)"
    and "rate_tracks iv (h @ [(k, t, b)]) rl'"
proof -
  from tr have sp: "spaced iv (allowed_times k h)"
    and la: "rl_last_allowed rl k
      = (if allowed_times k h = [] then None else Some (last (allowed_times k h)))"
    and i: "rl_interval rl = Fin iv"
    unfolding rate_tracks_def by blast+
  show b: "b = (\<forall>p \<in> set (allowed_times k h). iv \<le> t - p)"
    using a la i spaced_snoc [OF iv sp, of t]
    by (auto simp: rate_allow_def Let_def split: if_splits)
  have "rl' = (if b then rl\<lparr>rl_last_allowed := (rl_last_allowed rl)(k \<mapsto> t)\<rparr> else rl)"
    using a by (auto simp: rate_allow_def Let_def split: option.splits if_splits)
  moreover have "b \<Longrightarrow> spaced iv (allowed_times k h @ [t])"
    using sp b by (auto simp: spaced_def sorted_wrt_append)
  ultimately show "rate_tracks iv (h @ [(k, t, b)]) rl'"
    using tr by (auto simp: rate_tracks_def simp del: split_paired_All)
qed

lemma rate_decisions_reference:
  assumes "0 \<le> iv" and "rate_tracks iv h rl"
  shows "decisions rate_allow_key rs rl = rate_reference iv h rs"
  using assms
proof (induction rs arbitrary: h rl)
  case (Cons r rs)
  obtain k t where r: "r = (k, t)" by (cases r)
  obtain b rl' where a: "rate_allow_key k t rl = (b, rl')" by (cases "rate_allow_key k t rl")
  note step = rate_tracks_step [OF Cons.prems a]
  from Cons.IH [OF Cons.prems(1) step(2)] step(1) r a show ?case
    by (simp add: Let_def)
qed simp

lemma rate_reference_spaced:
  assumes "\<And>k. spaced iv (allowed_times k h)"
  shows "spaced iv (allowed_times k (h @ rate_reference iv h rs))"
  using assms
proof (induction rs arbitrary: h)
  case (Cons r rs)
  obtain k' t where r: "r = (k', t)" by (cases r)
  let ?b = "\<forall>p \<in> set (allowed_times k' h). iv \<le> t - p"
  have "spaced iv (allowed_times j (h @ [(k', t, ?b)]))" for j
    using Cons.prems [of j] by (auto simp: spaced_def sorted_wrt_append)
  from Cons.IH [OF this] r show ?case by (simp add: Let_def)
qed simp

lemma rate_init_tracks:
  "rate_limiter_init (Fin iv) = Inr rl \<Longrightarrow> 0 \<le> iv \<and> rate_tracks iv [] rl"
  by (auto simp: rate_limiter_init_def rate_tracks_def spaced_def split: if_splits)

text \<open>
  C25: remembering one time per (port, address) is enough. A limiter made with a finite
  interval decides every run of requests exactly as the reference that checks a request
  against all the wakes let through before it.
\<close>

theorem rate_limiter_refines_reference:
  assumes "rate_limiter_init (Fin iv) = Inr rl"
  shows "decisions rate_allow_key rs rl = rate_reference iv [] rs"
  using rate_init_tracks [OF assms] rate_decisions_reference by blast

theorem rate_limiter_refines_reference_witness:
  "decisions rate_allow_key
      [((40000, ''A''), 0), ((40000, ''A''), 29), ((40001, ''A''), 29), ((40000, ''A''), 30)]
      \<lparr>rl_interval = Fin 30, rl_last_allowed = Map.empty\<rparr>
    = [((40000, ''A''), 0, True), ((40000, ''A''), 29, False),
       ((40001, ''A''), 29, True), ((40000, ''A''), 30, True)]"
proof -
  have i: "rate_limiter_init (Fin 30) = Inr \<lparr>rl_interval = Fin 30, rl_last_allowed = Map.empty\<rparr>"
    by (simp add: rate_limiter_init_def)
  show ?thesis
    unfolding rate_limiter_refines_reference [OF i] by (simp add: Let_def)
qed

text \<open>
  Whatever the requests, two wakes of the same port and address that the limiter lets
  through are at least the interval apart, and no other port or address matters: the
  decisions for a key are those of the run restricted to that key.
\<close>

theorem rate_limiter_spacing:
  assumes "rate_limiter_init (Fin iv) = Inr rl"
  shows "sorted_wrt (\<lambda>a b. iv \<le> b - a) (allowed_times k (decisions rate_allow_key rs rl))
    \<and> filter (\<lambda>(k', t, b). k' = k) (decisions rate_allow_key rs rl)
        = decisions rate_allow_key (filter (\<lambda>(k', t). k' = k) rs) rl"
proof
  have "decisions rate_allow_key rs rl = rate_reference iv [] rs"
    using rate_init_tracks [OF assms] rate_decisions_reference by blast
  then show "sorted_wrt (\<lambda>a b. iv \<le> b - a) (allowed_times k (decisions rate_allow_key rs rl))"
    using rate_reference_spaced [of iv "[]" k rs] by (simp add: spaced_def)
qed (rule wake.isolation [OF refl])

theorem rate_limiter_spacing_witness:
  "sorted_wrt (\<lambda>a b. 5 \<le> b - a)
     (allowed_times (1, ''M'') (decisions rate_allow_key [((1, ''M''), 0), ((1, ''M''), 7)]
        \<lparr>rl_interval = Fin 5, rl_last_allowed = Map.empty\<rparr>))"
proof -
  have i: "rate_limiter_init (Fin 5) = Inr \<lparr>rl_interval = Fin 5, rl_last_allowed = Map.empty\<rparr>"
    by (simp add: rate_limiter_init_def)
  show ?thesis using rate_limiter_spacing [OF i] by blast
qed

text \<open>An interval that is not a number passes the constructor and disables the limiter.\<close>

lemma rate_limiter_nan:
  "rate_limiter_init NaN = Inr \<lparr>rl_interval = NaN, rl_last_allowed = Map.empty\<rparr>"
  "rl_interval rl = NaN \<Longrightarrow> fst (rate_allow p m t rl) \<and> rl_interval (snd (rate_allow p m t rl)) = NaN"
  by (auto simp: rate_limiter_init_def rate_allow_def Let_def split: option.splits)

section \<open>LoginAttemptLimiter\<close>

record login_limiter =
  ll_limit :: nat
  ll_window :: rat
  ll_attempts :: "string \<Rightarrow> rat list"

definition login_limiter_init :: "nat \<Rightarrow> rat \<Rightarrow> login_limiter" where
  "login_limiter_init limit window_seconds =
     \<lparr>ll_limit = limit, ll_window = window_seconds, ll_attempts = (\<lambda>_. [])\<rparr>"

definition login_allow :: "string \<Rightarrow> rat \<Rightarrow> login_limiter \<Rightarrow> bool \<times> login_limiter" where
  "login_allow key now ll =
     (let cutoff = now - ll_window ll;
          attempts = dropWhile (\<lambda>a. a < cutoff) (ll_attempts ll key)
      in if ll_limit ll \<le> length attempts
         then (False, ll\<lparr>ll_attempts := (ll_attempts ll)(key := attempts)\<rparr>)
         else (True, ll\<lparr>ll_attempts := (ll_attempts ll)(key := attempts @ [now])\<rparr>))"

definition login_clear :: "string \<Rightarrow> login_limiter \<Rightarrow> login_limiter" where
  "login_clear key ll = ll\<lparr>ll_attempts := (ll_attempts ll)(key := [])\<rparr>"

interpretation login: keyed_limiter login_allow
    "\<lambda>ll k. (ll_limit ll, ll_window ll, ll_attempts ll k)"
  by unfold_locales (auto simp: login_allow_def Let_def)

text \<open>
  A run mixes attempts with the \<^verbatim>\<open>clear\<close> a successful login makes. The reference keeps
  every attempt it let through since the last clear, and counts those in the window.
\<close>

datatype login_event = Attempt string rat | Clear string

fun login_run :: "login_event list \<Rightarrow> login_limiter \<Rightarrow> bool list \<times> login_limiter" where
  "login_run [] ll = ([], ll)"
| "login_run (Attempt k t # es) ll =
     (case login_allow k t ll of (b, ll') \<Rightarrow>
        (case login_run es ll' of (bs, ll'') \<Rightarrow> (b # bs, ll'')))"
| "login_run (Clear k # es) ll = login_run es (login_clear k ll)"

definition window_count :: "rat \<Rightarrow> rat \<Rightarrow> rat list \<Rightarrow> nat" where
  "window_count w t ts = length (filter (\<lambda>a. t - w \<le> a \<and> a \<le> t) ts)"

fun login_reference :: "nat \<Rightarrow> rat \<Rightarrow> login_event list \<Rightarrow> (string \<Rightarrow> rat list)
    \<Rightarrow> bool list \<times> (string \<Rightarrow> rat list)" where
  "login_reference n w [] h = ([], h)"
| "login_reference n w (Attempt k t # es) h =
     (let b = (window_count w t (h k) < n)
      in case login_reference n w es (if b then h(k := h k @ [t]) else h) of
           (bs, h') \<Rightarrow> (b # bs, h'))"
| "login_reference n w (Clear k # es) h = login_reference n w es (h(k := []))"

text \<open>The times of the attempts in a run never decrease: the clock is monotonic.\<close>

fun event_times :: "login_event list \<Rightarrow> rat list" where
  "event_times [] = []"
| "event_times (Attempt k t # es) = t # event_times es"
| "event_times (Clear k # es) = event_times es"

lemma dropWhile_sorted:
  "sorted ts \<Longrightarrow> dropWhile (\<lambda>a. a < (c :: rat)) ts = filter (\<lambda>a. c \<le> a) ts"
proof (induction ts)
  case (Cons a ts)
  show ?case
  proof (cases "a < c")
    case True
    with Cons show ?thesis by simp
  next
    case False
    with Cons.prems have "\<forall>b \<in> set ts. c \<le> b" by force
    with False show ?thesis by simp
  qed
qed simp

text \<open>The deque of a key is its history less attempts too old to count any more.\<close>

definition login_tracks :: "rat \<Rightarrow> (string \<Rightarrow> rat list) \<Rightarrow> login_limiter \<Rightarrow> bool" where
  "login_tracks now h ll \<longleftrightarrow> 0 \<le> ll_window ll \<and>
     (\<forall>k. sorted (h k) \<and> (\<forall>a \<in> set (h k). a \<le> now) \<and>
          (\<exists>c \<le> now - ll_window ll. ll_attempts ll k = filter (\<lambda>a. c \<le> a) (h k)))"

lemma login_tracks_mono:
  assumes "login_tracks t h ll" and "t \<le> t'"
  shows "login_tracks t' h ll"
  unfolding login_tracks_def
proof (intro allI conjI)
  show "0 \<le> ll_window ll" using assms(1) by (simp add: login_tracks_def)
  fix k
  from assms(1) obtain c where "sorted (h k)" "\<forall>a \<in> set (h k). a \<le> t"
    "c \<le> t - ll_window ll" "ll_attempts ll k = filter (\<lambda>a. c \<le> a) (h k)"
    unfolding login_tracks_def by blast
  with assms(2) show "sorted (h k)" "\<forall>a \<in> set (h k). a \<le> t'"
    "\<exists>c \<le> t' - ll_window ll. ll_attempts ll k = filter (\<lambda>a. c \<le> a) (h k)"
    by (auto intro!: exI [of _ c])
qed

lemma login_tracks_pruned:
  assumes "login_tracks t h ll"
  shows "dropWhile (\<lambda>a. a < t - ll_window ll) (ll_attempts ll k)
           = filter (\<lambda>a. t - ll_window ll \<le> a) (h k)"
    and "length (filter (\<lambda>a. t - ll_window ll \<le> a) (h k)) = window_count (ll_window ll) t (h k)"
proof -
  from assms obtain c where s: "sorted (h k)" and le: "\<forall>a \<in> set (h k). a \<le> t"
    and c: "c \<le> t - ll_window ll" "ll_attempts ll k = filter (\<lambda>a. c \<le> a) (h k)"
    unfolding login_tracks_def by blast
  then show "dropWhile (\<lambda>a. a < t - ll_window ll) (ll_attempts ll k)
           = filter (\<lambda>a. t - ll_window ll \<le> a) (h k)"
    by (simp add: dropWhile_sorted sorted_filter [where f = id, simplified]) (auto intro: filter_cong)
  show "length (filter (\<lambda>a. t - ll_window ll \<le> a) (h k)) = window_count (ll_window ll) t (h k)"
    unfolding window_count_def using le by (metis (mono_tags, lifting) filter_cong)
qed

lemma login_tracks_attempt:
  assumes tr: "login_tracks t h ll" and a: "login_allow k t ll = (b, ll')"
  shows "b = (window_count (ll_window ll) t (h k) < ll_limit ll)"
    and "login_tracks t (if b then h(k := h k @ [t]) else h) ll'"
    and "ll_limit ll' = ll_limit ll \<and> ll_window ll' = ll_window ll"
proof -
  note pr = login_tracks_pruned [OF tr, of k]
  show b: "b = (window_count (ll_window ll) t (h k) < ll_limit ll)"
    using a pr by (auto simp: login_allow_def Let_def split: if_splits)
  show "ll_limit ll' = ll_limit ll \<and> ll_window ll' = ll_window ll"
    using a by (auto simp: login_allow_def Let_def split: if_splits)
  then have ll': "ll_attempts ll' = (ll_attempts ll)(k :=
      filter (\<lambda>a. t - ll_window ll \<le> a) (h k) @ (if b then [t] else []))"
    and w: "ll_window ll' = ll_window ll"
    using a pr by (auto simp: login_allow_def Let_def split: if_splits)
  have w0: "0 \<le> ll_window ll" using tr by (simp add: login_tracks_def)
  show "login_tracks t (if b then h(k := h k @ [t]) else h) ll'"
    unfolding login_tracks_def
  proof (intro conjI allI)
    show "0 \<le> ll_window ll'" using w w0 by simp
    fix j
    from tr obtain c where c: "sorted (h j)" "\<forall>a \<in> set (h j). a \<le> t"
      "c \<le> t - ll_window ll" "ll_attempts ll j = filter (\<lambda>a. c \<le> a) (h j)"
      unfolding login_tracks_def by blast
    show "sorted ((if b then h(k := h k @ [t]) else h) j)"
      and "\<forall>a \<in> set ((if b then h(k := h k @ [t]) else h) j). a \<le> t"
      using c by (auto simp: sorted_append)
    show "\<exists>c \<le> t - ll_window ll'.
       ll_attempts ll' j = filter (\<lambda>a. c \<le> a) ((if b then h(k := h k @ [t]) else h) j)"
    proof (cases "j = k")
      case True
      with ll' w w0 show ?thesis by (auto intro!: exI [of _ "t - ll_window ll"])
    next
      case False
      with ll' w c show ?thesis by auto
    qed
  qed
qed

lemma login_tracks_clear:
  "login_tracks t h ll \<Longrightarrow> login_tracks t (h(k := [])) (login_clear k ll)"
  by (auto simp: login_tracks_def login_clear_def)

lemma login_run_reference:
  assumes "login_tracks t0 h ll" and "sorted (t0 # event_times es)"
  shows "fst (login_run es ll) = fst (login_reference (ll_limit ll) (ll_window ll) es h)"
  using assms
proof (induction es ll arbitrary: h t0 rule: login_run.induct)
  case (2 k t es ll)
  obtain b ll' where a: "login_allow k t ll = (b, ll')" by (cases "login_allow k t ll")
  have "login_tracks t h ll"
    using "2.prems" by (auto intro: login_tracks_mono)
  note step = login_tracks_attempt [OF this a]
  from "2.IH" [OF a [symmetric] step(2)] "2.prems"(2) step(1,3) a show ?case
    by (auto simp: Let_def split: prod.splits)
next
  case (3 k es ll)
  from "3.IH" [OF login_tracks_clear [OF "3.prems"(1)]] "3.prems"(2) show ?case
    by (simp add: login_clear_def fun_upd_def)
qed simp

text \<open>Within one span between clears no window holds more attempts than the limit.\<close>

definition window_bounded :: "nat \<Rightarrow> rat \<Rightarrow> (string \<Rightarrow> rat list) \<Rightarrow> bool" where
  "window_bounded n w h \<longleftrightarrow> (\<forall>k t. window_count w t (h k) \<le> n)"

lemma window_count_snoc:
  assumes "0 \<le> w" and "\<forall>a \<in> set ts. a \<le> t" and "window_count w t ts < n"
    and "\<forall>u. window_count w u ts \<le> n"
  shows "window_count w u (ts @ [t]) \<le> n"
proof (cases "u - w \<le> t \<and> t \<le> u")
  case True
  then have "window_count w u ts \<le> window_count w t ts"
    using assms(1,2) unfolding window_count_def length_filter_conv_card
    by (intro card_mono) (auto simp: all_set_conv_all_nth)
  with assms(3) True show ?thesis by (simp add: window_count_def)
next
  case False
  then have "window_count w u (ts @ [t]) = window_count w u ts"
    by (auto simp: window_count_def)
  with assms(4) show ?thesis by simp
qed

lemma login_reference_bounded:
  assumes "0 \<le> w" and "window_bounded n w h" and "\<forall>k. \<forall>a \<in> set (h k). a \<le> t0"
    and "sorted (t0 # event_times es)"
  shows "window_bounded n w (snd (login_reference n w es h))"
  using assms(2-)
proof (induction es arbitrary: h t0)
  case (Cons e es)
  show ?case
  proof (cases e)
    case (Attempt k t)
    let ?b = "window_count w t (h k) < n"
    let ?h = "if ?b then h(k := h k @ [t]) else h"
    have le: "\<forall>j. \<forall>a \<in> set (h j). a \<le> t"
      using Cons.prems Attempt by force
    have "window_bounded n w ?h"
      using Cons.prems(1) window_count_snoc [OF assms(1) spec [OF le], of k n]
      by (auto simp: window_bounded_def)
    moreover have "\<forall>j. \<forall>a \<in> set (?h j). a \<le> t" using le by auto
    moreover have "sorted (t # event_times es)" using Cons.prems(3) Attempt by simp
    ultimately have "window_bounded n w (snd (login_reference n w es ?h))"
      by (rule Cons.IH)
    with Attempt show ?thesis by (auto simp: Let_def split: prod.splits)
  next
    case (Clear k)
    have "window_bounded n w (h(k := []))"
      using Cons.prems(1) by (simp add: window_bounded_def window_count_def)
    with Cons.prems Cons.IH [of "h(k := [])" t0] Clear show ?thesis
      by (simp add: fun_upd_def)
  qed
qed simp



end
