(* ===== verification/Headless_Listener.thy ===== *)
theory Headless_Listener
  imports Fortigate Rate_Limit "HOL-Library.Sublist"
begin

text \<open>
  The headless translator: \<^verbatim>\<open>UDPListener\<close> of \<^verbatim>\<open>app/listener.py\<close> and \<^verbatim>\<open>main\<close> of
  \<^verbatim>\<open>app/main.py\<close>. A listener's run is driven by what its socket delivers, one value of
  \<open>socket_input\<close> per turn of the loop; it writes a log and an SSH trace. The limiter is the
  state that all listeners share.
\<close>

datatype log_event =
    ListenerStarted int
  | ListenerStopped int
  | ListenerSocketError int
  | ListenerRequestError int
  | ListenerBindFailed int
  | WolRejectedSource string int
  | WolRejectedPacket string int nat
  | WolReceived string int int string string string
  | WolRateLimited string int
  | FortigateSuccess string string
  | FortigateFailed string string string

record udp_listener =
  ul_port :: int
  ul_mapping :: interface_mapping
  ul_allowed_ip :: string
  ul_settings :: settings

text \<open>
  One turn of the loop: the stop event is set, or the socket times out, fails (the flag
  says whether the stop event is set by then), or delivers a datagram, read at time
  \<open>now\<close> and served with the SSH library as it behaves then.
\<close>

datatype 'k socket_input =
    StopSet
  | RecvTimeout
  | RecvError bool
  | Datagram "byte list" string int rat "'k ssh"

section \<open>One datagram\<close>

definition handle :: "udp_listener \<Rightarrow> byte list \<Rightarrow> string \<Rightarrow> int \<Rightarrow> rat \<Rightarrow> 'k ssh \<Rightarrow> rate_limiter
    \<Rightarrow> (exn + unit) \<times> log_event list \<times> ssh_event list \<times> rate_limiter" where
  "handle ul data source_ip source_port now ssh rl =
     (if source_ip \<noteq> ul_allowed_ip ul
      then (Inr (), [WolRejectedSource source_ip (ul_port ul)], [], rl)
      else case parse_magic_packet data of
        Inl (InvalidMagicPacketError _) \<Rightarrow>
          (Inr (), [WolRejectedPacket source_ip (ul_port ul) (length data)], [], rl)
      | Inl e \<Rightarrow> (Inl e, [], [], rl)
      | Inr packet \<Rightarrow>
          (let mac = mac_address packet;
               interface = im_interface (ul_mapping ul);
               gateway = im_gateway_ip (ul_mapping ul);
               received = WolReceived source_ip source_port (ul_port ul) mac interface gateway
           in case rate_allow (ul_port ul) mac now rl of
                (False, rl') \<Rightarrow> (Inr (), [received, WolRateLimited mac (ul_port ul)], [], rl')
              | (True, rl') \<Rightarrow>
                  (case execute_wol ssh (ul_settings ul) interface mac gateway of
                     (Inr _, tr) \<Rightarrow> (Inr (), [received, FortigateSuccess mac interface], tr, rl')
                   | (Inl (FortiGateError reason), tr) \<Rightarrow>
                       (Inr (), [received, FortigateFailed mac interface reason], tr, rl')
                   | (Inl e, tr) \<Rightarrow> (Inl e, [received], tr, rl'))))"

section \<open>The loop\<close>

fun listener_loop :: "udp_listener \<Rightarrow> 'k socket_input list \<Rightarrow> rate_limiter
    \<Rightarrow> log_event list \<times> ssh_event list \<times> rate_limiter" where
  "listener_loop ul [] rl = ([], [], rl)"
| "listener_loop ul (StopSet # ins) rl = ([], [], rl)"
| "listener_loop ul (RecvTimeout # ins) rl = listener_loop ul ins rl"
| "listener_loop ul (RecvError stop # ins) rl =
     (case listener_loop ul ins rl of (lg, tr, rl') \<Rightarrow>
        ((if stop then lg else ListenerSocketError (ul_port ul) # lg), tr, rl'))"
| "listener_loop ul (Datagram data ip sport now ssh # ins) rl =
     (case handle ul data ip sport now ssh rl of (r, lg, tr, rl') \<Rightarrow>
        (let lg' = (case r of Inr _ \<Rightarrow> lg
                    | Inl (NetError NetTimeout) \<Rightarrow> lg
                    | Inl (NetError _) \<Rightarrow> lg @ [ListenerSocketError (ul_port ul)]
                    | Inl _ \<Rightarrow> lg @ [ListenerRequestError (ul_port ul)])
         in case listener_loop ul ins rl' of (lg2, tr2, rl2) \<Rightarrow> (lg' @ lg2, tr @ tr2, rl2)))"

text \<open>\<open>bound\<close> says whether the socket opened and bound to the port.\<close>

definition listener_run :: "udp_listener \<Rightarrow> bool \<Rightarrow> 'k socket_input list \<Rightarrow> rate_limiter
    \<Rightarrow> log_event list \<times> ssh_event list \<times> rate_limiter" where
  "listener_run ul bound ins rl =
     (if \<not> bound then ([ListenerBindFailed (ul_port ul), ListenerStopped (ul_port ul)], [], rl)
      else case listener_loop ul ins rl of (lg, tr, rl') \<Rightarrow>
        (ListenerStarted (ul_port ul) # lg @ [ListenerStopped (ul_port ul)], tr, rl'))"

section \<open>The program\<close>

text \<open>
  \<^verbatim>\<open>main\<close> up to the start of the threads: the exit status 1 with the detail it logs, or
  the limiter and one listener per mapping.
\<close>

definition headless_main :: "environ \<Rightarrow> (json \<Rightarrow> string) \<Rightarrow> (yval \<Rightarrow> string) \<Rightarrow> (string \<Rightarrow> string + ynode)
    \<Rightarrow> exn + ((int \<times> string) + (rate_limiter \<times> udp_listener list))" where
  "headless_main env repr vrepr read_yaml =
     (case res_bind (load_settings env) (\<lambda>st.
           res_bind (load_mappings repr vrepr (read_yaml (mapping_file st))) (\<lambda>ms. Inr (st, ms))) of
        Inl (ConfigError detail) \<Rightarrow> Inr (Inl (1, detail))
      | Inl e \<Rightarrow> Inl e
      | Inr (st, ms) \<Rightarrow>
          res_bind (rate_limiter_init (wol_rate_limit_seconds st)) (\<lambda>rl.
            Inr (Inr (rl, map (\<lambda>(port, im). \<lparr>ul_port = port, ul_mapping = im,
                     ul_allowed_ip = guacamole_allowed_ip st, ul_settings = st\<rparr>) ms))))"

definition headless_exit :: "bool \<Rightarrow> int" where
  "headless_exit stop_set = (if stop_set then 0 else 1)"

section \<open>What a run does\<close>

text \<open>The requests a run lets through to the FortiGate, with their decisions.\<close>

fun loop_requests :: "udp_listener \<Rightarrow> 'k socket_input list \<Rightarrow> (wake_key \<times> rat) list" where
  "loop_requests ul [] = []"
| "loop_requests ul (StopSet # ins) = []"
| "loop_requests ul (Datagram data ip sport now ssh # ins) =
     (case parse_magic_packet data of
        Inr p \<Rightarrow> if ip = ul_allowed_ip ul then ((ul_port ul, mac_address p), now) # loop_requests ul ins
                 else loop_requests ul ins
      | Inl e \<Rightarrow> loop_requests ul ins)"
| "loop_requests ul (_ # ins) = loop_requests ul ins"

definition wake_command :: "udp_listener \<Rightarrow> string \<Rightarrow> string" where
  "wake_command ul mac =
     (case build_wol_command (im_interface (ul_mapping ul)) mac (im_gateway_ip (ul_mapping ul)) of
        Inr c \<Rightarrow> c | Inl e \<Rightarrow> [])"

lemma parse_magic_packet_Inl:
  "parse_magic_packet data = Inl e \<Longrightarrow> \<exists>m. e = InvalidMagicPacketError m"
  by (auto simp: parse_magic_packet_def Let_def split: if_splits)

text \<open>
  One datagram: it reaches the FortiGate only from the allowed address, with a valid packet
  and the limiter's consent, and then sends at most the one command of its mapping.
\<close>

lemma handle_cases:
  assumes "handle ul data ip sport now ssh rl = (r, lg, tr, rl')" and "mapping_ok (ul_mapping ul)"
  shows "(r, tr, rl') = (Inr (), [], rl)
      \<and> \<not> (\<exists>p. parse_magic_packet data = Inr p \<and> ip = ul_allowed_ip ul)
    \<or> (\<exists>p b. parse_magic_packet data = Inr p \<and> ip = ul_allowed_ip ul \<and> r = Inr ()
        \<and> rate_allow (ul_port ul) (mac_address p) now rl = (b, rl') \<and> closed_trace tr
        \<and> (commands tr = [] \<or> b \<and> commands tr = [wake_command ul (mac_address p)]))"
proof (cases "\<exists>p. parse_magic_packet data = Inr p \<and> ip = ul_allowed_ip ul")
  case False
  with assms(1) show ?thesis
    by (auto simp: handle_def split: if_splits sum.splits dest: parse_magic_packet_Inl)
next
  case True
  then obtain p where p: "parse_magic_packet data = Inr p" and ip: "ip = ul_allowed_ip ul" by blast
  obtain b rl1 where allow: "rate_allow (ul_port ul) (mac_address p) now rl = (b, rl1)"
    by (cases "rate_allow (ul_port ul) (mac_address p) now rl")
  obtain r1 tr1 where ex: "execute_wol ssh (ul_settings ul) (im_interface (ul_mapping ul))
      (mac_address p) (im_gateway_ip (ul_mapping ul)) = (r1, tr1)"
    by fastforce
  from build_wol_command_total [OF assms(2) p] obtain c where
    c: "build_wol_command (im_interface (ul_mapping ul)) (mac_address p)
          (im_gateway_ip (ul_mapping ul)) = Inr c" by blast
  have err: "r1 = Inr () \<or> (\<exists>m. r1 = Inl (FortiGateError m))"
    using ex c by (auto simp: execute_wol_def client_connect_def execute_command_def Let_def
        split: sum.splits if_splits prod.splits)
  have "rl' = rl1 \<and> r = Inr () \<and> tr = (if b then tr1 else [])"
    using assms(1) p ip allow ex err by (cases b) (auto simp: handle_def Let_def)
  moreover have "closed_trace (if b then tr1 else [])"
    "commands (if b then tr1 else []) = [] \<or>
       b \<and> commands (if b then tr1 else []) = [wake_command ul (mac_address p)]"
    using execute_wol_trace [OF ex] c by (auto simp: wake_command_def closed_trace_def)
  ultimately show ?thesis using p ip allow by blast
qed

text \<open>The commands of the requests the limiter lets through, in order.\<close>

definition permitted_commands :: "udp_listener \<Rightarrow> (wake_key \<times> rat) list \<Rightarrow> rate_limiter \<Rightarrow> string list" where
  "permitted_commands ul rs rl =
     map (\<lambda>((port, mac), t, b). wake_command ul mac)
       (filter (\<lambda>(k, t, b). b) (decisions rate_allow_key rs rl))"

lemma permitted_commands_simps:
  "permitted_commands ul [] rl = []"
  "rate_allow port mac t rl = (b, rl') \<Longrightarrow>
     permitted_commands ul (((port, mac), t) # rs) rl
       = (if b then [wake_command ul mac] else []) @ permitted_commands ul rs rl'"
  by (simp_all add: permitted_commands_def)

lemma loop_commands:
  assumes "mapping_ok (ul_mapping ul)" and "listener_loop ul ins rl = (lg, tr, rl')"
  shows "subseq (commands tr) (permitted_commands ul (loop_requests ul ins) rl)"
  using assms
proof (induction ul ins rl arbitrary: lg tr rl' rule: listener_loop.induct)
  case (4 stop ins rl)
  then show ?case by (auto split: prod.splits)
next
  case (5 ul data ip sport now ssh ins rl)
  obtain r lg1 tr1 rl1 where h: "handle ul data ip sport now ssh rl = (r, lg1, tr1, rl1)"
    by (metis prod_cases4)
  obtain lg2 tr2 rl2 where l: "listener_loop ul ins rl1 = (lg2, tr2, rl2)"
    by (metis prod_cases3)
  from "5.prems"(2) h l have tr: "tr = tr1 @ tr2" by (auto simp: Let_def)
  have IH: "subseq (commands tr2) (permitted_commands ul (loop_requests ul ins) rl1)"
    using "5.IH" [OF h [symmetric] refl refl refl "5.prems"(1) l] .
  from handle_cases [OF h "5.prems"(1)] show ?case
    using tr IH by (elim disjE exE conjE) (auto simp: permitted_commands_simps list_emb_append_mono
        split: sum.splits)
qed (simp_all add: permitted_commands_simps)

lemma headless_main_ok:
  assumes "headless_main env repr vrepr read_yaml = Inr (Inr (rl, uls))"
  obtains st ms where "load_settings env = Inr st"
    and "load_mappings repr vrepr (read_yaml (mapping_file st)) = Inr ms"
    and "rate_limiter_init (wol_rate_limit_seconds st) = Inr rl"
    and "uls = map (\<lambda>(port, im). \<lparr>ul_port = port, ul_mapping = im,
                 ul_allowed_ip = guacamole_allowed_ip st, ul_settings = st\<rparr>) ms"
proof (cases "res_bind (load_settings env) (\<lambda>st.
    res_bind (load_mappings repr vrepr (read_yaml (mapping_file st))) (\<lambda>ms. Inr (st, ms)))")
  case (Inl e)
  with assms show ?thesis by (cases e) (auto simp: headless_main_def)
next
  case (Inr sm)
  with assms show ?thesis
    by (cases sm) (auto simp: headless_main_def res_simps intro: that)
qed

text \<open>
  C23: the translator that starts has at least one listener, one per port, all within
  1024..65535. Whatever a listener's socket delivers and whatever the SSH library does, the
  commands it sends are, in order, among the commands of its own mapping for the valid
  packets from the allowed address that the limiter let through: no other datagram reaches
  the FortiGate, and none twice.
\<close>

theorem headless_listener_commands:
  assumes "headless_main env repr vrepr read_yaml = Inr (Inr (rl, uls))" and "ul \<in> set uls"
  shows "distinct (map ul_port uls) \<and> 1024 \<le> ul_port ul \<and> ul_port ul \<le> 65535
    \<and> subseq (commands (fst (snd (listener_run ul bound ins rl'))))
        (permitted_commands ul (loop_requests ul ins) rl')"
proof -
  from assms(1) obtain st ms where "load_settings env = Inr st"
    and ms: "load_mappings repr vrepr (read_yaml (mapping_file st)) = Inr ms"
    and uls: "uls = map (\<lambda>(port, im). \<lparr>ul_port = port, ul_mapping = im,
                 ul_allowed_ip = guacamole_allowed_ip st, ul_settings = st\<rparr>) ms"
    by (rule headless_main_ok)
  have "map ul_port uls = map fst ms" by (auto simp: uls)
  with load_mappings_nonempty_ok [OF ms] have "distinct (map ul_port uls)"
    by (simp add: mappings_ok_def)
  moreover have ports: "1024 \<le> ul_port ul" "ul_port ul \<le> 65535"
    and ok: "mapping_ok (ul_mapping ul)"
    using load_mappings_nonempty_ok [OF ms] assms(2) by (auto simp: mappings_ok_def uls)
  moreover obtain lg tr rl2 where l: "listener_loop ul ins rl' = (lg, tr, rl2)"
    by (metis prod_cases3)
  ultimately show ?thesis
    using loop_commands [OF ok l] l by (simp add: listener_run_def)
qed

definition sample_listener :: udp_listener where
  "sample_listener = \<lparr>ul_port = 40001,
     ul_mapping = \<lparr>im_interface = ''vlan10'', im_gateway_ip = ''10.0.0.1''\<rparr>,
     ul_allowed_ip = ''10.0.0.9'', ul_settings = sample_settings (Fin 30)\<rparr>"

lemma sample_listener_fields:
  "ul_port sample_listener = 40001" "ul_allowed_ip sample_listener = ''10.0.0.9''"
  by (simp_all add: sample_listener_def)

lemma sample_main:
  "headless_main (sample_environ ''30'') repr vrepr (\<lambda>_. Inr sample_mapping_file)
     = Inr (Inr (\<lparr>rl_interval = Fin 30, rl_last_allowed = Map.empty\<rparr>, [sample_listener]))"
  by (simp add: headless_main_def load_sample_settings [OF sample_numbers(3)] load_sample_mappings
      rate_limiter_init_def sample_listener_def)
    (simp add: sample_settings_def)

definition sample_packet :: "byte list" where
  "sample_packet = sync_stream @ bytes_times [0, 0, 0, 0, 0, 0] 16"

lemma parse_sample_packet:
  "parse_magic_packet sample_packet
     = Inr \<lparr>mac_address = mac_str [0, 0, 0, 0, 0, 0], packet_length = 102\<rparr>"
  unfolding sample_packet_def by (rule parse_build) simp

definition quiet_ssh :: "unit ssh" where
  "quiet_ssh = \<lparr>ssh_load_host_keys = (\<lambda>_. Inr []), ssh_connect = (\<lambda>_ _ _ _ _ _. Inr ()),
     ssh_exec = (\<lambda>_ _. Inr (0, ''.''))\<rparr>"

theorem headless_listener_commands_witness:
  "subseq (commands (fst (snd (listener_run sample_listener True
      [RecvTimeout, Datagram sample_packet ''10.0.0.9'' 5 0 quiet_ssh,
       Datagram sample_packet ''10.0.0.9'' 5 29 quiet_ssh, StopSet]
      \<lparr>rl_interval = Fin 30, rl_last_allowed = Map.empty\<rparr>))))
    [wake_command sample_listener (mac_str [0, 0, 0, 0, 0, 0])]"
  using headless_listener_commands [OF sample_main, of sample_listener True
      "[RecvTimeout, Datagram sample_packet ''10.0.0.9'' 5 0 quiet_ssh,
        Datagram sample_packet ''10.0.0.9'' 5 29 quiet_ssh, StopSet]"
      "\<lparr>rl_interval = Fin 30, rl_last_allowed = Map.empty\<rparr>"]
  by (simp add: permitted_commands_def parse_sample_packet rate_allow_def sample_listener_fields)

end
