(* ===== verification/Json_Text.thy ===== *)
theory Json_Text
  imports Py_Values "HOL-Library.Char_ord" "HOL-Library.List_Lexorder"
begin

text \<open>
  \<^verbatim>\<open>json.dumps\<close> and \<^verbatim>\<open>json.loads\<close>, by which the cipher and the host agent store and
  exchange documents. Printing escapes everything outside printable ASCII. The parser follows
  the standard library's scanner, with fuel for the nesting; an escape of a code point above
  255 is outside the model's characters and is refused. The main fact is
  \<open>json_roundtrip\<close>: a document without floats reads back as itself.
\<close>

section \<open>Printing\<close>

definition quote :: char where "quote = CHR 0x22"
definition backslash :: char where "backslash = CHR 0x5C"

definition hexd :: "nat \<Rightarrow> char" where
  "hexd d = char_of (if d < 10 then 48 + d else 87 + d)"

definition esc_char :: "char \<Rightarrow> string" where
  "esc_char c =
     (if c = quote then [backslash, quote]
      else if c = backslash then [backslash, backslash]
      else if code c = 10 then [backslash, CHR ''n'']
      else if code c = 13 then [backslash, CHR ''r'']
      else if code c = 9 then [backslash, CHR ''t'']
      else if code c = 12 then [backslash, CHR ''f'']
      else if code c = 8 then [backslash, CHR ''b'']
      else if code c < 32 \<or> 126 < code c
      then [backslash, CHR ''u'', CHR ''0'', CHR ''0'', hexd (code c div 16), hexd (code c mod 16)]
      else [c])"

definition esc_str :: "string \<Rightarrow> string" where
  "esc_str s = quote # concat (map esc_char s) @ [quote]"

text \<open>\<open>isep\<close> and \<open>ksep\<close> are the separators between items and after a key.\<close>

fun json_dumps :: "(json \<Rightarrow> string) \<Rightarrow> string \<Rightarrow> string \<Rightarrow> json \<Rightarrow> string" where
  "json_dumps repr isep ksep JNull = ''null''"
| "json_dumps repr isep ksep (JBool b) = (if b then ''true'' else ''false'')"
| "json_dumps repr isep ksep (JInt i) = int_str i"
| "json_dumps repr isep ksep (JFloat f) = repr (JFloat f)"
| "json_dumps repr isep ksep (JStr s) = esc_str s"
| "json_dumps repr isep ksep (JList xs) =
     ''['' @ py_join isep (map (json_dumps repr isep ksep) xs) @ '']''"
| "json_dumps repr isep ksep (JObj d) =
     ''{'' @ py_join isep (map (\<lambda>(k, v). esc_str k @ ksep @ json_dumps repr isep ksep v) d) @ ''}''"

text \<open>The option \<^verbatim>\<open>sort_keys=True\<close>: every object's keys in order.\<close>

fun json_sort :: "json \<Rightarrow> json" where
  "json_sort (JList xs) = JList (map json_sort xs)"
| "json_sort (JObj d) = JObj (sort_key fst (map (\<lambda>(k, v). (k, json_sort v)) d))"
| "json_sort v = v"

section \<open>Parsing\<close>

definition json_ws :: "char \<Rightarrow> bool" where
  "json_ws c \<longleftrightarrow> code c \<in> {32, 9, 10, 13}"

definition skip_ws :: "string \<Rightarrow> string" where
  "skip_ws s = dropWhile json_ws s"

definition hexd_val :: "char \<Rightarrow> nat option" where
  "hexd_val c =
     (if is_digit c then Some (code c - 48)
      else if 65 \<le> code c \<and> code c \<le> 70 then Some (code c - 55)
      else if 97 \<le> code c \<and> code c \<le> 102 then Some (code c - 87) else None)"

definition unesc :: "char \<Rightarrow> char option" where
  "unesc e =
     (if e = quote \<or> e = backslash \<or> e = CHR ''/'' then Some e
      else if e = CHR ''n'' then Some (char_of (10 :: nat))
      else if e = CHR ''r'' then Some (char_of (13 :: nat))
      else if e = CHR ''t'' then Some (char_of (9 :: nat))
      else if e = CHR ''f'' then Some (char_of (12 :: nat))
      else if e = CHR ''b'' then Some (char_of (8 :: nat)) else None)"

definition prepend :: "char \<Rightarrow> (string \<times> string) option \<Rightarrow> (string \<times> string) option" where
  "prepend c r = map_option (\<lambda>(s, rest). (c # s, rest)) r"

text \<open>The text of a string after its opening quote.\<close>

fun scan_str :: "string \<Rightarrow> (string \<times> string) option" where
  "scan_str [] = None"
| "scan_str (c # s) =
     (if c = quote then Some ([], s)
      else if c = backslash
      then (case s of
          [] \<Rightarrow> None
        | e # t \<Rightarrow>
            if e = CHR ''u''
            then (case t of
                w # x # y # z # u \<Rightarrow>
                  (case (hexd_val w, hexd_val x, hexd_val y, hexd_val z) of
                     (Some a, Some b, Some c, Some d) \<Rightarrow>
                       (let n = ((a * 16 + b) * 16 + c) * 16 + d
                        in if n < 256 then prepend (char_of n) (scan_str u) else None)
                   | _ \<Rightarrow> None)
              | _ \<Rightarrow> None)
            else (case unesc e of Some ch \<Rightarrow> prepend ch (scan_str t) | None \<Rightarrow> None))
      else if code c < 32 then None
      else prepend c (scan_str s))"

declare scan_str.simps(2) [simp del]

text \<open>The number pattern: an integer part, and optionally a fraction and an exponent.\<close>

definition scan_frac :: "string \<Rightarrow> string \<times> string" where
  "scan_frac s =
     (case s of c # t \<Rightarrow>
        (let ds = takeWhile is_digit t
         in if c = CHR ''.'' \<and> ds \<noteq> [] then (c # ds, dropWhile is_digit t) else ([], s))
      | [] \<Rightarrow> ([], []))"

definition scan_exp :: "string \<Rightarrow> string \<times> string" where
  "scan_exp s =
     (case s of c # t \<Rightarrow>
        (let sign = (if t \<noteq> [] \<and> (hd t = CHR ''-'' \<or> hd t = CHR ''+'') then [hd t] else []);
             u = drop (length sign) t; ds = takeWhile is_digit u
         in if (c = CHR ''e'' \<or> c = CHR ''E'') \<and> ds \<noteq> [] then (c # sign @ ds, dropWhile is_digit u)
            else ([], s))
      | [] \<Rightarrow> ([], []))"

definition int_part :: "string \<Rightarrow> string" where
  "int_part t = (if t \<noteq> [] \<and> hd t = CHR ''0'' then ''0'' else takeWhile is_digit t)"

definition scan_num :: "string \<Rightarrow> (json \<times> string) option" where
  "scan_num s =
     (let neg = (s \<noteq> [] \<and> hd s = CHR ''-'');
          t = (if neg then tl s else s);
          ds = int_part t;
          rest = drop (length ds) t
      in if ds = [] then None
         else (case scan_frac rest of (fr, rest1) \<Rightarrow>
           (case scan_exp rest1 of (ex, rest2) \<Rightarrow>
              if fr = [] \<and> ex = []
              then Some (JInt (if neg then - int (dec_val ds) else int (dec_val ds)), rest2)
              else map_option (\<lambda>f. (JFloat f, rest2))
                     (py_float ((if neg then ''-'' else []) @ ds @ fr @ ex)))))"

definition scan_word :: "string \<Rightarrow> (json \<times> string) option" where
  "scan_word s =
     (if starts_with ''null'' s then Some (JNull, drop 4 s)
      else if starts_with ''true'' s then Some (JBool True, drop 4 s)
      else if starts_with ''false'' s then Some (JBool False, drop 5 s)
      else case scan_num s of
          Some r \<Rightarrow> Some r
        | None \<Rightarrow>
            if starts_with ''NaN'' s then Some (JFloat NaN, drop 3 s)
            else if starts_with ''Infinity'' s then Some (JFloat PInf, drop 8 s)
            else if starts_with ''-Infinity'' s then Some (JFloat NInf, drop 9 s)
            else None)"

fun json_value :: "nat \<Rightarrow> string \<Rightarrow> (json \<times> string) option"
  and json_items :: "nat \<Rightarrow> string \<Rightarrow> (json list \<times> string) option"
  and json_pairs :: "nat \<Rightarrow> string \<Rightarrow> (dict \<times> string) option" where
  "json_value 0 s = None"
| "json_value (Suc n) [] = None"
| "json_value (Suc n) (c # s) =
     (if c = quote then map_option (\<lambda>(t, r). (JStr t, r)) (scan_str s)
      else if c = CHR ''{''
      then (case skip_ws s of
          d # r \<Rightarrow> if d = CHR ''}'' then Some (JObj [], r)
                   else map_option (\<lambda>(ps, r). (JObj (foldl (\<lambda>m (k, v). dict_set m k v) [] ps), r))
                          (json_pairs n (d # r))
        | [] \<Rightarrow> None)
      else if c = CHR ''[''
      then (case skip_ws s of
          d # r \<Rightarrow> if d = CHR '']'' then Some (JList [], r)
                   else map_option (\<lambda>(vs, r). (JList vs, r)) (json_items n (d # r))
        | [] \<Rightarrow> None)
      else scan_word (c # s))"
| "json_items 0 s = None"
| "json_items (Suc n) s =
     (case json_value n s of
        None \<Rightarrow> None
      | Some (v, r) \<Rightarrow>
          (case skip_ws r of
             [] \<Rightarrow> None
           | d # t \<Rightarrow>
               if d = CHR '']'' then Some ([v], t)
               else if d = CHR '','' then map_option (\<lambda>(vs, u). (v # vs, u)) (json_items n (skip_ws t))
               else None))"
| "json_pairs 0 s = None"
| "json_pairs (Suc n) s =
     (case s of
        [] \<Rightarrow> None
      | q # s1 \<Rightarrow>
          if q \<noteq> quote then None
          else (case scan_str s1 of
              None \<Rightarrow> None
            | Some (k, s2) \<Rightarrow>
                (case skip_ws s2 of
                   [] \<Rightarrow> None
                 | col # s3 \<Rightarrow>
                     if col \<noteq> CHR '':'' then None
                     else (case json_value n (skip_ws s3) of
                         None \<Rightarrow> None
                       | Some (v, s4) \<Rightarrow>
                           (case skip_ws s4 of
                              [] \<Rightarrow> None
                            | d # t \<Rightarrow>
                                if d = CHR ''}'' then Some ([(k, v)], t)
                                else if d = CHR '',''
                                then map_option (\<lambda>(ps, u). ((k, v) # ps, u)) (json_pairs n (skip_ws t))
                                else None)))))"

definition json_loads :: "string \<Rightarrow> json option" where
  "json_loads s =
     (case json_value (Suc (length s)) (skip_ws s) of
        Some (v, r) \<Rightarrow> if skip_ws r = [] then Some v else None
      | None \<Rightarrow> None)"

section \<open>Reading back strings\<close>

lemma quote_chars [simp]: "quote \<noteq> backslash" "backslash \<noteq> quote" "code quote = 34" "code backslash = 92"
  by (simp_all add: quote_def backslash_def)

lemma hexd_val_hexd [simp]: "d < 16 \<Longrightarrow> hexd_val (hexd d) = Some d"
  by (auto simp: hexd_def hexd_val_def is_digit_def of_char_of)

lemma code_bound: "code c < 256"
  by (rule nat_of_char_less_256)

lemma scan_str_plain:
  "c \<noteq> quote \<Longrightarrow> c \<noteq> backslash \<Longrightarrow> \<not> code c < 32 \<Longrightarrow> scan_str (c # s) = prepend c (scan_str s)"
  by (simp add: scan_str.simps(2))

lemma scan_str_esc:
  "e \<noteq> CHR ''u'' \<Longrightarrow> unesc e = Some ch \<Longrightarrow> scan_str (backslash # e # s) = prepend ch (scan_str s)"
  by (simp add: scan_str.simps(2))

lemma scan_str_u:
  "x < 16 \<Longrightarrow> y < 16 \<Longrightarrow>
     scan_str (backslash # CHR ''u'' # CHR ''0'' # CHR ''0'' # hexd x # hexd y # s)
       = prepend (char_of (x * 16 + y)) (scan_str s)"
proof -
  assume xy: "x < 16" "y < 16"
  have "hexd_val (CHR ''0'') = Some 0" by (simp add: hexd_val_def is_digit_def)
  moreover have "x * 16 + y < 256" using xy by linarith
  ultimately show ?thesis using xy by (simp add: scan_str.simps(2) Let_def)
qed

lemma unesc_simps:
  "unesc quote = Some quote" "unesc backslash = Some backslash"
  "unesc (CHR ''n'') = Some (char_of (10 :: nat))" "unesc (CHR ''r'') = Some (char_of (13 :: nat))"
  "unesc (CHR ''t'') = Some (char_of (9 :: nat))" "unesc (CHR ''f'') = Some (char_of (12 :: nat))"
  "unesc (CHR ''b'') = Some (char_of (8 :: nat))"
  by (simp_all add: unesc_def quote_def backslash_def)

lemma quote_not_u: "quote \<noteq> CHR ''u''" "backslash \<noteq> CHR ''u''"
  by (simp_all add: quote_def backslash_def)

lemma char_of_code_eq: "code c = n \<Longrightarrow> char_of n = c"
  by auto

lemma scan_esc_char: "scan_str (esc_char c @ s) = prepend c (scan_str s)"
proof -
  have "code c div 16 < 16" using code_bound [of c] by (simp add: less_mult_imp_div_less)
  then have "scan_str (backslash # CHR ''u'' # CHR ''0'' # CHR ''0'' # hexd (code c div 16) # hexd (code c mod 16) # s)
      = prepend c (scan_str s)"
    using scan_str_u [of "code c div 16" "code c mod 16" s] by simp
  then show ?thesis
    by (auto simp: esc_char_def scan_str_esc unesc_simps quote_not_u char_of_code_eq
        intro!: scan_str_plain)
qed

lemma scan_esc_str: "scan_str (concat (map esc_char s) @ quote # r) = Some (s, r)"
proof (induction s)
  case Nil
  then show ?case by (simp add: scan_str.simps(2))
next
  case (Cons c s)
  then show ?case using scan_esc_char [of c "concat (map esc_char s) @ quote # r"]
    by (simp add: prepend_def)
qed

section \<open>Reading back numbers and words\<close>

definition stops :: "string \<Rightarrow> bool" where
  "stops r \<longleftrightarrow> r = [] \<or> hd r \<in> set '',]}''"

lemma stops_simps [simp]: "stops []" "stops (CHR '','' # r)" "stops (CHR '']'' # r)" "stops (CHR ''}'' # r)"
  by (simp_all add: stops_def)

lemma stops_scan: "stops r \<Longrightarrow> scan_frac r = ([], r) \<and> scan_exp r = ([], r)"
  by (cases r) (auto simp: stops_def scan_frac_def scan_exp_def)

lemma takeWhile_nat_str: "stops r \<Longrightarrow> takeWhile is_digit (nat_str n @ r) = nat_str n"
  by (cases r) (auto simp: takeWhile_append stops_def is_digit_def [of "CHR '',''"]
      is_digit_def [of "CHR '']''"] is_digit_def [of "CHR ''}''"] dest: nat_str_digits)

lemma hd_nat_str: "is_digit (hd (nat_str n))"
  by (intro nat_str_digits [of _ n]) simp

lemma int_part_nat_str: "stops r \<Longrightarrow> int_part (nat_str n @ r) = nat_str n"
  using nat_str_hd_zero [of n] takeWhile_nat_str [of r n]
  by (cases "n = 0") (auto simp: int_part_def nat_str_small digit_char_eval)

lemma scan_num_int_str: "stops r \<Longrightarrow> scan_num (int_str i @ r) = Some (JInt i, r)"
proof -
  assume r: "stops r"
  have minus: "\<not> is_digit (CHR ''-'')" by (simp add: is_digit_def)
  have hd: "hd (nat_str n @ r) \<noteq> CHR ''-''" for n
    using hd_nat_str [of n] minus by (metis hd_append2 nat_str_nonempty)
  show ?thesis
    using stops_scan [OF r] int_part_nat_str [OF r] hd
    by (cases "i < 0") (simp_all add: scan_num_def int_str_def Let_def)
qed

lemma int_str_Cons: "\<exists>c t. int_str i = c # t \<and> (is_digit c \<or> c = CHR ''-'')"
  using hd_nat_str [of "nat i"] by (cases "nat_str (nat i)") (auto simp: int_str_def)

lemma digit_start:
  assumes "is_digit c \<or> c = CHR ''-''"
  shows "c \<noteq> quote" "c \<noteq> CHR ''{''" "c \<noteq> CHR ''[''" "\<not> json_ws c"
    "c \<noteq> CHR ''n''" "c \<noteq> CHR ''t''" "c \<noteq> CHR ''f''" "c \<noteq> CHR '']''" "c \<noteq> CHR ''}''"
  using assms by (auto simp: is_digit_def quote_def json_ws_def)

lemma json_value_int:
  assumes "stops r"
  shows "json_value (Suc n) (int_str i @ r) = Some (JInt i, r)"
proof -
  obtain c t where c: "int_str i = c # t" and d: "is_digit c \<or> c = CHR ''-''"
    using int_str_Cons by blast
  have "scan_word (c # t @ r) = Some (JInt i, r)"
    using scan_num_int_str [OF assms, of i] digit_start [OF d] c
    by (simp add: scan_word_def starts_with_def)
  with c digit_start [OF d] show ?thesis by simp
qed

lemma json_value_str: "json_value (Suc n) (esc_str s @ r) = Some (JStr s, r)"
  by (simp add: esc_str_def scan_esc_str)

section \<open>Reading back documents\<close>

text \<open>The documents that read back: no floats, no key twice.\<close>

fun json_ok :: "json \<Rightarrow> bool" where
  "json_ok (JFloat f) = False"
| "json_ok (JList xs) = list_all json_ok xs"
| "json_ok (JObj d) = (distinct (map fst d) \<and> list_all (\<lambda>(k, v). json_ok v) d)"
| "json_ok _ = True"

abbreviation dumps_with :: "string \<Rightarrow> string \<Rightarrow> json \<Rightarrow> string" where
  "dumps_with w w' \<equiv> json_dumps (\<lambda>_. []) (CHR '','' # w) (CHR '':'' # w')"

abbreviation pair_text :: "string \<Rightarrow> string \<Rightarrow> string \<times> json \<Rightarrow> string" where
  "pair_text w w' \<equiv> (\<lambda>(k, v). esc_str k @ (CHR '':'' # w') @ dumps_with w w' v)"

definition begins_value :: "string \<Rightarrow> bool" where
  "begins_value s \<longleftrightarrow> (\<exists>c t. s = c # t \<and> \<not> json_ws c \<and> c \<noteq> CHR '']'' \<and> c \<noteq> CHR ''}'')"

lemma begins_dumps: "json_ok v \<Longrightarrow> begins_value (dumps_with w w' v @ r)"
proof (cases v)
  case (JInt i)
  obtain c t where "int_str i = c # t" and "is_digit c \<or> c = CHR ''-''"
    using int_str_Cons by blast
  with JInt digit_start [of c] show ?thesis by (simp add: begins_value_def)
qed (auto simp: begins_value_def json_ws_def esc_str_def quote_def)

lemma skip_ws_begins: "begins_value s \<Longrightarrow> skip_ws s = s"
  by (auto simp: begins_value_def skip_ws_def)

lemma skip_ws_ws: "list_all json_ws w \<Longrightarrow> skip_ws (w @ s) = skip_ws s"
  by (induction w) (auto simp: skip_ws_def)

lemma skip_ws_punct [simp]:
  "skip_ws (CHR '','' # s) = CHR '','' # s" "skip_ws (CHR '']'' # s) = CHR '']'' # s"
  "skip_ws (CHR ''}'' # s) = CHR ''}'' # s" "skip_ws (CHR '':'' # s) = CHR '':'' # s"
  "skip_ws (quote # s) = quote # s" "skip_ws [] = []"
  by (simp_all add: skip_ws_def json_ws_def quote_def)

lemma py_join_Cons: "ps \<noteq> [] \<Longrightarrow> py_join sep (p # ps) = p @ sep @ py_join sep ps"
  by (cases ps) auto

lemma json_items_dumps:
  assumes "xs \<noteq> []" and w: "list_all json_ws w"
    and IH: "\<And>x m r. x \<in> set xs \<Longrightarrow> length (dumps_with w w' x) \<le> m \<Longrightarrow> stops r \<Longrightarrow>
       json_value m (dumps_with w w' x @ r) = Some (x, r)"
    and ok: "list_all json_ok xs"
    and n: "length (py_join (CHR '','' # w) (map (dumps_with w w') xs)) < n"
  shows "json_items n (py_join (CHR '','' # w) (map (dumps_with w w') xs) @ CHR '']'' # r) = Some (xs, r)"
  using assms(1) IH ok n
proof (induction xs arbitrary: n)
  case (Cons x xs)
  then obtain m where m: "n = Suc m" by (cases n) auto
  show ?case
  proof (cases "xs = []")
    case True
    with Cons.prems m show ?thesis by simp
  next
    case False
    let ?rest = "py_join (CHR '','' # w) (map (dumps_with w w') xs) @ CHR '']'' # r"
    have "json_value m (dumps_with w w' x @ CHR '','' # w @ ?rest) = Some (x, CHR '','' # w @ ?rest)"
      using Cons.prems False m by (intro Cons.prems(2)) (auto simp: py_join_Cons)
    moreover have "skip_ws (w @ ?rest) = ?rest"
    proof -
      obtain y ys where "xs = y # ys" using False by (cases xs) auto
      then have "begins_value ?rest"
        using begins_dumps [of y w w'] Cons.prems(3) by (cases ys) auto
      then show ?thesis using w by (simp add: skip_ws_ws skip_ws_begins)
    qed
    moreover have "json_items m ?rest = Some (xs, r)"
      using Cons.prems False m by (intro Cons.IH) (auto simp: py_join_Cons)
    ultimately show ?thesis using m False by (simp add: py_join_Cons)
  qed
qed simp

lemma json_pairs_dumps:
  assumes "d \<noteq> []" and w: "list_all json_ws w" "list_all json_ws w'"
    and IH: "\<And>k v m r. (k, v) \<in> set d \<Longrightarrow> length (dumps_with w w' v) \<le> m \<Longrightarrow> stops r \<Longrightarrow>
       json_value m (dumps_with w w' v @ r) = Some (v, r)"
    and ok: "list_all (\<lambda>(k, v). json_ok v) d"
    and n: "length (py_join (CHR '','' # w) (map (pair_text w w') d)) < n"
  shows "json_pairs n (py_join (CHR '','' # w) (map (pair_text w w') d) @ CHR ''}'' # r) = Some (d, r)"
  using assms(1) IH ok n
proof (induction d arbitrary: n)
  case (Cons p d)
  obtain k v where p: "p = (k, v)" by (cases p)
  from Cons.prems obtain m where m: "n = Suc m" by (cases n) auto
  have skip: "skip_ws (w' @ dumps_with w w' v @ t) = dumps_with w w' v @ t" for t
    using Cons.prems(3) p w(2) begins_dumps [of v w w' t] by (simp add: skip_ws_ws skip_ws_begins)
  show ?case
  proof (cases "d = []")
    case True
    have "json_value m (dumps_with w w' v @ CHR ''}'' # r) = Some (v, CHR ''}'' # r)"
      using Cons.prems(4) True m p by (intro Cons.prems(2)) (auto simp: esc_str_def)
    with True m p skip show ?thesis by (simp add: esc_str_def scan_esc_str)
  next
    case False
    let ?rest = "py_join (CHR '','' # w) (map (pair_text w w') d) @ CHR ''}'' # r"
    have "json_value m (dumps_with w w' v @ CHR '','' # w @ ?rest) = Some (v, CHR '','' # w @ ?rest)"
      using Cons.prems(4) False m p by (intro Cons.prems(2)) (auto simp: py_join_Cons esc_str_def)
    moreover have "skip_ws (w @ ?rest) = ?rest"
    proof -
      obtain q ds where "d = q # ds" using False by (cases d) auto
      then have "\<exists>t. ?rest = quote # t" by (cases ds) (auto simp: esc_str_def split: prod.splits)
      then show ?thesis using w(1) by (auto simp: skip_ws_ws)
    qed
    moreover have "json_pairs m ?rest = Some (d, r)"
      using Cons.prems False m p by (intro Cons.IH) (auto simp: py_join_Cons)
    ultimately show ?thesis
      using m p False skip by (simp add: py_join_Cons esc_str_def scan_esc_str)
  qed
qed simp

lemma foldl_dict_set:
  "distinct (map fst (m @ d)) \<Longrightarrow> foldl (\<lambda>m (k, v). dict_set m k v) m d = m @ d"
proof (induction d arbitrary: m)
  case (Cons p d)
  have new: "dict_set m k v = m @ [(k, v)]" if "k \<notin> fst ` set m" for k and v :: 'b
    using that by (induction m k v rule: dict_set.induct) auto
  show ?case using Cons by (cases p) (simp add: new)
qed simp

lemma quote_brackets: "CHR ''{'' \<noteq> quote" "CHR ''['' \<noteq> quote" "quote \<noteq> CHR ''}''"
  by (simp_all add: quote_def)

lemma json_value_dumps:
  assumes w: "list_all json_ws w" "list_all json_ws w'"
  shows "json_ok v \<Longrightarrow> length (dumps_with w w' v) \<le> n \<Longrightarrow> stops r \<Longrightarrow>
    json_value n (dumps_with w w' v @ r) = Some (v, r)"
proof (induction v arbitrary: n r)
  case JNull
  then show ?case by (cases n) (auto simp: scan_word_def starts_with_def quote_def)
next
  case (JBool b)
  then show ?case by (cases n; cases b) (auto simp: scan_word_def starts_with_def quote_def)
next
  case (JInt i)
  then obtain m where "n = Suc m" using int_str_Cons [of i] by (cases n) auto
  with JInt show ?case by (simp add: json_value_int)
next
  case (JStr s)
  then obtain m where "n = Suc m" by (cases n) (auto simp: esc_str_def)
  with JStr show ?case by (simp add: json_value_str)
next
  case (JList xs)
  then obtain m where m: "n = Suc m" by (cases n) auto
  show ?case
  proof (cases "xs = []")
    case True
    with m show ?thesis by (simp add: quote_def)
  next
    case False
    let ?t = "py_join (CHR '','' # w) (map (dumps_with w w') xs) @ CHR '']'' # r"
    have "json_items m ?t = Some (xs, r)"
      using JList False m by (intro json_items_dumps w) (auto simp: list_all_iff)
    moreover have b: "begins_value ?t"
    proof -
      obtain y ys where "xs = y # ys" using False by (cases xs) auto
      then show ?thesis using begins_dumps [of y w w'] JList.prems(1) by (cases ys) auto
    qed
    ultimately show ?thesis
      using m skip_ws_begins [OF b] by (auto simp: quote_def begins_value_def)
  qed
next
  case (JObj d)
  then obtain m where m: "n = Suc m" by (cases n) auto
  show ?case
  proof (cases "d = []")
    case True
    with m show ?thesis by (simp add: quote_def)
  next
    case False
    let ?t = "py_join (CHR '','' # w) (map (pair_text w w') d) @ CHR ''}'' # r"
    have "json_pairs m ?t = Some (d, r)"
      using JObj False m by (intro json_pairs_dumps w) (fastforce simp: list_all_iff)+
    moreover obtain t where "?t = quote # t"
      using False by (cases d; cases "tl d") (auto simp: esc_str_def split: prod.splits)
    ultimately show ?thesis
      using m JObj.prems(1) foldl_dict_set [of "[]" d] by (simp add: quote_brackets)
  qed
qed simp

theorem json_roundtrip:
  assumes "list_all json_ws w" and "list_all json_ws w'" and "json_ok v"
  shows "json_loads (dumps_with w w' v) = Some v"
  using json_value_dumps [OF assms, of "Suc (length (dumps_with w w' v))" "[]"]
    begins_dumps [OF assms(3), of w w' "[]"]
  by (simp add: json_loads_def skip_ws_begins)

text \<open>Sorting the keys keeps a document readable and its entries.\<close>

lemma distinct_fst_sort: "distinct (map fst d) \<Longrightarrow> distinct (map fst (sort_key fst d))"
  by (simp add: distinct_map)

lemma json_ok_sort: "json_ok v \<Longrightarrow> json_ok (json_sort v)"
proof (induction v)
  case (JObj d)
  let ?d = "map (\<lambda>(k, v). (k, json_sort v)) d"
  have "map fst ?d = map fst d" by (induction d) auto
  then have "distinct (map fst ?d)" using JObj.prems by (simp only: json_ok.simps)
  then have "distinct (map fst (sort_key fst ?d))" by (rule distinct_fst_sort)
  moreover have "list_all (\<lambda>(k, v). json_ok v) (sort_key fst ?d)"
    using JObj by (fastforce simp: list_all_iff)
  ultimately show ?case by simp
qed (auto simp: list_all_iff)

lemma map_of_sort_key: "distinct (map fst d) \<Longrightarrow> map_of (sort_key fst d) = map_of d"
  by (subst map_of_inject_set) (simp_all add: distinct_map)

text \<open>A printed document is one line of printable ASCII, and needs no textual form of floats.\<close>

definition printable :: "char \<Rightarrow> bool" where
  "printable c \<longleftrightarrow> 32 \<le> code c \<and> code c < 128"

lemma esc_char_printable: "d \<in> set (esc_char c) \<Longrightarrow> printable d"
proof -
  have h: "n < 16 \<Longrightarrow> printable (hexd n)" for n by (simp add: hexd_def of_char_of printable_def)
  have "code c div 16 < 16" using code_bound [of c] by (simp add: less_mult_imp_div_less)
  with h [of "code c div 16"] h [of "code c mod 16"] show "d \<in> set (esc_char c) \<Longrightarrow> printable d"
    by (auto simp: esc_char_def quote_def backslash_def printable_def split: if_splits)
qed

lemma int_str_printable: "d \<in> set (int_str i) \<Longrightarrow> printable d"
  using nat_str_digits [of d "nat i"] nat_str_digits [of d "nat (- i)"]
  by (auto simp: int_str_def is_digit_def printable_def split: if_splits)

lemma esc_str_printable: "d \<in> set (esc_str s) \<Longrightarrow> printable d"
  using esc_char_printable by (auto simp: esc_str_def quote_def printable_def)

lemma dumps_printable:
  "json_ok v \<Longrightarrow> d \<in> set (json_dumps repr s k v) \<Longrightarrow> list_all printable s \<Longrightarrow> list_all printable k \<Longrightarrow> printable d"
proof (induction v arbitrary: d)
  case (JList xs)
  from JList.prems(2) consider "d \<in> set ''[]''" | "d \<in> set s" | x where "x \<in> set xs" "d \<in> set (json_dumps repr s k x)"
    using set_py_join [of s "map (json_dumps repr s k) xs"] by fastforce
  then show ?case
  proof cases
    case 3
    with JList show ?thesis by (metis json_ok.simps(2) list_all_iff)
  qed (use JList.prems in \<open>auto simp: printable_def list_all_iff\<close>)
next
  case (JObj ps)
  let ?f = "\<lambda>(j, v). esc_str j @ k @ json_dumps repr s k v"
  from JObj.prems(2) consider "d \<in> set ''{}''" | "d \<in> set (py_join s (map ?f ps))" by auto
  then show ?case
  proof cases
    case 2
    then consider "d \<in> set s" | j v where "(j, v) \<in> set ps" "d \<in> set (?f (j, v))"
      using set_py_join [of s "map ?f ps"] by fastforce
    then show ?thesis
      using JObj esc_str_printable by cases (fastforce simp: list_all_iff)+
  qed (auto simp: printable_def)
qed (auto dest: esc_str_printable int_str_printable simp: printable_def split: if_splits)

lemma dumps_repr_irrelevant: "json_ok v \<Longrightarrow> json_dumps repr s k v = json_dumps repr' s k v"
proof (induction v)
  case (JObj d)
  have "json_dumps repr s k v = json_dumps repr' s k v" if "(j, v) \<in> set d" for j v
    using JObj that by (fastforce simp: list_all_iff)
  then show ?case by (auto intro!: arg_cong [where f = "py_join s"])
qed (auto simp: list_all_iff intro!: arg_cong [where f = "py_join s"])

lemma loads_dumps: "json_ok v \<Longrightarrow> json_loads (json_dumps repr '', '' '': '' v) = Some v"
  using json_roundtrip [of "'' ''" "'' ''" v] dumps_repr_irrelevant [of v repr "'', ''" "'': ''" "\<lambda>_. []"]
  by (simp add: json_ws_def)

end
