(* ===== verification/Host_System.thy ===== *)
theory Host_System
  imports Json_Text
begin

text \<open>
  What the host agent needs of its host: a file system, subprocesses, HTTP requests, a clock and
  random identifiers. A computation reads the host's behaviour from a record of type
  \<open>host_lib\<close> and passes the state of the host on; it returns or raises. The behaviour depends on
  everything that happened before, so that every operation may fail, differently each time.

  A path is the list of its components below the root. Looking up a path follows a link at its end, as
  often as Linux does; links in the middle of a path and permission bits of directories are not
  part of the model.
\<close>

section \<open>Paths and the file system\<close>

type_synonym path = "string list"

datatype node = File string nat | Dir | Link path

type_synonym fs = "(path \<times> node) list"

fun follow :: "nat \<Rightarrow> fs \<Rightarrow> path \<Rightarrow> path option" where
  "follow 0 f p = None"
| "follow (Suc n) f p = (case map_of f p of Some (Link q) \<Rightarrow> follow n f q | _ \<Rightarrow> Some p)"

definition fs_real :: "fs \<Rightarrow> path \<Rightarrow> path option" where
  "fs_real f p = follow 41 f p"

definition is_symlink :: "fs \<Rightarrow> path \<Rightarrow> bool" where
  "is_symlink f p \<longleftrightarrow> (case map_of f p of Some (Link q) \<Rightarrow> True | _ \<Rightarrow> False)"

definition fs_file :: "fs \<Rightarrow> path \<Rightarrow> (string \<times> nat) option" where
  "fs_file f p =
     (case fs_real f p of None \<Rightarrow> None
      | Some q \<Rightarrow> (case map_of f q of Some (File s m) \<Rightarrow> Some (s, m) | _ \<Rightarrow> None))"

definition is_file :: "fs \<Rightarrow> path \<Rightarrow> bool" where
  "is_file f p \<longleftrightarrow> fs_file f p \<noteq> None"

definition is_dir :: "fs \<Rightarrow> path \<Rightarrow> bool" where
  "is_dir f p \<longleftrightarrow> p = [] \<or> (case fs_real f p of None \<Rightarrow> False | Some q \<Rightarrow> q = [] \<or> map_of f q = Some Dir)"

definition path_exists :: "fs \<Rightarrow> path \<Rightarrow> bool" where
  "path_exists f p \<longleftrightarrow> is_file f p \<or> is_dir f p"

text \<open>\<open>below p q\<close>: the path \<open>q\<close> is \<open>p\<close> or lies in the tree under it (\<^verbatim>\<open>q.relative_to(p)\<close> succeeds).\<close>

definition below :: "path \<Rightarrow> path \<Rightarrow> bool" where
  "below p q \<longleftrightarrow> take (length p) q = p"

text \<open>
  \<^verbatim>\<open>Path.suffix\<close> and \<^verbatim>\<open>Path.with_suffix\<close>: a suffix starts at the last dot of the name, unless the
  name starts or ends there.
\<close>

definition split_suffix :: "string \<Rightarrow> string \<times> string" where
  "split_suffix name =
     (let ext = takeWhile (\<lambda>c. c \<noteq> CHR ''.'') (rev name);
          stem = rev (drop (Suc (length ext)) (rev name))
      in if CHR ''.'' \<in> set name \<and> stem \<noteq> [] \<and> ext \<noteq> []
         then (stem, CHR ''.'' # rev ext) else (name, []))"

definition with_suffix :: "path \<Rightarrow> string \<Rightarrow> exn + path" where
  "with_suffix p s =
     (if p = [] then Inl (ValueError ''has an empty name'')
      else Inr (butlast p @ [fst (split_suffix (last p)) @ s]))"

definition path_suffix :: "path \<Rightarrow> string" where
  "path_suffix p = (if p = [] then [] else snd (split_suffix (last p)))"

definition with_name :: "path \<Rightarrow> string \<Rightarrow> exn + path" where
  "with_name p s = (if p = [] then Inl (ValueError ''has an empty name'') else Inr (butlast p @ [s]))"

text \<open>\<^verbatim>\<open>str(path)\<close>\<close>

definition path_str :: "path \<Rightarrow> string" where
  "path_str p = (if p = [] then ''/'' else concat (map (\<lambda>c. CHR ''/'' # c) p))"

text \<open>\<^verbatim>\<open>Path(s)\<close>, read from the directory \<open>cwd\<close>\<close>

definition path_of :: "path \<Rightarrow> string \<Rightarrow> path" where
  "path_of cwd s =
     (let cs = filter (\<lambda>c. c \<noteq> [] \<and> c \<noteq> ''.'') (py_split (CHR ''/'') s)
      in if starts_with ''/'' s then cs else cwd @ cs)"

text \<open>The operations that change files, as the operating system performs them.\<close>

datatype fs_op =
    WriteText path string
  | Mkdir path
  | Chmod path nat
  | Replace path path
  | Copy path path
  | CopyLink path path
  | CopyTree path path
  | RmTree path
  | Unlink path

definition fs_del_tree :: "path \<Rightarrow> fs \<Rightarrow> fs" where
  "fs_del_tree p f = filter (\<lambda>(q, n). \<not> below p q) f"

text \<open>The tree under \<open>src\<close> again under \<open>dst\<close>; a link is replaced by the file it leads to.\<close>

definition fs_graft :: "path \<Rightarrow> path \<Rightarrow> fs \<Rightarrow> fs" where
  "fs_graft src dst f =
     map (\<lambda>(q, n). (dst @ drop (length src) q,
            (case n of Link t \<Rightarrow>
                 (case fs_file f q of Some (s, m) \<Rightarrow> File s m | None \<Rightarrow> Dir)
             | _ \<Rightarrow> n)))
       (filter (\<lambda>(q, n). below src q) f)"

definition fs_move :: "path \<Rightarrow> path \<Rightarrow> fs \<Rightarrow> fs" where
  "fs_move src dst f =
     map (\<lambda>(q, n). (dst @ drop (length src) q, n)) (filter (\<lambda>(q, n). below src q) f)
     @ fs_del_tree dst (fs_del_tree src f)"

text \<open>\<open>p\<close> and the directories that lead to it, the root apart.\<close>

definition fs_parents :: "path \<Rightarrow> path list" where
  "fs_parents p = map (\<lambda>n. take n p) [1..<Suc (length p)]"

definition make_dirs :: "path \<Rightarrow> fs \<Rightarrow> fs" where
  "make_dirs p f = f @ map (\<lambda>q. (q, Dir)) (filter (\<lambda>q. map_of f q = None) (fs_parents p))"

definition put_file :: "path \<Rightarrow> fs \<Rightarrow> node \<Rightarrow> exn + fs" where
  "put_file dst f n =
     (case fs_real f dst of None \<Rightarrow> Inl OSError
      | Some q \<Rightarrow> if \<not> is_dir f (butlast q) then Inl FileNotFoundError
                   else if is_dir f q then Inl OSError
                   else Inr (dict_set f q n))"

text \<open>\<^verbatim>\<open>shutil.copy2\<close> into a directory keeps the name of the source.\<close>

definition copy_target :: "fs \<Rightarrow> path \<Rightarrow> path \<Rightarrow> path" where
  "copy_target f p q = (if is_dir f q then q @ [last p] else q)"

definition copy_file2 :: "path \<Rightarrow> path \<Rightarrow> fs \<Rightarrow> exn + fs" where
  "copy_file2 p q f =
     (case fs_file f p of None \<Rightarrow> Inl FileNotFoundError
      | Some (s, m) \<Rightarrow>
          if fs_real f p = fs_real f (copy_target f p q) then Inl OSError
          else put_file (copy_target f p q) f (File s m))"

text \<open>The first argument is the mode of a new file, as the process's mask leaves it.\<close>

fun fs_apply :: "nat \<Rightarrow> fs_op \<Rightarrow> fs \<Rightarrow> exn + fs" where
  "fs_apply mode (WriteText p s) f =
     put_file p f (File s (case fs_file f p of Some (t, m) \<Rightarrow> m | None \<Rightarrow> mode))"
| "fs_apply mode (Mkdir p) f =
     (if list_ex (is_file f) (fs_parents p) then Inl OSError else Inr (make_dirs p f))"
| "fs_apply mode (Chmod p m) f =
     (case (fs_real f p, fs_file f p) of
        (Some q, Some (s, m')) \<Rightarrow> Inr (dict_set f q (File s m))
      | _ \<Rightarrow> if is_dir f p then Inr f else Inl FileNotFoundError)"
| "fs_apply mode (Replace p q) f =
     (if map_of f p = None \<or> \<not> is_dir f (butlast q) then Inl FileNotFoundError
      else if p = q then Inr f
      else if map_of f p = Some Dir
      then (if is_file f q \<or> is_symlink f q \<or> list_ex (\<lambda>(r, n). below q r \<and> r \<noteq> q) f \<or> below p q
            then Inl OSError else Inr (fs_move p q f))
      else if map_of f q = Some Dir then Inl OSError else Inr (fs_move p q f))"
| "fs_apply mode (Copy p q) f = copy_file2 p q f"
| "fs_apply mode (CopyLink p q) f =
     (case map_of f p of
        Some (Link t) \<Rightarrow>
          (let r = copy_target f p q
           in if map_of f r = None \<and> is_dir f (butlast r) then Inr (dict_set f r (Link t)) else Inl OSError)
      | _ \<Rightarrow> copy_file2 p q f)"
| "fs_apply mode (CopyTree p q) f =
     (if map_of f p \<noteq> Some Dir then Inl FileNotFoundError
      else if list_ex (\<lambda>(r, n). below q r) f then Inl OSError
      else if list_ex (\<lambda>(r, n). below p r \<and> is_symlink f r \<and> \<not> is_file f r) f then Inl OSError
      else if list_ex (is_file f) (fs_parents q) then Inl OSError
      else Inr (fs_graft p q f @ make_dirs (butlast q) f))"
| "fs_apply mode (RmTree p) f =
     (if map_of f p = None then Inl FileNotFoundError
      else if map_of f p \<noteq> Some Dir then Inl OSError
      else Inr (fs_del_tree p f))"
| "fs_apply mode (Unlink p) f =
     (if map_of f p = None then Inl FileNotFoundError
      else if map_of f p = Some Dir then Inl OSError
      else Inr (dict_pop f p))"

text \<open>
  What an operation may leave behind when the operating system stops it half way: anything in the tree it
  writes, except for new links. Renaming, removing one name and changing a mode are atomic.
\<close>

fun fs_touched :: "fs_op \<Rightarrow> fs \<Rightarrow> path \<Rightarrow> bool" where
  "fs_touched (WriteText p s) f r = (case fs_real f p of None \<Rightarrow> False | Some t \<Rightarrow> below t r)"
| "fs_touched (Mkdir p) f r = (below r p \<and> map_of f r = None)"
| "fs_touched (Copy p q) f r = (case fs_real f q of None \<Rightarrow> False | Some t \<Rightarrow> below t r)"
| "fs_touched (CopyLink p q) f r = (case fs_real f q of None \<Rightarrow> False | Some t \<Rightarrow> below t r)"
| "fs_touched (CopyTree p q) f r = (below q r \<or> (below r q \<and> map_of f r = None))"
| "fs_touched (RmTree p) f r = below p r"
| "fs_touched _ f r = False"

definition fs_damage :: "fs_op \<Rightarrow> fs \<Rightarrow> fs \<Rightarrow> fs" where
  "fs_damage op junk f =
     filter (\<lambda>(r, n). fs_touched op f r \<and> (case n of Link t \<Rightarrow> map_of f r = Some n | _ \<Rightarrow> True)) junk
     @ filter (\<lambda>(r, n). \<not> fs_touched op f r) f"

section \<open>The host and its computations\<close>

datatype io_error = OsFailure | NotFound | TimedOut | BadValue

fun io_exn :: "io_error \<Rightarrow> exn" where
  "io_exn OsFailure = OSError"
| "io_exn NotFound = FileNotFoundError"
| "io_exn TimedOut = TimeoutExpired"
| "io_exn BadValue = ValueError []"

text \<open>What a fault of the host raises: a file that exists is never reported missing.\<close>

definition fault_exn :: "io_error \<Rightarrow> exn" where
  "fault_exn e = (if e = NotFound then OSError else io_exn e)"

definition is_os_error :: "exn \<Rightarrow> bool" where
  "is_os_error e \<longleftrightarrow> e = OSError \<or> e = FileNotFoundError"

definition is_value_error :: "exn \<Rightarrow> bool" where
  "is_value_error e \<longleftrightarrow> (case e of ValueError s \<Rightarrow> True | JSONDecodeError \<Rightarrow> True | _ \<Rightarrow> False)"

text \<open>A finished process has an exit status and its output; one that could not run or timed out has its output so far.\<close>

datatype run_result = Exited int string | RunRaised io_error string

datatype host_event =
    Ran "string list" run_result
  | Fetched string "io_error + int \<times> string"
  | ReadText path
  | FileOp fs_op
  | DrewUuid
  | ReadClock
  | Slept

record host_lib =
  hl_run :: "host_event list \<Rightarrow> string list \<Rightarrow> fs \<Rightarrow> run_result \<times> fs"
  hl_open :: "host_event list \<Rightarrow> string \<Rightarrow> io_error + int \<times> string"
  hl_fault :: "host_event list \<Rightarrow> (io_error \<times> fs) option"
  hl_uuid :: "host_event list \<Rightarrow> string"
  hl_time :: "host_event list \<Rightarrow> int"
  hl_delay :: "host_event list \<Rightarrow> rat"
  hl_mode :: nat
  hl_cwd :: path
  hl_repr :: "json \<Rightarrow> string"

record host =
  h_fs :: fs
  h_trace :: "host_event list"
  h_clock :: rat
  h_jobs :: "(string \<times> json) list"
  h_threads :: "(string \<times> string \<times> json) list"

type_synonym 'a hm = "host_lib \<Rightarrow> host \<Rightarrow> (exn + 'a) \<times> host"

definition h_return :: "'a \<Rightarrow> 'a hm" where
  "h_return x l h = (Inr x, h)"

definition h_raise :: "exn \<Rightarrow> 'a hm" where
  "h_raise e l h = (Inl e, h)"

definition h_bind :: "'a hm \<Rightarrow> ('a \<Rightarrow> 'b hm) \<Rightarrow> 'b hm" where
  "h_bind m g l h = (case m l h of (Inr x, h') \<Rightarrow> g x l h' | (Inl e, h') \<Rightarrow> (Inl e, h'))"

text \<open>\<^verbatim>\<open>try: m except ...\<close>: the handler sees every exception and raises again what it does not handle.\<close>

definition h_catch :: "'a hm \<Rightarrow> (exn \<Rightarrow> 'a hm) \<Rightarrow> 'a hm" where
  "h_catch m g l h = (case m l h of (Inr x, h') \<Rightarrow> (Inr x, h') | (Inl e, h') \<Rightarrow> g e l h')"

text \<open>\<^verbatim>\<open>try: m finally: g\<close>\<close>

definition h_finally :: "'a hm \<Rightarrow> unit hm \<Rightarrow> 'a hm" where
  "h_finally m g l h =
     (case m l h of (r, h') \<Rightarrow> (case g l h' of (Inl e, h'') \<Rightarrow> (Inl e, h'') | (Inr u, h'') \<Rightarrow> (r, h'')))"

definition h_lift :: "exn + 'a \<Rightarrow> 'a hm" where
  "h_lift r l h = (r, h)"

definition h_get :: "(host \<Rightarrow> 'a) \<Rightarrow> 'a hm" where
  "h_get g l h = (Inr (g h), h)"

definition h_ask :: "host_lib hm" where
  "h_ask l h = (Inr l, h)"

definition h_modify :: "(host \<Rightarrow> host) \<Rightarrow> unit hm" where
  "h_modify g l h = (Inr (), g h)"

definition h_when :: "bool \<Rightarrow> unit hm \<Rightarrow> unit hm" where
  "h_when b m = (if b then m else h_return ())"

section \<open>The primitive operations\<close>

definition log_event :: "host_event \<Rightarrow> host \<Rightarrow> host" where
  "log_event ev h = h\<lparr>h_trace := h_trace h @ [ev]\<rparr>"

definition file_op :: "fs_op \<Rightarrow> unit hm" where
  "file_op op l h =
     (let h1 = log_event (FileOp op) h
      in case hl_fault l (h_trace h1) of
           Some (e, junk) \<Rightarrow> (Inl (fault_exn e), h1\<lparr>h_fs := fs_damage op junk (h_fs h)\<rparr>)
         | None \<Rightarrow> (case fs_apply (hl_mode l) op (h_fs h) of
               Inl e \<Rightarrow> (Inl e, h1)
             | Inr f \<Rightarrow> (Inr (), h1\<lparr>h_fs := f\<rparr>)))"

text \<open>Reading text turns every line end into a line feed.\<close>

fun universal_newlines :: "string \<Rightarrow> string" where
  "universal_newlines [] = []"
| "universal_newlines (c # s) =
     (if c = CHR 0x0D
      then (if starts_with [CHR 0x0A] s then universal_newlines s else CHR 0x0A # universal_newlines s)
      else c # universal_newlines s)"

definition read_text :: "path \<Rightarrow> string hm" where
  "read_text p l h =
     (let h1 = log_event (ReadText p) h
      in case hl_fault l (h_trace h1) of
           Some (e, junk) \<Rightarrow> (Inl (fault_exn e), h1)
         | None \<Rightarrow> (case fs_file (h_fs h) p of
               Some (s, m) \<Rightarrow> (Inr (universal_newlines s), h1)
             | None \<Rightarrow> (Inl (if is_dir (h_fs h) p then OSError else FileNotFoundError), h1)))"

text \<open>Opening a file for reading\<close>

definition open_read :: "path \<Rightarrow> unit hm" where
  "open_read p = h_bind (read_text p) (\<lambda>_. h_return ())"

text \<open>Variants of the operations that ignore a missing file, or every error of the operating system\<close>

definition unlink_quiet :: "path \<Rightarrow> unit hm" where
  "unlink_quiet p = h_catch (file_op (Unlink p)) (\<lambda>e. if e = FileNotFoundError then h_return () else h_raise e)"

definition rmtree_quiet :: "path \<Rightarrow> unit hm" where
  "rmtree_quiet p = h_catch (file_op (RmTree p)) (\<lambda>e. if is_os_error e then h_return () else h_raise e)"

text \<open>\<^verbatim>\<open>mkdir\<close> without \<^verbatim>\<open>exist_ok\<close>; with \<open>parents\<close> it makes the directories above as well.\<close>

definition mkdir_new :: "bool \<Rightarrow> path \<Rightarrow> unit hm" where
  "mkdir_new parents p =
     h_bind (h_get h_fs) (\<lambda>f.
       if map_of f p \<noteq> None \<or> p = [] then h_raise OSError
       else if \<not> parents \<and> \<not> is_dir f (butlast p) then h_raise FileNotFoundError
       else file_op (Mkdir p))"

text \<open>\<^verbatim>\<open>Path.resolve\<close>: without \<^verbatim>\<open>..\<close> and without links\<close>

definition drop_dots :: "path \<Rightarrow> path" where
  "drop_dots p = foldl (\<lambda>acc x. if x = ''..'' then butlast acc else acc @ [x]) [] p"

definition resolve_path :: "fs \<Rightarrow> path \<Rightarrow> exn + path" where
  "resolve_path f p = of_option OSError (fs_real f (drop_dots p))"

definition resolve_strict :: "fs \<Rightarrow> path \<Rightarrow> exn + path" where
  "resolve_strict f p =
     res_bind (resolve_path f p) (\<lambda>q. if path_exists f q then Inr q else Inl FileNotFoundError)"

text \<open>\<^verbatim>\<open>subprocess.run\<close>: the process may change files; its result is in the trace.\<close>

definition runner :: "string list \<Rightarrow> run_result hm" where
  "runner args l h =
     (case hl_run l (h_trace h) args (h_fs h) of (r, f) \<Rightarrow> (Inr r, (log_event (Ran args r) h)\<lparr>h_fs := f\<rparr>))"

text \<open>The same, where an exception of the call is the caller's\<close>

definition raw_run :: "string list \<Rightarrow> int hm" where
  "raw_run args =
     h_bind (runner args) (\<lambda>r. case r of Exited rc out \<Rightarrow> h_return rc | RunRaised e out \<Rightarrow> h_raise (io_exn e))"

text \<open>With its output redirected to a file, which holds it in every case\<close>

definition redirect :: "path \<Rightarrow> string \<Rightarrow> host \<Rightarrow> host" where
  "redirect p s h =
     (case (fs_real (h_fs h) p, fs_file (h_fs h) p) of
        (Some q, Some (t, m)) \<Rightarrow> h\<lparr>h_fs := dict_set (h_fs h) q (File s m)\<rparr>
      | _ \<Rightarrow> h)"

definition run_to_file :: "string list \<Rightarrow> path \<Rightarrow> int hm" where
  "run_to_file args p =
     h_bind (runner args) (\<lambda>r.
       case r of
         Exited rc out \<Rightarrow> h_bind (h_modify (redirect p out)) (\<lambda>_. h_return rc)
       | RunRaised e out \<Rightarrow> h_bind (h_modify (redirect p out)) (\<lambda>_. h_raise (io_exn e)))"

definition wait_delay :: "host_lib \<Rightarrow> host \<Rightarrow> rat" where
  "wait_delay l h = max 0 (hl_delay l (h_trace h))"

definition opener :: "string \<Rightarrow> (int \<times> string) hm" where
  "opener url l h =
     (let r = hl_open l (h_trace h) url; h1 = log_event (Fetched url r) h
      in (case r of Inl e \<Rightarrow> Inl (io_exn e) | Inr x \<Rightarrow> Inr x, h1\<lparr>h_clock := h_clock h + wait_delay l h\<rparr>))"

text \<open>\<^verbatim>\<open>time.sleep(n)\<close> sleeps at least \<open>n\<close> seconds.\<close>

definition sleep :: "rat \<Rightarrow> unit hm" where
  "sleep n l h = (Inr (), (log_event Slept h)\<lparr>h_clock := h_clock h + n + wait_delay l h\<rparr>)"

definition uuid4 :: "string hm" where
  "uuid4 l h = (Inr (hl_uuid l (h_trace h)), log_event DrewUuid h)"

definition unix_time :: "int hm" where
  "unix_time l h = (Inr (hl_time l (h_trace h)), log_event ReadClock h)"

lemmas h_defs = h_return_def h_raise_def h_bind_def h_catch_def h_finally_def h_lift_def h_get_def h_ask_def h_modify_def
  h_when_def

section \<open>Reasoning about computations\<close>

text \<open>
  \<open>wp l m Q E h\<close>: run from \<open>h\<close>, \<open>m\<close> returns a value and a state with \<open>Q\<close>, or raises an exception
  in a state with \<open>E\<close>. Its equations are the verification conditions of a computation.
\<close>

definition wp :: "host_lib \<Rightarrow> 'a hm \<Rightarrow> ('a \<Rightarrow> host \<Rightarrow> bool) \<Rightarrow> (exn \<Rightarrow> host \<Rightarrow> bool) \<Rightarrow> host \<Rightarrow> bool" where
  "wp l m Q E h = (case m l h of (Inr x, h') \<Rightarrow> Q x h' | (Inl e, h') \<Rightarrow> E e h')"

named_theorems wp_simps "weakest preconditions of the combinators"

lemma wp_return [wp_simps]: "wp l (h_return x) Q E h = Q x h"
  by (simp add: wp_def h_return_def)

lemma wp_raise [wp_simps]: "wp l (h_raise e) Q E h = E e h"
  by (simp add: wp_def h_raise_def)

lemma wp_bind [wp_simps]: "wp l (h_bind m g) Q E h = wp l m (\<lambda>x. wp l (g x) Q E) E h"
  by (simp add: wp_def h_bind_def split: prod.split sum.split)

lemma wp_catch [wp_simps]: "wp l (h_catch m g) Q E h = wp l m Q (\<lambda>e. wp l (g e) Q E) h"
  by (simp add: wp_def h_catch_def split: prod.split sum.split)

lemma wp_finally [wp_simps]:
  "wp l (h_finally m g) Q E h = wp l m (\<lambda>x. wp l g (\<lambda>_. Q x) E) (\<lambda>e. wp l g (\<lambda>_. E e) E) h"
  by (simp add: wp_def h_finally_def split: prod.split sum.split)

lemma wp_lift [wp_simps]: "wp l (h_lift r) Q E h = (case r of Inl e \<Rightarrow> E e h | Inr x \<Rightarrow> Q x h)"
  by (simp add: wp_def h_lift_def split: sum.split)

lemma wp_get [wp_simps]: "wp l (h_get g) Q E h = Q (g h) h"
  by (simp add: wp_def h_get_def)

lemma wp_ask [wp_simps]: "wp l h_ask Q E h = Q l h"
  by (simp add: wp_def h_ask_def)

lemma wp_modify [wp_simps]: "wp l (h_modify g) Q E h = Q () (g h)"
  by (simp add: wp_def h_modify_def)

lemma wp_when [wp_simps]: "wp l (h_when b m) Q E h = (if b then wp l m Q E h else Q () h)"
  by (simp add: h_when_def wp_return)

lemma wp_if [wp_simps]: "wp l (if b then m else m') Q E h = (if b then wp l m Q E h else wp l m' Q E h)"
  by simp

lemma wp_mono:
  assumes "wp l m Q E h" and "\<And>x h'. m l h = (Inr x, h') \<Longrightarrow> Q x h' \<Longrightarrow> Q' x h'"
    and "\<And>e h'. m l h = (Inl e, h') \<Longrightarrow> E e h' \<Longrightarrow> E' e h'"
  shows "wp l m Q' E' h"
  using assms by (auto simp: wp_def split: prod.splits sum.splits)

lemma wp_total: "wp l m (\<lambda>x h'. m l h = (Inr x, h')) (\<lambda>e h'. m l h = (Inl e, h')) h"
  by (auto simp: wp_def split: prod.splits sum.splits)

text \<open>
  \<open>keeps l I m\<close>: whether \<open>m\<close> returns or raises, it leaves a state with \<open>I\<close> if it starts in one.
\<close>

definition keeps :: "host_lib \<Rightarrow> (host \<Rightarrow> bool) \<Rightarrow> 'a hm \<Rightarrow> bool" where
  "keeps l I m \<longleftrightarrow> (\<forall>h. I h \<longrightarrow> I (snd (m l h)))"

named_theorems keeps_intros "what keeps an invariant, combinator by combinator"

lemma keepsD: "keeps l I m \<Longrightarrow> I h \<Longrightarrow> m l h = (r, h') \<Longrightarrow> I h'"
  by (metis keeps_def snd_conv)

lemma keeps_return [keeps_intros]: "keeps l I (h_return x)"
  by (simp add: keeps_def h_return_def)

lemma keeps_raise [keeps_intros]: "keeps l I (h_raise e)"
  by (simp add: keeps_def h_raise_def)

lemma keeps_lift [keeps_intros]: "keeps l I (h_lift r)"
  by (simp add: keeps_def h_lift_def)

lemma keeps_get [keeps_intros]: "keeps l I (h_get g)"
  by (simp add: keeps_def h_get_def)

lemma keeps_ask [keeps_intros]: "keeps l I h_ask"
  by (simp add: keeps_def h_ask_def)

lemma keeps_bind [keeps_intros]: "keeps l I m \<Longrightarrow> (\<And>x. keeps l I (g x)) \<Longrightarrow> keeps l I (h_bind m g)"
  by (auto simp: keeps_def h_bind_def split: prod.split sum.split dest: spec)

lemma keeps_catch [keeps_intros]: "keeps l I m \<Longrightarrow> (\<And>e. keeps l I (g e)) \<Longrightarrow> keeps l I (h_catch m g)"
  by (auto simp: keeps_def h_catch_def split: prod.split sum.split dest: spec)

lemma keeps_finally [keeps_intros]: "keeps l I m \<Longrightarrow> keeps l I g \<Longrightarrow> keeps l I (h_finally m g)"
  unfolding keeps_def
proof (intro allI impI)
  fix h
  assume *: "\<forall>h. I h \<longrightarrow> I (snd (m l h))" "\<forall>h. I h \<longrightarrow> I (snd (g l h))" "I h"
  obtain r h1 where m: "m l h = (r, h1)" by fastforce
  obtain u h2 where g: "g l h1 = (u, h2)" by fastforce
  have "I h2" using * m g by (metis snd_conv)
  then show "I (snd (h_finally m g l h))" by (cases u) (simp_all add: h_finally_def m g)
qed

lemma keeps_when [keeps_intros]: "keeps l I m \<Longrightarrow> keeps l I (h_when b m)"
  by (simp add: h_when_def keeps_return)

lemma keeps_if [keeps_intros]: "keeps l I m \<Longrightarrow> keeps l I m' \<Longrightarrow> keeps l I (if b then m else m')"
  by simp

lemma keeps_prod [keeps_intros]: "(\<And>a b. keeps l I (m a b)) \<Longrightarrow> keeps l I (case x of (a, b) \<Rightarrow> m a b)"
  by (simp split: prod.split)

lemma keeps_option [keeps_intros]:
  "keeps l I m \<Longrightarrow> (\<And>a. keeps l I (m' a)) \<Longrightarrow> keeps l I (case x of None \<Rightarrow> m | Some a \<Rightarrow> m' a)"
  by (simp split: option.split)

lemma keeps_sum [keeps_intros]:
  "(\<And>e. keeps l I (m e)) \<Longrightarrow> (\<And>a. keeps l I (m' a)) \<Longrightarrow> keeps l I (case x of Inl e \<Rightarrow> m e | Inr a \<Rightarrow> m' a)"
  by (simp split: sum.split)

lemma keeps_run_result [keeps_intros]:
  "(\<And>rc out. keeps l I (m rc out)) \<Longrightarrow> (\<And>e out. keeps l I (m' e out)) \<Longrightarrow>
   keeps l I (case r of Exited rc out \<Rightarrow> m rc out | RunRaised e out \<Rightarrow> m' e out)"
  by (simp split: run_result.split)

lemma keeps_agent_error [keeps_intros]:
  "(\<And>d n. keeps l I (m d n)) \<Longrightarrow> keeps l I m' \<Longrightarrow> keeps l I (case e of AgentError d n \<Rightarrow> m d n | _ \<Rightarrow> m')"
  by (simp split: exn.split)

lemma keeps_str [keeps_intros]:
  "(\<And>s. keeps l I (m s)) \<Longrightarrow> keeps l I m' \<Longrightarrow> keeps l I (case v of JStr s \<Rightarrow> m s | _ \<Rightarrow> m')"
  by (simp split: json.split)

lemma keeps_obj [keeps_intros]:
  "(\<And>d. keeps l I (m d)) \<Longrightarrow> keeps l I m' \<Longrightarrow> keeps l I (case v of JObj d \<Rightarrow> m d | _ \<Rightarrow> m')"
  by (simp split: json.split)

section \<open>What an operation leaves alone\<close>

lemma h_bind_iff:
  "h_bind m g l h = (r, h') \<longleftrightarrow>
     (\<exists>e. m l h = (Inl e, h') \<and> r = Inl e) \<or> (\<exists>x h1. m l h = (Inr x, h1) \<and> g x l h1 = (r, h'))"
  by (auto simp: h_bind_def split: prod.split sum.split)

lemma h_catch_iff:
  "h_catch m g l h = (r, h') \<longleftrightarrow>
     (\<exists>x. m l h = (Inr x, h') \<and> r = Inr x) \<or> (\<exists>e h1. m l h = (Inl e, h1) \<and> g e l h1 = (r, h'))"
  by (auto simp: h_catch_def split: prod.split sum.split)

lemma h_lift_iff: "h_lift x l h = (r, h') \<longleftrightarrow> r = x \<and> h' = h"
  by (auto simp: h_lift_def)

lemma h_return_iff: "h_return x l h = (r, h') \<longleftrightarrow> r = Inr x \<and> h' = h"
  by (auto simp: h_return_def)

lemma h_raise_iff: "h_raise e l h = (r, h') \<longleftrightarrow> r = Inl e \<and> h' = h"
  by (auto simp: h_raise_def)

lemma h_get_iff: "h_get g l h = (r, h') \<longleftrightarrow> r = Inr (g h) \<and> h' = h"
  by (auto simp: h_get_def)

lemma h_ask_iff: "h_ask l h = (r, h') \<longleftrightarrow> r = Inr l \<and> h' = h"
  by (auto simp: h_ask_def)

lemmas exec_simps = h_ask_iff h_bind_iff h_catch_iff h_lift_iff h_return_iff h_raise_iff h_get_iff h_when_def

lemma below_refl [simp]: "below p p"
  by (simp add: below_def)

lemma below_append [simp]: "below p (p @ q)"
  by (simp add: below_def)

lemma below_iff: "below p q \<longleftrightarrow> (\<exists>r. q = p @ r)"
  unfolding below_def by (metis append_eq_conv_conj append_take_drop_id)

lemma split_suffix_join: "fst (split_suffix n) @ snd (split_suffix n) = n"
proof -
  define ext where "ext = takeWhile (\<lambda>c. c \<noteq> CHR ''.'') (rev n)"
  have "rev n = ext @ CHR ''.'' # drop (Suc (length ext)) (rev n)" if "CHR ''.'' \<in> set n"
  proof -
    have len: "length ext < length (rev n)"
    proof (rule ccontr)
      assume "\<not> ?thesis"
      then have "ext = rev n" unfolding ext_def by (metis linorder_not_less take_all takeWhile_eq_take)
      then have "CHR ''.'' \<in> set ext" using that by simp
      then show False unfolding ext_def by (metis set_takeWhileD)
    qed
    then have "rev n ! length ext = CHR ''.''"
      using nth_length_takeWhile [of "\<lambda>c. c \<noteq> CHR ''.''" "rev n"] by (simp add: ext_def)
    moreover have "take (length ext) (rev n) = ext" by (simp add: ext_def takeWhile_eq_take [symmetric])
    ultimately show ?thesis using id_take_nth_drop [OF len] by simp
  qed
  then have "CHR ''.'' \<in> set n \<Longrightarrow> n = rev (drop (Suc (length ext)) (rev n)) @ CHR ''.'' # rev ext"
    by (metis append.assoc append_Cons append_Nil rev.simps(2) rev_append rev_rev_ident)
  then show ?thesis by (auto simp: split_suffix_def Let_def ext_def [symmetric])
qed

lemma with_suffix_extend:
  "p \<noteq> [] \<Longrightarrow> with_suffix p (path_suffix p @ s) = Inr (butlast p @ [last p @ s])"
  using split_suffix_join [of "last p"] by (simp add: with_suffix_def path_suffix_def flip: append_assoc)

lemma sibling_other: "p \<noteq> [] \<Longrightarrow> s \<noteq> [] \<Longrightarrow> butlast p @ [last p @ s] \<noteq> p"
  by (metis append_butlast_last_id append_self_conv last_snoc)

lemma below_length: "below p q \<Longrightarrow> length p \<le> length q"
  by (auto simp: below_iff)

lemma below_same_length: "length p = length q \<Longrightarrow> below p q \<longleftrightarrow> p = q"
  by (auto simp: below_def)

lemma follow_no_link: "\<not> is_symlink f p \<Longrightarrow> 0 < n \<Longrightarrow> follow n f p = Some p"
  by (cases n) (auto simp: is_symlink_def split: option.splits node.splits)

lemma fs_real_no_link: "\<not> is_symlink f p \<Longrightarrow> fs_real f p = Some p"
  by (simp add: fs_real_def follow_no_link)

lemma is_symlink_File [simp]: "map_of f p = Some (File s m) \<Longrightarrow> \<not> is_symlink f p"
  by (simp add: is_symlink_def)

lemma fs_file_plain: "\<not> is_symlink f p \<Longrightarrow> fs_file f p = Some (s, m) \<longleftrightarrow> map_of f p = Some (File s m)"
  by (auto simp: fs_file_def fs_real_no_link split: option.splits node.splits)

lemma plain_file:
  "\<not> is_symlink f p \<Longrightarrow> is_file f p \<Longrightarrow> \<exists>s m. map_of f p = Some (File s m)"
  by (auto simp: is_file_def fs_file_def fs_real_no_link split: option.splits node.splits)

lemma map_of_filter_key: "map_of (filter (\<lambda>(q, n). P q) f) p = (if P p then map_of f p else None)"
  by (induction f) auto

lemma damage_frame: "\<not> fs_touched op f p \<Longrightarrow> map_of (fs_damage op junk f) p = map_of f p"
proof -
  assume "\<not> fs_touched op f p"
  then have "map_of (filter (\<lambda>(r, n). fs_touched op f r \<and> (case n of Link t \<Rightarrow> map_of f r = Some n | _ \<Rightarrow> True)) junk) p = None"
    by (auto simp: map_of_eq_None_iff)
  then show ?thesis
    using \<open>\<not> fs_touched op f p\<close> by (simp add: fs_damage_def map_add_def map_of_filter_key)
qed

lemma is_symlink_iff: "is_symlink f p \<longleftrightarrow> (\<exists>t. map_of f p = Some (Link t))"
  by (auto simp: is_symlink_def split: option.splits node.splits)

lemma damage_no_link: "is_symlink (fs_damage op junk f) p \<Longrightarrow> is_symlink f p"
proof -
  assume "is_symlink (fs_damage op junk f) p"
  then obtain t where "map_of (fs_damage op junk f) p = Some (Link t)" by (auto simp: is_symlink_iff)
  then consider
      "(p, Link t) \<in> set (filter (\<lambda>(r, n). fs_touched op f r \<and> (case n of Link t \<Rightarrow> map_of f r = Some n | _ \<Rightarrow> True)) junk)"
    | "map_of (filter (\<lambda>(r, n). \<not> fs_touched op f r) f) p = Some (Link t)"
    unfolding fs_damage_def map_of_append map_add_Some_iff by (blast dest: map_of_SomeD)
  then show ?thesis by cases (auto simp: is_symlink_iff map_of_filter_key split: if_splits)
qed

lemma dict_set_no_link: "is_symlink (dict_set f q (File s m)) x \<Longrightarrow> is_symlink f x"
  by (auto simp: is_symlink_iff split: if_splits)

lemma map_of_relocate:
  "map_of (map (\<lambda>(q, n). (dst @ drop (length src) q, n)) (filter (\<lambda>(q, n). below src q) f)) (dst @ r)
   = map_of f (src @ r)"
proof (induction f)
  case (Cons x f)
  obtain q n where x: "x = (q, n)" by fastforce
  have "below src q \<Longrightarrow> drop (length src) q = r \<longleftrightarrow> q = src @ r" by (auto simp: below_iff)
  moreover have "\<not> below src q \<Longrightarrow> q \<noteq> src @ r" by (auto simp: below_iff)
  ultimately show ?case using Cons.IH by (cases "below src q") (auto simp: x)
qed simp

lemma map_of_relocate_out:
  "\<not> below dst p \<Longrightarrow>
   map_of (map (\<lambda>(q, n). (dst @ drop (length src) q, n)) (filter (\<lambda>(q, n). below src q) f)) p = None"
  by (induction f) auto

lemma move_frame: "\<not> below src p \<Longrightarrow> \<not> below dst p \<Longrightarrow> map_of (fs_move src dst f) p = map_of f p"
  by (simp add: fs_move_def fs_del_tree_def map_add_def map_of_relocate_out map_of_filter_key del: filter_filter)

lemma move_target: "map_of f src = Some n \<Longrightarrow> map_of (fs_move src dst f) dst = Some n"
  using map_of_relocate [of dst src f "[]"] by (simp add: fs_move_def map_add_def)

lemma move_source: "\<not> below dst src \<Longrightarrow> map_of (fs_move src dst f) src = None"
  by (simp add: fs_move_def fs_del_tree_def map_add_def map_of_relocate_out map_of_filter_key del: filter_filter)

lemma put_file_Inr:
  "put_file p f n = Inr f' \<Longrightarrow> \<not> is_symlink f p \<Longrightarrow> map_of f' = (map_of f)(p \<mapsto> n)"
  by (auto simp: put_file_def fs_real_no_link split: if_splits)

text \<open>
  The three operations by which the agent replaces a file: what they leave alone, and what they put in place.
\<close>

lemma write_text_spec:
  assumes "file_op (WriteText p s) l h = (r, h')" and "\<not> is_symlink (h_fs h) p"
  shows "\<not> below p q \<Longrightarrow> map_of (h_fs h') q = map_of (h_fs h) q"
    and "r = Inr () \<Longrightarrow> \<exists>m. map_of (h_fs h') p = Some (File s m)"
  using assms
  by (auto simp: file_op_def log_event_def Let_def damage_frame fs_real_no_link
      dest!: put_file_Inr split: option.splits sum.splits prod.splits)

lemma chmod_spec:
  assumes "file_op (Chmod p m) l h = (r, h')" and "map_of (h_fs h) p = Some (File s m')"
  shows "q \<noteq> p \<Longrightarrow> map_of (h_fs h') q = map_of (h_fs h) q"
    and "r = Inr () \<Longrightarrow> map_of (h_fs h') p = Some (File s m)"
proof -
  have "fs_real (h_fs h) p = Some p" "fs_file (h_fs h) p = Some (s, m')"
    using assms(2) by (simp_all add: fs_real_no_link fs_file_plain)
  with assms show "q \<noteq> p \<Longrightarrow> map_of (h_fs h') q = map_of (h_fs h) q"
    and "r = Inr () \<Longrightarrow> map_of (h_fs h') p = Some (File s m)"
    by (auto simp: file_op_def log_event_def Let_def damage_frame split: option.splits prod.splits)
qed

lemma replace_spec:
  assumes "file_op (Replace p q) l h = (r, h')" and "map_of (h_fs h) p = Some (File s m)"
  shows "\<not> below p x \<Longrightarrow> \<not> below q x \<Longrightarrow> map_of (h_fs h') x = map_of (h_fs h) x"
    and "r = Inr () \<Longrightarrow> map_of (h_fs h') q = Some (File s m)"
    and "r = Inl e \<Longrightarrow> map_of (h_fs h') x = map_of (h_fs h) x"
  using assms
  by (auto simp: file_op_def log_event_def Let_def damage_frame move_frame move_target
      split: option.splits sum.splits prod.splits if_splits)

lemma replace_source:
  assumes "file_op (Replace p q) l h = (r, h')" and "map_of (h_fs h) p = Some (File s m)" and "\<not> below q p"
    and "r = Inr ()"
  shows "map_of (h_fs h') p = None"
  using assms
  by (auto simp: file_op_def log_event_def Let_def move_source
      split: option.splits sum.splits prod.splits if_splits)

lemma fault_not_missing [simp]: "fault_exn e \<noteq> FileNotFoundError" "fault_exn e \<noteq> JSONDecodeError"
  by (cases e; simp add: fault_exn_def)+

lemma unlink_quiet_gone:
  assumes "unlink_quiet p l h = (Inr u, h')"
  shows "map_of (h_fs h') p = None"
  using assms
  by (auto simp: unlink_quiet_def exec_simps file_op_def Let_def log_event_def
      split: option.splits sum.splits prod.splits if_splits)

lemma copy_spec:
  assumes "file_op (Copy p q) l h = (r, h')" and "\<not> is_symlink (h_fs h) q" and "\<not> is_dir (h_fs h) q"
    and "\<not> below q x"
  shows "map_of (h_fs h') x = map_of (h_fs h) x"
  using assms
  by (auto simp: file_op_def log_event_def Let_def damage_frame fs_real_no_link copy_file2_def copy_target_def below_iff
      dest!: put_file_Inr split: option.splits sum.splits prod.splits if_splits)

lemma parents_above: "q \<in> set (fs_parents p) \<Longrightarrow> below q p"
  by (auto simp: fs_parents_def below_def min_def)

lemma make_dirs_frame: "\<not> below x p \<Longrightarrow> map_of (make_dirs p f) x = map_of f x"
proof -
  assume "\<not> below x p"
  then have "map_of (map (\<lambda>q. (q, Dir)) (filter (\<lambda>q. map_of f q = None) (fs_parents p))) x = None"
    using parents_above by (auto simp: map_of_eq_None_iff)
  then show ?thesis by (simp add: make_dirs_def map_add_def split: option.split)
qed

lemma mkdir_frame:
  assumes "file_op (Mkdir p) l h = (r, h')" and "\<not> below x p"
  shows "map_of (h_fs h') x = map_of (h_fs h) x"
  using assms
  by (auto simp: file_op_def log_event_def Let_def damage_frame make_dirs_frame
      split: option.splits sum.splits prod.splits if_splits)

lemma put_file_no_link: "put_file p f (File s m) = Inr f' \<Longrightarrow> is_symlink f' x \<Longrightarrow> is_symlink f x"
  by (auto simp: put_file_def is_symlink_def split: option.splits if_splits node.splits)

lemma make_dirs_no_link: "is_symlink (make_dirs p f) x \<Longrightarrow> is_symlink f x"
  by (auto simp: make_dirs_def is_symlink_def map_add_def dest!: map_of_SomeD split: option.splits node.splits)

text \<open>Writing, copying through links, and making directories create no links.\<close>

lemma file_op_no_link:
  assumes "file_op op l h = (r, h')" and "is_symlink (h_fs h') x"
    and "op = WriteText p s \<or> op = Chmod p m \<or> op = Mkdir p \<or> op = Copy p q"
  shows "is_symlink (h_fs h) x"
proof (cases "hl_fault l (h_trace (log_event (FileOp op) h))")
  case None
  then consider "h_fs h' = h_fs h" | f where "fs_apply (hl_mode l) op (h_fs h) = Inr f" "h_fs h' = f"
    using assms(1) by (auto simp: file_op_def Let_def log_event_def split: sum.splits)
  then show ?thesis
  proof cases
    case 2
    from assms(3) consider "op = WriteText p s" | "op = Chmod p m" | "op = Mkdir p" | "op = Copy p q" by blast
    then show ?thesis
    proof cases
      case 2
      then have "f = h_fs h \<or> (\<exists>q' s'. f = dict_set (h_fs h) q' (File s' m))"
        using \<open>fs_apply (hl_mode l) op (h_fs h) = Inr f\<close> by (auto split: option.splits if_splits)
      with \<open>h_fs h' = f\<close> assms(2) show ?thesis by (metis dict_set_no_link)
    qed (use 2 assms(2) make_dirs_no_link [of p "h_fs h" x] in \<open>auto simp: copy_file2_def dest: put_file_no_link
        split: if_splits option.splits\<close>)
  qed (use assms(2) in simp)
next
  case (Some a)
  then show ?thesis
    using assms(1,2) damage_no_link by (fastforce simp: file_op_def Let_def log_event_def split: prod.splits)
qed

lemma read_text_spec:
  assumes "read_text p l h = (r, h')"
  shows "h_fs h' = h_fs h"
    and "r = Inr s \<Longrightarrow> \<not> is_symlink (h_fs h) p \<Longrightarrow>
           \<exists>t m. map_of (h_fs h) p = Some (File t m) \<and> s = universal_newlines t"
  using assms
  by (auto simp: read_text_def log_event_def Let_def fs_file_plain split: option.splits sum.splits prod.splits if_splits)

text \<open>
  Writing a file by way of a temporary one is atomic: whatever fails, the file is the old one or the new one.
\<close>

abbreviation replace_file :: "path \<Rightarrow> string \<Rightarrow> nat \<Rightarrow> path \<Rightarrow> unit hm" where
  "replace_file t s m p \<equiv>
     h_bind (file_op (WriteText t s)) (\<lambda>_. h_bind (file_op (Chmod t m)) (\<lambda>_. file_op (Replace t p)))"

lemma replace_file_spec:
  assumes run: "replace_file t s m p l h = (r, h')" and "\<not> is_symlink (h_fs h) t"
    and "length t = length p" and "t \<noteq> p"
  shows "r = Inl e \<Longrightarrow> \<not> below t x \<Longrightarrow> map_of (h_fs h') x = map_of (h_fs h) x"
    and "r = Inr () \<Longrightarrow> map_of (h_fs h') p = Some (File s m)"
    and "\<not> below t x \<Longrightarrow> \<not> below p x \<Longrightarrow> map_of (h_fs h') x = map_of (h_fs h) x"
    and "r = Inr () \<Longrightarrow> map_of (h_fs h') t = None"
proof -
  consider (writing) e where "file_op (WriteText t s) l h = (Inl e, h')" "r = Inl e"
    | (chmod) e h1 where "file_op (WriteText t s) l h = (Inr (), h1)" "file_op (Chmod t m) l h1 = (Inl e, h')" "r = Inl e"
    | (repl) h1 h2 where "file_op (WriteText t s) l h = (Inr (), h1)" "file_op (Chmod t m) l h1 = (Inr (), h2)"
        "file_op (Replace t p) l h2 = (r, h')"
    using run by (auto simp: h_bind_iff)
  then have "(r = Inl e \<longrightarrow> \<not> below t x \<longrightarrow> map_of (h_fs h') x = map_of (h_fs h) x)
    \<and> (r = Inr () \<longrightarrow> map_of (h_fs h') p = Some (File s m))
    \<and> (\<not> below t x \<longrightarrow> \<not> below p x \<longrightarrow> map_of (h_fs h') x = map_of (h_fs h) x)
    \<and> (r = Inr () \<longrightarrow> map_of (h_fs h') t = None)" for x e
  proof cases
    case writing
    then show ?thesis using write_text_spec [OF writing(1) assms(2)] by simp
  next
    case chmod
    obtain m' where wr: "map_of (h_fs h1) t = Some (File s m')"
      using write_text_spec(2) [OF chmod(1) assms(2)] by auto
    show ?thesis
      using write_text_spec(1) [OF chmod(1) assms(2)] chmod_spec(1) [OF chmod(2) wr] chmod(3) by (metis Inl_Inr_False below_refl)
  next
    case repl
    obtain m' where wr: "map_of (h_fs h1) t = Some (File s m')"
      using write_text_spec(2) [OF repl(1) assms(2)] by auto
    note chm = chmod_spec [OF repl(2) wr]
    note rep = replace_spec [OF repl(3) chm(2) [OF refl]]
    have "\<not> below t p" "\<not> below p t" using assms(3,4) by (simp_all add: below_same_length)
    then show ?thesis
      using replace_source [OF repl(3) chm(2) [OF refl]] write_text_spec(1) [OF repl(1) assms(2)] chm(1) rep by (metis below_refl)
  qed
  then show "r = Inl e \<Longrightarrow> \<not> below t x \<Longrightarrow> map_of (h_fs h') x = map_of (h_fs h) x"
    and "r = Inr () \<Longrightarrow> map_of (h_fs h') p = Some (File s m)"
    and "\<not> below t x \<Longrightarrow> \<not> below p x \<Longrightarrow> map_of (h_fs h') x = map_of (h_fs h) x"
    and "r = Inr () \<Longrightarrow> map_of (h_fs h') t = None"
    by blast+
qed

end
