(* ===== verification/Host_Agent.thy ===== *)
theory Host_Agent
  imports Host_System Regex Ip_Address
begin

text \<open>
  The configuration, the state file and the controller of the host agent, \<^verbatim>\<open>host_agent/server.py\<close>:
  firewall rules, the environment file, the health check and the discovery and verification of releases. A
  method that starts with an underscore keeps its name without it. The log is not modelled.
\<close>

section \<open>Patterns and configuration\<close>

definition dig :: rx where "dig = RCls is_digit"

definition version_tail :: rx where
  "version_tail =
     RSeq (rx_plus dig) (RSeq (rx_chr (CHR ''.'')) (RSeq (rx_plus dig) (RSeq (rx_chr (CHR ''.'')) (RSeq (rx_plus dig)
       (rx_opt (RSeq (RCls (\<lambda>c. c = CHR ''-'' \<or> c = CHR ''.''))
         (rx_plus (RCls (\<lambda>c. is_alnum c \<or> c = CHR ''.'' \<or> c = CHR ''-'')))))))))"

definition VERSION_PATTERN :: rx where
  "VERSION_PATTERN = RSeq (rx_opt (rx_chr (CHR ''v''))) version_tail"

definition CANONICAL_VERSION_PATTERN :: rx where
  "CANONICAL_VERSION_PATTERN = RSeq (rx_chr (CHR ''v'')) version_tail"

definition repository_part :: rx where
  "repository_part =
     (let w = rx_plus (RCls (\<lambda>c. is_lower c \<or> is_digit c))
      in RSeq w (RStar (RSeq (RCls (\<lambda>c. c \<in> set ''._-'')) w)))"

definition REPOSITORY_PATTERN :: rx where
  "REPOSITORY_PATTERN = RSeq repository_part (rx_plus (RSeq (rx_chr (CHR ''/'')) repository_part))"

definition DATABASE_IDENTIFIER_PATTERN :: rx where
  "DATABASE_IDENTIFIER_PATTERN =
     RSeq (RCls (\<lambda>c. is_upper c \<or> is_lower c \<or> c = CHR ''_''))
       (rx_upto 62 (RCls (\<lambda>c. is_alnum c \<or> c = CHR ''_'')))"

definition IMAGE_REFERENCE_PATTERN :: rx where
  "IMAGE_REFERENCE_PATTERN =
     RSeq (RCls is_alnum) (rx_upto 299 (RCls (\<lambda>c. is_alnum c \<or> c \<in> set ''._/@:-'')))"

definition lower_hex :: "char \<Rightarrow> bool" where
  "lower_hex c \<longleftrightarrow> is_digit c \<or> c \<in> set ''abcdef''"

definition container_pattern :: rx where
  "container_pattern = RSeq (rx_rep 12 (RCls lower_hex)) (rx_upto 52 (RCls lower_hex))"

definition digest_pattern :: rx where
  "digest_pattern = RSeq (rx_lit ''sha256:'') (rx_rep 64 (RCls lower_hex))"

record agent_config =
  ac_token :: string
  socket_path :: path
  socket_group_gid :: int
  state_file :: path
  project_dir :: path
  compose_file :: path
  host_agent_compose_file :: path
  env_file :: path
  image_repository :: string
  health_url :: string
  docker_binary :: string
  ufw_binary :: string
  cosign_binary :: string
  runtime_dir :: path
  agent_install_dir :: path
  systemd_run_binary :: string
  systemctl_binary :: string
  signing_identity :: string
  signing_issuer :: string

definition default_signing_identity :: string where
  "default_signing_identity =
     ''^https://github.com/AlirezaSayyari/WOLT/.github/workflows/release.yml@refs/tags/v[0-9]+''
     @ [CHR 0x5C] @ ''.[0-9]+'' @ [CHR 0x5C] @ ''.[0-9]+.*$''"

text \<open>\<open>resolve\<close> is \<^verbatim>\<open>Path(s).resolve()\<close>, which follows the links the host has.\<close>

definition from_env :: "path \<Rightarrow> (string \<Rightarrow> path) \<Rightarrow> (string \<rightharpoonup> string) \<Rightarrow> exn + agent_config" where
  "from_env cwd resolve env =
     (let token = env_or env ''WOLT_HOST_AGENT_TOKEN'' [];
          project = resolve (env_or env ''WOLT_PROJECT_DIR'' ''/data/WOLT'');
          compose = resolve (env_or env ''WOLT_COMPOSE_FILE'' (path_str (project @ [''compose.web.yml''])));
          host_compose = resolve (env_or env ''WOLT_HOST_AGENT_COMPOSE_FILE''
                           (path_str (project @ [''compose.host-agent.yml''])));
          envf = resolve (env_or env ''WOLT_ENV_FILE'' (path_str (project @ [''.env.web''])));
          repository = py_lower (py_strip (env_or env ''WOLT_IMAGE_REPOSITORY'' ''alirezasayyari/wolt''));
          runtime = resolve (env_or env ''WOLT_RUNTIME_DIR'' (path_str (project @ [''runtime''])))
      in res_bind (guard (32 \<le> length token) (AgentError ''host_agent_token_too_short'' 400)) (\<lambda>_.
         res_bind (guard (below project compose \<and> below project host_compose \<and> below project envf)
                     (AgentError ''host_agent_path_outside_project'' 400)) (\<lambda>_.
         res_bind (guard (re_fullmatch REPOSITORY_PATTERN repository) (AgentError ''invalid_image_repository'' 400)) (\<lambda>_.
         res_bind (guard (below project runtime) (AgentError ''host_agent_path_outside_project'' 400)) (\<lambda>_.
         res_bind (of_option (ValueError ''invalid literal for int() with base 10'')
                     (py_int (env_or env ''WOLT_HOST_AGENT_GID'' ''-1''))) (\<lambda>gid.
         Inr \<lparr>ac_token = token,
              socket_path = path_of cwd (env_or env ''WOLT_HOST_AGENT_SOCKET'' ''/run/wolt-agent/agent.sock''),
              socket_group_gid = gid,
              state_file = path_of cwd (env_or env ''WOLT_HOST_AGENT_STATE'' ''/var/lib/wolt-agent/state.json''),
              project_dir = project, compose_file = compose,
              host_agent_compose_file = host_compose, env_file = envf,
              image_repository = repository,
              health_url = env_or env ''WOLT_HEALTH_URL'' ''http://127.0.0.1:8080/api/v1/health/ready'',
              docker_binary = env_or env ''WOLT_DOCKER_BINARY'' ''/usr/bin/docker'',
              ufw_binary = env_or env ''WOLT_UFW_BINARY'' ''/usr/sbin/ufw'',
              cosign_binary = env_or env ''WOLT_COSIGN_BINARY'' ''/usr/local/bin/cosign'',
              runtime_dir = runtime,
              agent_install_dir = resolve (env_or env ''WOLT_AGENT_INSTALL_DIR'' ''/opt/wolt-host-agent/host_agent''),
              systemd_run_binary = env_or env ''WOLT_SYSTEMD_RUN_BINARY'' ''/usr/bin/systemd-run'',
              systemctl_binary = env_or env ''WOLT_SYSTEMCTL_BINARY'' ''/usr/bin/systemctl'',
              signing_identity = default_signing_identity,
              signing_issuer = ''https://token.actions.githubusercontent.com''\<rparr>))))))"

section \<open>Dictionaries read from JSON\<close>

text \<open>\<^verbatim>\<open>v.get(k)\<close>, \<^verbatim>\<open>v[k]\<close> and \<^verbatim>\<open>v[k] = w\<close> on a value that should be a dictionary\<close>

definition j_get :: "json \<Rightarrow> string \<Rightarrow> json \<Rightarrow> exn + json" where
  "j_get v k dflt = (case v of JObj d \<Rightarrow> Inr (dict_get_or d k dflt) | _ \<Rightarrow> Inl AttributeError)"

definition j_item :: "json \<Rightarrow> string \<Rightarrow> exn + json" where
  "j_item v k = (case v of JObj d \<Rightarrow> of_option KeyError (dict_get d k) | _ \<Rightarrow> Inl TypeError)"

definition j_set :: "json \<Rightarrow> string \<Rightarrow> json \<Rightarrow> exn + json" where
  "j_set v k w = (case v of JObj d \<Rightarrow> Inr (JObj (dict_set d k w)) | _ \<Rightarrow> Inl TypeError)"

definition j_pop :: "json \<Rightarrow> string \<Rightarrow> exn + json" where
  "j_pop v k = (case v of JObj d \<Rightarrow> Inr (JObj (dict_pop d k)) | _ \<Rightarrow> Inl AttributeError)"

text \<open>The comparison \<^verbatim>\<open>v == n\<close> with an integer: numbers compare by value.\<close>

definition eq_int :: "json \<Rightarrow> int \<Rightarrow> bool" where
  "eq_int v n =
     (case v of JInt i \<Rightarrow> i = n | JBool b \<Rightarrow> (if b then 1 else 0) = n | JFloat f \<Rightarrow> f = Fin (of_int n) | _ \<Rightarrow> False)"

section \<open>The state file\<close>

text \<open>The octal modes of the code\<close>

abbreviation mode_600 :: nat where "mode_600 \<equiv> 384"
abbreviation mode_644 :: nat where "mode_644 \<equiv> 420"
abbreviation mode_755 :: nat where "mode_755 \<equiv> 493"

definition store_read :: "agent_config \<Rightarrow> json hm" where
  "store_read c =
     h_catch (h_bind (read_text (state_file c)) (\<lambda>s. h_lift (of_option JSONDecodeError (json_loads s))))
       (\<lambda>e. if e = FileNotFoundError \<or> e = JSONDecodeError then h_return (JObj []) else h_raise e)"

definition store_write :: "agent_config \<Rightarrow> json \<Rightarrow> unit hm" where
  "store_write c state =
     h_bind h_ask (\<lambda>l.
     h_bind (file_op (Mkdir (butlast (state_file c)))) (\<lambda>_.
     h_bind (h_lift (with_suffix (state_file c) ''.tmp'')) (\<lambda>temporary.
     h_bind (file_op (WriteText temporary (json_dumps (hl_repr l) '', '' '': '' (json_sort state)))) (\<lambda>_.
     h_bind (file_op (Chmod temporary mode_600)) (\<lambda>_.
     file_op (Replace temporary (state_file c)))))))"

section \<open>Commands\<close>

definition agent_run :: "string list \<Rightarrow> string hm" where
  "agent_run args =
     h_bind (runner args) (\<lambda>r.
       case r of
         RunRaised e out \<Rightarrow>
           (if is_os_error (io_exn e) \<or> io_exn e = TimeoutExpired then h_raise (AgentError ''host_command_failed'' 502)
            else h_raise (io_exn e))
       | Exited rc out \<Rightarrow> (if rc \<noteq> 0 then h_raise (AgentError ''host_command_failed'' 502) else h_return out))"

section \<open>The firewall\<close>

definition network_values :: "string \<Rightarrow> int \<Rightarrow> int \<Rightarrow> exn + string \<times> int \<times> int" where
  "network_values source_ip start end =
     res_bind (of_option (AgentError ''invalid_firewall_source_ip'' 400) (map_option ip_str (ip_address source_ip))) (\<lambda>source.
     res_bind (guard (1024 \<le> start \<and> start \<le> end \<and> end \<le> 65535) (AgentError ''invalid_published_udp_range'' 400)) (\<lambda>_.
     res_bind (guard (end - start + 1 \<le> 100) (AgentError ''published_udp_range_too_wide'' 400)) (\<lambda>_.
     Inr (source, start, end))))"

definition ufw_rule :: "agent_config \<Rightarrow> string \<Rightarrow> int \<Rightarrow> int \<Rightarrow> bool \<Rightarrow> string list" where
  "ufw_rule c source start end delete =
     [ufw_binary c, ''--force''] @ (if delete then [''delete''] else [])
     @ [''allow'', ''proto'', ''udp'', ''from'', source, ''to'', ''any'', ''port'',
        int_str start @ '':'' @ int_str end, ''comment'', ''WOLT-managed'']"

definition run_ufw :: "string list \<Rightarrow> string hm" where
  "run_ufw args =
     h_catch (agent_run args)
       (\<lambda>e. case e of AgentError d n \<Rightarrow> h_raise (AgentError ''firewall_command_failed'' 502) | _ \<Rightarrow> h_raise e)"

definition agent_status :: "agent_config \<Rightarrow> json hm" where
  "agent_status c =
     h_bind h_ask (\<lambda>l.
     h_bind (store_read c) (\<lambda>state.
     h_bind (h_get h_fs) (\<lambda>f.
     h_bind
       (if is_file f (path_of (hl_cwd l) (ufw_binary c))
        then h_catch (h_bind (agent_run [ufw_binary c, ''status''])
                        (\<lambda>output. h_return (occurs_in ''Status: active'' output, False)))
               (\<lambda>e. case e of AgentError d n \<Rightarrow> h_return (False, True) | _ \<Rightarrow> h_raise e)
        else h_return (False, False)) (\<lambda>(ufw_active, ufw_status_error).
     h_bind (h_lift (j_get state ''firewall'' JNull)) (\<lambda>firewall.
     h_bind (h_lift (j_get state ''deployment'' JNull)) (\<lambda>deployment.
     h_bind (h_lift (j_get state ''last_successful'' JNull)) (\<lambda>last_successful.
     h_return (JObj
       [(''agent_version'', JStr ''1.1.2''),
        (''ufw_available'', JBool (is_file f (path_of (hl_cwd l) (ufw_binary c)))),
        (''ufw_active'', JBool ufw_active), (''ufw_status_error'', JBool ufw_status_error),
        (''docker_available'', JBool (is_file f (path_of (hl_cwd l) (docker_binary c)))),
        (''cosign_available'', JBool (is_file f (path_of (hl_cwd l) (cosign_binary c)))),
        (''image_repository'', JStr (image_repository c)),
        (''managed_firewall'', firewall), (''deployment'', deployment), (''last_successful'', last_successful),
        (''capabilities'', JList (map JStr [''ufw'', ''published_udp_range'', ''upgrade'', ''rollback'']))]))))))))"

text \<open>The rule as the state file holds it, and \<^verbatim>\<open>previous == {...}\<close>.\<close>

definition rule_json :: "string \<Rightarrow> int \<Rightarrow> int \<Rightarrow> json" where
  "rule_json source start end =
     JObj [(''source_ip'', JStr source), (''udp_start'', JInt start), (''udp_end'', JInt end)]"

definition same_rule :: "json \<Rightarrow> string \<Rightarrow> int \<Rightarrow> int \<Rightarrow> bool" where
  "same_rule v source start end =
     (case v of
        JObj d \<Rightarrow> length d = 3 \<and> dict_get d ''source_ip'' = Some (JStr source)
          \<and> eq_int (dict_get_or d ''udp_start'' JNull) start \<and> eq_int (dict_get_or d ''udp_end'' JNull) end
      | _ \<Rightarrow> False)"

record firewall_plan =
  plan_source_ip :: string
  plan_udp_start :: int
  plan_udp_end :: int
  plan_previous :: json
  plan_actions :: "string list"
  plan_rule :: string

definition plan_json :: "firewall_plan \<Rightarrow> json" where
  "plan_json p = JObj
     [(''source_ip'', JStr (plan_source_ip p)), (''udp_start'', JInt (plan_udp_start p)),
      (''udp_end'', JInt (plan_udp_end p)), (''previous'', plan_previous p),
      (''actions'', JList (map JStr (plan_actions p))), (''rule'', JStr (plan_rule p))]"

definition firewall_preview :: "agent_config \<Rightarrow> string \<Rightarrow> int \<Rightarrow> int \<Rightarrow> firewall_plan hm" where
  "firewall_preview c source_ip start end =
     h_bind (h_lift (network_values source_ip start end)) (\<lambda>(source, start, end).
     h_bind (store_read c) (\<lambda>state.
     h_bind (h_lift (j_get state ''firewall'' JNull)) (\<lambda>previous.
     h_return \<lparr>plan_source_ip = source, plan_udp_start = start, plan_udp_end = end, plan_previous = previous,
        plan_actions = (if py_truthy previous \<and> \<not> same_rule previous source start end
                        then [''remove_previous_wolt_rule''] else []),
        plan_rule = ''allow UDP '' @ int_str start @ '':'' @ int_str end @ '' from '' @ source\<rparr>)))"

text \<open>Removing the rule that the state file records. An argument that is not a string cannot be run.\<close>

definition delete_recorded :: "agent_config \<Rightarrow> json \<Rightarrow> unit hm" where
  "delete_recorded c rule =
     h_bind (h_lift (j_item rule ''source_ip'')) (\<lambda>source.
     h_bind (h_lift (res_bind (j_item rule ''udp_start'') py_int_of)) (\<lambda>start.
     h_bind (h_lift (res_bind (j_item rule ''udp_end'') py_int_of)) (\<lambda>end.
     case source of
       JStr s \<Rightarrow> h_bind (run_ufw (ufw_rule c s start end True)) (\<lambda>_. h_return ())
     | _ \<Rightarrow> h_raise TypeError)))"

definition apply_firewall :: "agent_config \<Rightarrow> string \<Rightarrow> int \<Rightarrow> int \<Rightarrow> json hm" where
  "apply_firewall c source_ip start end =
     h_bind (firewall_preview c source_ip start end) (\<lambda>preview.
     let previous = plan_previous preview; source = plan_source_ip preview;
         start = plan_udp_start preview; end = plan_udp_end preview; current = rule_json source start end
     in h_bind (h_when (py_truthy previous \<and> \<not> same_rule previous source start end) (delete_recorded c previous)) (\<lambda>_.
        h_bind (run_ufw (ufw_rule c source start end False)) (\<lambda>_.
        h_bind (store_read c) (\<lambda>state.
        h_bind (h_lift (j_set state ''firewall'' current)) (\<lambda>state'.
        h_bind (store_write c state') (\<lambda>_.
        h_return current))))))"

definition remove_firewall :: "agent_config \<Rightarrow> unit hm" where
  "remove_firewall c =
     h_bind (store_read c) (\<lambda>state.
     h_bind (h_lift (j_get state ''firewall'' JNull)) (\<lambda>current.
     h_when (py_truthy current)
       (h_bind (delete_recorded c current) (\<lambda>_.
        h_bind (h_lift (j_pop state ''firewall'')) (\<lambda>state'. store_write c state')))))"

section \<open>Releases and containers\<close>

text \<open>The elements that \<^verbatim>\<open>for row in v\<close> visits\<close>

fun j_iter :: "json \<Rightarrow> exn + json list" where
  "j_iter (JList xs) = Inr xs"
| "j_iter (JObj d) = Inr (map (\<lambda>(k, v). JStr k) d)"
| "j_iter (JStr s) = Inr (map (\<lambda>ch. JStr [ch]) s)"
| "j_iter _ = Inl TypeError"

definition release_row :: "(json \<Rightarrow> string) \<Rightarrow> json \<Rightarrow> exn + json list" where
  "release_row repr row =
     res_bind (j_get row ''name'' (JStr [])) (\<lambda>name.
       if re_fullmatch CANONICAL_VERSION_PATTERN (py_str repr name)
       then res_bind (j_item row ''name'') (\<lambda>name.
            res_bind (j_get row ''digest'' JNull) (\<lambda>digest.
            res_bind (j_get row ''last_updated'' JNull) (\<lambda>updated.
            Inr [JObj [(''name'', name), (''digest'', digest), (''updated_at'', updated)]])))
       else Inr [])"

definition releases :: "agent_config \<Rightarrow> json hm" where
  "releases c =
     h_bind h_ask (\<lambda>l.
     (case py_partition (CHR ''/'') (image_repository c) of
        (namespace, None) \<Rightarrow> h_raise (ValueError ''not enough values to unpack'')
      | (namespace, Some repository) \<Rightarrow>
          h_bind
            (h_catch
               (h_bind (opener (''https://hub.docker.com/v2/repositories/'' @ namespace @ ''/'' @ repository
                                  @ ''/tags?page_size=50&ordering=last_updated'')) (\<lambda>(st, body).
                  h_lift (of_option JSONDecodeError (json_loads body))))
               (\<lambda>e. h_raise (AgentError ''release_discovery_failed'' 502))) (\<lambda>payload.
          h_bind (h_lift (res_bind (j_get payload ''results'' (JList [])) (\<lambda>v.
                    res_bind (j_iter v) (res_map (release_row (hl_repr l)))))) (\<lambda>rows.
          h_return (JObj [(''repository'', JStr (image_repository c)), (''releases'', JList (concat rows))])))))"

definition compose_args :: "agent_config \<Rightarrow> string list \<Rightarrow> string list" where
  "compose_args c args =
     [docker_binary c, ''compose'', ''--project-directory'', path_str (project_dir c),
      ''--env-file'', path_str (env_file c), ''-f'', path_str (compose_file c),
      ''-f'', path_str (host_agent_compose_file c)] @ args"

definition compose :: "agent_config \<Rightarrow> string list \<Rightarrow> unit hm" where
  "compose c args = h_bind (agent_run (compose_args c args)) (\<lambda>_. h_return ())"

definition current_image :: "agent_config \<Rightarrow> string hm" where
  "current_image c =
     h_bind (agent_run (compose_args c [''ps'', ''-q'', ''app''])) (\<lambda>out.
     let container = py_strip out
     in if \<not> re_fullmatch container_pattern container then h_raise (AgentError ''current_image_unavailable'' 502)
        else h_bind (agent_run [docker_binary c, ''inspect'', ''--format={{.Config.Image}}'', container]) (\<lambda>out.
             let image = py_strip out
             in if \<not> re_fullmatch IMAGE_REFERENCE_PATTERN image
                then h_raise (AgentError ''current_image_unavailable'' 502) else h_return image))"

text \<open>
  The image of a release by the digest that the signature covers: \<^verbatim>\<open>entries[0]["critical"]...\<close> raises what the
  handler turns into a failed verification.
\<close>

definition signed_digest :: "string \<Rightarrow> exn + json" where
  "signed_digest out =
     res_bind (of_option JSONDecodeError (json_loads out)) (\<lambda>entries.
     res_bind (case entries of JList [] \<Rightarrow> Inl IndexError | JList (x # xs) \<Rightarrow> Inr x
               | JStr [] \<Rightarrow> Inl IndexError | JStr (x # xs) \<Rightarrow> Inr (JStr [x])
               | JObj d \<Rightarrow> Inl KeyError | _ \<Rightarrow> Inl TypeError) (\<lambda>entry.
     res_bind (j_item entry ''critical'') (\<lambda>critical.
     res_bind (j_item critical ''image'') (\<lambda>image.
     j_item image ''docker-manifest-digest''))))"

definition verified_image :: "agent_config \<Rightarrow> string \<Rightarrow> string hm" where
  "verified_image c version =
     h_bind h_ask (\<lambda>l.
     h_bind (h_get h_fs) (\<lambda>f.
     if \<not> is_file f (path_of (hl_cwd l) (cosign_binary c))
     then h_raise (AgentError ''signature_verification_unavailable'' 503)
     else h_bind
       (h_catch (agent_run
          [cosign_binary c, ''verify'', ''--output'', ''json'', ''--certificate-identity-regexp'', signing_identity c,
           ''--certificate-oidc-issuer'', signing_issuer c, image_repository c @ '':'' @ version])
          (\<lambda>e. case e of AgentError d n \<Rightarrow> h_raise (AgentError ''signature_verification_failed'' 502) | _ \<Rightarrow> h_raise e)) (\<lambda>out.
     case signed_digest out of
       Inl e \<Rightarrow> h_raise (AgentError ''signature_verification_failed'' 502)
     | Inr digest \<Rightarrow>
         (if re_fullmatch digest_pattern (py_str (hl_repr l) digest)
          then h_return (image_repository c @ ''@'' @ py_str (hl_repr l) digest)
          else h_raise (AgentError ''signature_verification_failed'' 502)))))"

section \<open>The environment file\<close>

text \<open>\<^verbatim>\<open>splitlines\<close> on a text whose line ends are line feeds: it also splits at the other separators.\<close>

definition line_break :: "char \<Rightarrow> bool" where
  "line_break ch \<longleftrightarrow> code ch \<in> {0x0A, 0x0B, 0x0C, 0x0D, 0x1C, 0x1D, 0x1E, 0x85}"

fun py_splitlines :: "string \<Rightarrow> string list" where
  "py_splitlines [] = []"
| "py_splitlines (ch # s) =
     (if line_break ch then [] # py_splitlines s
      else (case py_splitlines s of [] \<Rightarrow> [[ch]] | x # xs \<Rightarrow> (ch # x) # xs))"

definition env_line :: "string \<Rightarrow> bool" where
  "env_line line \<longleftrightarrow> line \<noteq> [] \<and> \<not> starts_with ''#'' (py_lstrip line) \<and> CHR ''='' \<in> set line"

definition env_key :: "string \<Rightarrow> string" where
  "env_key line = fst (py_partition (CHR ''='') line)"

definition env_value :: "string \<Rightarrow> string" where
  "env_value line = (case snd (py_partition (CHR ''='') line) of None \<Rightarrow> [] | Some v \<Rightarrow> v)"

fun env_parse :: "string list \<Rightarrow> (string \<times> string) list \<Rightarrow> (string \<times> string) list" where
  "env_parse [] values = values"
| "env_parse (line # lines) values =
     env_parse lines (if env_line line then dict_set values (env_key line) (env_value line) else values)"

definition env_values :: "agent_config \<Rightarrow> (string \<times> string) list hm" where
  "env_values c = h_bind (read_text (env_file c)) (\<lambda>s. h_return (env_parse (py_splitlines s) []))"

definition assignment :: "string \<times> string \<Rightarrow> string" where
  "assignment kv = fst kv @ ''='' @ snd kv"

fun env_output :: "string list \<Rightarrow> (string \<times> string) list \<Rightarrow> string list" where
  "env_output [] remaining = map assignment remaining"
| "env_output (line # lines) remaining =
     (case (if env_line line then map_of remaining (env_key line) else None) of
        Some v \<Rightarrow> assignment (env_key line, v) # env_output lines (dict_pop remaining (env_key line))
      | None \<Rightarrow> line # env_output lines remaining)"

definition update_env :: "agent_config \<Rightarrow> (string \<times> string) list \<Rightarrow> unit hm" where
  "update_env c changes =
     (let p = env_file c
      in h_bind (h_get h_fs) (\<lambda>f.
         if is_symlink f p \<or> \<not> is_file f p then h_raise (AgentError ''unsafe_environment_file'' 400)
         else h_bind (read_text p) (\<lambda>s.
              let output = env_output (py_splitlines s) changes
              in h_bind (h_lift (with_suffix p (path_suffix p @ ''.host-agent-backup''))) (\<lambda>backup.
                 h_bind (file_op (Copy p backup)) (\<lambda>_.
                 h_bind (h_lift (with_suffix p (path_suffix p @ ''.tmp''))) (\<lambda>temporary.
                 h_bind (file_op (WriteText temporary (py_join [CHR 0x0A] output @ [CHR 0x0A]))) (\<lambda>_.
                 h_bind (file_op (Chmod temporary mode_600)) (\<lambda>_.
                 file_op (Replace temporary p)))))))))"

section \<open>The health check\<close>

text \<open>
  The loop polls until the deadline; each turn sleeps two seconds, so it ends.
\<close>

function health_loop :: "string \<Rightarrow> rat \<Rightarrow> bool hm" where
  "health_loop url deadline l h =
     (if h_clock h < deadline
      then (case opener url l h of
          (Inr (st, body), h1) \<Rightarrow>
            (if st = 200 then (Inr True, h1) else health_loop url deadline l (snd (sleep 2 l h1)))
        | (Inl e, h1) \<Rightarrow> health_loop url deadline l (snd (sleep 2 l h1)))
      else (Inr False, h))"
  by pat_completeness auto

lemma clock_opener: "opener url l h = (r, h1) \<Longrightarrow> h_clock h \<le> h_clock h1"
  by (auto simp: opener_def Let_def log_event_def wait_delay_def)

lemma clock_sleep: "h_clock h + n \<le> h_clock (snd (sleep n l h))"
  by (simp add: sleep_def wait_delay_def)

lemma health_measure:
  assumes "h_clock h < deadline" and "opener url l h = (r, h1)"
  shows "\<lceil>deadline - h_clock (snd (sleep 2 l h1))\<rceil> < \<lceil>deadline - h_clock h\<rceil>"
proof -
  have "h_clock h + 2 \<le> h_clock (snd (sleep 2 l h1))"
    using clock_opener [OF assms(2)] clock_sleep [of h1 2 l] by linarith
  then have "\<lceil>deadline - h_clock (snd (sleep 2 l h1))\<rceil> \<le> \<lceil>deadline - h_clock h\<rceil> - 2"
    by linarith
  then show ?thesis by linarith
qed

termination health_loop
  by (relation "measure (\<lambda>(url, deadline, l, h). nat \<lceil>deadline - h_clock h\<rceil>)") (auto intro!: health_measure [OF _ sym])

declare health_loop.simps [simp del]

definition healthy :: "agent_config \<Rightarrow> rat \<Rightarrow> bool hm" where
  "healthy c timeout l h = health_loop (health_url c) (h_clock h + timeout) l h"

section \<open>The environment file reads back\<close>

text \<open>The values that the lines assign to a key, in order; the last one counts.\<close>

definition assigned :: "string list \<Rightarrow> string \<Rightarrow> string list" where
  "assigned lines k = map env_value (filter (\<lambda>line. env_line line \<and> env_key line = k) lines)"

definition one_line :: "string \<Rightarrow> bool" where
  "one_line s \<longleftrightarrow> list_all (\<lambda>ch. \<not> line_break ch) s"

definition good_key :: "string \<Rightarrow> bool" where
  "good_key k \<longleftrightarrow> CHR ''='' \<notin> set k \<and> \<not> starts_with ''#'' (py_lstrip k) \<and> one_line k"

definition good_changes :: "(string \<times> string) list \<Rightarrow> bool" where
  "good_changes ch \<longleftrightarrow> distinct (map fst ch) \<and> list_all (\<lambda>(k, v). good_key k \<and> one_line v) ch"

lemma splitlines_line: "one_line x \<Longrightarrow> py_splitlines (x @ CHR 0x0A # t) = x # py_splitlines t"
proof (induction x)
  case Nil
  then show ?case by (simp add: line_break_def)
next
  case (Cons ch x)
  then have "py_splitlines (x @ CHR 0x0A # t) = x # py_splitlines t" "\<not> line_break ch"
    by (simp_all add: one_line_def)
  then show ?case by simp
qed

lemma splitlines_join:
  "list_all one_line out \<Longrightarrow> out \<noteq> [] \<Longrightarrow> py_splitlines (py_join [CHR 0x0A] out @ [CHR 0x0A]) = out"
  by (induction out rule: induct_list012) (auto simp: splitlines_line)

lemma splitlines_one_line: "list_all one_line (py_splitlines s)"
  by (induction s) (auto simp: one_line_def split: list.splits)

lemma universal_newlines_id: "CHR 0x0D \<notin> set s \<Longrightarrow> universal_newlines s = s"
  by (induction s) auto

lemma join_no_cr: "list_all one_line out \<Longrightarrow> CHR 0x0D \<notin> set (py_join [CHR 0x0A] out @ [CHR 0x0A])"
  by (induction out rule: induct_list012) (auto simp: one_line_def list_all_iff line_break_def)

lemma parse_assigned:
  "map_of (env_parse lines acc) k = (if assigned lines k = [] then map_of acc k else Some (last (assigned lines k)))"
  by (induction lines acc rule: env_parse.induct) (auto simp: assigned_def)

lemma partition_first: "x \<notin> set a \<Longrightarrow> py_partition x (a @ x # b) = (a, Some b)"
  by (induction a) auto

lemma dropWhile_stop: "\<not> P x \<Longrightarrow> dropWhile P (a @ x # b) = dropWhile P a @ x # b"
  by (induction a) auto

lemma assignment_line:
  assumes "good_key k"
  shows "env_line (assignment (k, v))" and "env_key (assignment (k, v)) = k" and "env_value (assignment (k, v)) = v"
proof -
  show "env_key (assignment (k, v)) = k" and "env_value (assignment (k, v)) = v"
    using assms by (simp_all add: good_key_def env_key_def env_value_def assignment_def partition_first)
  have "py_lstrip (k @ CHR ''='' # v) = py_lstrip k @ CHR ''='' # v"
    by (simp add: py_lstrip_def dropWhile_stop is_space_def)
  then show "env_line (assignment (k, v))"
    using assms by (cases "py_lstrip k") (auto simp: env_line_def assignment_def good_key_def starts_with_def)
qed

lemma assigned_appended:
  assumes "good_changes ch"
  shows "assigned (map assignment ch) k = (case map_of ch k of None \<Rightarrow> [] | Some v \<Rightarrow> [v])"
  using assms
proof (induction ch)
  case (Cons x ch)
  obtain k' v where x: "x = (k', v)" by fastforce
  with Cons.prems have "good_key k'" "good_changes ch" "k' \<notin> fst ` set ch" by (auto simp: good_changes_def)
  moreover from this have "map_of ch k' = None" by (simp add: map_of_eq_None_iff)
  ultimately show ?case using Cons.IH
    by (cases "k = k'") (auto simp: x assigned_def assignment_line)
qed (simp add: assigned_def)

lemma good_changes_pop: "good_changes ch \<Longrightarrow> good_changes (dict_pop ch k)"
  by (auto simp: good_changes_def dict_pop_def list_all_iff distinct_map inj_on_def)

lemma good_changes_key: "good_changes ch \<Longrightarrow> map_of ch k = Some v \<Longrightarrow> good_key k \<and> one_line v"
  by (auto simp: good_changes_def list_all_iff dest!: map_of_SomeD)

lemma assigned_output:
  "good_changes ch \<Longrightarrow>
   assigned (env_output lines ch) k =
     (case map_of ch k of None \<Rightarrow> assigned lines k | Some v \<Rightarrow> v # tl (assigned lines k))"
proof (induction lines ch rule: env_output.induct)
  case (1 ch)
  then show ?case by (simp add: assigned_appended) (simp add: assigned_def split: option.split)
next
  case (2 line lines ch)
  show ?case
  proof (cases "if env_line line then map_of ch (env_key line) else None")
    case None
    then show ?thesis using 2 by (auto simp: assigned_def split: option.splits if_splits)
  next
    case (Some v)
    then have line: "env_line line" "map_of ch (env_key line) = Some v" by (auto split: if_splits)
    note new = assignment_line [OF conjunct1 [OF good_changes_key [OF 2(3) line(2)]], of v]
    show ?thesis
      using 2(2) [OF Some good_changes_pop [OF 2(3)]] line new
      by (cases "k = env_key line") (simp_all add: assigned_def split: option.split)
  qed
qed

lemma output_one_line:
  "good_changes ch \<Longrightarrow> list_all one_line lines \<Longrightarrow> list_all one_line (env_output lines ch)"
proof (induction lines ch rule: env_output.induct)
  case (1 ch)
  then show ?case
    by (auto simp: list_all_iff good_changes_def good_key_def one_line_def assignment_def line_break_def)
next
  case (2 line lines ch)
  show ?case
  proof (cases "if env_line line then map_of ch (env_key line) else None")
    case None
    then show ?thesis using 2 by (auto split: if_splits)
  next
    case (Some v)
    then have "map_of ch (env_key line) = Some v" by (auto split: if_splits)
    then have "one_line (assignment (env_key line, v))"
      using good_changes_key [OF 2(3)] by (auto simp: good_key_def one_line_def assignment_def line_break_def)
    then show ?thesis using 2(2) [OF Some good_changes_pop [OF 2(3)]] 2(4) Some by simp
  qed
qed

text \<open>The values that a text of the environment file assigns\<close>

definition env_of :: "string \<Rightarrow> string \<Rightarrow> string option" where
  "env_of s k = map_of (env_parse (py_splitlines (universal_newlines s)) []) k"

lemma env_of_output:
  assumes "good_changes ch" and "lines = py_splitlines (universal_newlines s)"
  shows "env_of (py_join [CHR 0x0A] (env_output lines ch) @ [CHR 0x0A]) k =
    (case map_of ch k of None \<Rightarrow> env_of s k
     | Some v \<Rightarrow> if length (assigned lines k) \<le> 1 then Some v else env_of s k)"
proof -
  let ?out = "env_output lines ch"
  have one: "list_all one_line ?out"
    using output_one_line [OF assms(1)] splitlines_one_line by (simp add: assms(2))
  have "assigned (py_splitlines (universal_newlines (py_join [CHR 0x0A] ?out @ [CHR 0x0A]))) k = assigned ?out k"
  proof (cases "?out = []")
    case True
    then show ?thesis by (simp add: line_break_def assigned_def env_line_def)
  next
    case False
    then show ?thesis using one universal_newlines_id [OF join_no_cr [OF one]] splitlines_join by simp
  qed
  then show ?thesis
    by (cases "assigned lines k"; cases "tl (assigned lines k)")
      (auto simp: env_of_def parse_assigned assigned_output [OF assms(1)] assms(2) [symmetric] split: option.split)
qed

text \<open>The names beside the environment file that an update uses\<close>

definition env_sibling :: "agent_config \<Rightarrow> string \<Rightarrow> path" where
  "env_sibling c s = butlast (env_file c) @ [last (env_file c) @ s]"

lemma env_sibling_apart:
  assumes "env_file c \<noteq> []" and "s \<noteq> []"
  shows "\<not> below (env_sibling c s) (env_file c)" and "length (env_sibling c s) = length (env_file c)"
    and "env_sibling c s \<noteq> env_file c"
proof -
  show "length (env_sibling c s) = length (env_file c)" using assms by (simp add: env_sibling_def)
  moreover show "env_sibling c s \<noteq> env_file c" using assms by (simp add: env_sibling_def sibling_other)
  ultimately show "\<not> below (env_sibling c s) (env_file c)" by (simp add: below_same_length)
qed

text \<open>The second half of an update, from the text that was read: the backup, the new text, and the swap\<close>

abbreviation env_swap :: "agent_config \<Rightarrow> (string \<times> string) list \<Rightarrow> string \<Rightarrow> unit hm" where
  "env_swap c ch t \<equiv>
     h_bind (h_lift (with_suffix (env_file c) (path_suffix (env_file c) @ ''.host-agent-backup''))) (\<lambda>backup.
     h_bind (file_op (Copy (env_file c) backup)) (\<lambda>_.
     h_bind (h_lift (with_suffix (env_file c) (path_suffix (env_file c) @ ''.tmp''))) (\<lambda>temporary.
     replace_file temporary (py_join [CHR 0x0A] (env_output (py_splitlines t) ch) @ [CHR 0x0A]) mode_600 (env_file c))))"

lemma env_swap_spec:
  assumes run: "env_swap c ch t l h = (r, h')" and path: "env_file c \<noteq> []"
    and "\<not> is_symlink (h_fs h) (env_sibling c ''.tmp'')"
    and "\<not> is_symlink (h_fs h) (env_sibling c ''.host-agent-backup'')"
    and "\<not> is_dir (h_fs h) (env_sibling c ''.host-agent-backup'')"
  shows "map_of (h_fs h') (env_file c) =
    (case r of Inl e \<Rightarrow> map_of (h_fs h) (env_file c)
     | Inr _ \<Rightarrow> Some (File (py_join [CHR 0x0A] (env_output (py_splitlines t) ch) @ [CHR 0x0A]) mode_600))"
proof -
  let ?p = "env_file c" and ?bak = "env_sibling c ''.host-agent-backup''" and ?tmp = "env_sibling c ''.tmp''"
  let ?new = "py_join [CHR 0x0A] (env_output (py_splitlines t) ch) @ [CHR 0x0A]"
  note apart = env_sibling_apart [OF path]
  consider (copy) e where "file_op (Copy ?p ?bak) l h = (Inl e, h')" "r = Inl e"
    | (swap) h2 where "file_op (Copy ?p ?bak) l h = (Inr (), h2)" "replace_file ?tmp ?new mode_600 ?p l h2 = (r, h')"
    using run path by (auto simp: with_suffix_extend env_sibling_def exec_simps)
  then show ?thesis
  proof cases
    case copy
    then show ?thesis using copy_spec [OF copy(1)] assms(4,5) apart(1) by simp
  next
    case swap
    have same: "map_of (h_fs h2) x = map_of (h_fs h) x" if "\<not> below ?bak x" for x
      using copy_spec [OF swap(1)] assms(4,5) that by simp
    have "\<not> is_symlink (h_fs h2) ?tmp"
      using same [of ?tmp] assms(3) apart(2) by (simp add: is_symlink_def below_same_length env_sibling_def)
    note rep = replace_file_spec [OF swap(2) this apart(2,3)]
    show ?thesis
    proof (cases r)
      case (Inl e)
      then show ?thesis using rep(1) [of e ?p] same apart(1) by simp
    next
      case (Inr u)
      then show ?thesis using rep(2) by simp
    qed
  qed
qed

text \<open>
  C10: updating the environment file is atomic and exact. If it raises, for whatever reason, the file is
  unchanged. If it returns, the file has mode 0600 and assigns to every changed key its new value and to every other key
  what it assigned before, unless a changed key was assigned on several lines: then its last line still counts.
\<close>

theorem update_env_outcome:
  assumes run: "update_env c ch l h = (r, h')" and "good_changes ch"
    and "\<not> is_symlink (h_fs h) (env_sibling c ''.tmp'')"
    and "\<not> is_symlink (h_fs h) (env_sibling c ''.host-agent-backup'')"
    and "\<not> is_dir (h_fs h) (env_sibling c ''.host-agent-backup'')"
  shows "case r of
      Inl e \<Rightarrow> map_of (h_fs h') (env_file c) = map_of (h_fs h) (env_file c)
    | Inr _ \<Rightarrow> \<exists>s m s'. map_of (h_fs h) (env_file c) = Some (File s m)
        \<and> map_of (h_fs h') (env_file c) = Some (File s' mode_600)
        \<and> (\<forall>k. env_of s' k = (case map_of ch k of None \<Rightarrow> env_of s k
              | Some v \<Rightarrow> if length (assigned (py_splitlines (universal_newlines s)) k) \<le> 1 then Some v else env_of s k))"
proof -
  let ?p = "env_file c"
  consider (refused) e where "r = Inl e" "h_fs h' = h_fs h"
    | (present) t h1 where "\<not> is_symlink (h_fs h) ?p" "read_text ?p l h = (Inr t, h1)" "env_swap c ch t l h1 = (r, h')"
    using run read_text_spec(1)
    by (fastforce simp: update_env_def Let_def exec_simps split: if_splits)
  then show ?thesis
  proof cases
    case refused
    then show ?thesis by simp
  next
    case present
    have fs1: "h_fs h1 = h_fs h" by (rule read_text_spec(1) [OF present(2)])
    obtain s m where s: "map_of (h_fs h) ?p = Some (File s m)" "t = universal_newlines s"
      using read_text_spec(2) [OF present(2) refl present(1)] by blast
    show ?thesis
    proof (cases "?p = []")
      case True
      then have "r = Inl (ValueError ''has an empty name'')" "h' = h1"
        using present(3) by (simp_all add: exec_simps with_suffix_def)
      then show ?thesis by (simp add: fs1)
    next
      case False
      from env_swap_spec [OF present(3) this] assms(3-5) fs1 s env_of_output [OF assms(2) refl, of s]
      show ?thesis by (auto split: sum.splits)
    qed
  qed
qed

section \<open>The health check ends\<close>

definition is_fetch :: "host_event \<Rightarrow> bool" where
  "is_fetch ev = (case ev of Fetched u r \<Rightarrow> True | _ \<Rightarrow> False)"

definition answered :: "string \<Rightarrow> host_event list \<Rightarrow> bool" where
  "answered url evs \<longleftrightarrow> (\<exists>body. Fetched url (Inr (200, body)) \<in> set evs)"

lemma opener_spec:
  assumes "opener url l h = (r, h1)"
  shows "h_trace h1 = h_trace h @ [Fetched url (hl_open l (h_trace h) url)]" and "h_fs h1 = h_fs h"
    and "r = (case hl_open l (h_trace h) url of Inl e \<Rightarrow> Inl (io_exn e) | Inr x \<Rightarrow> Inr x)"
  using assms by (auto simp: opener_def Let_def log_event_def)

lemma health_bound: "c' \<ge> c + 2 \<Longrightarrow> c < d \<Longrightarrow> Suc (nat \<lceil>(d - c') / 2\<rceil>) \<le> nat \<lceil>(d - c :: rat) / 2\<rceil>"
proof -
  assume "c' \<ge> c + 2" "c < d"
  then have "(d - c') / 2 \<le> (d - c) / 2 - 1" by (simp add: field_simps)
  then have "\<lceil>(d - c') / 2\<rceil> \<le> \<lceil>(d - c) / 2\<rceil> - 1" by linarith
  moreover have "0 < \<lceil>(d - c) / 2\<rceil>" using \<open>c < d\<close> by simp
  ultimately show ?thesis by linarith
qed

lemma health_loop_outcome:
  "\<exists>b h' evs. health_loop url deadline l h = (Inr b, h') \<and> h_trace h' = h_trace h @ evs \<and> h_fs h' = h_fs h
     \<and> b = answered url evs \<and> length (filter is_fetch evs) \<le> nat \<lceil>(deadline - h_clock h) / 2\<rceil>
     \<and> (\<not> b \<longrightarrow> deadline \<le> h_clock h')"
proof (induction url deadline l h rule: health_loop.induct)
  case (1 url deadline l h)
  show ?case
  proof (cases "h_clock h < deadline")
    case False
    then show ?thesis by (subst health_loop.simps) (auto simp: answered_def)
  next
    case True
    obtain r h1 where o: "opener url l h = (r, h1)" by fastforce
    note spec = opener_spec [OF o]
    let ?x = "hl_open l (h_trace h) url" and ?h2 = "snd (sleep 2 l h1)"
    show ?thesis
    proof (cases "\<exists>body. ?x = Inr (200, body)")
      case ok: True
      then have "health_loop url deadline l h = (Inr True, h1)"
        using True o spec(3) by (subst health_loop.simps) auto
      moreover have "0 < \<lceil>(deadline - h_clock h) / 2\<rceil>" using True by simp
      then have "Suc 0 \<le> nat \<lceil>(deadline - h_clock h) / 2\<rceil>" by linarith
      ultimately show ?thesis
        using spec ok by (auto simp: answered_def is_fetch_def intro!: exI [of _ "[Fetched url ?x]"] split: sum.splits)
    next
      case no: False
      then have loop: "health_loop url deadline l h = health_loop url deadline l ?h2"
        using True o spec(3) by (subst health_loop.simps) (auto split: sum.splits)
      have "\<exists>b h' evs. health_loop url deadline l ?h2 = (Inr b, h') \<and> h_trace h' = h_trace ?h2 @ evs \<and> h_fs h' = h_fs ?h2
         \<and> b = answered url evs \<and> length (filter is_fetch evs) \<le> nat \<lceil>(deadline - h_clock ?h2) / 2\<rceil>
         \<and> (\<not> b \<longrightarrow> deadline \<le> h_clock h')"
        using 1 True o no spec(3) by (cases r) (auto split: sum.splits)
      then obtain b h' evs where *: "health_loop url deadline l ?h2 = (Inr b, h')" "h_trace h' = h_trace ?h2 @ evs"
        "h_fs h' = h_fs ?h2" "b = answered url evs" "length (filter is_fetch evs) \<le> nat \<lceil>(deadline - h_clock ?h2) / 2\<rceil>"
        "\<not> b \<longrightarrow> deadline \<le> h_clock h'" by blast
      let ?evs = "Fetched url ?x # Slept # evs"
      have "h_clock h + 2 \<le> h_clock ?h2" using clock_opener [OF o] clock_sleep [of h1 2 l] by linarith
      then have "length (filter is_fetch ?evs) \<le> nat \<lceil>(deadline - h_clock h) / 2\<rceil>"
        using *(5) health_bound [OF _ True] by (fastforce simp: is_fetch_def)
      moreover have "h_trace h' = h_trace h @ ?evs" "h_fs h' = h_fs h"
        using *(2,3) spec(1,2) by (simp_all add: sleep_def log_event_def)
      moreover have "b = answered url ?evs" using *(4) no by (auto simp: answered_def dest: sym)
      ultimately show ?thesis
        using loop *(1,6) by (intro exI [of _ b] exI [of _ h'] exI [of _ ?evs]) simp
    qed
  qed
qed

text \<open>
  C14: the health check. It always ends, with true or false and never with an exception, after at most one request per
  two seconds of its timeout; it returns true exactly if one of them was answered with status 200, and it gives up only
  when the timeout has passed.
\<close>

theorem healthy_outcome:
  "\<exists>b h' evs. healthy c timeout l h = (Inr b, h') \<and> h_trace h' = h_trace h @ evs \<and> h_fs h' = h_fs h
     \<and> b = answered (health_url c) evs \<and> length (filter is_fetch evs) \<le> nat \<lceil>timeout / 2\<rceil>
     \<and> (b \<or> h_clock h + timeout \<le> h_clock h')"
  using health_loop_outcome [of "health_url c" "h_clock h + timeout" l h] by (simp add: healthy_def disj_imp)

end
