(* ===== verification/Host_Firewall.thy ===== *)
theory Host_Firewall
  imports Host_Agent
begin

text \<open>
  What the host agent's state file and firewall commands amount to. The state file reads back what was last
  written to it. The rules that are in force are those that the successful commands of the trace added and
  did not delete; the lemmas relate them to the rule that the state file records.
\<close>

section \<open>The state file reads back\<close>

text \<open>The document that the state file holds; a missing or unreadable one counts as empty.\<close>

definition stored_state :: "agent_config \<Rightarrow> host \<Rightarrow> json" where
  "stored_state c h =
     (case fs_file (h_fs h) (state_file c) of
        None \<Rightarrow> JObj []
      | Some (s, m) \<Rightarrow> (case json_loads (universal_newlines s) of None \<Rightarrow> JObj [] | Some v \<Rightarrow> v))"

definition state_tmp :: "agent_config \<Rightarrow> path" where
  "state_tmp c = butlast (state_file c) @ [fst (split_suffix (last (state_file c))) @ ''.tmp'']"

text \<open>The state file and its temporary are two names, and neither is a link.\<close>

definition store_plain :: "agent_config \<Rightarrow> fs \<Rightarrow> bool" where
  "store_plain c f \<longleftrightarrow> state_file c \<noteq> [] \<and> state_tmp c \<noteq> state_file c
     \<and> \<not> is_symlink f (state_file c) \<and> \<not> is_symlink f (state_tmp c)"

lemma store_read_spec:
  assumes "store_read c l h = (r, h')"
  shows "h_fs h' = h_fs h" and "r = Inr v \<Longrightarrow> v = stored_state c h"
proof -
  show "h_fs h' = h_fs h"
    using assms read_text_spec(1) by (fastforce simp: store_read_def exec_simps split: if_splits)
  show "r = Inr v \<Longrightarrow> v = stored_state c h"
    using assms
    by (auto simp: store_read_def exec_simps read_text_def Let_def stored_state_def of_option_def
        split: if_splits option.splits prod.splits)
qed

lemma state_tmp_apart:
  assumes "store_plain c f"
  shows "with_suffix (state_file c) ''.tmp'' = Inr (state_tmp c)"
    and "length (state_tmp c) = length (state_file c)" and "state_tmp c \<noteq> state_file c"
    and "\<not> below (state_tmp c) (state_file c)"
    and "\<not> below (state_file c) (butlast (state_file c))" and "\<not> below (state_tmp c) (butlast (state_file c))"
proof -
  have ne: "state_file c \<noteq> []" and tmp: "state_tmp c \<noteq> state_file c" using assms by (simp_all add: store_plain_def)
  show "state_tmp c \<noteq> state_file c" by (rule tmp)
  show "with_suffix (state_file c) ''.tmp'' = Inr (state_tmp c)" using ne by (simp add: with_suffix_def state_tmp_def)
  show len: "length (state_tmp c) = length (state_file c)" using ne by (simp add: state_tmp_def)
  then show "\<not> below (state_tmp c) (state_file c)" using tmp by (simp add: below_same_length)
  show "\<not> below (state_file c) (butlast (state_file c))" and "\<not> below (state_tmp c) (butlast (state_file c))"
    using ne len by (cases "state_file c"; auto dest!: below_length)+
qed

lemma stored_state_file:
  "map_of (h_fs h) (state_file c) = Some (File (json_dumps repr '', '' '': '' v) m) \<Longrightarrow> json_ok v \<Longrightarrow> stored_state c h = v"
proof -
  assume here: "map_of (h_fs h) (state_file c) = Some (File (json_dumps repr '', '' '': '' v) m)" and ok: "json_ok v"
  have "CHR 0x0D \<notin> set (json_dumps repr '', '' '': '' v)"
    using dumps_printable [OF ok, of "CHR 0x0D" repr "'', ''" "'': ''"] by (auto simp: printable_def)
  moreover have "fs_file (h_fs h) (state_file c) = Some (json_dumps repr '', '' '': '' v, m)"
    using fs_file_plain [OF is_symlink_File [OF here]] here by blast
  ultimately show ?thesis
    using loads_dumps [OF ok] by (simp add: stored_state_def universal_newlines_id)
qed

lemma stored_state_cong:
  "\<not> is_symlink (h_fs h) (state_file c) \<Longrightarrow> map_of (h_fs h') (state_file c) = map_of (h_fs h) (state_file c) \<Longrightarrow>
   stored_state c h' = stored_state c h"
  by (simp add: stored_state_def fs_file_def fs_real_no_link is_symlink_def)

lemma store_write_spec:
  assumes run: "store_write c v l h = (r, h')" and plain: "store_plain c (h_fs h)"
  shows "r = Inl e \<Longrightarrow> map_of (h_fs h') (state_file c) = map_of (h_fs h) (state_file c)"
    and "r = Inr () \<Longrightarrow> json_ok v \<Longrightarrow> stored_state c h' = json_sort v"
    and "r = Inr () \<Longrightarrow> store_plain c (h_fs h')"
proof -
  note apart = state_tmp_apart [OF plain]
  let ?s = "json_dumps (hl_repr l) '', '' '': '' (json_sort v)"
  consider (dir) e where "file_op (Mkdir (butlast (state_file c))) l h = (Inl e, h')" "r = Inl e"
    | (swap) h1 where "file_op (Mkdir (butlast (state_file c))) l h = (Inr (), h1)"
        "replace_file (state_tmp c) ?s mode_600 (state_file c) l h1 = (r, h')"
    using run apart(1) by (auto simp: store_write_def exec_simps)
  then have "(r = Inl e \<longrightarrow> map_of (h_fs h') (state_file c) = map_of (h_fs h) (state_file c))
    \<and> (r = Inr () \<longrightarrow> map_of (h_fs h') (state_file c) = Some (File ?s mode_600) \<and> store_plain c (h_fs h'))" for e
  proof cases
    case dir
    then show ?thesis using mkdir_frame [OF dir(1) apart(5)] by simp
  next
    case swap
    have no: "\<not> is_symlink (h_fs h1) (state_tmp c)"
      using mkdir_frame [OF swap(1) apart(6)] plain by (simp add: store_plain_def is_symlink_def)
    note rep = replace_file_spec [OF swap(2) no apart(2,3)]
    show ?thesis
      using rep(1) [OF _ apart(4)] rep(2,4) mkdir_frame [OF swap(1) apart(5)] plain
      by (auto simp: store_plain_def is_symlink_def)
  qed
  then show "r = Inl e \<Longrightarrow> map_of (h_fs h') (state_file c) = map_of (h_fs h) (state_file c)"
    and "r = Inr () \<Longrightarrow> json_ok v \<Longrightarrow> stored_state c h' = json_sort v"
    and "r = Inr () \<Longrightarrow> store_plain c (h_fs h')"
    using stored_state_file json_ok_sort by blast+
qed

section \<open>The rules in force\<close>

definition port_range :: "int \<Rightarrow> int \<Rightarrow> string" where
  "port_range start end = int_str start @ '':'' @ int_str end"

text \<open>
  A command that adds a rule has 13 arguments, the source at 6 and the ports at 10; one that deletes it has one more.
\<close>

definition ufw_args :: "agent_config \<Rightarrow> bool \<Rightarrow> string \<times> string \<Rightarrow> string list" where
  "ufw_args c delete rule =
     [ufw_binary c, ''--force''] @ (if delete then [''delete''] else [])
     @ [''allow'', ''proto'', ''udp'', ''from'', fst rule, ''to'', ''any'', ''port'', snd rule, ''comment'', ''WOLT-managed'']"

lemma ufw_rule_args: "ufw_rule c source start end delete = ufw_args c delete (source, port_range start end)"
  by (simp add: ufw_rule_def ufw_args_def port_range_def)

fun ufw_step :: "agent_config \<Rightarrow> host_event \<Rightarrow> (string \<times> string) set \<Rightarrow> (string \<times> string) set" where
  "ufw_step c (Ran args (Exited rc out)) rules =
     (if rc \<noteq> 0 then rules
      else if args = ufw_args c False (args ! 6, args ! 10) then insert (args ! 6, args ! 10) rules
      else if args = ufw_args c True (args ! 7, args ! 11) then rules - {(args ! 7, args ! 11)}
      else rules)"
| "ufw_step c ev rules = rules"

definition ufw_rules :: "agent_config \<Rightarrow> host_event list \<Rightarrow> (string \<times> string) set" where
  "ufw_rules c trace = fold (ufw_step c) trace {}"

lemma ufw_step_rule:
  "ufw_step c (Ran (ufw_args c delete rule) (Exited rc out)) rules =
     (if rc \<noteq> 0 then rules else if delete then rules - {rule} else insert rule rules)"
  by (simp add: ufw_args_def)

declare ufw_step.simps(1) [simp del]

lemma ufw_rules_snoc: "ufw_rules c (trace @ [ev]) = ufw_step c ev (ufw_rules c trace)"
  by (simp add: ufw_rules_def)

lemma run_ufw_spec:
  assumes "run_ufw (ufw_args c delete rule) l h = (r, h')"
  shows "map_of (h_fs h') x = map_of (snd (hl_run l (h_trace h) (ufw_args c delete rule) (h_fs h))) x"
    and "r = Inr out \<Longrightarrow> ufw_rules c (h_trace h') =
           (if delete then ufw_rules c (h_trace h) - {rule} else insert rule (ufw_rules c (h_trace h)))"
    and "r = Inl e \<Longrightarrow> ufw_rules c (h_trace h') = ufw_rules c (h_trace h)"
  using assms
  by (auto simp: run_ufw_def agent_run_def exec_simps runner_def log_event_def ufw_rules_snoc ufw_step_rule
      split: prod.splits run_result.splits if_splits exn.splits)

text \<open>Only commands change the rules in force.\<close>

lemma keeps_rules_read [keeps_intros]: "keeps l (\<lambda>h. ufw_rules c (h_trace h) = R) (read_text p)"
  by (auto simp: keeps_def read_text_def log_event_def Let_def ufw_rules_snoc split: option.splits)

lemma keeps_rules_file [keeps_intros]: "keeps l (\<lambda>h. ufw_rules c (h_trace h) = R) (file_op op)"
  by (auto simp: keeps_def file_op_def log_event_def Let_def ufw_rules_snoc split: option.splits sum.splits)

lemma keeps_rules_store [keeps_intros]:
  "keeps l (\<lambda>h. ufw_rules c (h_trace h) = R) (store_read c')"
  "keeps l (\<lambda>h. ufw_rules c (h_trace h) = R) (store_write c' v)"
  unfolding store_read_def store_write_def by (intro keeps_intros)+

lemmas rules_kept = keepsD [OF keeps_rules_store(1) refl] keepsD [OF keeps_rules_store(2) refl]

section \<open>The recorded rule is the rule in force\<close>

text \<open>What the agent records and what is in force agree.\<close>

definition records :: "json \<Rightarrow> string \<Rightarrow> int \<Rightarrow> int \<Rightarrow> bool" where
  "records v source start end =
     (case v of
        JObj d \<Rightarrow> length d = 3 \<and> dict_get d ''source_ip'' = Some (JStr source)
          \<and> dict_get d ''udp_start'' = Some (JInt start) \<and> dict_get d ''udp_end'' = Some (JInt end)
      | _ \<Rightarrow> False)"

definition in_force :: "agent_config \<Rightarrow> host \<Rightarrow> (string \<times> int \<times> int) option \<Rightarrow> bool" where
  "in_force c h rule \<longleftrightarrow>
     (\<exists>d. stored_state c h = JObj d \<and> json_ok (JObj d)
        \<and> (case rule of
             None \<Rightarrow> dict_get d ''firewall'' = None \<and> ufw_rules c (h_trace h) = {}
           | Some (source, start, end) \<Rightarrow> (\<exists>v. dict_get d ''firewall'' = Some v \<and> records v source start end)
               \<and> ufw_rules c (h_trace h) = {(source, port_range start end)}))"

text \<open>The commands leave the state file alone.\<close>

definition store_spared :: "agent_config \<Rightarrow> host_lib \<Rightarrow> bool" where
  "store_spared c l \<longleftrightarrow>
     (\<forall>trace args f x. x = state_file c \<or> x = state_tmp c \<longrightarrow> map_of (snd (hl_run l trace args f)) x = map_of f x)"

lemma records_same: "records v s a b \<Longrightarrow> same_rule v s' a' b' \<longleftrightarrow> (s', a', b') = (s, a, b)"
  by (auto simp: records_def same_rule_def dict_get_def dict_get_or_def eq_int_def split: json.splits)

lemma records_truthy: "records v s a b \<Longrightarrow> py_truthy v"
  by (auto simp: records_def split: json.splits)

lemma sorted_get:
  assumes "distinct (map fst d)"
  shows "map_of (sort_key fst (map (\<lambda>(k, v). (k, json_sort v)) d)) k = map_option json_sort (map_of d k)"
proof -
  have "map fst (map (\<lambda>(k, v). (k, json_sort v)) d) = map fst d" by (induction d) auto
  then have "distinct (map fst (map (\<lambda>(k, v). (k, json_sort v)) d))" using assms by (simp only:)
  from map_of_sort_key [OF this] show ?thesis by (simp add: map_of_map)
qed

lemma records_sorted_rule: "records (json_sort (rule_json s a b)) s a b"
  using sorted_get [of "[(''source_ip'', JStr s), (''udp_start'', JInt a), (''udp_end'', JInt b)]"]
  by (simp add: rule_json_def records_def dict_get_def)

lemma delete_recorded_spec:
  assumes "delete_recorded c v l h = (r, h')" and "records v source start end"
  shows "\<exists>r'. run_ufw (ufw_args c True (source, port_range start end)) l h = (r', h')
    \<and> (case r' of Inl e \<Rightarrow> r = Inl e | Inr out \<Rightarrow> r = Inr ())"
  using assms
  by (auto simp: delete_recorded_def exec_simps records_def j_item_def ufw_rule_args split: json.splits sum.splits)

lemma spared_run:
  assumes "run_ufw (ufw_args c delete rule) l h = (r, h')" and "store_spared c l" and "store_plain c (h_fs h)"
  shows "map_of (h_fs h') (state_file c) = map_of (h_fs h) (state_file c)" and "store_plain c (h_fs h')"
    and "stored_state c h' = stored_state c h"
proof -
  show same: "map_of (h_fs h') (state_file c) = map_of (h_fs h) (state_file c)"
    using run_ufw_spec(1) [OF assms(1)] assms(2) by (simp add: store_spared_def)
  moreover have "map_of (h_fs h') (state_tmp c) = map_of (h_fs h) (state_tmp c)"
    using run_ufw_spec(1) [OF assms(1)] assms(2) by (simp add: store_spared_def)
  ultimately show "store_plain c (h_fs h')" using assms(3) by (simp add: store_plain_def is_symlink_def)
  show "stored_state c h' = stored_state c h"
    using same assms(3) by (intro stored_state_cong) (simp_all add: store_plain_def)
qed

text \<open>The end of an application: adding the rule and recording it\<close>

abbreviation install_rule :: "agent_config \<Rightarrow> string \<Rightarrow> int \<Rightarrow> int \<Rightarrow> json hm" where
  "install_rule c source start end \<equiv>
     h_bind (run_ufw (ufw_rule c source start end False)) (\<lambda>_.
     h_bind (store_read c) (\<lambda>state.
     h_bind (h_lift (j_set state ''firewall'' (rule_json source start end))) (\<lambda>state'.
     h_bind (store_write c state') (\<lambda>_. h_return (rule_json source start end)))))"

lemma install_spec:
  assumes run: "install_rule c source start end l h = (r, h')"
    and spared: "store_spared c l" and plain: "store_plain c (h_fs h)"
    and state: "stored_state c h = JObj d" "json_ok (JObj d)"
  shows "case r of
      Inl e \<Rightarrow> stored_state c h' = stored_state c h
        \<and> ufw_rules c (h_trace h') \<subseteq> insert (source, port_range start end) (ufw_rules c (h_trace h))
    | Inr v \<Rightarrow> v = rule_json source start end \<and> stored_state c h' = json_sort (JObj (dict_set d ''firewall'' v))
        \<and> ufw_rules c (h_trace h') = insert (source, port_range start end) (ufw_rules c (h_trace h))
        \<and> store_plain c (h_fs h')"
proof -
  let ?rule = "(source, port_range start end)" and ?v = "rule_json source start end"
  consider (add) e where "run_ufw (ufw_args c False ?rule) l h = (Inl e, h')" "r = Inl e"
    | (rest) out h1 where "run_ufw (ufw_args c False ?rule) l h = (Inr out, h1)"
        "h_bind (store_read c) (\<lambda>state.
         h_bind (h_lift (j_set state ''firewall'' ?v)) (\<lambda>state'.
         h_bind (store_write c state') (\<lambda>_. h_return ?v))) l h1 = (r, h')"
    using run by (auto simp: h_bind_iff ufw_rule_args)
  then show ?thesis
  proof cases
    case add
    then show ?thesis using spared_run [OF add(1) spared plain] run_ufw_spec(3) [OF add(1)] by auto
  next
    case rest
    note h1 = spared_run [OF rest(1) spared plain] run_ufw_spec(2) [OF rest(1) refl]
    consider (read) e where "store_read c l h1 = (Inl e, h')" "r = Inl e"
      | (wr) h2 r' where "store_read c l h1 = (Inr (JObj d), h2)" 
          "store_write c (JObj (dict_set d ''firewall'' ?v)) l h2 = (r', h')"
          "r = (case r' of Inl e \<Rightarrow> Inl e | Inr u \<Rightarrow> Inr ?v)"
      using rest(2) store_read_spec(2) h1(3) state(1) by (auto simp: exec_simps j_set_def)
    then show ?thesis
    proof cases
      case read
      then show ?thesis
        using store_read_spec(1) [OF read(1)] h1 rules_kept(1) [OF read(1)]
        by (auto simp: stored_state_def)
    next
      case wr
      have fs2: "h_fs h2 = h_fs h1" by (rule store_read_spec(1) [OF wr(1)])
      then have st2: "stored_state c h2 = stored_state c h" using h1(3) by (simp add: stored_state_def)
      have plain2: "store_plain c (h_fs h2)" using fs2 h1(2) by simp
      have ok: "json_ok (JObj (dict_set d ''firewall'' ?v))"
        using state(2) by (auto simp: distinct_dict_set rule_json_def list_all_iff dest!: in_dict_set)
      note w = store_write_spec [OF wr(2) plain2]
      show ?thesis
        using w ok wr(3) h1(4) rules_kept(1) [OF wr(1)] rules_kept(2) [OF wr(2)] st2
          stored_state_cong [of h2 c h'] plain2
        by (auto simp: store_plain_def split: sum.splits)
    qed
  qed
qed

text \<open>Its beginning: deleting the recorded rule if it differs. Then no other rule is in force.\<close>

lemma retire_spec:
  assumes run: "h_bind (h_when (py_truthy prev \<and> \<not> same_rule prev source start end) (delete_recorded c prev)) k l h = (r, h')"
    and spared: "store_spared c l" and plain: "store_plain c (h_fs h)"
    and agree: "case rule of None \<Rightarrow> \<not> py_truthy prev \<and> ufw_rules c (h_trace h) = {}
      | Some (s, a, b) \<Rightarrow> records prev s a b \<and> ufw_rules c (h_trace h) = {(s, port_range a b)}"
  obtains (failed) e where "r = Inl e" "stored_state c h' = stored_state c h"
      "ufw_rules c (h_trace h') = ufw_rules c (h_trace h)"
    | (ready) h2 where "stored_state c h2 = stored_state c h" "store_plain c (h_fs h2)"
      "ufw_rules c (h_trace h2) \<subseteq> {(source, port_range start end)}" "k () l h2 = (r, h')"
proof (cases "py_truthy prev \<and> \<not> same_rule prev source start end")
  case False
  then have "k () l h = (r, h')" using run by (auto simp: h_bind_def h_when_def h_return_def)
  moreover have "ufw_rules c (h_trace h) \<subseteq> {(source, port_range start end)}"
    using agree False by (auto simp: records_same records_truthy split: option.splits prod.splits)
  ultimately show ?thesis using ready [of h] plain by blast
next
  case True
  then obtain s a b where prev: "records prev s a b" "ufw_rules c (h_trace h) = {(s, port_range a b)}"
    using agree by (auto split: option.splits)
  obtain r1 h1 where del: "delete_recorded c prev l h = (r1, h1)" by fastforce
  from delete_recorded_spec [OF this prev(1)] obtain r2
    where r2: "run_ufw (ufw_args c True (s, port_range a b)) l h = (r2, h1)"
      "case r2 of Inl e \<Rightarrow> r1 = Inl e | Inr out \<Rightarrow> r1 = Inr ()" by blast
  note sp = spared_run [OF r2(1) spared plain]
  show ?thesis
  proof (cases r2)
    case (Inl e)
    then have "r = Inl e" "h' = h1" using run r2(2) True del by (auto simp: h_bind_def h_when_def)
    then show ?thesis using failed sp(3) run_ufw_spec(3) [OF r2(1) Inl] by blast
  next
    case (Inr out)
    then have "k () l h1 = (r, h')" using run r2(2) True del by (auto simp: h_bind_def h_when_def)
    then show ?thesis using ready sp(2,3) run_ufw_spec(2) [OF r2(1) Inr] prev(2) by simp
  qed
qed

lemma network_values_Inr:
  "network_values source_ip start end = Inr x \<longleftrightarrow>
     (\<exists>source. normalize_ip source_ip = Some source \<and> x = (source, start, end)
        \<and> 1024 \<le> start \<and> start \<le> end \<and> end \<le> 65535 \<and> end - start < 100)"
  by (auto simp: network_values_def res_simps normalize_ip_def)

lemma preview_spec:
  assumes "firewall_preview c source_ip start end l h = (r, h')" and "stored_state c h = JObj d"
  shows "h_fs h' = h_fs h" and "ufw_rules c (h_trace h') = ufw_rules c (h_trace h)"
    and "r = Inr p \<Longrightarrow> network_values source_ip start end = Inr (plan_source_ip p, start, end)
           \<and> plan_udp_start p = start \<and> plan_udp_end p = end \<and> plan_previous p = dict_get_or d ''firewall'' JNull"
proof -
  consider (refused) e where "network_values source_ip start end = Inl e" | source where "network_values source_ip start end = Inr (source, start, end)"
    by (cases "network_values source_ip start end") (auto simp: network_values_Inr)
  then have "h_fs h' = h_fs h \<and> ufw_rules c (h_trace h') = ufw_rules c (h_trace h)
    \<and> (r = Inr p \<longrightarrow> network_values source_ip start end = Inr (plan_source_ip p, start, end)
           \<and> plan_udp_start p = start \<and> plan_udp_end p = end \<and> plan_previous p = dict_get_or d ''firewall'' JNull)" for p
  proof cases
    case refused
    then show ?thesis using assms by (simp add: firewall_preview_def exec_simps)
  next
    case 2
    then obtain r' h1 where "store_read c l h = (r', h1)" "h' = h1"
      "case r' of Inl e \<Rightarrow> r = Inl e | Inr v \<Rightarrow> \<exists>p. r = Inr p \<and> plan_source_ip p = source
         \<and> plan_udp_start p = start \<and> plan_udp_end p = end \<and> j_get v ''firewall'' JNull = Inr (plan_previous p)
       \<or> (\<exists>e. r = Inl e)"
      using assms(1) by (auto simp: firewall_preview_def exec_simps split: sum.splits)
    then show ?thesis
      using store_read_spec [of c l h r' h1] rules_kept(1) [of c l h r' h1] assms(2) 2
      by (auto simp: j_get_def split: sum.splits)
  qed
  then show "h_fs h' = h_fs h" and "ufw_rules c (h_trace h') = ufw_rules c (h_trace h)"
    and "r = Inr p \<Longrightarrow> network_values source_ip start end = Inr (plan_source_ip p, start, end)
           \<and> plan_udp_start p = start \<and> plan_udp_end p = end \<and> plan_previous p = dict_get_or d ''firewall'' JNull"
    by blast+
qed

lemma in_force_recorded:
  assumes "stored_state c h = json_sort (JObj (dict_set d ''firewall'' (rule_json s a b)))" and "json_ok (JObj d)"
    and "ufw_rules c (h_trace h) = {(s, port_range a b)}"
  shows "in_force c h (Some (s, a, b))"
proof -
  let ?d = "dict_set d ''firewall'' (rule_json s a b)"
  have ok: "json_ok (JObj ?d)"
    using assms(2) by (auto simp: distinct_dict_set rule_json_def list_all_iff dest!: in_dict_set)
  then have "distinct (map fst ?d)" by simp
  from sorted_get [OF this, of "''firewall''"] records_sorted_rule [of s a b] json_ok_sort [OF ok] assms(1,3)
  show ?thesis by (simp add: in_force_def dict_get_def)
qed

text \<open>An application is a preview, which refuses bad values, and the two halves above.\<close>

lemma apply_firewall_cases:
  assumes run: "apply_firewall c source_ip start end l h = (r, h')" and state: "stored_state c h = JObj d"
  obtains (refused) e where "r = Inl e" "h_fs h' = h_fs h" "ufw_rules c (h_trace h') = ufw_rules c (h_trace h)"
    | (go) source h1 where "network_values source_ip start end = Inr (source, start, end)"
        "h_fs h1 = h_fs h" "ufw_rules c (h_trace h1) = ufw_rules c (h_trace h)"
        "h_bind (h_when (py_truthy (dict_get_or d ''firewall'' JNull) \<and> \<not> same_rule (dict_get_or d ''firewall'' JNull) source start end)
           (delete_recorded c (dict_get_or d ''firewall'' JNull))) (\<lambda>_. install_rule c source start end) l h1 = (r, h')"
proof (cases "firewall_preview c source_ip start end l h")
  case (Pair x h1)
  note pre = preview_spec(1,2) [OF Pair state]
  show ?thesis
  proof (cases x)
    case (Inl e)
    then show ?thesis using refused [of e] run pre Pair by (simp add: apply_firewall_def h_bind_def)
  next
    case (Inr p)
    from preview_spec(3) [OF Pair state Inr] go [of "plan_source_ip p" h1] run pre Pair Inr
    show ?thesis by (simp add: apply_firewall_def h_bind_def [of "firewall_preview c source_ip start end"] Let_def)
  qed
qed


end
