(* ===== verification/Host_Runtime.thy ===== *)
theory Host_Runtime
  imports Host_Agent
begin

text \<open>
  The controller's work on files around an upgrade, \<^verbatim>\<open>host_agent/server.py\<close>: database dumps, and the runtime bundle
  that an image carries, which is extracted, validated, deployed with a backup, and restored.
\<close>

section \<open>The database\<close>

definition strip_quotes :: "string \<Rightarrow> string" where
  "strip_quotes s =
     (let q = (\<lambda>ch. code ch = 0x27 \<or> code ch = 0x22) in rev (dropWhile q (rev (dropWhile q s))))"

definition str_get :: "(string \<times> string) list \<Rightarrow> string \<Rightarrow> string \<Rightarrow> string" where
  "str_get d k v = (case map_of d k of None \<Rightarrow> v | Some w \<Rightarrow> w)"

definition database_identity :: "agent_config \<Rightarrow> (string \<times> string) hm" where
  "database_identity c =
     h_bind (env_values c) (\<lambda>values.
     let user = strip_quotes (str_get values ''WOLT_DB_USER'' ''wolt'');
         database = strip_quotes (str_get values ''WOLT_DB_NAME'' ''wolt'')
     in if re_fullmatch DATABASE_IDENTIFIER_PATTERN user \<and> re_fullmatch DATABASE_IDENTIFIER_PATTERN database
        then h_return (user, database) else h_raise (AgentError ''invalid_database_identity'' 400))"

definition agent_dir :: "agent_config \<Rightarrow> string \<Rightarrow> path" where
  "agent_dir c name = butlast (state_file c) @ [name]"

definition postgres_args :: "agent_config \<Rightarrow> string list \<Rightarrow> string list" where
  "postgres_args c args = compose_args c ([''exec'', ''-T'', ''postgres''] @ args)"

definition dump_path :: "agent_config \<Rightarrow> string \<Rightarrow> path" where
  "dump_path c u = agent_dir c ''backups'' @ [''pre-upgrade-'' @ u @ ''.dump'']"

definition pg_dump_args :: "agent_config \<Rightarrow> string \<Rightarrow> string \<Rightarrow> string list" where
  "pg_dump_args c user database =
     postgres_args c [''pg_dump'', ''--format=custom'', ''--no-owner'', ''-U'', user, ''-d'', database]"

definition backup_failed :: "path \<Rightarrow> 'a hm" where
  "backup_failed p = h_bind (unlink_quiet p) (\<lambda>_. h_raise (AgentError ''database_backup_failed'' 502))"

definition dump_database :: "agent_config \<Rightarrow> string \<Rightarrow> string \<Rightarrow> path \<Rightarrow> path hm" where
  "dump_database c user database p =
     h_bind
       (h_catch
          (h_bind (file_op (WriteText p [])) (\<lambda>_. run_to_file (pg_dump_args c user database) p))
          (\<lambda>e. if is_os_error e \<or> e = TimeoutExpired then backup_failed p else h_raise e)) (\<lambda>rc.
     h_bind (h_get h_fs) (\<lambda>f.
       if rc \<noteq> 0 \<or> \<not> is_file f p \<or> (case fs_file f p of Some (s, m) \<Rightarrow> s = [] | None \<Rightarrow> False) then backup_failed p
       else h_bind (file_op (Chmod p mode_600)) (\<lambda>_. h_return p)))"

definition database_backup :: "agent_config \<Rightarrow> path hm" where
  "database_backup c =
     h_bind (database_identity c) (\<lambda>(user, database).
     h_bind (file_op (Mkdir (agent_dir c ''backups''))) (\<lambda>_.
     h_bind uuid4 (\<lambda>u.
     dump_database c user database (dump_path c u))))"

text \<open>A backup is used only from where the agent keeps its backups.\<close>

definition backup_path :: "agent_config \<Rightarrow> string \<Rightarrow> path \<Rightarrow> fs \<Rightarrow> exn + path" where
  "backup_path c name backup f =
     res_bind (resolve_strict f backup) (\<lambda>b.
     res_bind (resolve_path f (agent_dir c name)) (\<lambda>d.
     if below d b then Inr b else Inl (ValueError ''is not in the subpath'')))"

definition database_restore :: "agent_config \<Rightarrow> path \<Rightarrow> unit hm" where
  "database_restore c backup =
     h_bind
       (h_catch (h_bind (h_get h_fs) (\<lambda>f. h_lift (backup_path c ''backups'' backup f)))
          (\<lambda>e. if e = FileNotFoundError \<or> is_value_error e
               then h_raise (AgentError ''database_backup_unavailable'' 400) else h_raise e)) (\<lambda>b.
     h_bind (database_identity c) (\<lambda>(user, database).
     h_bind (compose c [''stop'', ''app'']) (\<lambda>_.
     h_bind (agent_run (postgres_args c [''dropdb'', ''--force'', ''-U'', user, database])) (\<lambda>_.
     h_bind (agent_run (postgres_args c [''createdb'', ''-U'', user, database])) (\<lambda>_.
     h_bind
       (h_catch
          (h_bind (open_read b) (\<lambda>_.
           raw_run (postgres_args c [''pg_restore'', ''--no-owner'', ''--no-privileges'', ''-U'', user, ''-d'', database])))
          (\<lambda>e. if is_os_error e \<or> e = TimeoutExpired then h_raise (AgentError ''database_restore_failed'' 502) else h_raise e)) (\<lambda>rc.
     if rc \<noteq> 0 then h_raise (AgentError ''database_restore_failed'' 502) else h_return ()))))))"

section \<open>Files and directories\<close>

definition hex_of :: "string \<Rightarrow> string" where
  "hex_of u = filter (\<lambda>ch. ch \<noteq> CHR ''-'') u"

text \<open>The temporary name \<^verbatim>\<open>.<name>.new-<hex>\<close> beside a destination\<close>

definition new_name :: "path \<Rightarrow> string \<Rightarrow> exn + path" where
  "new_name dst u = with_name dst (''.'' @ (if dst = [] then [] else last dst) @ ''.new-'' @ hex_of u)"

definition replace_directory :: "path \<Rightarrow> path \<Rightarrow> unit hm" where
  "replace_directory source destination =
     h_bind (file_op (Mkdir (butlast destination))) (\<lambda>_.
     h_bind uuid4 (\<lambda>u.
     h_bind (h_lift (new_name destination u)) (\<lambda>temporary.
     h_bind (file_op (CopyTree source temporary)) (\<lambda>_.
     h_bind (h_get h_fs) (\<lambda>f.
     h_bind (h_when (path_exists f destination) (file_op (RmTree destination))) (\<lambda>_.
     file_op (Replace temporary destination)))))))"

definition copy_file :: "path \<Rightarrow> path \<Rightarrow> nat \<Rightarrow> unit hm" where
  "copy_file source destination mode =
     h_bind (file_op (Mkdir (butlast destination))) (\<lambda>_.
     h_bind uuid4 (\<lambda>u.
     h_bind (h_lift (new_name destination u)) (\<lambda>temporary.
     h_bind (file_op (CopyLink source temporary)) (\<lambda>_.
     h_bind (file_op (Chmod temporary mode)) (\<lambda>_.
     file_op (Replace temporary destination))))))"

definition canonical_version :: "string \<Rightarrow> string" where
  "canonical_version version = (if starts_with ''v'' version then version else ''v'' @ version)"

definition expected_runtime :: "path list" where
  "expected_runtime =
     [[''VERSION''], [''compose.web.yml''], [''compose.host-agent.yml''], [''scripts'', ''init-web-env.sh''],
      [''scripts'', ''install-cosign.sh''], [''scripts'', ''install-host-agent.sh''],
      [''host_agent'', ''__init__.py''], [''host_agent'', ''server.py'']]"

definition validate_runtime :: "path \<Rightarrow> string \<Rightarrow> unit hm" where
  "validate_runtime bundle version =
     h_bind (h_get h_fs) (\<lambda>f.
     if list_ex (\<lambda>(q, n). below bundle q \<and> q \<noteq> bundle \<and> is_symlink f q) f then h_raise (AgentError ''runtime_bundle_invalid'' 502)
     else if \<not> list_all (\<lambda>relative. is_file f (bundle @ relative)) expected_runtime
     then h_raise (AgentError ''runtime_bundle_invalid'' 502)
     else h_bind (read_text (bundle @ [''VERSION''])) (\<lambda>s.
          if py_strip s \<noteq> canonical_version version then h_raise (AgentError ''runtime_bundle_version_mismatch'' 502)
          else h_return ()))"

text \<open>The container is removed in every case; the staging directory stays only if all went well.\<close>

definition discard_staging :: "path \<Rightarrow> exn \<Rightarrow> 'a hm" where
  "discard_staging staging e = h_bind (rmtree_quiet staging) (\<lambda>_. h_raise e)"

definition extract_runtime :: "agent_config \<Rightarrow> string \<Rightarrow> string \<Rightarrow> path hm" where
  "extract_runtime c img version =
     h_bind uuid4 (\<lambda>u.
     let staging = agent_dir c (''runtime-staging-'' @ u)
     in h_bind (mkdir_new True staging) (\<lambda>_.
        h_bind (h_catch (agent_run [docker_binary c, ''create'', img, ''/bin/true'']) (discard_staging staging)) (\<lambda>out.
        let container = py_strip out
        in h_finally
             (h_catch
                (if \<not> re_fullmatch container_pattern container then h_raise (AgentError ''runtime_bundle_unavailable'' 502)
                 else h_bind (agent_run [docker_binary c, ''cp'', container @ '':/opt/wolt-runtime/.'', path_str staging]) (\<lambda>_.
                      h_bind (validate_runtime staging version) (\<lambda>_. h_return staging)))
                (discard_staging staging))
             (h_when (container \<noteq> [])
                (h_bind (raw_run [docker_binary c, ''rm'', ''-f'', container]) (\<lambda>_. h_return ()))))))"

fun h_each :: "('a \<Rightarrow> unit hm) \<Rightarrow> 'a list \<Rightarrow> unit hm" where
  "h_each m [] = h_return ()"
| "h_each m (x # xs) = h_bind (m x) (\<lambda>_. h_each m xs)"

definition restore_runtime :: "agent_config \<Rightarrow> path \<Rightarrow> unit hm" where
  "restore_runtime c backup =
     h_bind
       (h_catch
          (h_bind (h_get h_fs) (\<lambda>f.
           h_bind (h_lift (backup_path c ''runtime-backups'' backup f)) (\<lambda>b.
           h_bind (read_text (b @ [''manifest.json''])) (\<lambda>s.
           h_bind (h_lift (of_option JSONDecodeError (json_loads s))) (\<lambda>manifest.
           h_return (b, manifest))))))
          (\<lambda>e. if e = FileNotFoundError \<or> is_value_error e
               then h_raise (AgentError ''runtime_backup_unavailable'' 502) else h_raise e)) (\<lambda>(b, manifest).
     h_bind (h_each (\<lambda>(name, destination).
               h_bind (h_lift (j_get manifest name JNull)) (\<lambda>saved.
                 if py_truthy saved then copy_file (b @ [name]) destination mode_644 else unlink_quiet destination))
               [(''compose.web.yml'', compose_file c), (''compose.host-agent.yml'', host_agent_compose_file c),
                (''VERSION'', project_dir c @ [''VERSION''])]) (\<lambda>_.
     h_each (\<lambda>(name, destination).
       h_bind (h_lift (j_get manifest name JNull)) (\<lambda>saved.
         if py_truthy saved then replace_directory (b @ [name]) destination else rmtree_quiet destination))
       [(''runtime'', runtime_dir c), (''agent'', agent_install_dir c)]))"

definition save_current :: "path \<Rightarrow> path \<Rightarrow> bool hm" where
  "save_current current saved =
     h_bind (h_get h_fs) (\<lambda>f.
     h_bind (h_when (is_file f current) (file_op (Copy current saved))) (\<lambda>_. h_return (is_file f current)))"

definition save_current_dir :: "path \<Rightarrow> path \<Rightarrow> bool hm" where
  "save_current_dir current saved =
     h_bind (h_get h_fs) (\<lambda>f.
     h_bind (h_when (is_dir f current) (file_op (CopyTree current saved))) (\<lambda>_. h_return (is_dir f current)))"

text \<open>The shell scripts directly in a directory\<close>

definition shell_scripts :: "fs \<Rightarrow> path \<Rightarrow> path list" where
  "shell_scripts f d =
     filter (\<lambda>q. length q = Suc (length d) \<and> below d q \<and> length (last q) \<ge> 3 \<and> drop (length (last q) - 3) (last q) = ''.sh'')
       (map fst f)"

definition deploy_runtime :: "agent_config \<Rightarrow> path \<Rightarrow> path hm" where
  "deploy_runtime c source =
     h_bind h_ask (\<lambda>l.
     h_bind uuid4 (\<lambda>u.
     let backup = agent_dir c ''runtime-backups'' @ [u]; project = project_dir c
     in h_bind (mkdir_new True backup) (\<lambda>_.
        h_bind (save_current (project @ [''compose.web.yml'']) (backup @ [''compose.web.yml''])) (\<lambda>web.
        h_bind (save_current (project @ [''compose.host-agent.yml'']) (backup @ [''compose.host-agent.yml''])) (\<lambda>agent_compose.
        h_bind (save_current (project @ [''VERSION'']) (backup @ [''VERSION''])) (\<lambda>version.
        h_bind (save_current_dir (runtime_dir c) (backup @ [''runtime''])) (\<lambda>runtime.
        h_bind (save_current_dir (agent_install_dir c) (backup @ [''agent''])) (\<lambda>agent.
        h_bind (file_op (WriteText (backup @ [''manifest.json''])
                 (json_dumps (hl_repr l) '', '' '': '' (JObj
                    [(''compose.web.yml'', JBool web), (''compose.host-agent.yml'', JBool agent_compose), (''VERSION'', JBool version),
                     (''runtime'', JBool runtime), (''agent'', JBool agent)])))) (\<lambda>_.
        h_bind
          (h_catch
             (h_bind (copy_file (source @ [''compose.web.yml'']) (compose_file c) mode_644) (\<lambda>_.
              h_bind (copy_file (source @ [''compose.host-agent.yml'']) (host_agent_compose_file c) mode_644) (\<lambda>_.
              h_bind (copy_file (source @ [''VERSION'']) (project @ [''VERSION'']) mode_644) (\<lambda>_.
              h_bind (mkdir_new False (source @ [''runtime''])) (\<lambda>_.
              h_bind (file_op (CopyTree (source @ [''scripts'']) (source @ [''runtime'', ''scripts'']))) (\<lambda>_.
              h_bind (file_op (CopyTree (source @ [''host_agent'']) (source @ [''runtime'', ''host_agent'']))) (\<lambda>_.
              h_bind (replace_directory (source @ [''runtime'']) (runtime_dir c)) (\<lambda>_.
              h_bind (h_get h_fs) (\<lambda>f.
              h_bind (h_each (\<lambda>script. file_op (Chmod script mode_755)) (shell_scripts f (runtime_dir c @ [''scripts'']))) (\<lambda>_.
              replace_directory (source @ [''host_agent'']) (agent_install_dir c)))))))))))
             (\<lambda>e. h_bind (restore_runtime c backup) (\<lambda>_. h_raise e))) (\<lambda>_.
        h_return backup))))))))))"

definition schedule_agent_refresh :: "agent_config \<Rightarrow> unit hm" where
  "schedule_agent_refresh c =
     h_bind h_ask (\<lambda>l.
     h_bind (h_get h_fs) (\<lambda>f.
     if \<not> is_file f (path_of (hl_cwd l) (systemd_run_binary c)) then h_return ()
     else h_bind unix_time (\<lambda>now.
          let installer = runtime_dir c @ [''scripts'', ''install-host-agent.sh'']
          in h_bind (h_get h_fs) (\<lambda>f.
             if \<not> is_file f installer then h_return ()
             else h_catch
               (h_bind (agent_run [systemd_run_binary c, ''--unit=wolt-host-agent-refresh-'' @ int_str now, ''--on-active=5s'',
                          path_str installer, path_str (project_dir c)]) (\<lambda>_. h_return ()))
               (\<lambda>e. case e of AgentError d n \<Rightarrow> h_return () | _ \<Rightarrow> h_raise e)))))"

section \<open>Dumps are complete or removed\<close>

lemma follow_file: "map_of f q = Some (File t k) \<Longrightarrow> follow n (dict_set f q (File s m)) p = follow n f p"
  by (induction n arbitrary: p) (auto split: option.splits node.splits)

lemma fs_file_dict_set:
  assumes "fs_real f p = Some q" and "fs_file f p = Some (t, k)"
  shows "fs_file (dict_set f q (File s m)) p = Some (s, m)"
proof -
  have "map_of f q = Some (File t k)" using assms by (auto simp: fs_file_def split: option.splits node.splits)
  then show ?thesis using assms(1) by (simp add: fs_file_def fs_real_def follow_file)
qed

lemma redirect_file: "fs_file (h_fs h) p \<noteq> None \<Longrightarrow> \<exists>m. fs_file (h_fs (redirect p s h)) p = Some (s, m)"
  by (auto simp: redirect_def fs_file_def [of "h_fs h"] intro!: exI fs_file_dict_set split: option.splits)

text \<open>The operations on files raise errors of the operating system, never the agent's own.\<close>

lemma put_file_raises: "put_file p f n = Inl e \<Longrightarrow> is_os_error e"
  by (auto simp: put_file_def is_os_error_def split: option.splits if_splits)

lemma copy_file2_raises: "copy_file2 p q f = Inl e \<Longrightarrow> is_os_error e"
  by (auto simp: copy_file2_def is_os_error_def dest: put_file_raises [unfolded is_os_error_def]
      split: option.splits if_splits)

lemma fs_apply_raises: "fs_apply m op f = Inl e \<Longrightarrow> is_os_error e"
  by (cases op)
    (auto simp: is_os_error_def Let_def dest: put_file_raises [unfolded is_os_error_def] copy_file2_raises [unfolded is_os_error_def]
      split: option.splits if_splits node.splits prod.splits)

lemma fault_not_agent [simp]: "fault_exn x \<noteq> AgentError d n"
  by (cases x) (simp_all add: fault_exn_def)

lemma file_op_raises: "file_op op l h \<noteq> (Inl (AgentError d n), h')"
  using fs_apply_raises [of "hl_mode l" op "h_fs h"]
  by (auto simp: file_op_def Let_def is_os_error_def split: option.splits sum.splits)

lemma read_text_raises: "read_text p l h \<noteq> (Inl (AgentError d n), h')"
  by (auto simp: read_text_def Let_def split: option.splits if_splits)

lemma database_identity_spec:
  assumes "database_identity c l h = (r, h')"
  shows "case r of
      Inl e \<Rightarrow> e \<noteq> AgentError ''database_backup_failed'' n
    | Inr (user, database) \<Rightarrow> re_fullmatch DATABASE_IDENTIFIER_PATTERN user \<and> re_fullmatch DATABASE_IDENTIFIER_PATTERN database"
  using assms
  by (auto simp: database_identity_def env_values_def exec_simps Let_def read_text_raises split: if_splits sum.splits)

lemma run_to_file_spec:
  assumes "run_to_file args p l h = (Inr rc, h')"
  shows "\<exists>out. h_trace h' = h_trace h @ [Ran args (Exited rc out)]
    \<and> (\<forall>s m. fs_file (h_fs h') p = Some (s, m) \<longrightarrow> s = out)"
proof -
  obtain x h1 where x: "runner args l h = (Inr x, h1)"
    by (cases "hl_run l (h_trace h) args (h_fs h)") (simp add: runner_def)
  obtain out where run: "runner args l h = (Inr (Exited rc out), h1)" and h': "h' = redirect p out h1"
    using assms x by (cases x) (auto simp: run_to_file_def h_bind_def h_return_def h_raise_def h_modify_def)
  have "h_trace h1 = h_trace h @ [Ran args (Exited rc out)]"
    using run by (auto simp: runner_def log_event_def split: prod.splits)
  moreover have "h_trace h' = h_trace h1" by (simp add: h' redirect_def split: option.splits)
  moreover have "s = out" if "fs_file (h_fs h') p = Some (s, m)" for s m
  proof (cases "fs_file (h_fs h1) p")
    case None
    then have "h' = h1" by (simp add: h' redirect_def split: option.splits)
    then show ?thesis using None that by simp
  next
    case (Some a)
    then show ?thesis using redirect_file [of h1 p out] that h' by auto
  qed
  ultimately show ?thesis by auto
qed

lemma run_to_file_raises: "run_to_file args p l h \<noteq> (Inl (AgentError d n), h')"
proof -
  have no: "io_exn x \<noteq> AgentError d n" for x by (cases x) simp_all
  obtain x h1 where x: "runner args l h = (Inr x, h1)"
    by (cases "hl_run l (h_trace h) args (h_fs h)") (simp add: runner_def)
  show ?thesis
    using x no by (cases x) (simp_all add: run_to_file_def h_bind_def h_modify_def h_return_def h_raise_def)
qed

lemma backup_failed_spec:
  assumes "backup_failed p l h = (r, h')"
  shows "\<exists>e. r = Inl e \<and> (\<forall>n. e = AgentError ''database_backup_failed'' n \<longrightarrow> map_of (h_fs h') p = None)"
proof -
  consider e where "unlink_quiet p l h = (Inl e, h')" "r = Inl e"
    | u where "unlink_quiet p l h = (Inr u, h')" "r = Inl (AgentError ''database_backup_failed'' 502)"
    using assms by (auto simp: backup_failed_def exec_simps)
  then show ?thesis
  proof cases
    case 1
    then obtain e' h1 where "file_op (Unlink p) l h = (Inl e', h1)" "e = e'"
      by (auto simp: unlink_quiet_def exec_simps split: if_splits)
    then show ?thesis using 1 file_op_raises by auto
  next
    case 2
    then show ?thesis using unlink_quiet_gone [OF 2(1)] by simp
  qed
qed

lemma chmod_file:
  assumes "file_op (Chmod p m) l h = (Inr u, h')" and "fs_file (h_fs h) p = Some (s, k)"
  shows "fs_file (h_fs h') p = Some (s, m)" and "h_trace h' = h_trace h @ [FileOp (Chmod p m)]"
proof -
  obtain q where q: "fs_real (h_fs h) p = Some q" using assms(2) by (auto simp: fs_file_def split: option.splits)
  show "fs_file (h_fs h') p = Some (s, m)"
    using assms fs_file_dict_set [OF q assms(2), of s m] q
    by (auto simp: file_op_def Let_def log_event_def split: option.splits)
  show "h_trace h' = h_trace h @ [FileOp (Chmod p m)]"
    using assms(1) by (auto simp: file_op_def Let_def log_event_def split: option.splits sum.splits)
qed

text \<open>What an operation adds to the trace\<close>

definition extends :: "(host_event \<Rightarrow> bool) \<Rightarrow> host_event list \<Rightarrow> host \<Rightarrow> bool" where
  "extends P t h \<longleftrightarrow> (\<exists>evs. h_trace h = t @ evs \<and> list_all P evs)"

lemma extends_add: "extends P t h \<Longrightarrow> P ev \<Longrightarrow> h_trace h' = h_trace h @ [ev] \<Longrightarrow> extends P t h'"
  by (auto simp: extends_def)

lemma extends_file_op [keeps_intros]: "P (FileOp op) \<Longrightarrow> keeps l (extends P t) (file_op op)"
  by (auto simp: keeps_def file_op_def Let_def log_event_def split: option.split sum.split elim!: extends_add)

lemma extends_read_text [keeps_intros]: "P (ReadText p) \<Longrightarrow> keeps l (extends P t) (read_text p)"
  by (auto simp: keeps_def read_text_def Let_def log_event_def split: option.split elim!: extends_add)

lemma extends_runner [keeps_intros]: "(\<And>r. P (Ran args r)) \<Longrightarrow> keeps l (extends P t) (runner args)"
  by (auto simp: keeps_def runner_def log_event_def split: prod.split elim!: extends_add)

lemma extends_redirect [keeps_intros]: "keeps l (extends P t) (h_modify (redirect p s))"
  by (auto simp: keeps_def h_modify_def redirect_def extends_def split: option.split)

lemma database_identity_extends: "keeps l (extends (\<lambda>ev. ev \<noteq> DrewUuid) t) (database_identity c)"
  unfolding database_identity_def env_values_def Let_def by (intro keeps_intros) simp_all

lemma dump_database_extends: "keeps l (extends (\<lambda>_. True) t) (dump_database c user database p)"
  unfolding dump_database_def run_to_file_def backup_failed_def unlink_quiet_def by (intro keeps_intros) simp_all

text \<open>The first identifier that a computation from \<open>h\<close> to \<open>h'\<close> draws, and what it does after that\<close>

definition first_draw :: "host_lib \<Rightarrow> host \<Rightarrow> host \<Rightarrow> string \<Rightarrow> host_event list \<Rightarrow> bool" where
  "first_draw l h h' u rest \<longleftrightarrow>
     (\<exists>evs. h_trace h' = h_trace h @ evs @ DrewUuid # rest \<and> DrewUuid \<notin> set evs \<and> u = hl_uuid l (h_trace h @ evs))"

lemma dump_database_spec:
  assumes run: "dump_database c user database p l h = (r, h')"
  shows "case r of
      Inr q \<Rightarrow> q = p \<and> (\<exists>s. fs_file (h_fs h') p = Some (s, mode_600) \<and> s \<noteq> []
        \<and> Ran (pg_dump_args c user database) (Exited 0 s) \<in> set (drop (length (h_trace h)) (h_trace h')))
    | Inl e \<Rightarrow> (\<forall>n. e = AgentError ''database_backup_failed'' n \<longrightarrow> map_of (h_fs h') p = None)"
proof -
  let ?work = "h_bind (file_op (WriteText p [])) (\<lambda>_. run_to_file (pg_dump_args c user database) p)"
  let ?attempt = "h_catch ?work (\<lambda>e. if is_os_error e \<or> e = TimeoutExpired then backup_failed p else h_raise e)"
  have work_raises: "e \<noteq> AgentError d n" if "?work l h = (Inl e, h1)" for e h1 d n
    using that by (auto simp: h_bind_iff file_op_raises run_to_file_raises)
  obtain x h1 where x: "?attempt l h = (x, h1)" by fastforce
  show ?thesis
  proof (cases x)
    case (Inl e)
    then have r: "r = Inl e" "h' = h1" using run x by (simp_all add: dump_database_def h_bind_def)
    obtain e0 h0 where e0: "?work l h = (Inl e0, h0)"
      "(if is_os_error e0 \<or> e0 = TimeoutExpired then backup_failed p else h_raise e0) l h0 = (Inl e :: exn + int, h1)"
      using x [unfolded Inl h_catch_iff] by auto
    show ?thesis
    proof (cases "is_os_error e0 \<or> e0 = TimeoutExpired")
      case True
      then have bf: "backup_failed p l h0 = (Inl e :: exn + int, h1)" using e0(2) by simp
      show ?thesis using backup_failed_spec [OF bf] r by auto
    next
      case False
      then show ?thesis using e0 work_raises r by (auto simp: h_raise_def)
    qed
  next
    case (Inr rc)
    then have "?work l h = (Inr rc, h1)"
      using x backup_failed_spec by (fastforce simp: h_catch_iff h_raise_iff split: if_splits)
    then obtain h0 u where h0: "file_op (WriteText p []) l h = (Inr u, h0)"
      "run_to_file (pg_dump_args c user database) p l h0 = (Inr rc, h1)"
      by (auto simp: h_bind_iff)
    from run_to_file_spec [OF h0(2)] obtain out where "h_trace h1 = h_trace h0 @ [Ran (pg_dump_args c user database) (Exited rc out)]"
      and out2: "\<forall>s m. fs_file (h_fs h1) p = Some (s, m) \<longrightarrow> s = out" by blast
    moreover have "h_trace h0 = h_trace h @ [FileOp (WriteText p [])]"
      using h0(1) by (auto simp: file_op_def Let_def log_event_def split: option.splits sum.splits)
    ultimately have out: "h_trace h1 = h_trace h @ [FileOp (WriteText p []), Ran (pg_dump_args c user database) (Exited rc out)]"
      "\<forall>s m. fs_file (h_fs h1) p = Some (s, m) \<longrightarrow> s = out" by simp_all
    show ?thesis
    proof (cases "rc \<noteq> 0 \<or> \<not> is_file (h_fs h1) p \<or> (case fs_file (h_fs h1) p of Some (s, m) \<Rightarrow> s = [] | None \<Rightarrow> False)")
      case True
      then have "backup_failed p l h1 = (r, h')"
        using run x Inr by (simp add: dump_database_def h_bind_def h_get_def)
      from backup_failed_spec [OF this] show ?thesis by auto
    next
      case False
      then have "rc = 0" "is_file (h_fs h1) p" by simp_all
      then obtain s k where "fs_file (h_fs h1) p = Some (s, k)" by (auto simp: is_file_def)
      with False out(2) have k: "rc = 0" "fs_file (h_fs h1) p = Some (out, k)" "out \<noteq> []" by simp_all
      have "h_bind (file_op (Chmod p mode_600)) (\<lambda>_. h_return p) l h1 = (r, h')"
        using run x Inr k by (simp add: dump_database_def h_bind_def h_get_def is_file_def)
      then consider e where "file_op (Chmod p mode_600) l h1 = (Inl e, h')" "r = Inl e"
        | u where "file_op (Chmod p mode_600) l h1 = (Inr u, h')" "r = Inr p"
        by (auto simp: exec_simps)
      then show ?thesis
      proof cases
        case 1
        then show ?thesis by (auto simp: file_op_raises)
      next
        case 2
        then show ?thesis using chmod_file [OF 2(1) k(2)] k out(1) by auto
      qed
    qed
  qed
qed

lemma database_backup_cases:
  assumes run: "database_backup c l h = (r, h')"
  obtains (early) e where "r = Inl e" "\<And>n. e \<noteq> AgentError ''database_backup_failed'' n"
    | (dump) user database u h2 evs where "re_fullmatch DATABASE_IDENTIFIER_PATTERN user"
        "re_fullmatch DATABASE_IDENTIFIER_PATTERN database" "dump_database c user database (dump_path c u) l h2 = (r, h')"
        "h_trace h2 = h_trace h @ evs @ [DrewUuid]" "DrewUuid \<notin> set evs" "u = hl_uuid l (h_trace h @ evs)"
proof -
  let ?P = "\<lambda>ev. ev \<noteq> DrewUuid"
  obtain x h1 where x: "database_identity c l h = (x, h1)" by fastforce
  note spec = database_identity_spec [OF x]
  show ?thesis
  proof (cases x)
    case (Inl e)
    then show ?thesis using early [of e] run x spec by (simp add: database_backup_def h_bind_def)
  next
    case (Inr ud)
    obtain user database where ud: "ud = (user, database)" by fastforce
    obtain y h2 where y: "file_op (Mkdir (agent_dir c ''backups'')) l h1 = (y, h2)" by fastforce
    show ?thesis
    proof (cases y)
      case (Inl e)
      then have "e \<noteq> AgentError ''database_backup_failed'' n" for n using y by (auto simp: file_op_raises)
      moreover have "r = Inl e"
        using run x y Inl \<open>x = Inr ud\<close> ud by (simp add: database_backup_def h_bind_def)
      ultimately show ?thesis by (rule early [rotated])
    next
      case (Inr z)
      have "extends ?P (h_trace h) h1"
        by (rule keepsD [OF database_identity_extends _ x]) (simp add: extends_def)
      from keepsD [OF extends_file_op this y] obtain evs where "h_trace h2 = h_trace h @ evs" "list_all ?P evs"
        by (auto simp: extends_def)
      then show ?thesis
        using dump [of user database "hl_uuid l (h_trace h2)" "log_event DrewUuid h2" evs] run x y Inr \<open>x = Inr ud\<close> ud spec
        by (auto simp: database_backup_def h_bind_def uuid4_def log_event_def list_all_iff)
    qed
  qed
qed


end
