(* ===== verification/Host_Jobs.thy ===== *)
theory Host_Jobs
  imports Host_Firewall Host_Runtime
begin

text \<open>
  The jobs of the host agent, \<^verbatim>\<open>host_agent/server.py\<close>: deployment of a port range, upgrade and rollback. Starting a
  job leaves a thread in the state of the host; running it is one step. The log is not modelled.
\<close>

section \<open>Recording jobs\<close>

definition job_json :: "string \<Rightarrow> string \<Rightarrow> string \<Rightarrow> json \<Rightarrow> json" where
  "job_json job_id operation st err =
     JObj [(''id'', JStr job_id), (''operation'', JStr operation), (''status'', JStr st), (''error'', err)]"

text \<open>At most twenty jobs are kept: \<^verbatim>\<open>list(jobs)[:-20]\<close> are dropped.\<close>

definition prune_jobs :: "json \<Rightarrow> json" where
  "prune_jobs jobs =
     (case jobs of JObj d \<Rightarrow> JObj (if 20 < length d then drop (length d - 20) d else d) | _ \<Rightarrow> jobs)"

definition save_job :: "agent_config \<Rightarrow> string \<Rightarrow> json \<Rightarrow> unit hm" where
  "save_job c job_id job =
     h_bind (h_modify (\<lambda>h. h\<lparr>h_jobs := dict_set (h_jobs h) job_id job\<rparr>)) (\<lambda>_.
     h_bind (store_read c) (\<lambda>state.
     h_bind (h_lift (j_get state ''jobs'' (JObj []))) (\<lambda>jobs.
     h_bind (h_lift (j_set jobs job_id job)) (\<lambda>jobs'.
     h_bind (h_lift (j_set state ''jobs'' (prune_jobs jobs'))) (\<lambda>state'.
     store_write c state')))))"

definition is_running :: "json \<Rightarrow> exn + bool" where
  "is_running job = res_bind (j_item job ''status'') (\<lambda>st. Inr (st = JStr ''running''))"

fun any_running :: "json list \<Rightarrow> exn + bool" where
  "any_running [] = Inr False"
| "any_running (j # js) = res_bind (is_running j) (\<lambda>b. if b then Inr True else any_running js)"

definition start_job :: "agent_config \<Rightarrow> string \<Rightarrow> json \<Rightarrow> json hm" where
  "start_job c operation payload =
     (if operation \<notin> set [''deployment'', ''upgrade'', ''rollback''] then h_raise (AgentError ''unsupported_host_operation'' 400)
      else h_bind (h_get h_jobs) (\<lambda>jobs.
           h_bind (h_lift (any_running (map snd jobs))) (\<lambda>busy.
           if busy then h_raise (AgentError ''host_operation_in_progress'' 409)
           else h_bind uuid4 (\<lambda>job_id.
                h_bind (save_job c job_id (job_json job_id operation ''running'' JNull)) (\<lambda>_.
                h_bind (h_modify (\<lambda>h. h\<lparr>h_threads := h_threads h @ [(job_id, operation, payload)]\<rparr>)) (\<lambda>_.
                h_return (JObj [(''job_id'', JStr job_id)])))))))"

definition agent_job :: "agent_config \<Rightarrow> string \<Rightarrow> json hm" where
  "agent_job c job_id =
     h_bind (h_get h_jobs) (\<lambda>jobs.
     case map_of jobs job_id of
       Some job \<Rightarrow> h_return job
     | None \<Rightarrow>
         h_bind (store_read c) (\<lambda>state.
         h_bind (h_lift (res_bind (j_get state ''jobs'' (JObj [])) (\<lambda>jobs. j_get jobs job_id JNull))) (\<lambda>persisted.
         case persisted of JObj d \<Rightarrow> h_return persisted | _ \<Rightarrow> h_raise (AgentError ''host_job_not_found'' 404))))"

section \<open>The three operations\<close>

text \<open>\<^verbatim>\<open>str(payload.get("source_ip", ""))\<close> and the two ports\<close>

definition network_request :: "(json \<Rightarrow> string) \<Rightarrow> json \<Rightarrow> exn + string \<times> int \<times> int" where
  "network_request repr payload =
     res_bind (j_get payload ''source_ip'' (JStr [])) (\<lambda>ip.
     res_bind (res_bind (j_get payload ''udp_start'' (JInt 0)) py_int_of) (\<lambda>start.
     res_bind (res_bind (j_get payload ''udp_end'' (JInt 0)) py_int_of) (\<lambda>end.
     Inr (py_str repr ip, start, end))))"

text \<open>
  Putting back the rule that a rollback record names, or none. \<^verbatim>\<open>ip_address\<close> reads an integer as the number of an
  address, and refuses what is neither an integer nor the text of an address.
\<close>

definition address_text :: "json \<Rightarrow> string option" where
  "address_text v =
     (case (case v of JInt i \<Rightarrow> Some i | JBool b \<Rightarrow> Some (if b then 1 else 0) | _ \<Rightarrow> None) of
        Some i \<Rightarrow>
          (if 0 \<le> i \<and> i < 2 ^ 32 then Some (ip_str (V4 (map (\<lambda>k. nat i div 256 ^ k mod 256) [3, 2, 1, 0])))
           else if 0 \<le> i \<and> i < 2 ^ 128 then Some (ip_str (V6 (map (\<lambda>k. nat i div 65536 ^ k mod 65536) [7, 6, 5, 4, 3, 2, 1, 0]) None))
           else None)
      | None \<Rightarrow> (case v of JStr s \<Rightarrow> Some s | _ \<Rightarrow> None))"

definition restore_firewall :: "agent_config \<Rightarrow> json \<Rightarrow> unit hm" where
  "restore_firewall c previous =
     (if py_truthy previous
      then h_bind (h_lift (j_item previous ''source_ip'')) (\<lambda>ip.
           h_bind (h_lift (res_bind (j_item previous ''udp_start'') py_int_of)) (\<lambda>start.
           h_bind (h_lift (res_bind (j_item previous ''udp_end'') py_int_of)) (\<lambda>end.
           case address_text ip of
             Some s \<Rightarrow> h_bind (apply_firewall c s start end) (\<lambda>_. h_return ())
           | None \<Rightarrow> h_raise (AgentError ''invalid_firewall_source_ip'' 400))))
      else remove_firewall c)"

definition compose_up :: "agent_config \<Rightarrow> unit hm" where
  "compose_up c = compose c [''up'', ''-d'', ''--no-build'', ''app'']"

definition deployment_job :: "agent_config \<Rightarrow> json \<Rightarrow> bool hm" where
  "deployment_job c payload =
     h_bind h_ask (\<lambda>l.
     h_bind (h_lift (res_bind (network_request (hl_repr l) payload) (\<lambda>(ip, start, end). network_values ip start end))) (\<lambda>(source, start, end).
     h_bind (env_values c) (\<lambda>old.
     let rollback_env = [(''WOLT_UDP_PUBLISHED_START'', str_get old ''WOLT_UDP_PUBLISHED_START'' ''40000''),
                         (''WOLT_UDP_PUBLISHED_END'', str_get old ''WOLT_UDP_PUBLISHED_END'' ''40099'')]
     in h_bind (store_read c) (\<lambda>state.
        h_bind (h_lift (j_get state ''firewall'' JNull)) (\<lambda>previous_firewall.
        h_bind (update_env c [(''WOLT_UDP_PUBLISHED_START'', int_str start), (''WOLT_UDP_PUBLISHED_END'', int_str end)]) (\<lambda>_.
        h_bind (apply_firewall c source start end) (\<lambda>_.
        h_bind (compose_up c) (\<lambda>_.
        h_bind (healthy c 120) (\<lambda>ok.
        if \<not> ok
        then h_bind (update_env c rollback_env) (\<lambda>_.
             h_bind (restore_firewall c previous_firewall) (\<lambda>_.
             h_bind (compose_up c) (\<lambda>_.
             h_raise (AgentError ''deployment_health_check_failed'' 502))))
        else h_bind (store_read c) (\<lambda>state.
             h_bind (h_lift (j_set state ''deployment'' (JObj [(''udp_start'', JInt start), (''udp_end'', JInt end)]))) (\<lambda>state1.
             h_bind (h_lift (j_set state1 ''rollback''
                       (JObj [(''env'', JObj (map (\<lambda>(k, v). (k, JStr v)) rollback_env)), (''firewall'', previous_firewall)]))) (\<lambda>state2.
             h_bind (store_write c state2) (\<lambda>_.
             h_return False)))))))))))))"

text \<open>
  What an upgrade changes. If anything fails once the database is saved and the new runtime is in place, the old
  environment, runtime and database are put back; what fails then is only logged.
\<close>

definition undo_upgrade :: "agent_config \<Rightarrow> string \<Rightarrow> string \<Rightarrow> path \<Rightarrow> path \<Rightarrow> unit hm" where
  "undo_upgrade c old_image old_version backup runtime_backup =
     h_catch
       (h_bind (update_env c [(''WOLT_IMAGE'', old_image), (''WOLT_VERSION'', old_version)]) (\<lambda>_.
        h_bind (restore_runtime c runtime_backup) (\<lambda>_.
        h_bind (database_restore c backup) (\<lambda>_.
        compose_up c))))
       (\<lambda>rollback_exc. h_return ())"

definition upgrade_change :: "agent_config \<Rightarrow> string \<Rightarrow> string \<Rightarrow> string \<Rightarrow> string \<Rightarrow> path \<Rightarrow> (path \<times> path) hm" where
  "upgrade_change c version old_image old_version new_image staging =
     h_finally
       (h_bind (database_backup c) (\<lambda>backup.
        h_bind (deploy_runtime c staging) (\<lambda>runtime_backup.
        h_catch
          (h_bind (update_env c [(''WOLT_IMAGE'', new_image), (''WOLT_VERSION'', canonical_version version)]) (\<lambda>_.
           h_bind (compose_up c) (\<lambda>_.
           h_bind (healthy c 120) (\<lambda>ok.
           if ok then h_return (backup, runtime_backup) else h_raise (AgentError ''upgrade_health_check_failed'' 502)))))
          (\<lambda>e. h_bind (undo_upgrade c old_image old_version backup runtime_backup) (\<lambda>_. h_raise e)))))
       (rmtree_quiet staging)"

text \<open>Discarding a backup that an earlier upgrade left: nothing to do for an empty entry\<close>

definition discard_backup :: "(path \<Rightarrow> unit hm) \<Rightarrow> json \<Rightarrow> unit hm" where
  "discard_backup remove v =
     h_bind h_ask (\<lambda>l.
     (if \<not> py_truthy v then h_return ()
      else case v of JStr s \<Rightarrow> remove (path_of (hl_cwd l) s) | _ \<Rightarrow> h_raise TypeError))"

definition upgrade_job :: "agent_config \<Rightarrow> json \<Rightarrow> bool hm" where
  "upgrade_job c payload =
     h_bind h_ask (\<lambda>l.
     h_bind (h_lift (j_get payload ''version'' (JStr []))) (\<lambda>v.
     let version = py_str (hl_repr l) v
     in if \<not> re_fullmatch VERSION_PATTERN version then h_raise (AgentError ''invalid_release_version'' 400)
        else h_bind (env_values c) (\<lambda>old.
             h_bind (if str_get old ''WOLT_IMAGE'' [] \<noteq> [] then h_return (str_get old ''WOLT_IMAGE'' []) else current_image c) (\<lambda>old_image.
             let old_version = str_get old ''WOLT_VERSION'' ''unknown''
             in h_bind (verified_image c version) (\<lambda>new_image.
                h_bind (agent_run [docker_binary c, ''pull'', new_image]) (\<lambda>_.
                h_bind (extract_runtime c new_image version) (\<lambda>staging.
                h_bind (upgrade_change c version old_image old_version new_image staging) (\<lambda>(backup, runtime_backup).
                h_bind (store_read c) (\<lambda>state.
                h_bind (h_lift (res_bind (j_get state ''rollback'' (JObj [])) (\<lambda>r. j_get r ''database_backup'' JNull))) (\<lambda>previous_backup.
                h_bind (discard_backup unlink_quiet previous_backup) (\<lambda>_.
                h_bind (h_lift (res_bind (j_get state ''rollback'' (JObj [])) (\<lambda>r. j_get r ''runtime_backup'' JNull))) (\<lambda>previous_runtime.
                h_bind (discard_backup rmtree_quiet previous_runtime) (\<lambda>_.
                h_bind (h_lift (j_set state ''rollback''
                          (JObj [(''env'', JObj [(''WOLT_IMAGE'', JStr old_image), (''WOLT_VERSION'', JStr old_version)]),
                                 (''database_backup'', JStr (path_str backup)),
                                 (''runtime_backup'', JStr (path_str runtime_backup))]))) (\<lambda>state1.
                h_bind unix_time (\<lambda>now.
                h_bind (h_lift (j_set state1 ''last_successful'' (JObj [(''image'', JStr new_image), (''at'', JInt now)]))) (\<lambda>state2.
                h_bind (store_write c state2) (\<lambda>_.
                h_return True)))))))))))))))))"

definition stored_path :: "json \<Rightarrow> path hm" where
  "stored_path v =
     h_bind h_ask (\<lambda>l.
     (case v of JStr s \<Rightarrow> h_return (path_of (hl_cwd l) s) | _ \<Rightarrow> h_raise TypeError))"

definition rollback_job :: "agent_config \<Rightarrow> bool hm" where
  "rollback_job c =
     h_bind h_ask (\<lambda>l.
     h_bind (store_read c) (\<lambda>state.
     h_bind (h_lift (j_get state ''rollback'' JNull)) (\<lambda>rollback.
     if \<not> py_truthy rollback then h_raise (AgentError ''rollback_not_available'' 400)
     else h_bind (h_lift (j_get rollback ''env'' (JObj []))) (\<lambda>rollback_env.
          if \<not> py_truthy rollback_env then h_raise (AgentError ''rollback_not_available'' 400)
          else h_bind (h_lift (case rollback_env of JObj d \<Rightarrow> Inr (map (\<lambda>(k, v). (k, py_str (hl_repr l) v)) d) | _ \<Rightarrow> Inl AttributeError)) (\<lambda>changes.
               h_bind (update_env c changes) (\<lambda>_.
               h_bind (h_lift (j_get rollback ''runtime_backup'' JNull)) (\<lambda>runtime_backup.
               h_bind (h_when (py_truthy runtime_backup) (h_bind (stored_path runtime_backup) (restore_runtime c))) (\<lambda>_.
               h_bind (h_lift (j_get rollback ''database_backup'' JNull)) (\<lambda>database_backup.
               h_bind (h_when (py_truthy database_backup) (h_bind (stored_path database_backup) (database_restore c))) (\<lambda>_.
               h_bind (case j_item rollback ''firewall'' of Inr previous \<Rightarrow> restore_firewall c previous | Inl e \<Rightarrow> h_return ()) (\<lambda>_.
               h_bind (compose_up c) (\<lambda>_.
               h_bind (healthy c 120) (\<lambda>ok.
               if ok then h_return (py_truthy runtime_backup)
               else h_raise (AgentError ''rollback_health_check_failed'' 502))))))))))))))"

definition job_body :: "agent_config \<Rightarrow> string \<Rightarrow> json \<Rightarrow> bool hm" where
  "job_body c operation payload =
     (if operation = ''deployment'' then deployment_job c payload
      else if operation = ''upgrade'' then upgrade_job c payload
      else rollback_job c)"

text \<open>Whatever the work raises, the job ends, and its record says how.\<close>

definition error_detail :: "exn \<Rightarrow> string" where
  "error_detail e = (case e of AgentError detail n \<Rightarrow> detail | _ \<Rightarrow> ''host_operation_failed'')"

definition execute_job :: "agent_config \<Rightarrow> string \<Rightarrow> string \<Rightarrow> json \<Rightarrow> unit hm" where
  "execute_job c job_id operation payload =
     h_catch
       (h_bind (job_body c operation payload) (\<lambda>restart_agent.
        h_bind (save_job c job_id (job_json job_id operation ''succeeded'' JNull)) (\<lambda>_.
        h_when restart_agent (schedule_agent_refresh c))))
       (\<lambda>e. save_job c job_id (job_json job_id operation ''failed'' (JStr (error_detail e))))"

end
