(* ===== verification/Host_Http.thy ===== *)
theory Host_Http
  imports Host_Jobs
begin

text \<open>
  The HTTP side of the host agent: \<^verbatim>\<open>AgentRequestHandler\<close> of \<^verbatim>\<open>host_agent/server.py\<close>, and the client of the web
  application, \<^verbatim>\<open>app/infrastructure/host_agent.py\<close>. A request has its headers and the bytes of its
  body; text is decoded from UTF-8, in which a code point above 255 is outside the model's characters and refused.
\<close>

section \<open>The handler\<close>

record agent_request =
  rq_command :: string
  rq_path :: string
  rq_authorization :: "string option"
  rq_content_length :: "string option"
  rq_body :: string

fun utf8_decode :: "string \<Rightarrow> string option" where
  "utf8_decode [] = Some []"
| "utf8_decode (b # s) =
     (if code b < 128 then map_option ((#) b) (utf8_decode s)
      else case s of
        [] \<Rightarrow> None
      | d # t \<Rightarrow>
          (if code b \<in> {0xC2, 0xC3} \<and> 128 \<le> code d \<and> code d < 192
           then map_option ((#) (char_of ((code b - 0xC0) * 64 + (code d - 128)))) (utf8_decode t)
           else None))"

text \<open>\<^verbatim>\<open>hmac.compare_digest\<close> takes strings of ASCII characters only.\<close>

definition compare_digest :: "string \<Rightarrow> string \<Rightarrow> exn + bool" where
  "compare_digest a b =
     (if list_all (\<lambda>ch. code ch < 128) (a @ b) then Inr (a = b) else Inl TypeError)"

definition authorized :: "agent_config \<Rightarrow> agent_request \<Rightarrow> exn + bool" where
  "authorized c rq =
     compare_digest (case rq_authorization rq of None \<Rightarrow> [] | Some a \<Rightarrow> a) (''Bearer '' @ ac_token c)"

definition request_payload :: "agent_request \<Rightarrow> exn + json" where
  "request_payload rq =
     res_bind (of_option (ValueError ''invalid literal for int() with base 10'')
                 (py_int (case rq_content_length rq of None \<Rightarrow> ''0'' | Some s \<Rightarrow> s))) (\<lambda>len.
     res_bind (guard (0 \<le> len \<and> len \<le> 16384) (AgentError ''request_too_large'' 413)) (\<lambda>_.
     let raw = take (nat len) (rq_body rq)
     in res_bind (of_option (ValueError ''invalid start byte'') (utf8_decode (if raw = [] then ''{}'' else raw))) (\<lambda>s.
        case json_loads s of
          None \<Rightarrow> Inl (AgentError ''invalid_json'' 400)
        | Some (JObj d) \<Rightarrow> Inr (JObj d)
        | Some _ \<Rightarrow> Inl (AgentError ''invalid_json'' 400))))"

text \<open>\<^verbatim>\<open>path.rsplit("/", 1)[-1]\<close>\<close>

definition last_part :: "string \<Rightarrow> string" where
  "last_part p = last (py_split (CHR ''/'') p)"

definition agent_dispatch :: "agent_config \<Rightarrow> agent_request \<Rightarrow> json hm" where
  "agent_dispatch c rq =
     h_bind h_ask (\<lambda>l.
     (if rq_command rq = ''GET'' \<and> rq_path rq = ''/v1/status'' then agent_status c
      else if rq_command rq = ''GET'' \<and> rq_path rq = ''/v1/releases'' then releases c
      else if rq_command rq = ''GET'' \<and> starts_with ''/v1/jobs/'' (rq_path rq) then agent_job c (last_part (rq_path rq))
      else h_bind (h_lift (request_payload rq)) (\<lambda>payload.
        if rq_command rq = ''POST'' \<and> rq_path rq = ''/v1/firewall/preview''
        then h_bind (h_lift (network_request (hl_repr l) payload)) (\<lambda>(ip, start, end).
             h_bind (firewall_preview c ip start end) (\<lambda>plan. h_return (plan_json plan)))
        else if rq_command rq = ''POST'' \<and> rq_path rq = ''/v1/firewall/apply''
        then h_bind (h_lift (network_request (hl_repr l) payload)) (\<lambda>(ip, start, end). apply_firewall c ip start end)
        else if rq_command rq = ''POST'' \<and> rq_path rq \<in> set [''/v1/deployment'', ''/v1/upgrade'', ''/v1/rollback'']
        then start_job c (last_part (rq_path rq)) payload
        else h_raise (AgentError ''not_found'' 404))))"

text \<open>What the client sees: a status and a body, or, when the handler raises, a connection that is closed.\<close>

datatype agent_reply = Reply int json | Dropped exn

definition handle_request :: "agent_config \<Rightarrow> agent_request \<Rightarrow> host_lib \<Rightarrow> host \<Rightarrow> agent_reply \<times> host" where
  "handle_request c rq l h =
     (case authorized c rq of
        Inl e \<Rightarrow> (Dropped e, h)
      | Inr False \<Rightarrow> (Reply 401 (JObj [(''detail'', JStr ''host_agent_unauthorized'')]), h)
      | Inr True \<Rightarrow>
          (case agent_dispatch c rq l h of
             (Inr v, h') \<Rightarrow> (Reply 200 v, h')
           | (Inl e, h') \<Rightarrow>
               (case e of
                  AgentError detail st \<Rightarrow> (Reply st (JObj [(''detail'', JStr detail)]), h')
                | _ \<Rightarrow> if e = TypeError \<or> is_value_error e
                       then (Reply 422 (JObj [(''detail'', JStr ''invalid_request'')]), h')
                       else (Dropped e, h'))))"

section \<open>The client\<close>

text \<open>
  \<open>exchange\<close> sends a request over the socket and reads the response: a status and the bytes of the body, or the
  error that the connection ended with.
\<close>

definition client_request ::
    "(json \<Rightarrow> string) \<Rightarrow> (agent_request \<Rightarrow> 's \<Rightarrow> (io_error + int \<times> string) \<times> 's) \<Rightarrow> string
     \<Rightarrow> string \<Rightarrow> string \<Rightarrow> json option \<Rightarrow> 's \<Rightarrow> (exn + json) \<times> 's" where
  "client_request repr exchange token method p payload s =
     (if token = [] then (Inl (HostAgentError ''host_agent_not_configured'' 503), s)
      else
        let body = (case payload of None \<Rightarrow> [] | Some v \<Rightarrow> json_dumps repr '', '' '': '' v);
            (r, s') = exchange \<lparr>rq_command = method, rq_path = p, rq_authorization = Some (''Bearer '' @ token),
                rq_content_length = (if payload = None \<and> method = ''GET'' then None else Some (nat_str (length body))), rq_body = body\<rparr> s
        in (case r of
              Inl e \<Rightarrow> (if e = BadValue then Inl (ValueError []) else Inl (HostAgentError ''host_agent_unavailable'' 503))
            | Inr (st, raw) \<Rightarrow>
                (case (if raw = [] then Inr (JObj []) else
                       res_bind (of_option (ValueError ''invalid start byte'') (utf8_decode raw)) (\<lambda>t. of_option JSONDecodeError (json_loads t))) of
                   Inl e \<Rightarrow> (if e = JSONDecodeError then Inl (HostAgentError ''host_agent_unavailable'' 503) else Inl e)
                 | Inr (JObj d) \<Rightarrow>
                     (if 400 \<le> st
                      then Inl (HostAgentError (py_str repr (dict_get_or d ''detail'' (JStr ''host_agent_request_failed''))) st)
                      else Inr (JObj d))
                 | Inr _ \<Rightarrow> Inl (HostAgentError ''host_agent_invalid_response'' 503)), s'))"

section \<open>The client and the handler together\<close>

text \<open>
  The socket between the two: a reply travels as its status and its JSON text, a dropped connection is an error.
\<close>

definition agent_exchange :: "agent_config \<Rightarrow> host_lib \<Rightarrow> agent_request \<Rightarrow> host \<Rightarrow> (io_error + int \<times> string) \<times> host" where
  "agent_exchange c l rq h =
     (case handle_request c rq l h of
        (Reply st v, h') \<Rightarrow> (Inr (st, json_dumps (hl_repr l) '', '' '': '' v), h')
      | (Dropped e, h') \<Rightarrow> (Inl OsFailure, h'))"

definition client_message :: "(json \<Rightarrow> string) \<Rightarrow> string \<Rightarrow> string \<Rightarrow> string \<Rightarrow> json option \<Rightarrow> agent_request" where
  "client_message repr token method p payload =
     (let body = (case payload of None \<Rightarrow> [] | Some v \<Rightarrow> json_dumps repr '', '' '': '' v)
      in \<lparr>rq_command = method, rq_path = p, rq_authorization = Some (''Bearer '' @ token),
           rq_content_length = (if payload = None \<and> method = ''GET'' then None else Some (nat_str (length body))), rq_body = body\<rparr>)"

text \<open>What the agent's answer is for the client\<close>

definition client_view :: "exn + json \<Rightarrow> exn + json" where
  "client_view r =
     (case r of
        Inr v \<Rightarrow> Inr v
      | Inl (AgentError detail st) \<Rightarrow>
          (if 400 \<le> st then Inl (HostAgentError detail st) else Inr (JObj [(''detail'', JStr detail)]))
      | Inl e \<Rightarrow> (if e = TypeError \<or> is_value_error e then Inl (HostAgentError ''invalid_request'' 422)
                  else Inl (HostAgentError ''host_agent_unavailable'' 503)))"

lemma utf8_ascii: "list_all (\<lambda>ch. code ch < 128) s \<Longrightarrow> utf8_decode s = Some s"
  by (induction s) auto

lemma dumps_utf8: "json_ok v \<Longrightarrow> utf8_decode (json_dumps repr '', '' '': '' v) = Some (json_dumps repr '', '' '': '' v)"
  using dumps_printable [of v _ repr "'', ''" "'': ''"]
  by (intro utf8_ascii) (auto simp: list_all_iff printable_def)

lemma dumps_nonempty: "json_ok v \<Longrightarrow> json_dumps repr '', '' '': '' v \<noteq> []"
  using loads_dumps [of v repr] by (auto simp: json_loads_def skip_ws_def)

lemma int_body_digits: "s \<noteq> [] \<Longrightarrow> list_all is_digit s \<Longrightarrow> int_body s"
  by (induction s rule: int_body.induct) (auto simp: is_digit_def)

lemma dropWhile_digits: "list_all is_digit s \<Longrightarrow> dropWhile is_space s = s"
  by (cases s) (auto simp: is_digit_def is_space_def)

lemma py_int_nat_str: "py_int (nat_str n) = Some (int n)"
proof -
  have d: "list_all is_digit (nat_str n)" using nat_str_digits by (auto simp: list_all_iff)
  then have "py_strip (nat_str n) = nat_str n"
    by (simp add: py_strip_def py_lstrip_def dropWhile_digits list_all_rev)
  moreover have "hd (nat_str n) \<noteq> CHR ''-''" "hd (nat_str n) \<noteq> CHR ''+''"
    using d by (cases "nat_str n"; auto simp: is_digit_def)+
  moreover have "filter (\<lambda>ch. ch \<noteq> CHR ''_'') (nat_str n) = nat_str n"
    using d by (auto simp: filter_id_conv list_all_iff is_digit_def)
  ultimately show ?thesis using int_body_digits [OF _ d] by (simp add: py_int_def Let_def)
qed

lemma payload_arrives:
  assumes "json_ok (JObj d)" and "length (json_dumps repr '', '' '': '' (JObj d)) \<le> 16384"
  shows "request_payload (client_message repr token method p (Some (JObj d))) = Inr (JObj d)"
  using assms dumps_utf8 [OF assms(1), of repr] loads_dumps [OF assms(1), of repr] dumps_nonempty [OF assms(1), of repr]
  by (simp add: request_payload_def client_message_def Let_def py_int_nat_str guard_def)

lemma client_request_message:
  "token \<noteq> [] \<Longrightarrow> client_request repr exchange token method p payload s =
     (let (r, s') = exchange (client_message repr token method p payload) s
      in (case r of
              Inl e \<Rightarrow> (if e = BadValue then Inl (ValueError []) else Inl (HostAgentError ''host_agent_unavailable'' 503))
            | Inr (st, raw) \<Rightarrow>
                (case (if raw = [] then Inr (JObj []) else
                       res_bind (of_option (ValueError ''invalid start byte'') (utf8_decode raw)) (\<lambda>t. of_option JSONDecodeError (json_loads t))) of
                   Inl e \<Rightarrow> (if e = JSONDecodeError then Inl (HostAgentError ''host_agent_unavailable'' 503) else Inl e)
                 | Inr (JObj d) \<Rightarrow>
                     (if 400 \<le> st
                      then Inl (HostAgentError (py_str repr (dict_get_or d ''detail'' (JStr ''host_agent_request_failed''))) st)
                      else Inr (JObj d))
                 | Inr _ \<Rightarrow> Inl (HostAgentError ''host_agent_invalid_response'' 503)), s'))"
  by (simp add: client_request_def client_message_def Let_def)

lemma client_reads_reply:
  assumes "token \<noteq> []" and "exchange (client_message repr token method p payload) s = (Inr (st, json_dumps repr' '', '' '': '' (JObj d)), s')"
    and "json_ok (JObj d)"
  shows "client_request repr exchange token method p payload s =
    (if 400 \<le> st then Inl (HostAgentError (py_str repr (dict_get_or d ''detail'' (JStr ''host_agent_request_failed''))) st)
     else Inr (JObj d), s')"
proof -
  define raw where "raw = json_dumps repr' '', '' '': '' (JObj d)"
  have "utf8_decode raw = Some raw" "json_loads raw = Some (JObj d)" "raw \<noteq> []"
    using dumps_utf8 [OF assms(3)] loads_dumps [OF assms(3)] dumps_nonempty [OF assms(3)] unfolding raw_def by blast+
  then show ?thesis
    unfolding client_request_message [OF assms(1)] assms(2) [folded raw_def] by simp
qed

text \<open>What the client makes of an exception of the agent\<close>

lemma client_sees_exception:
  assumes "ac_token c \<noteq> []" and auth: "authorized c (client_message repr (ac_token c) method p payload) = Inr True"
    and "agent_dispatch c (client_message repr (ac_token c) method p payload) l h = (Inl e, h')"
  shows "client_request repr (agent_exchange c l) (ac_token c) method p payload h = (client_view (Inl e), h')"
proof -
  let ?rq = "client_message repr (ac_token c) method p payload"
  let ?reply = "\<lambda>st detail. (Inr (st, json_dumps (hl_repr l) '', '' '': '' (JObj [(''detail'', JStr detail)])), h')"
  have reply: "client_request repr (agent_exchange c l) (ac_token c) method p payload h =
      (if 400 \<le> st then Inl (HostAgentError detail st) else Inr (JObj [(''detail'', JStr detail)]), h')"
    if "agent_exchange c l ?rq h = ?reply st detail" for st detail
    using client_reads_reply [where exchange = "agent_exchange c l", OF assms(1) that] by (simp add: dict_get_or_def)
  consider (agent) detail st where "e = AgentError detail st"
    | (malformed) "\<forall>detail st. e \<noteq> AgentError detail st" "e = TypeError \<or> is_value_error e"
    | (other) "\<forall>detail st. e \<noteq> AgentError detail st" "\<not> (e = TypeError \<or> is_value_error e)"
    by blast
  then show ?thesis
  proof cases
    case agent
    then have "agent_exchange c l ?rq h = ?reply st detail"
      using auth assms(3) by (simp add: agent_exchange_def handle_request_def)
    from reply [OF this] show ?thesis by (simp add: client_view_def agent)
  next
    case malformed
    then have "agent_exchange c l ?rq h = ?reply 422 ''invalid_request''"
      using auth assms(3) by (cases e) (simp_all add: agent_exchange_def handle_request_def)
    from reply [OF this] show ?thesis using malformed by (cases e) (simp_all add: client_view_def)
  next
    case other
    then have "agent_exchange c l ?rq h = (Inl OsFailure, h')"
      using auth assms(3) by (cases e) (simp_all add: agent_exchange_def handle_request_def)
    then have "client_request repr (agent_exchange c l) (ac_token c) method p payload h =
        (Inl (HostAgentError ''host_agent_unavailable'' 503), h')"
      unfolding client_request_message [OF assms(1)] by simp
    then show ?thesis using other by (cases e) (simp_all add: client_view_def)
  qed
qed

text \<open>
  C15: the client and the agent. A client with the agent's token that sends a document of at most 16 KiB has it read as
  sent; its call changes the host as the dispatched operation does, and returns the operation's result, its error with
  detail and status, \<^verbatim>\<open>invalid_request\<close> for a malformed value, or that the agent is unavailable.
\<close>

theorem client_agent_roundtrip:
  assumes "ac_token c \<noteq> []" and "list_all (\<lambda>ch. code ch < 128) (ac_token c)"
    and "agent_dispatch c (client_message repr (ac_token c) method p payload) l h = (r, h')"
    and "\<And>v. r = Inr v \<Longrightarrow> json_ok v \<and> (\<exists>d. v = JObj d)"
  shows "client_request repr (agent_exchange c l) (ac_token c) method p payload h = (client_view r, h')
    \<and> (\<forall>d. payload = Some (JObj d) \<and> json_ok (JObj d) \<and> length (json_dumps repr '', '' '': '' (JObj d)) \<le> 16384 \<longrightarrow>
         request_payload (client_message repr (ac_token c) method p payload) = Inr (JObj d))"
proof -
  let ?rq = "client_message repr (ac_token c) method p payload"
  have auth: "authorized c ?rq = Inr True"
    using assms(2) by (simp add: authorized_def compare_digest_def client_message_def Let_def)
  have "client_request repr (agent_exchange c l) (ac_token c) method p payload h = (client_view r, h')"
  proof (cases r)
    case (Inr v)
    with assms(4) obtain d where v: "v = JObj d" "json_ok (JObj d)" by auto
    have "agent_exchange c l ?rq h = (Inr (200, json_dumps (hl_repr l) '', '' '': '' (JObj d)), h')"
      using auth assms(3) Inr v(1) by (simp add: agent_exchange_def handle_request_def)
    from client_reads_reply [where exchange = "agent_exchange c l", OF assms(1) this v(2)] show ?thesis by (simp add: client_view_def Inr v(1))
  next
    case (Inl e)
    then show ?thesis using client_sees_exception [OF assms(1) auth] assms(3) by simp
  qed
  then show ?thesis using payload_arrives by blast
qed

end
