(* ===== verification/Transition_System.thy ===== *)
theory Transition_System
  imports Main
begin

text \<open>
  Reachability and invariants of a step relation, once for all components. A component with
  a step relation interprets \<open>invariant_system\<close> with its invariant and gets that every
  reachable state satisfies it; \<open>stepwise\<close> relates the two ends of a run by a relation that
  every single step respects.
\<close>

inductive reach :: "('s \<Rightarrow> 's \<Rightarrow> bool) \<Rightarrow> 's \<Rightarrow> 's \<Rightarrow> bool" for step where
  reach_refl: "reach step s s"
| reach_step: "reach step s t \<Longrightarrow> step t u \<Longrightarrow> reach step s u"

lemma reach_trans: "reach step t u \<Longrightarrow> reach step s t \<Longrightarrow> reach step s u"
  by (induction rule: reach.induct) (auto intro: reach.intros)

locale invariant_system =
  fixes step :: "'s \<Rightarrow> 's \<Rightarrow> bool" and inv :: "'s \<Rightarrow> bool"
  assumes step_inv: "inv s \<Longrightarrow> step s t \<Longrightarrow> inv t"
begin

lemma reach_inv: "reach step s t \<Longrightarrow> inv s \<Longrightarrow> inv t"
  by (induction rule: reach.induct) (auto intro: step_inv)

end

locale stepwise = invariant_system +
  fixes rel :: "'s \<Rightarrow> 's \<Rightarrow> bool"
  assumes rel_refl: "rel s s"
    and rel_step: "inv t \<Longrightarrow> rel s t \<Longrightarrow> step t u \<Longrightarrow> rel s u"
begin

lemma reach_rel: "reach step s t \<Longrightarrow> inv s \<Longrightarrow> rel s t"
proof (induction rule: reach.induct)
  case (reach_step s t u)
  then show ?case using reach_inv rel_step by blast
qed (rule rel_refl)

end

end
