(* ===== verification/Host_Invariants.thy ===== *)
theory Host_Invariants
  imports Host_Http Transition_System
begin

text \<open>
  Invariants of the host agent. The locale \<open>agent_invariant\<close> states what an invariant has to satisfy at the primitive
  operations, the commands in particular; its lemmas carry it through every method of the controller, once for all.
\<close>

section \<open>From the primitives to the controller\<close>

text \<open>Two facts on computations: a rule for \<open>h_bind\<close> that knows the value, and where a command changes the state\<close>

lemma keeps_bind_value:
  assumes "keeps l I m" and "\<And>x h h'. m l h = (Inr x, h') \<Longrightarrow> keeps l I (g x)"
  shows "keeps l I (h_bind m g)"
  using assms by (fastforce simp: keeps_def h_bind_def split: prod.split sum.split)

lemma keeps_if_cond: "(b \<Longrightarrow> keeps l I m) \<Longrightarrow> (\<not> b \<Longrightarrow> keeps l I m') \<Longrightarrow> keeps l I (if b then m else m')"
  by simp

lemma snd_agent_run: "snd (agent_run args l h) = snd (runner args l h)"
  by (auto simp: agent_run_def h_bind_def runner_def h_raise_def h_return_def split: prod.split run_result.split)

lemma preview_values:
  assumes "firewall_preview c ip start end l h = (Inr p, h')"
  shows "network_values ip start end = Inr (plan_source_ip p, start, end)" and "plan_udp_start p = start"
    and "plan_udp_end p = end"
proof -
  have "network_values ip start end = Inr (plan_source_ip p, start, end) \<and> plan_udp_start p = start \<and> plan_udp_end p = end"
  proof (cases "network_values ip start end")
    case (Inl e)
    then show ?thesis using assms by (simp add: firewall_preview_def exec_simps)
  next
    case (Inr x)
    then obtain source where x: "network_values ip start end = Inr (source, start, end)"
      using network_values_Inr by blast
    then have "plan_source_ip p = source \<and> plan_udp_start p = start \<and> plan_udp_end p = end"
      using assms by (auto simp: firewall_preview_def exec_simps)
    then show ?thesis using x by simp
  qed
  then show "network_values ip start end = Inr (plan_source_ip p, start, end)" and "plan_udp_start p = start"
    and "plan_udp_end p = end" by simp_all
qed

text \<open>
  A command whose first argument is neither that of a pull nor that of a firewall change is free to run; a pull
  has to follow the verification that returned the image, and a rule may be added if its values are valid.
\<close>

locale agent_invariant =
  fixes c :: agent_config and l :: host_lib and I :: "host \<Rightarrow> bool"
  assumes file_op: "keeps l I (file_op op)"
    and read_text: "keeps l I (read_text p)"
    and redirect: "keeps l I (h_modify (redirect p s))"
    and opener: "keeps l I (opener url)"
    and sleep: "keeps l I (sleep n)"
    and uuid4: "keeps l I uuid4"
    and unix_time: "keeps l I unix_time"
    and command: "a \<noteq> ''pull'' \<Longrightarrow> a \<noteq> ''--force'' \<Longrightarrow> keeps l I (runner (b # a # args))"
    and delete_rule: "keeps l I (runner (ufw_rule c source start end True))"
    and add_rule: "network_values ip start end = Inr (source, start, end) \<Longrightarrow>
      keeps l I (runner (ufw_rule c source start end False))"
    and pull: "I h \<Longrightarrow> verified_image c version l h = (Inr img, h1) \<Longrightarrow> re_fullmatch VERSION_PATTERN version \<Longrightarrow> I h1 \<Longrightarrow>
      I (snd (runner [docker_binary c, ''pull'', img] l h1))"
begin

lemmas primitive = file_op read_text redirect opener sleep uuid4 unix_time

lemma agent_run: "keeps l I (runner args) \<Longrightarrow> keeps l I (agent_run args)"
  unfolding agent_run_def by (intro keeps_intros)

lemma raw_run: "keeps l I (runner args) \<Longrightarrow> keeps l I (raw_run args)"
  unfolding raw_run_def by (intro keeps_intros)

lemma run_ufw: "keeps l I (runner args) \<Longrightarrow> keeps l I (run_ufw args)"
  unfolding run_ufw_def by (intro keeps_intros agent_run)

lemma quiet:
  "keeps l I (unlink_quiet p)" "keeps l I (rmtree_quiet p)" "keeps l I (mkdir_new b p)" "keeps l I (open_read p)"
  unfolding unlink_quiet_def rmtree_quiet_def mkdir_new_def open_read_def by (intro keeps_intros primitive)+

lemma store: "keeps l I (store_read c)" "keeps l I (store_write c v)"
  unfolding store_read_def store_write_def by (intro keeps_intros primitive)+

lemma compose: "keeps l I (compose c args)" "keeps l I (compose_up c)"
  unfolding compose_up_def compose_def compose_args_def
  by (auto intro!: keeps_intros agent_run command)

lemma postgres: "keeps l I (runner (postgres_args c args))" "keeps l I (runner (compose_args c args))"
  unfolding postgres_args_def compose_args_def by (auto intro!: command)

lemma firewall_preview: "keeps l I (firewall_preview c ip start end)"
  unfolding firewall_preview_def by (intro keeps_intros store)

lemma delete_recorded: "keeps l I (delete_recorded c v)"
  unfolding delete_recorded_def by (intro keeps_intros run_ufw delete_rule)

lemma remove_firewall: "keeps l I (remove_firewall c)"
  unfolding remove_firewall_def by (intro keeps_intros store delete_recorded)

lemma apply_firewall: "keeps l I (apply_firewall c ip start end)"
  unfolding apply_firewall_def Let_def
proof (rule keeps_bind_value [OF firewall_preview])
  fix p h h'
  assume "firewall_preview c ip start end l h = (Inr p, h')"
  from preview_values [OF this] have "network_values ip start end = Inr (plan_source_ip p, start, end)"
    "plan_udp_start p = start" "plan_udp_end p = end" by simp_all
  then have add: "keeps l I (runner (ufw_rule c (plan_source_ip p) (plan_udp_start p) (plan_udp_end p) False))"
    using add_rule by simp
  then show "keeps l I
    (h_bind (h_when (py_truthy (plan_previous p) \<and> \<not> same_rule (plan_previous p) (plan_source_ip p) (plan_udp_start p) (plan_udp_end p))
        (delete_recorded c (plan_previous p))) (\<lambda>_.
      h_bind (run_ufw (ufw_rule c (plan_source_ip p) (plan_udp_start p) (plan_udp_end p) False)) (\<lambda>_.
      h_bind (store_read c) (\<lambda>state.
      h_bind (h_lift (j_set state ''firewall'' (rule_json (plan_source_ip p) (plan_udp_start p) (plan_udp_end p)))) (\<lambda>state'.
      h_bind (store_write c state') (\<lambda>_. h_return (rule_json (plan_source_ip p) (plan_udp_start p) (plan_udp_end p))))))))"
    by (intro keeps_intros store delete_recorded run_ufw)
qed

lemma restore_firewall: "keeps l I (restore_firewall c v)"
  unfolding restore_firewall_def by (intro keeps_intros apply_firewall remove_firewall)

lemma agent_status: "keeps l I (agent_status c)"
  unfolding agent_status_def by (intro keeps_intros store agent_run command) simp_all

lemma releases: "keeps l I (releases c)"
  unfolding releases_def by (intro keeps_intros opener)

lemma current_image: "keeps l I (current_image c)"
  unfolding current_image_def Let_def by (intro keeps_intros agent_run postgres command) simp_all

lemma verified_image: "keeps l I (verified_image c version)"
  unfolding verified_image_def by (intro keeps_intros agent_run command) simp_all

lemma env: "keeps l I (env_values c)" "keeps l I (update_env c ch)"
  unfolding env_values_def update_env_def Let_def by (intro keeps_intros primitive)+

lemma healthy: "keeps l I (healthy c t)"
proof -
  have "I h \<Longrightarrow> l' = l \<Longrightarrow> I (snd (health_loop url deadline l' h))" for url deadline h l'
  proof (induction url deadline l' h rule: health_loop.induct)
    case (1 url deadline l' h)
    obtain r h1 where o: "opener url l' h = (r, h1)" by fastforce
    then have "I h1" using keepsD [OF opener] 1(3,4) by simp
    moreover then have "I (snd (sleep 2 l' h1))" using sleep 1(4) by (simp add: keeps_def)
    ultimately show ?case
      using 1 o by (subst health_loop.simps) (auto split: sum.split prod.split)
  qed
  then show ?thesis by (simp add: keeps_def healthy_def)
qed

lemma database_identity: "keeps l I (database_identity c)"
  unfolding database_identity_def Let_def by (intro keeps_intros env)

lemma database_backup: "keeps l I (database_backup c)"
  unfolding database_backup_def dump_database_def backup_failed_def run_to_file_def pg_dump_args_def
  by (intro keeps_intros database_identity primitive quiet postgres)

lemma database_restore: "keeps l I (database_restore c p)"
  unfolding database_restore_def
  by (intro keeps_intros database_identity compose agent_run raw_run quiet postgres)

lemma copying: "keeps l I (replace_directory src dst)" "keeps l I (copy_file src dst m)"
  unfolding replace_directory_def copy_file_def by (intro keeps_intros primitive)+

lemma h_each: "(\<And>x. keeps l I (m x)) \<Longrightarrow> keeps l I (h_each m xs)"
  by (induction xs) (auto intro: keeps_intros)

lemma restore_runtime: "keeps l I (restore_runtime c p)"
  unfolding restore_runtime_def by (intro keeps_intros primitive quiet copying h_each)

lemma validate_runtime: "keeps l I (validate_runtime p v)"
  unfolding validate_runtime_def by (intro keeps_intros primitive)

lemma extract_runtime: "keeps l I (extract_runtime c img v)"
  unfolding extract_runtime_def discard_staging_def Let_def
  by (intro keeps_intros primitive quiet agent_run raw_run command validate_runtime) simp_all

lemma deploy_runtime: "keeps l I (deploy_runtime c p)"
  unfolding deploy_runtime_def save_current_def save_current_dir_def Let_def
  by (intro keeps_intros primitive quiet copying restore_runtime h_each)

lemma schedule_agent_refresh: "keeps l I (schedule_agent_refresh c)"
  unfolding schedule_agent_refresh_def Let_def by (intro keeps_intros primitive agent_run command) simp_all

lemma deployment_job: "keeps l I (deployment_job c payload)"
  unfolding deployment_job_def Let_def
  by (intro keeps_intros env store apply_firewall restore_firewall compose healthy)

lemma undo_upgrade: "keeps l I (undo_upgrade c i v b r)"
  unfolding undo_upgrade_def by (intro keeps_intros env restore_runtime database_restore compose)

lemma upgrade_change: "keeps l I (upgrade_change c v oi ov ni s)"
  unfolding upgrade_change_def
  by (intro keeps_intros env deploy_runtime database_backup undo_upgrade compose healthy quiet)

lemma discard_backup: "(\<And>p. keeps l I (m p)) \<Longrightarrow> keeps l I (discard_backup m v)"
  unfolding discard_backup_def by (intro keeps_intros)

lemma pulled:
  assumes "re_fullmatch VERSION_PATTERN version" and "\<And>img. keeps l I (k img)"
  shows "keeps l I (h_bind (verified_image c version) (\<lambda>img. h_bind (agent_run [docker_binary c, ''pull'', img]) (\<lambda>_. k img)))"
  unfolding keeps_def
proof (intro allI impI)
  fix h
  assume "I h"
  obtain r h1 where v: "verified_image c version l h = (r, h1)" by fastforce
  have "I h1" using keepsD [OF verified_image \<open>I h\<close> v] .
  show "I (snd (h_bind (verified_image c version) (\<lambda>img. h_bind (agent_run [docker_binary c, ''pull'', img]) (\<lambda>_. k img)) l h))"
  proof (cases r)
    case (Inl e)
    then show ?thesis using v \<open>I h1\<close> by (simp add: h_bind_def)
  next
    case (Inr img)
    obtain r2 h2 where p: "agent_run [docker_binary c, ''pull'', img] l h1 = (r2, h2)" by fastforce
    have "I h2"
      using pull [OF \<open>I h\<close> v [unfolded Inr] assms(1) \<open>I h1\<close>] snd_agent_run [of "[docker_binary c, ''pull'', img]" l h1] p
      by simp
    then show ?thesis
      using assms(2) v p Inr by (cases r2) (simp_all add: h_bind_def keeps_def)
  qed
qed

lemma upgrade_job: "keeps l I (upgrade_job c payload)"
  unfolding upgrade_job_def Let_def
  apply (rule keeps_bind [OF keeps_ask], rule keeps_bind [OF keeps_lift], rule keeps_if_cond, rule keeps_raise)
  apply (rule keeps_bind [OF env(1)], rule keeps_bind [OF keeps_if [OF keeps_return current_image]], rule pulled, simp)
  apply (intro keeps_intros extract_runtime upgrade_change store discard_backup quiet primitive)
  done

lemma rollback_job: "keeps l I (rollback_job c)"
  unfolding rollback_job_def stored_path_def
  by (intro keeps_intros env store restore_runtime database_restore restore_firewall compose healthy)

lemma job_body: "keeps l I (job_body c operation payload)"
  unfolding job_body_def by (intro keeps_intros deployment_job upgrade_job rollback_job)

lemma agent_job: "keeps l I (agent_job c job_id)"
  unfolding agent_job_def by (intro keeps_intros store)

end

text \<open>An invariant that also ignores the table of jobs and the threads holds through every request and every job.\<close>

locale agent_trace_invariant = agent_invariant +
  assumes jobs: "I (h\<lparr>h_jobs := js\<rparr>) = I h" and threads: "I (h\<lparr>h_threads := ts\<rparr>) = I h"
begin

lemma save_job: "keeps l I (save_job c job_id job)"
  unfolding save_job_def by (intro keeps_intros store) (simp add: keeps_def h_modify_def jobs)

lemma start_job: "keeps l I (start_job c operation payload)"
  unfolding start_job_def by (intro keeps_intros save_job uuid4) (simp add: keeps_def h_modify_def threads)

lemma execute_job: "keeps l I (execute_job c job_id operation payload)"
  unfolding execute_job_def by (intro keeps_intros save_job job_body schedule_agent_refresh)

lemma agent_dispatch: "keeps l I (agent_dispatch c rq)"
  unfolding agent_dispatch_def
  by (intro keeps_intros agent_status releases agent_job firewall_preview apply_firewall start_job)

lemma handle_request:
  assumes "I h" and "handle_request c rq l h = (reply, h')"
  shows "I h'"
proof (cases "authorized c rq = Inr True")
  case True
  obtain r h1 where "agent_dispatch c rq l h = (r, h1)" by fastforce
  moreover then have "I h1" using keepsD [OF agent_dispatch assms(1)] by blast
  ultimately show ?thesis
    using assms(2) True by (auto simp: handle_request_def split: sum.splits exn.splits if_splits)
next
  case False
  then show ?thesis using assms by (auto simp: handle_request_def split: sum.splits bool.splits)
qed

end

section \<open>Runs of the agent\<close>

text \<open>A step handles one request, whoever sent it, or runs one started thread.\<close>

inductive agent_step :: "agent_config \<Rightarrow> host_lib \<Rightarrow> host \<Rightarrow> host \<Rightarrow> bool" for c l where
  request: "handle_request c rq l h = (reply, h') \<Longrightarrow> agent_step c l h h'"
| thread: "h_threads h = before @ (job_id, operation, payload) # after \<Longrightarrow>
    execute_job c job_id operation payload l (h\<lparr>h_threads := before @ after\<rparr>) = (r, h') \<Longrightarrow> agent_step c l h h'"

context agent_trace_invariant
begin

lemma agent_step:
  assumes "I h" and "agent_step c l h h'"
  shows "I h'"
  using assms(2)
proof cases
  case (request rq reply)
  then show ?thesis using handle_request [OF assms(1)] by blast
next
  case (thread before job_id operation payload after r)
  then show ?thesis using keepsD [OF execute_job] assms(1) by (metis threads)
qed

end

section \<open>The commands that the agent runs\<close>

definition cosign_args :: "agent_config \<Rightarrow> string \<Rightarrow> string list" where
  "cosign_args c version =
     [cosign_binary c, ''verify'', ''--output'', ''json'', ''--certificate-identity-regexp'', signing_identity c,
      ''--certificate-oidc-issuer'', signing_issuer c, image_repository c @ '':'' @ version]"

text \<open>
  A pulled image is the one whose digest the signature of a release covers, as an earlier successful verification printed it.
\<close>

definition signed_image :: "agent_config \<Rightarrow> host_lib \<Rightarrow> host_event list \<Rightarrow> string \<Rightarrow> bool" where
  "signed_image c l past img \<longleftrightarrow>
     (\<exists>version out d. Ran (cosign_args c version) (Exited 0 out) \<in> set past \<and> re_fullmatch VERSION_PATTERN version
        \<and> signed_digest out = Inr d \<and> re_fullmatch digest_pattern (py_str (hl_repr l) d)
        \<and> img = image_repository c @ ''@'' @ py_str (hl_repr l) d)"

definition valid_rule :: "string \<times> string \<Rightarrow> bool" where
  "valid_rule rule \<longleftrightarrow>
     (\<exists>ip start end. normalize_ip ip = Some (fst rule) \<and> snd rule = port_range start end
        \<and> 1024 \<le> start \<and> start \<le> end \<and> end \<le> 65535 \<and> end - start < 100)"

definition event_ok :: "agent_config \<Rightarrow> host_lib \<Rightarrow> host_event list \<Rightarrow> host_event \<Rightarrow> bool" where
  "event_ok c l past ev =
     (case ev of
        Ran args r \<Rightarrow> (\<forall>img. args = [docker_binary c, ''pull'', img] \<longrightarrow> signed_image c l past img)
          \<and> (\<forall>rule. args = ufw_args c False rule \<longrightarrow> valid_rule rule)
      | _ \<Rightarrow> True)"

definition trace_ok :: "agent_config \<Rightarrow> host_lib \<Rightarrow> host_event list \<Rightarrow> bool" where
  "trace_ok c l t \<longleftrightarrow> (\<forall>i < length t. event_ok c l (take i t) (t ! i))"

lemma trace_ok_snoc: "trace_ok c l (t @ [ev]) \<longleftrightarrow> trace_ok c l t \<and> event_ok c l t ev"
  by (auto simp: trace_ok_def nth_append less_Suc_eq)

lemma trace_ok_quiet:
  "trace_ok c l (t @ [Ran args r]) \<longleftrightarrow> trace_ok c l t \<and> event_ok c l t (Ran args r)"
  "trace_ok c l (t @ [Fetched u x]) \<longleftrightarrow> trace_ok c l t" "trace_ok c l (t @ [ReadText p]) \<longleftrightarrow> trace_ok c l t"
  "trace_ok c l (t @ [FileOp op]) \<longleftrightarrow> trace_ok c l t" "trace_ok c l (t @ [DrewUuid]) \<longleftrightarrow> trace_ok c l t"
  "trace_ok c l (t @ [ReadClock]) \<longleftrightarrow> trace_ok c l t" "trace_ok c l (t @ [Slept]) \<longleftrightarrow> trace_ok c l t"
  by (simp_all add: trace_ok_snoc event_ok_def)

lemmas primitive_defs = file_op_def read_text_def redirect_def opener_def sleep_def uuid4_def unix_time_def runner_def
  h_modify_def log_event_def

lemma translated_raises:
  "(case e of AgentError d n \<Rightarrow> h_raise x | _ \<Rightarrow> h_raise e) l h \<noteq> (Inr y, h')"
  by (cases e) (simp_all add: h_raise_def)

lemma verified_image_signed:
  assumes "verified_image c version l h = (Inr img, h1)" and "re_fullmatch VERSION_PATTERN version"
  shows "signed_image c l (h_trace h1) img"
proof -
  obtain out h2 where run: "agent_run (cosign_args c version) l h = (Inr out, h2)"
    and img: "(case signed_digest out of
       Inl e \<Rightarrow> h_raise (AgentError ''signature_verification_failed'' 502)
     | Inr d \<Rightarrow>
         (if re_fullmatch digest_pattern (py_str (hl_repr l) d) then h_return (image_repository c @ ''@'' @ py_str (hl_repr l) d)
          else h_raise (AgentError ''signature_verification_failed'' 502))) l h2 = (Inr img, h1)"
    using assms(1) by (auto simp: verified_image_def exec_simps cosign_args_def translated_raises split: if_splits)
  have "Ran (cosign_args c version) (Exited 0 out) \<in> set (h_trace h2)"
    using run by (auto simp: agent_run_def exec_simps runner_def log_event_def split: prod.splits run_result.splits if_splits)
  then show ?thesis
    using img assms(2) by (cases "signed_digest out") (auto simp: signed_image_def exec_simps split: if_splits)
qed

interpretation safe: agent_trace_invariant c l "\<lambda>h. trace_ok c l (h_trace h)" for c l
proof (unfold_locales, goal_cases)
  case (8 a b args)
  then show ?case
    by (auto simp: keeps_def primitive_defs trace_ok_quiet event_ok_def ufw_args_def split: prod.splits)
next
  case (9 source a b)
  then show ?case
    by (auto simp: keeps_def primitive_defs trace_ok_quiet event_ok_def ufw_rule_args ufw_args_def split: prod.splits)
next
  case (10 ip a b source)
  then have "valid_rule (source, port_range a b)"
    by (auto simp: network_values_Inr valid_rule_def)
  then show ?case
    by (auto simp: keeps_def primitive_defs trace_ok_quiet event_ok_def ufw_rule_args ufw_args_def split: prod.splits)
next
  case (11 h version img h1)
  then show ?case
    using verified_image_signed [OF 11(2,3)]
    by (auto simp: primitive_defs trace_ok_quiet event_ok_def ufw_args_def split: prod.splits)
qed (auto simp: keeps_def primitive_defs trace_ok_quiet Let_def split: option.splits sum.splits prod.splits)

interpretation agent_run_safe: invariant_system "agent_step c l" "\<lambda>h. trace_ok c l (h_trace h)" for c l
  by unfold_locales (rule safe.agent_step)

text \<open>
  C8: the commands of the host agent. In every run of the agent, whatever requests it receives and however its jobs
  fail, each image that is pulled is the repository at a digest that an earlier successful signature verification of
  a release reported, and each firewall rule that is added has an address in normal form as its source and 1 to 100 ports between
  1024 and 65535.
\<close>

theorem agent_commands_safe:
  assumes "reach (agent_step c l) h0 h" and "h_trace h0 = []"
  shows "(\<forall>before img r after. h_trace h = before @ Ran [docker_binary c, ''pull'', img] r # after \<longrightarrow> signed_image c l before img)
    \<and> (\<forall>rule r. Ran (ufw_args c False rule) r \<in> set (h_trace h) \<longrightarrow> valid_rule rule)"
proof -
  have ok: "trace_ok c l (h_trace h)"
    using agent_run_safe.reach_inv [OF assms(1)] assms(2) by (simp add: trace_ok_def)
  have here: "event_ok c l before ev" if "h_trace h = before @ ev # after" for before ev after
    using ok that by (auto simp: trace_ok_def dest!: spec [of _ "length before"])
  show ?thesis
  proof (intro conjI allI impI)
    fix before img r after
    assume "h_trace h = before @ Ran [docker_binary c, ''pull'', img] r # after"
    from here [OF this] show "signed_image c l before img" by (simp add: event_ok_def)
  next
    fix rule r
    assume "Ran (ufw_args c False rule) r \<in> set (h_trace h)"
    then obtain before after where "h_trace h = before @ Ran (ufw_args c False rule) r # after"
      by (auto dest: split_list)
    from here [OF this] show "valid_rule rule" by (cases rule) (simp add: event_ok_def)
  qed
qed

section \<open>The life of a job\<close>

interpretation still: agent_invariant c l "\<lambda>h. h_jobs h = J \<and> h_threads h = T" for c l J T
  by unfold_locales
    (auto simp: keeps_def primitive_defs Let_def split: option.splits sum.splits prod.splits)

lemma save_job_table:
  assumes "save_job c job_id job l h = (r, h')"
  shows "h_jobs h' = dict_set (h_jobs h) job_id job" and "h_threads h' = h_threads h"
proof -
  let ?rest = "h_bind (store_read c) (\<lambda>state.
     h_bind (h_lift (j_get state ''jobs'' (JObj []))) (\<lambda>jobs.
     h_bind (h_lift (j_set jobs job_id job)) (\<lambda>jobs'.
     h_bind (h_lift (j_set state ''jobs'' (prune_jobs jobs'))) (\<lambda>state'.
     store_write c state'))))"
  let ?h = "h\<lparr>h_jobs := dict_set (h_jobs h) job_id job\<rparr>"
  have run: "?rest l ?h = (r, h')" using assms by (simp add: save_job_def h_bind_def [of "h_modify _"] h_modify_def)
  have "keeps l (\<lambda>x. h_jobs x = h_jobs ?h \<and> h_threads x = h_threads ?h) ?rest"
    by (intro keeps_intros still.store)
  from keepsD [OF this _ run] show "h_jobs h' = dict_set (h_jobs h) job_id job" and "h_threads h' = h_threads h"
    by simp_all
qed

lemma dict_set_twice: "dict_set (dict_set d k v) k w = dict_set d k w"
  by (induction d k v rule: dict_set.induct) auto

lemma execute_job_table:
  assumes "execute_job c job_id operation payload l h = (r, h')"
  shows "\<exists>st err. h_jobs h' = dict_set (h_jobs h) job_id (job_json job_id operation st err) \<and> h_threads h' = h_threads h
      \<and> (st = ''succeeded'' \<and> err = JNull \<or> st = ''failed'' \<and> (\<exists>detail. err = JStr detail))"
proof -
  let ?succ = "job_json job_id operation ''succeeded'' JNull"
  let ?fail = "\<lambda>e. job_json job_id operation ''failed'' (JStr (error_detail e))"
  have same: "h_jobs h1 = h_jobs h \<and> h_threads h1 = h_threads h" if "job_body c operation payload l h = (x, h1)" for x h1
    using keepsD [OF still.job_body [where J = "h_jobs h" and T = "h_threads h"] _ that] by simp
  have quiet: "h_jobs h2 = h_jobs h1 \<and> h_threads h2 = h_threads h1" if "h_when b (schedule_agent_refresh c) l h1 = (x, h2)" for b x h1 h2
    using keepsD [OF keeps_when [OF still.schedule_agent_refresh [where J = "h_jobs h1" and T = "h_threads h1"]] _ that] by simp
  consider (worked) restart h1 x where "job_body c operation payload l h = (Inr restart, h1)"
      "h_bind (save_job c job_id ?succ) (\<lambda>_. h_when restart (schedule_agent_refresh c)) l h1 = (Inr x, h')"
    | (late) restart h1 h2 e where "job_body c operation payload l h = (Inr restart, h1)"
      "h_bind (save_job c job_id ?succ) (\<lambda>_. h_when restart (schedule_agent_refresh c)) l h1 = (Inl e, h2)"
      "save_job c job_id (?fail e) l h2 = (r, h')"
    | (failed) e h1 where "job_body c operation payload l h = (Inl e, h1)" "save_job c job_id (?fail e) l h1 = (r, h')"
    using assms unfolding execute_job_def h_catch_iff h_bind_iff [of "job_body c operation payload"] by blast
  then show ?thesis
  proof cases
    case worked
    then obtain h2 where h2: "save_job c job_id ?succ l h1 = (Inr (), h2)" "h_when restart (schedule_agent_refresh c) l h2 = (Inr x, h')"
      by (auto simp: h_bind_iff)
    show ?thesis using save_job_table [OF h2(1)] quiet [OF h2(2)] same [OF worked(1)] by auto
  next
    case late
    from late(2) consider "save_job c job_id ?succ l h1 = (Inl e, h2)"
      | u h3 where "save_job c job_id ?succ l h1 = (Inr u, h3)" "h_when restart (schedule_agent_refresh c) l h3 = (Inl e, h2)"
      by (auto simp: h_bind_iff)
    then have "h_jobs h2 = dict_set (h_jobs h1) job_id ?succ \<and> h_threads h2 = h_threads h1"
    proof cases
      case 1
      then show ?thesis using save_job_table by blast
    next
      case 2
      then show ?thesis using save_job_table [OF 2(1)] quiet [OF 2(2)] by simp
    qed
    then show ?thesis using save_job_table [OF late(3)] same [OF late(1)] by (auto simp: dict_set_twice)
  next
    case failed
    then show ?thesis using save_job_table [OF failed(2)] same [OF failed(1)] by auto
  qed
qed

text \<open>The jobs of the table that are marked as running\<close>

definition running :: "host \<Rightarrow> string list" where
  "running h = map fst (filter (\<lambda>(job_id, job). is_running job = Inr True) (h_jobs h))"

definition job_table_ok :: "host \<Rightarrow> bool" where
  "job_table_ok h \<longleftrightarrow> distinct (map fst (h_jobs h))
     \<and> (\<forall>(job_id, job) \<in> set (h_jobs h). \<exists>operation st err. job = job_json job_id operation st err
          \<and> st \<in> {''running'', ''succeeded'', ''failed''})"

text \<open>At most one job runs, and a started thread belongs to a running job.\<close>

definition jobs_inv :: "host \<Rightarrow> bool" where
  "jobs_inv h \<longleftrightarrow> job_table_ok h \<and> length (running h) \<le> 1
     \<and> length (h_threads h) \<le> 1 \<and> (\<forall>t \<in> set (h_threads h). fst t \<in> set (running h))"

lemma is_running_job: "is_running (job_json job_id operation st err) = Inr (st = ''running'')"
  by (simp add: is_running_def job_json_def j_item_def dict_get_def)

lemma any_running_table: "job_table_ok h \<Longrightarrow> any_running (map snd (h_jobs h)) = Inr (running h \<noteq> [])"
proof -
  have "\<forall>(job_id, job) \<in> set js. \<exists>operation st err. job = job_json job_id operation st err \<Longrightarrow>
    any_running (map snd js) = Inr (\<exists>x \<in> set js. is_running (snd x) = Inr True)" for js
    by (induction js) (auto simp: is_running_job)
  note table = this [of "h_jobs h"]
  have "(\<exists>x \<in> set (h_jobs h). is_running (snd x) = Inr True) \<longleftrightarrow> running h \<noteq> []"
    by (force simp: running_def filter_empty_conv)
  moreover assume "job_table_ok h"
  then have "\<forall>(job_id, job) \<in> set (h_jobs h). \<exists>operation st err. job = job_json job_id operation st err"
    unfolding job_table_ok_def by blast
  ultimately show ?thesis using table by simp
qed

lemma running_set: "set (running h) = {job_id. \<exists>job. (job_id, job) \<in> set (h_jobs h) \<and> is_running job = Inr True}"
  by (force simp: running_def)

lemma job_table_set:
  assumes "job_table_ok h" and "h_jobs h' = dict_set (h_jobs h) job_id (job_json job_id operation st err)"
    and "st \<in> {''running'', ''succeeded'', ''failed''}"
  shows "job_table_ok h'"
    and "set (running h') = (if st = ''running'' then insert job_id (set (running h)) else set (running h) - {job_id})"
proof -
  have d: "distinct (map fst (h_jobs h'))"
    using assms(1,2) by (simp add: job_table_ok_def distinct_dict_set)
  show "job_table_ok h'"
    unfolding job_table_ok_def
    using d assms by (auto simp: job_table_ok_def dest!: in_dict_set)
  have "(i, j) \<in> set (h_jobs h') \<longleftrightarrow> (if i = job_id then j = job_json job_id operation st err else (i, j) \<in> set (h_jobs h))" for i j
    using map_of_eq_Some_iff [OF d, of i j] map_of_eq_Some_iff [of "h_jobs h" i j] assms(1,2)
    by (auto simp: job_table_ok_def split: if_splits)
  then show "set (running h') = (if st = ''running'' then insert job_id (set (running h)) else set (running h) - {job_id})"
    by (auto simp: running_set is_running_job split: if_splits) (metis is_running_job)
qed

lemma jobs_inv_cong: "h_jobs h' = h_jobs h \<Longrightarrow> h_threads h' = h_threads h \<Longrightarrow> jobs_inv h' = jobs_inv h"
  by (simp add: jobs_inv_def job_table_ok_def running_def)

lemma running_one: "length (running h) \<le> 1 \<longleftrightarrow> (\<forall>x \<in> set (running h). \<forall>y \<in> set (running h). x = y)"
  if "job_table_ok h"
proof -
  have "distinct (running h)"
    using that by (auto simp: job_table_ok_def running_def intro: distinct_map_filter)
  then show ?thesis by (cases "running h" rule: remdups_adj.cases) auto
qed

lemma jobs_inv_idle: "jobs_inv h \<Longrightarrow> running h = [] \<Longrightarrow> h_threads h = []"
  by (cases "h_threads h") (auto simp: jobs_inv_def)

lemma start_job_cases:
  assumes "start_job c operation payload l h = (r, h')" and "job_table_ok h"
  obtains (refused) e where "r = Inl e" "h_jobs h' = h_jobs h" "h_threads h' = h_threads h"
      "operation \<notin> {''deployment'', ''upgrade'', ''rollback''} \<or> running h \<noteq> []"
      "running h \<noteq> [] \<Longrightarrow> operation \<in> {''deployment'', ''upgrade'', ''rollback''} \<Longrightarrow> e = AgentError ''host_operation_in_progress'' 409"
    | (stuck) e job_id where "r = Inl e" "running h = []"
      "h_jobs h' = dict_set (h_jobs h) job_id (job_json job_id operation ''running'' JNull)" "h_threads h' = h_threads h"
    | (started) job_id where "r = Inr (JObj [(''job_id'', JStr job_id)])" "running h = []"
      "h_jobs h' = dict_set (h_jobs h) job_id (job_json job_id operation ''running'' JNull)"
      "h_threads h' = h_threads h @ [(job_id, operation, payload)]"
proof (cases "operation \<in> {''deployment'', ''upgrade'', ''rollback''} \<and> running h = []")
  case False
  then show ?thesis
    using assms(1) any_running_table [OF assms(2)] refused
    by (auto simp: start_job_def exec_simps split: if_splits)
next
  case True
  define job_id where "job_id = hl_uuid l (h_trace h)"
  let ?job = "job_json job_id operation ''running'' JNull" and ?h = "log_event DrewUuid h"
  have run: "h_bind (save_job c job_id ?job) (\<lambda>_.
      h_bind (h_modify (\<lambda>h. h\<lparr>h_threads := h_threads h @ [(job_id, operation, payload)]\<rparr>)) (\<lambda>_.
      h_return (JObj [(''job_id'', JStr job_id)]))) l ?h = (r, h')"
    using assms(1) any_running_table [OF assms(2)] True
    by (auto simp: start_job_def h_bind_def h_get_def h_lift_def uuid4_def job_id_def)
  obtain x h1 where save: "save_job c job_id ?job l ?h = (x, h1)" by fastforce
  note table = save_job_table [OF save]
  show ?thesis
  proof (cases x)
    case (Inl e)
    then show ?thesis using run save table True stuck by (auto simp: h_bind_def log_event_def)
  next
    case (Inr u)
    then show ?thesis using run save table True started by (auto simp: h_bind_def h_modify_def h_return_def log_event_def)
  qed
qed

lemma dispatch_jobs:
  assumes "agent_dispatch c rq l h = (r, h')"
  shows "h_jobs h' = h_jobs h \<and> h_threads h' = h_threads h \<or> (\<exists>operation payload. start_job c operation payload l h = (r, h'))"
proof (cases "rq_command rq = ''POST'' \<and> rq_path rq \<in> set [''/v1/deployment'', ''/v1/upgrade'', ''/v1/rollback'']")
  case True
  then show ?thesis
    using assms by (auto simp: agent_dispatch_def exec_simps)
next
  case False
  let ?I = "\<lambda>x. h_jobs x = h_jobs h \<and> h_threads x = h_threads h"
  have "keeps l ?I (agent_dispatch c rq)"
    unfolding agent_dispatch_def if_not_P [OF False]
    by (intro keeps_intros still.agent_status still.releases still.agent_job still.firewall_preview still.apply_firewall)
  from keepsD [OF this _ assms] show ?thesis by simp
qed

interpretation agent_jobs: invariant_system "agent_step c l" jobs_inv for c l
proof (unfold_locales, goal_cases)
  case (1 h h')
  from 1(2) show ?case
  proof cases
    case (request rq reply)
    obtain r h1 where disp: "agent_dispatch c rq l h = (r, h1)" by fastforce
    then have "h' = h \<or> h' = h1"
      using request by (auto simp: handle_request_def split: sum.splits bool.splits exn.splits if_splits)
    moreover have "jobs_inv h1"
    proof -
      have "job_table_ok h" using 1(1) by (simp add: jobs_inv_def)
      from dispatch_jobs [OF disp] consider "h_jobs h1 = h_jobs h" "h_threads h1 = h_threads h"
        | operation payload where "start_job c operation payload l h = (r, h1)" by blast
      then show ?thesis
      proof cases
        case 1
        then show ?thesis using \<open>jobs_inv h\<close> jobs_inv_cong by blast
      next
        case 2
        then show ?thesis
        proof (cases rule: start_job_cases [OF 2 \<open>job_table_ok h\<close>])
          case (1 e)
          then show ?thesis using \<open>jobs_inv h\<close> jobs_inv_cong by blast
        next
          case (2 e job_id)
          note table = job_table_set [OF \<open>job_table_ok h\<close> 2(3)]
          then show ?thesis using 2 \<open>jobs_inv h\<close> running_one [OF table(1)] by (auto simp: jobs_inv_def)
        next
          case (3 job_id)
          note table = job_table_set [OF \<open>job_table_ok h\<close> 3(3)]
          then show ?thesis using 3 jobs_inv_idle [OF \<open>jobs_inv h\<close>] running_one [OF table(1)] by (auto simp: jobs_inv_def)
        qed
      qed
    qed
    ultimately show ?thesis using \<open>jobs_inv h\<close> by blast
  next
    case (thread before job_id operation payload after r)
    then have one: "before = []" "after = []" "job_id \<in> set (running h)"
      using 1(1) by (auto simp: jobs_inv_def)
    from execute_job_table [OF thread(2)] obtain st err
      where t: "h_jobs h' = dict_set (h_jobs h) job_id (job_json job_id operation st err)" "h_threads h' = []"
        "st \<in> {''succeeded'', ''failed''}"
      using one by auto
    have "job_table_ok h" using 1(1) by (simp add: jobs_inv_def)
    note table = job_table_set [OF this t(1)]
    show ?thesis
      using table t 1(1) one running_one [of h] running_one [OF table(1)] by (auto simp: jobs_inv_def)
  qed
qed


text \<open>A running job without a thread stays as it is.\<close>

definition blocked :: "host \<Rightarrow> bool" where
  "blocked h \<longleftrightarrow> job_table_ok h \<and> h_threads h = [] \<and> running h \<noteq> []"

lemma blocked_cong: "h_jobs h' = h_jobs h \<Longrightarrow> h_threads h' = h_threads h \<Longrightarrow> blocked h' = blocked h"
  by (simp add: blocked_def job_table_ok_def running_def)

lemma blocked_start:
  assumes "blocked h" and "start_job c operation payload l h = (r, h')"
  shows "h_jobs h' = h_jobs h \<and> h_threads h' = h_threads h"
    and "operation \<in> {''deployment'', ''upgrade'', ''rollback''} \<Longrightarrow> r = Inl (AgentError ''host_operation_in_progress'' 409)"
proof -
  have ok: "job_table_ok h" and busy: "running h \<noteq> []" using assms(1) by (simp_all add: blocked_def)
  have "(h_jobs h' = h_jobs h \<and> h_threads h' = h_threads h)
    \<and> (operation \<in> {''deployment'', ''upgrade'', ''rollback''} \<longrightarrow> r = Inl (AgentError ''host_operation_in_progress'' 409))"
  proof (cases rule: start_job_cases [OF assms(2) ok])
    case (1 e)
    then show ?thesis using busy by simp
  qed (use busy in auto)
  then show "h_jobs h' = h_jobs h \<and> h_threads h' = h_threads h"
    and "operation \<in> {''deployment'', ''upgrade'', ''rollback''} \<Longrightarrow> r = Inl (AgentError ''host_operation_in_progress'' 409)"
    by blast+
qed

interpretation agent_blocked: invariant_system "agent_step c l" blocked for c l
proof (unfold_locales, goal_cases)
  case (1 h h')
  from 1(2) show ?case
  proof cases
    case (request rq reply)
    obtain r h1 where disp: "agent_dispatch c rq l h = (r, h1)" by fastforce
    then have "h' = h \<or> h' = h1"
      using request by (auto simp: handle_request_def split: sum.splits bool.splits exn.splits if_splits)
    moreover have "h_jobs h1 = h_jobs h \<and> h_threads h1 = h_threads h"
      using dispatch_jobs [OF disp] blocked_start(1) [OF 1(1)] by blast
    ultimately show ?thesis using blocked_cong [of h1 h] 1(1) by blast
  next
    case thread
    then show ?thesis using 1(1) by (simp add: blocked_def)
  qed
qed

text \<open>
  C13: a job whose start cannot be recorded blocks the agent. If marking a new job as running fails after
  the table of jobs was changed, the caller gets the error and no thread is started; and in every later
  state the job is still marked as running, and every request to start a job is refused with 409.
\<close>

theorem failed_start_blocks:
  assumes "jobs_inv h" and "running h = []" and "start_job c operation payload l h = (Inl e, h1)"
    and "operation \<in> {''deployment'', ''upgrade'', ''rollback''}"
    and "reach (agent_step c l) h1 h2" and "operation' \<in> {''deployment'', ''upgrade'', ''rollback''}"
  shows "h_threads h2 = [] \<and> running h2 \<noteq> []
    \<and> fst (start_job c operation' payload' l h2) = Inl (AgentError ''host_operation_in_progress'' 409)"
proof -
  have ok: "job_table_ok h" and "h_threads h = []"
    using assms(1) jobs_inv_idle [OF assms(1,2)] by (simp_all add: jobs_inv_def)
  have "blocked h1"
  proof (cases rule: start_job_cases [OF assms(3) ok])
    case (2 e job_id)
    then have "set (running h1) = {job_id}" "job_table_ok h1"
      using job_table_set [OF ok 2(3)] by simp_all
    then show ?thesis using 2(4) \<open>h_threads h = []\<close> by (cases "running h1") (simp_all add: blocked_def)
  qed (use assms(2,4) in simp_all)
  from agent_blocked.reach_inv [OF assms(5) this] have b: "blocked h2" .
  obtain r h3 where "start_job c operation' payload' l h2 = (r, h3)" by fastforce
  with blocked_start(2) [OF b this assms(6)] show ?thesis using b by (simp add: blocked_def)
qed

end
