(* ===== verification/Host_Examples.thy ===== *)
theory Host_Examples
  imports Host_Invariants
begin

text \<open>
  A small host on which the properties of the host agent are applied: an empty state directory, an environment file,
  commands that succeed, and a disk that never fails.
\<close>

definition demo_config :: agent_config where
  "demo_config =
     \<lparr>ac_token = ''secret'', socket_path = [''run'', ''agent.sock''], socket_group_gid = -1, state_file = [''var'', ''state.json''],
      project_dir = [''data''], compose_file = [''data'', ''compose.web.yml''],
      host_agent_compose_file = [''data'', ''compose.host-agent.yml''], env_file = [''data'', ''.env.web''],
      image_repository = ''a/wolt'', health_url = ''http://h'', docker_binary = ''/docker'', ufw_binary = ''/ufw'',
      cosign_binary = ''/cosign'', runtime_dir = [''data'', ''runtime''], agent_install_dir = [''opt''],
      systemd_run_binary = ''/systemd-run'', systemctl_binary = ''/systemctl'', signing_identity = ''id'', signing_issuer = ''issuer''\<rparr>"

definition demo_lib :: host_lib where
  "demo_lib =
     \<lparr>hl_run = (\<lambda>t args f. (Exited 0 ''dump'', f)), hl_open = (\<lambda>t url. Inr (200, [])), hl_fault = (\<lambda>t. None),
      hl_uuid = (\<lambda>t. ''u''), hl_time = (\<lambda>t. 0), hl_delay = (\<lambda>t. 0), hl_mode = 420, hl_cwd = [], hl_repr = (\<lambda>v. [])\<rparr>"

definition demo_env :: string where
  "demo_env = ''A=1'' @ [CHR 0x0A] @ ''B=2'' @ [CHR 0x0A]"

definition demo_host :: host where
  "demo_host =
     \<lparr>h_fs = [([''var''], Dir), ([''data''], Dir), ([''data'', ''.env.web''], File demo_env 420)],
      h_trace = [], h_clock = 0, h_jobs = [], h_threads = []\<rparr>"

section \<open>Files\<close>

theorem update_env_outcome_witness:
  "\<exists>h' s'. update_env demo_config [(''A'', ''3'')] demo_lib demo_host = (Inr (), h')
     \<and> map_of (h_fs h') [''data'', ''.env.web''] = Some (File s' mode_600) \<and> env_of s' ''A'' = Some ''3'' \<and> env_of s' ''B'' = Some ''2''"
proof -
  obtain h' where run: "update_env demo_config [(''A'', ''3'')] demo_lib demo_host = (Inr (), h')"
  proof -
    have "fst (update_env demo_config [(''A'', ''3'')] demo_lib demo_host) = Inr ()" by code_simp
    then show ?thesis using that by (metis prod.collapse)
  qed
  have ef: "env_file demo_config = [''data'', ''.env.web'']" by code_simp
  have good: "good_changes [(''A'', ''3'')]" by code_simp
  have plain: "\<not> is_symlink (h_fs demo_host) (env_sibling demo_config ''.tmp'')"
    "\<not> is_symlink (h_fs demo_host) (env_sibling demo_config ''.host-agent-backup'')"
    "\<not> is_dir (h_fs demo_host) (env_sibling demo_config ''.host-agent-backup'')"
    by code_simp+
  have old: "map_of (h_fs demo_host) [''data'', ''.env.web''] = Some (File demo_env 420)"
    by code_simp
  have vals: "env_of demo_env ''B'' = Some ''2''" "length (assigned (py_splitlines (universal_newlines demo_env)) ''A'') \<le> 1"
    by code_simp+
  from update_env_outcome [OF run good plain, unfolded ef old] obtain s'
    where s': "map_of (h_fs h') [''data'', ''.env.web''] = Some (File s' mode_600)"
      and env: "\<And>k. env_of s' k = (case map_of [(''A'', ''3'')] k of None \<Rightarrow> env_of demo_env k
        | Some v \<Rightarrow> if length (assigned (py_splitlines (universal_newlines demo_env)) k) \<le> 1 then Some v else env_of demo_env k)"
    by auto
  show ?thesis using run s' env [of "''A''"] env [of "''B''"] vals by simp
qed


section \<open>The firewall\<close>

lemma demo_spared: "store_spared demo_config demo_lib"
  by (simp add: store_spared_def demo_lib_def)

lemma demo_plain: "store_plain demo_config (h_fs demo_host)"
  by code_simp

lemma demo_in_force: "in_force demo_config demo_host None"
proof -
  have "stored_state demo_config demo_host = JObj []" "h_trace demo_host = []" by code_simp+
  then show ?thesis by (simp add: in_force_def ufw_rules_def dict_get_def)
qed


section \<open>Requests and jobs\<close>

definition demo_post :: "string \<Rightarrow> string \<Rightarrow> agent_request" where
  "demo_post p body =
     \<lparr>rq_command = ''POST'', rq_path = p, rq_authorization = Some ''Bearer secret'',
      rq_content_length = Some (int_str (int (length body))), rq_body = body\<rparr>"

definition demo_body :: string where
  "demo_body = json_dumps (\<lambda>v. []) '', '' '': '' (JObj [(''source_ip'', JStr ''10.0.0.1''), (''udp_start'', JInt 40000), (''udp_end'', JInt 40010)])"

lemma request_reach: "reach (agent_step c l) h (snd (handle_request c rq l h))"
  using reach_step [where step = "agent_step c l", OF reach_refl] agent_step.request by (metis prod.collapse)

theorem agent_commands_safe_witness:
  "\<exists>h. reach (agent_step demo_config demo_lib) demo_host h
     \<and> Ran (ufw_args demo_config False (''10.0.0.1'', ''40000:40010'')) (Exited 0 ''dump'') \<in> set (h_trace h)
     \<and> valid_rule (''10.0.0.1'', ''40000:40010'')"
proof -
  define h where "h = snd (handle_request demo_config (demo_post ''/v1/firewall/apply'' demo_body) demo_lib demo_host)"
  have "reach (agent_step demo_config demo_lib) demo_host h"
    unfolding h_def by (rule request_reach)
  moreover have "h_trace demo_host = []" by code_simp
  moreover have "Ran (ufw_args demo_config False (''10.0.0.1'', ''40000:40010'')) (Exited 0 ''dump'') \<in> set (h_trace h)"
    unfolding h_def by code_simp
  ultimately show ?thesis using agent_commands_safe [of demo_config demo_lib demo_host h] by blast
qed


text \<open>A disk that fails every operation\<close>

definition full_disk :: host_lib where
  "full_disk = demo_lib\<lparr>hl_fault := (\<lambda>t. Some (OsFailure, []))\<rparr>"

theorem failed_start_blocks_witness:
  "\<exists>h1. start_job demo_config ''upgrade'' (JObj []) full_disk demo_host = (Inl OSError, h1)
     \<and> fst (start_job demo_config ''rollback'' (JObj []) full_disk h1) = Inl (AgentError ''host_operation_in_progress'' 409)"
proof -
  have inv: "jobs_inv demo_host" "running demo_host = []"
    by (simp_all add: jobs_inv_def job_table_ok_def running_def demo_host_def)
  have "fst (start_job demo_config ''upgrade'' (JObj []) full_disk demo_host) = Inl OSError" by code_simp
  then obtain h1 where s: "start_job demo_config ''upgrade'' (JObj []) full_disk demo_host = (Inl OSError, h1)"
    by (metis prod.collapse)
  show ?thesis
    using failed_start_blocks [OF inv s _ reach_refl, of "''rollback''" "JObj []"] s by simp
qed

theorem client_agent_roundtrip_witness:
  "\<exists>d h'. client_request (\<lambda>v. []) (agent_exchange demo_config demo_lib) ''secret'' ''POST'' ''/v1/rollback'' (Some (JObj [])) demo_host = (Inr (JObj d), h')
     \<and> h_threads h' = [(''u'', ''rollback'', JObj [])]"
proof -
  let ?rq = "client_message (\<lambda>v. []) (ac_token demo_config) ''POST'' ''/v1/rollback'' (Some (JObj []))"
  have tok: "ac_token demo_config = ''secret''" "ac_token demo_config \<noteq> []" "list_all (\<lambda>ch. code ch < 128) (ac_token demo_config)"
    by code_simp+
  have "fst (agent_dispatch demo_config ?rq demo_lib demo_host) = Inr (JObj [(''job_id'', JStr ''u'')])"
    and t: "h_threads (snd (agent_dispatch demo_config ?rq demo_lib demo_host)) = [(''u'', ''rollback'', JObj [])]"
    by code_simp+
  then obtain h' where d: "agent_dispatch demo_config ?rq demo_lib demo_host = (Inr (JObj [(''job_id'', JStr ''u'')]), h')"
    by (metis prod.collapse)
  from client_agent_roundtrip [OF tok(2,3) d] t d show ?thesis by (simp add: client_view_def tok(1))
qed

end
