(* ===== verification/Base64.thy ===== *)
theory Base64
  imports Magic_Packet
begin

text \<open>
  \<^verbatim>\<open>base64.b64encode\<close>, \<^verbatim>\<open>base64.b64decode\<close> and their URL-safe variants, which the cipher, the
  host key fingerprint and the tokens use. Decoding discards characters outside the
  alphabet, as the lax decoder of the standard library does, and refuses bad padding.
\<close>

definition b64_char :: "nat \<Rightarrow> char" where
  "b64_char n = char_of (if n < 26 then 65 + n else if n < 52 then 71 + n
      else if n < 62 then n - 4 else if n = 62 then 43 else 47)"

definition b64_val :: "char \<Rightarrow> nat option" where
  "b64_val c =
     (if is_upper c then Some (code c - 65)
      else if is_lower c then Some (code c - 71)
      else if is_digit c then Some (code c + 4)
      else if c = CHR ''+'' then Some 62
      else if c = CHR ''/'' then Some 63
      else None)"

text \<open>Three bytes are four characters; one or two trailing bytes are padded.\<close>

fun b64encode :: "byte list \<Rightarrow> string" where
  "b64encode (a # b # c # bs) =
     [b64_char (unat a div 4), b64_char (unat a mod 4 * 16 + unat b div 16),
      b64_char (unat b mod 16 * 4 + unat c div 64), b64_char (unat c mod 64)] @ b64encode bs"
| "b64encode [a, b] =
     [b64_char (unat a div 4), b64_char (unat a mod 4 * 16 + unat b div 16),
      b64_char (unat b mod 16 * 4), CHR ''='']"
| "b64encode [a] =
     [b64_char (unat a div 4), b64_char (unat a mod 4 * 16), CHR ''='', CHR ''='']"
| "b64encode [] = []"

text \<open>
  The decoder: \<open>quad\<close> counts the characters of the open group and \<open>left\<close> holds the bits
  not yet emitted. A padding character ends the input when the group has at least two
  characters and the paddings complete it; otherwise it is ignored.
\<close>

fun b64_loop :: "nat \<Rightarrow> nat \<Rightarrow> nat \<Rightarrow> byte list \<Rightarrow> string \<Rightarrow> byte list option" where
  "b64_loop quad left pads out [] = (if quad = 0 then Some out else None)"
| "b64_loop quad left pads out (c # s) =
     (if c = CHR ''=''
      then (if 2 \<le> quad \<and> 4 \<le> quad + Suc pads then Some out
            else b64_loop quad left (if 2 \<le> quad then Suc pads else pads) out s)
      else case b64_val c of
          None \<Rightarrow> b64_loop quad left pads out s
        | Some v \<Rightarrow>
            if quad = 0 then b64_loop 1 v 0 out s
            else if quad = 1 then b64_loop 2 (v mod 16) 0 (out @ [of_nat (left * 4 + v div 16)]) s
            else if quad = 2 then b64_loop 3 (v mod 4) 0 (out @ [of_nat (left * 16 + v div 4)]) s
            else b64_loop 0 0 0 (out @ [of_nat (left * 64 + v)]) s)"

definition b64decode :: "string \<Rightarrow> byte list option" where
  "b64decode s = b64_loop 0 0 0 [] s"

definition to_urlsafe :: "string \<Rightarrow> string" where
  "to_urlsafe s = map (\<lambda>c. if c = CHR ''+'' then CHR ''-'' else if c = CHR ''/'' then CHR ''_'' else c) s"

definition from_urlsafe :: "string \<Rightarrow> string" where
  "from_urlsafe s = map (\<lambda>c. if c = CHR ''-'' then CHR ''+'' else if c = CHR ''_'' then CHR ''/'' else c) s"

definition urlsafe_b64encode :: "byte list \<Rightarrow> string" where
  "urlsafe_b64encode bs = to_urlsafe (b64encode bs)"

definition urlsafe_b64decode :: "string \<Rightarrow> byte list option" where
  "urlsafe_b64decode s = b64decode (from_urlsafe s)"

section \<open>Round trip\<close>

lemma b64_val_char [simp]: "n < 64 \<Longrightarrow> b64_val (b64_char n) = Some n"
proof -
  assume n: "n < 64"
  have "(CHR ''+'' :: char) = char_of (43 :: nat)" "(CHR ''/'' :: char) = char_of (47 :: nat)"
    by code_simp+
  with n show ?thesis
    by (auto simp: b64_char_def b64_val_def is_upper_def is_lower_def is_digit_def of_char_of)
qed

lemma b64_char_not_pad [simp]: "n < 64 \<Longrightarrow> b64_char n \<noteq> CHR ''=''"
proof
  assume "n < 64" and "b64_char n = CHR ''=''"
  then have "b64_val (CHR ''='') = Some n" using b64_val_char by metis
  then show False by (simp add: b64_val_def is_upper_def is_lower_def is_digit_def)
qed

lemma b64_loop_char [simp]:
  "n < 64 \<Longrightarrow> b64_loop 0 l p out (b64_char n # s) = b64_loop 1 n 0 out s"
  "n < 64 \<Longrightarrow> b64_loop (Suc 0) l p out (b64_char n # s)
     = b64_loop 2 (n mod 16) 0 (out @ [of_nat (l * 4 + n div 16)]) s"
  "n < 64 \<Longrightarrow> b64_loop 2 l p out (b64_char n # s)
     = b64_loop 3 (n mod 4) 0 (out @ [of_nat (l * 16 + n div 4)]) s"
  "n < 64 \<Longrightarrow> b64_loop 3 l p out (b64_char n # s) = b64_loop 0 0 0 (out @ [of_nat (l * 64 + n)]) s"
  by simp_all

declare b64_loop.simps(2) [simp del]

lemma b64_loop_pad [simp]:
  "b64_loop 2 l 0 out (CHR ''='' # CHR ''='' # s) = Some out"
  "b64_loop 3 l 0 out (CHR ''='' # s) = Some out"
  by (simp_all add: b64_loop.simps(2))

lemma b64_groups:
  fixes a b c :: byte
  shows "unat a div 4 < 64" "unat a mod 4 * 16 < 64" "unat a mod 4 * 16 + unat b div 16 < 64"
    "unat b mod 16 * 4 < 64" "unat b mod 16 * 4 + unat c div 64 < 64"
  using unat_byte_bound [of a] unat_byte_bound [of b] unat_byte_bound [of c]
  by (simp_all add: less_mult_imp_div_less)

lemma b64_joins:
  fixes a b c :: byte
  shows "unat a div 4 * 4 + (unat a mod 4 * 16 + unat b div 16) div 16 = unat a"
    "(unat a mod 4 * 16 + unat b div 16) mod 16 * 16 + (unat b mod 16 * 4 + unat c div 64) div 4 = unat b"
    "(unat b mod 16 * 4 + unat c div 64) mod 4 * 64 + unat c mod 64 = unat c"
    "(unat a mod 4 * 16 + unat b div 16) mod 16 * 16 + unat b mod 16 * 4 div 4 = unat b"
    "unat a div 4 * 4 + unat a mod 4 * 16 div 16 = unat a"
proof -
  have b: "unat b div 16 < 16" and c: "unat c div 64 < 4"
    using unat_byte_bound [of b] unat_byte_bound [of c] by (simp_all add: less_mult_imp_div_less)
  have 1: "(x * 16 + unat b div 16) div 16 = x" "(x * 16 + unat b div 16) mod 16 = unat b div 16" for x
    using b by simp_all
  have 2: "(x * 4 + unat c div 64) div 4 = x" "(x * 4 + unat c div 64) mod 4 = unat c div 64" for x
    using c by simp_all
  show "unat a div 4 * 4 + (unat a mod 4 * 16 + unat b div 16) div 16 = unat a"
    "(unat a mod 4 * 16 + unat b div 16) mod 16 * 16 + (unat b mod 16 * 4 + unat c div 64) div 4 = unat b"
    "(unat b mod 16 * 4 + unat c div 64) mod 4 * 64 + unat c mod 64 = unat c"
    "(unat a mod 4 * 16 + unat b div 16) mod 16 * 16 + unat b mod 16 * 4 div 4 = unat b"
    "unat a div 4 * 4 + unat a mod 4 * 16 div 16 = unat a"
    using b c by (simp_all add: 1 2)
qed

lemma of_nat_byte: "n = unat (b :: byte) \<Longrightarrow> of_nat n = b"
  by simp

lemma b64_loop_encode: "b64_loop 0 l p out (b64encode bs) = Some (out @ bs)"
proof (induction bs arbitrary: l p out rule: b64encode.induct)
  case (1 a b c bs)
  have "b64_loop 0 l p out (b64encode (a # b # c # bs)) = b64_loop 0 0 0 (out @ [a, b, c]) (b64encode bs)"
    using b64_groups(1) [of a] b64_groups(3) [of a b] b64_groups(5) [of b c]
      of_nat_byte [OF b64_joins(1)] of_nat_byte [OF b64_joins(2)] of_nat_byte [OF b64_joins(3)]
    by (simp del: of_nat_add of_nat_mult)
  then show ?case using 1 by simp
next
  case (2 a b)
  show ?case
    using b64_groups(1) [of a] b64_groups(3) [of a b] b64_groups(4) [of b] of_nat_byte [OF b64_joins(1)] of_nat_byte [OF b64_joins(4)]
    by (simp del: of_nat_add of_nat_mult)
next
  case (3 a)
  show ?case
    using b64_groups(1,2) [of a] of_nat_byte [OF b64_joins(5)]
    by (simp del: of_nat_add of_nat_mult)
qed simp

lemma b64_roundtrip: "b64decode (b64encode bs) = Some bs"
  by (simp add: b64decode_def b64_loop_encode)

lemma b64encode_chars: "c \<in> set (b64encode bs) \<Longrightarrow> b64_val c \<noteq> None \<or> c = CHR ''=''"
  by (induction bs rule: b64encode.induct) (use b64_groups in auto)

lemma from_to_urlsafe: "(\<And>c. c \<in> set s \<Longrightarrow> c \<noteq> CHR ''-'' \<and> c \<noteq> CHR ''_'') \<Longrightarrow> from_urlsafe (to_urlsafe s) = s"
  by (induction s) (auto simp: from_urlsafe_def to_urlsafe_def)

lemma urlsafe_b64_roundtrip: "urlsafe_b64decode (urlsafe_b64encode bs) = Some bs"
proof -
  have "from_urlsafe (to_urlsafe (b64encode bs)) = b64encode bs"
  proof (rule from_to_urlsafe)
    fix c assume "c \<in> set (b64encode bs)"
    then have "b64_val c \<noteq> None \<or> c = CHR ''=''" by (rule b64encode_chars)
    then show "c \<noteq> CHR ''-'' \<and> c \<noteq> CHR ''_''"
      by (auto simp: b64_val_def is_upper_def is_lower_def is_digit_def)
  qed
  then show ?thesis by (simp add: urlsafe_b64decode_def urlsafe_b64encode_def b64_roundtrip)
qed

end
