(* ===== verification/Device_Driver.thy ===== *)
theory Device_Driver
  imports Fortigate Base64
begin

text \<open>
  The driver layer of the web application: \<^verbatim>\<open>app/drivers/base.py\<close>,
  \<^verbatim>\<open>app/drivers/fortigate_ssh.py\<close> and \<^verbatim>\<open>app/drivers/registry.py\<close>. The locale
  \<open>device_driver\<close> is the contract of the \<^verbatim>\<open>DeviceDriver\<close> protocol that the services
  rely on; the FortiGate driver is its interpretation. The SSH library, the host key parser
  and SHA-256 are the argument \<open>lib\<close>.
\<close>

record connection_test_result =
  ct_status :: string
  ct_latency_ms :: int

record host_key_discovery_result =
  hk_status :: string
  hk_latency_ms :: int
  hk_reason :: "string option"
  hk_host_key :: string
  hk_fingerprint :: string
  hk_algorithm :: string
  hk_bits :: int

text \<open>
  \<open>lib_from_line\<close> is \<^verbatim>\<open>HostKeyEntry.from_line\<close> followed by \<^verbatim>\<open>.key\<close>, \<open>None\<close> when either is;
  it may raise. The last four fields are the steps of a bare transport: open the socket,
  wrap it, exchange keys (the server's key), authenticate. \<open>lib_repr\<close> is the text of floats
  and containers.
\<close>

record 'k driver_lib = "'k ssh" +
  lib_repr :: "json \<Rightarrow> string"
  lib_from_line :: "string \<Rightarrow> exn + 'k option"
  lib_key_name :: "'k \<Rightarrow> string"
  lib_key_base64 :: "'k \<Rightarrow> string"
  lib_key_bytes :: "'k \<Rightarrow> byte list"
  lib_key_bits :: "'k \<Rightarrow> int"
  lib_sha256 :: "byte list \<Rightarrow> byte list"
  lib_open_socket :: "string \<Rightarrow> int \<Rightarrow> pyfloat \<Rightarrow> net_error + unit"
  lib_transport :: "net_error + unit"
  lib_server_key :: "pyfloat \<Rightarrow> net_error + 'k"
  lib_auth_password :: "string \<Rightarrow> string \<Rightarrow> net_error + bool"

section \<open>Patterns\<close>

definition host_char :: "char \<Rightarrow> bool" where
  "host_char c \<longleftrightarrow> is_alnum c \<or> c = CHR ''.'' \<or> c = CHR ''-''"

definition HOST_PATTERN :: rx where
  "HOST_PATTERN = RSeq (RCls is_alnum)
     (rx_opt (RSeq (rx_upto 251 (RCls host_char)) (RCls is_alnum)))"

definition DRIVER_INTERFACE_PATTERN :: rx where
  "DRIVER_INTERFACE_PATTERN = RSeq (RCls interface_char) (rx_upto 63 (RCls interface_char))"

definition DRIVER_ERROR_MARKERS :: "string list" where
  "DRIVER_ERROR_MARKERS =
     [''command fail'', ''parse error'', ''unknown action'', ''error'', ''failed'']"

section \<open>Validation\<close>

text \<open>The handler \<^verbatim>\<open>except (TypeError, ValueError)\<close> around the three conversions.\<close>

definition as_validation_error :: "string \<Rightarrow> exn + 'a \<Rightarrow> exn + 'a" where
  "as_validation_error m r =
     (case r of Inl TypeError \<Rightarrow> Inl (DriverValidationError m)
      | Inl (ValueError _) \<Rightarrow> Inl (DriverValidationError m)
      | r \<Rightarrow> r)"

definition validate_target :: "(json \<Rightarrow> string) \<Rightarrow> dict \<Rightarrow> exn + dict" where
  "validate_target repr configuration =
     (let host = py_strip (py_str repr (dict_get_or configuration ''host'' (JStr [])))
      in if ip_address host = None \<and> \<not> re_fullmatch HOST_PATTERN host
         then Inl (DriverValidationError ''invalid_device_host'')
         else res_bind (as_validation_error ''invalid_device_timeout_or_port''
                (res_bind (py_int_of (dict_get_or configuration ''port'' (JInt 22))) (\<lambda>port.
                 res_bind (py_float_of (dict_get_or configuration ''connect_timeout'' (JInt 5))) (\<lambda>ct.
                 res_bind (py_float_of (dict_get_or configuration ''command_timeout'' (JInt 10))) (\<lambda>xt.
                 Inr (port, ct, xt)))))) (\<lambda>(port, ct, xt).
              if \<not> (1 \<le> port \<and> port \<le> 65535) then Inl (DriverValidationError ''invalid_device_port'')
              else if \<not> (fl_le (Fin (1/2)) ct \<and> fl_le ct (Fin 60))
                    \<or> \<not> (fl_le (Fin (1/2)) xt \<and> fl_le xt (Fin 120))
              then Inl (DriverValidationError ''invalid_device_timeout'')
              else Inr [(''host'', JStr host), (''port'', JInt port),
                        (''connect_timeout'', JFloat ct), (''command_timeout'', JFloat xt)]))"

definition validate_configuration :: "'k driver_lib \<Rightarrow> dict \<Rightarrow> exn + dict" where
  "validate_configuration lib configuration =
     res_bind (validate_target (lib_repr lib) configuration) (\<lambda>target.
       (let host_key = py_strip (py_str (lib_repr lib) (dict_get_or configuration ''host_key'' (JStr [])))
        in res_bind (lib_from_line lib host_key) (\<lambda>entry.
             case entry of
               None \<Rightarrow> Inl (DriverValidationError ''invalid_or_missing_host_key'')
             | Some k \<Rightarrow> Inr (target @ [(''host_key'', JStr host_key)]))))"

definition validate_credentials :: "(json \<Rightarrow> string) \<Rightarrow> dict \<Rightarrow> exn + dict" where
  "validate_credentials repr credentials =
     (let username = py_strip (py_str repr (dict_get_or credentials ''username'' (JStr [])));
          password = py_str repr (dict_get_or credentials ''password'' (JStr []))
      in if username = [] \<or> length username > 128
         then Inl (DriverValidationError ''invalid_device_username'')
         else if password = [] \<or> length password > 512
         then Inl (DriverValidationError ''invalid_device_password'')
         else Inr [(''username'', JStr username), (''password'', JStr password)])"

definition validate_listener_parameters :: "(json \<Rightarrow> string) \<Rightarrow> dict \<Rightarrow> exn + dict" where
  "validate_listener_parameters repr parameters =
     (let interface = py_strip (py_str repr (dict_get_or parameters ''interface'' (JStr [])))
      in if \<not> re_fullmatch DRIVER_INTERFACE_PATTERN interface
         then Inl (DriverValidationError ''invalid_fortigate_interface'')
         else (case normalize_ip (py_strip (py_str repr (dict_get_or parameters ''gateway_ip'' (JStr [])))) of
             None \<Rightarrow> Inl (DriverValidationError ''invalid_gateway_ip'')
           | Some gateway_ip \<Rightarrow>
               Inr [(''interface'', JStr interface), (''gateway_ip'', JStr gateway_ip)]))"

section \<open>Operations over SSH\<close>

fun driver_reason :: "net_error \<Rightarrow> string" where
  "driver_reason NetTimeout = ''ssh_timeout''"
| "driver_reason SshAuthentication = ''ssh_authentication_failed''"
| "driver_reason SshBadHostKey = ''host_key_verification_failed''"
| "driver_reason _ = ''ssh_connection_failed''"

definition lookup_name :: "string \<Rightarrow> int \<Rightarrow> string" where
  "lookup_name host port = (if port = 22 then host else ''['' @ host @ '']:'' @ int_str port)"

text \<open>\<^verbatim>\<open>configuration[key]\<close> of a validated configuration, \<^verbatim>\<open>KeyError\<close> when absent.\<close>

definition dict_item :: "dict \<Rightarrow> string \<Rightarrow> exn + json" where
  "dict_item d k = of_option KeyError (dict_get d k)"

definition driver_connect :: "'k driver_lib \<Rightarrow> dict \<Rightarrow> dict \<Rightarrow> (exn + unit) \<times> ssh_event list" where
  "driver_connect lib configuration credentials =
     (case res_bind (dict_item configuration ''host_key'') (\<lambda>hk.
           res_bind (lib_from_line lib (py_str (lib_repr lib) hk)) (\<lambda>entry.
           res_bind (of_option (DriverOperationError ''host_key_verification_failed'') entry) (\<lambda>key.
           res_bind (dict_item configuration ''host'') (\<lambda>h.
           res_bind (dict_item configuration ''port'') (\<lambda>p.
           res_bind (py_int_of p) (\<lambda>port.
           Inr (key, py_str (lib_repr lib) h, port))))))) of
        Inl e \<Rightarrow> (Inl e, [])
      | Inr (key, host, port) \<Rightarrow>
          (case res_bind (dict_item credentials ''username'') (\<lambda>u.
                res_bind (dict_item credentials ''password'') (\<lambda>pw.
                res_bind (dict_item configuration ''connect_timeout'') (\<lambda>t.
                res_bind (py_float_of t) (\<lambda>timeout.
                Inr (py_str (lib_repr lib) u, py_str (lib_repr lib) pw, timeout))))) of
             Inl e \<Rightarrow> (Inl e, [SshCreate])
           | Inr (user, pass, timeout) \<Rightarrow>
               (case ssh_connect lib [(lookup_name host port, key)] host port user pass timeout of
                  Inl e \<Rightarrow> (Inl (DriverOperationError (driver_reason e)),
                             [SshCreate, SshConnect host port, SshClose])
                | Inr _ \<Rightarrow> (Inr (), [SshCreate, SshConnect host port]))))"

definition latency_ms :: "rat \<Rightarrow> rat \<Rightarrow> int" where
  "latency_ms started finished = max 1 (py_round ((finished - started) * 1000))"

definition test_connection :: "'k driver_lib \<Rightarrow> rat \<Rightarrow> rat \<Rightarrow> dict \<Rightarrow> dict
    \<Rightarrow> (exn + connection_test_result) \<times> ssh_event list" where
  "test_connection lib started finished configuration credentials =
     (case res_bind (validate_configuration lib configuration) (\<lambda>config.
           res_bind (validate_credentials (lib_repr lib) credentials) (\<lambda>secret. Inr (config, secret))) of
        Inl e \<Rightarrow> (Inl e, [])
      | Inr (config, secret) \<Rightarrow>
          (case driver_connect lib config secret of
             (Inl e, tr) \<Rightarrow> (Inl e, tr)
           | (Inr _, tr) \<Rightarrow>
               (Inr \<lparr>ct_status = ''healthy'', ct_latency_ms = latency_ms started finished\<rparr>, tr @ [SshClose])))"

definition execute_wake :: "'k driver_lib \<Rightarrow> dict \<Rightarrow> dict \<Rightarrow> dict \<Rightarrow> string
    \<Rightarrow> (exn + unit) \<times> ssh_event list" where
  "execute_wake lib configuration credentials parameters mac =
     (case res_bind (validate_configuration lib configuration) (\<lambda>config.
           res_bind (validate_credentials (lib_repr lib) credentials) (\<lambda>secret.
           res_bind (validate_listener_parameters (lib_repr lib) parameters) (\<lambda>listener.
           res_bind (dict_item listener ''interface'') (\<lambda>i.
           res_bind (dict_item listener ''gateway_ip'') (\<lambda>g.
           res_bind (build_wol_command (py_str (lib_repr lib) i) mac (py_str (lib_repr lib) g)) (\<lambda>command.
           Inr (config, secret, command))))))) of
        Inl e \<Rightarrow> (Inl e, [])
      | Inr (config, secret, command) \<Rightarrow>
          (case driver_connect lib config secret of
             (Inl e, tr) \<Rightarrow> (Inl e, tr)
           | (Inr _, tr) \<Rightarrow>
               (case res_bind (dict_item config ''command_timeout'') py_float_of of
                  Inl e \<Rightarrow> (Inl e, tr @ [SshClose])
                | Inr timeout \<Rightarrow>
                    ((case ssh_exec lib command timeout of
                        Inl e \<Rightarrow> Inl (DriverOperationError (driver_reason e))
                      | Inr (status, output) \<Rightarrow>
                          if status \<noteq> 0
                            \<or> list_ex (\<lambda>m. occurs_in m (py_lower output)) DRIVER_ERROR_MARKERS
                          then Inl (DriverOperationError ''command_failed'') else Inr ()),
                     tr @ [SshExec command, SshClose]))))"

text \<open>
  Host key discovery, on a bare transport. The trace says what was opened and closed. An
  authentication failure is a result; every other network error is raised.
\<close>

datatype transport_event = SocketOpened | SocketClosed | TransportOpened | TransportClosed

definition discovered_host_key :: "'k driver_lib \<Rightarrow> string \<Rightarrow> int \<Rightarrow> 'k \<Rightarrow> string" where
  "discovered_host_key lib host port key =
     lookup_name host port @ '' '' @ lib_key_name lib key @ '' '' @ lib_key_base64 lib key"

definition key_fingerprint :: "'k driver_lib \<Rightarrow> 'k \<Rightarrow> string" where
  "key_fingerprint lib key =
     ''SHA256:'' @ rev (dropWhile (\<lambda>c. c = CHR ''='') (rev (b64encode (lib_sha256 lib (lib_key_bytes lib key)))))"

definition discovery_session :: "'k driver_lib \<Rightarrow> rat \<Rightarrow> rat \<Rightarrow> string \<Rightarrow> int \<Rightarrow> pyfloat \<Rightarrow> string \<Rightarrow> string
    \<Rightarrow> net_error + host_key_discovery_result" where
  "discovery_session lib started finished host port timeout user pass =
     res_bind (lib_server_key lib timeout) (\<lambda>key.
       (let result = (\<lambda>authenticated reason. Inr
              \<lparr>hk_status = (if authenticated then ''healthy'' else ''unhealthy''),
               hk_latency_ms = latency_ms started finished, hk_reason = reason,
               hk_host_key = discovered_host_key lib host port key,
               hk_fingerprint = key_fingerprint lib key,
               hk_algorithm = lib_key_name lib key, hk_bits = lib_key_bits lib key\<rparr>)
        in case lib_auth_password lib user pass of
             Inr authenticated \<Rightarrow>
               result authenticated (if authenticated then None else Some ''ssh_authentication_failed'')
           | Inl SshAuthentication \<Rightarrow> result False (Some ''ssh_authentication_failed'')
           | Inl e \<Rightarrow> Inl e))"

definition discovery_arguments :: "'k driver_lib \<Rightarrow> dict \<Rightarrow> dict
    \<Rightarrow> exn + string \<times> int \<times> pyfloat \<times> string \<times> string" where
  "discovery_arguments lib configuration credentials =
     res_bind (validate_target (lib_repr lib) configuration) (\<lambda>config.
     res_bind (validate_credentials (lib_repr lib) credentials) (\<lambda>secret.
     res_bind (dict_item config ''host'') (\<lambda>h.
     res_bind (res_bind (dict_item config ''port'') py_int_of) (\<lambda>port.
     res_bind (res_bind (dict_item config ''connect_timeout'') py_float_of) (\<lambda>timeout.
     res_bind (dict_item secret ''username'') (\<lambda>u.
     res_bind (dict_item secret ''password'') (\<lambda>pw.
     Inr (py_str (lib_repr lib) h, port, timeout, py_str (lib_repr lib) u,
          py_str (lib_repr lib) pw))))))))"

definition discover_host_key :: "'k driver_lib \<Rightarrow> rat \<Rightarrow> rat \<Rightarrow> dict \<Rightarrow> dict
    \<Rightarrow> (exn + host_key_discovery_result) \<times> transport_event list" where
  "discover_host_key lib started finished configuration credentials =
     (case discovery_arguments lib configuration credentials of
        Inl e \<Rightarrow> (Inl e, [])
      | Inr (host, port, timeout, user, pass) \<Rightarrow>
          (let failed = (\<lambda>e. Inl (DriverOperationError (driver_reason e)))
           in case lib_open_socket lib host port timeout of
                Inl e \<Rightarrow> (failed e, [])
              | Inr _ \<Rightarrow>
                  (case lib_transport lib of
                     Inl e \<Rightarrow> (failed e, [SocketOpened, SocketClosed])
                   | Inr _ \<Rightarrow>
                       ((case discovery_session lib started finished host port timeout user pass of
                           Inl e \<Rightarrow> failed e
                         | Inr r \<Rightarrow> Inr r),
                        [SocketOpened, TransportOpened, TransportClosed]))))"

section \<open>The registry\<close>

datatype driver = FortiGateSSHDriver

definition type_key :: "driver \<Rightarrow> string" where
  "type_key d = (case d of FortiGateSSHDriver \<Rightarrow> ''fortigate_ssh'')"

definition registry_drivers :: "(string \<times> driver) list" where
  "registry_drivers = map (\<lambda>d. (type_key d, d)) [FortiGateSSHDriver]"

definition registry_get :: "string \<Rightarrow> exn + driver" where
  "registry_get key = of_option (DriverValidationError ''unsupported_driver_type'') (map_of registry_drivers key)"

definition schema_field :: "string \<Rightarrow> string \<Rightarrow> string \<Rightarrow> string \<times> json \<Rightarrow> json" where
  "schema_field key label ty extra =
     JObj [(''key'', JStr key), (''label'', JStr label), (''type'', JStr ty), extra]"

definition registry_schemas :: "json list" where
  "registry_schemas =
     [JObj [(''type_key'', JStr ''fortigate_ssh''),
            (''name'', JStr ''FortiGate SSH''),
            (''configuration_fields'', JList
               [schema_field ''host'' ''Host or IP'' ''text'' (''required'', JBool True),
                schema_field ''port'' ''SSH port'' ''number'' (''default'', JInt 22),
                schema_field ''host_key'' ''Pinned SSH host key'' ''textarea'' (''required'', JBool True)]),
            (''credential_fields'', JList
               [schema_field ''username'' ''Username'' ''text'' (''required'', JBool True),
                schema_field ''password'' ''Password'' ''password'' (''required'', JBool True)]),
            (''listener_fields'', JList
               [schema_field ''interface'' ''Interface'' ''text'' (''required'', JBool True),
                schema_field ''gateway_ip'' ''Gateway / broadcast IP'' ''text'' (''required'', JBool True)])]]"

section \<open>Facts about validation\<close>

lemma dict_get_or_Cons [simp]:
  "dict_get_or ((k', v) # d) k w = (if k' = k then v else dict_get_or d k w)"
  "dict_get_or [] k w = w"
  by (simp_all add: dict_get_or_def)

lemma dict_get_Cons [simp]:
  "dict_get ((k', v) # d) k = (if k' = k then Some v else dict_get d k)"
  "dict_get [] k = None"
  by (simp_all add: dict_get_def)

lemma as_validation_error_Inr [res_simps]: "as_validation_error m r = Inr a \<longleftrightarrow> r = Inr a"
  by (cases r) (auto simp: as_validation_error_def split: exn.splits)

lemma DRIVER_INTERFACE_PATTERN_iff:
  "re_fullmatch DRIVER_INTERFACE_PATTERN s \<longleftrightarrow> s \<noteq> [] \<and> length s \<le> 64 \<and> list_all interface_char s"
  by (cases s) (auto simp: re_fullmatch_iff DRIVER_INTERFACE_PATTERN_def)

lemma HOST_PATTERN_iff:
  "re_fullmatch HOST_PATTERN s \<longleftrightarrow>
     s \<noteq> [] \<and> is_alnum (hd s) \<and> is_alnum (last s) \<and> length s \<le> 253 \<and> list_all host_char s"
proof -
  have opt: "rx_in t (rx_opt (RSeq (rx_upto 251 (RCls host_char)) (RCls is_alnum))) \<longleftrightarrow>
      t = [] \<or> (length t \<le> 252 \<and> list_all host_char (butlast t) \<and> is_alnum (last t))" for t
    by (cases t rule: rev_cases) (auto simp: rx_in_seq)
  have alnum: "is_alnum c \<Longrightarrow> host_char c" for c by (simp add: host_char_def)
  show ?thesis
  proof (cases s)
    case (Cons c t)
    then show ?thesis
      by (cases t rule: rev_cases) (auto simp: re_fullmatch_iff HOST_PATTERN_def opt alnum
          simp del: rx_in_opt)
  qed (simp add: re_fullmatch_iff HOST_PATTERN_def)
qed

text \<open>What a validated target holds.\<close>

definition target_ok :: "dict \<Rightarrow> bool" where
  "target_ok d \<longleftrightarrow> (\<exists>host port ct xt.
     d = [(''host'', JStr host), (''port'', JInt port), (''connect_timeout'', JFloat ct),
          (''command_timeout'', JFloat xt)]
     \<and> py_strip host = host \<and> (ip_address host \<noteq> None \<or> re_fullmatch HOST_PATTERN host)
     \<and> 1 \<le> port \<and> port \<le> 65535
     \<and> fl_le (Fin (1/2)) ct \<and> fl_le ct (Fin 60) \<and> fl_le (Fin (1/2)) xt \<and> fl_le xt (Fin 120))"

lemma validate_target_ok: "validate_target repr c = Inr d \<Longrightarrow> target_ok d"
  unfolding validate_target_def target_ok_def Let_def
  by (fastforce simp: res_simps split: if_splits)

lemma validate_target_fixed: "target_ok d \<Longrightarrow> validate_target repr (d @ e) = Inr d"
  by (auto simp: target_ok_def validate_target_def as_validation_error_def Let_def)

text \<open>What a validated credential and validated listener parameters hold.\<close>

lemma validate_credentials_Inr:
  assumes "validate_credentials repr c = Inr d"
  obtains user pass where "d = [(''username'', JStr user), (''password'', JStr pass)]"
    and "py_strip user = user" and "user \<noteq> []" and "length user \<le> 128"
    and "pass \<noteq> []" and "length pass \<le> 512"
  using assms by (auto simp: validate_credentials_def Let_def split: if_splits)

lemma validate_listener_parameters_Inr:
  assumes "validate_listener_parameters repr c = Inr d"
  obtains interface gateway where
    "d = [(''interface'', JStr interface), (''gateway_ip'', JStr gateway)]"
    and "py_strip interface = interface" and "re_fullmatch DRIVER_INTERFACE_PATTERN interface"
    and "normalize_ip gateway = Some gateway" and "py_strip gateway = gateway"
proof -
  let ?raw = "py_str repr (dict_get_or c ''gateway_ip'' (JStr []))"
  let ?interface = "py_strip (py_str repr (dict_get_or c ''interface'' (JStr [])))"
  from assms obtain gateway where "re_fullmatch DRIVER_INTERFACE_PATTERN ?interface"
    and g: "normalize_ip (py_strip ?raw) = Some gateway"
    and "d = [(''interface'', JStr ?interface), (''gateway_ip'', JStr gateway)]"
    by (auto simp: validate_listener_parameters_def Let_def split: if_splits option.splits)
  then show ?thesis
    using normalize_ip_stripped [OF g] normalize_ip_idem [OF g] by (intro that) auto
qed

lemma validate_configuration_Inr:
  assumes "validate_configuration lib c = Inr d"
  obtains t hk k where "target_ok t" and "d = t @ [(''host_key'', JStr hk)]"
    and "py_strip hk = hk" and "lib_from_line lib hk = Inr (Some k)"
  using assms
  by (auto simp: validate_configuration_def Let_def res_simps dest!: validate_target_ok
      split: option.splits)

lemma validate_configuration_idem:
  assumes "validate_configuration lib c = Inr d"
  shows "validate_configuration lib d = Inr d"
  using assms
proof (rule validate_configuration_Inr)
  fix t hk k
  assume t: "target_ok t" and d: "d = t @ [(''host_key'', JStr hk)]"
    and hk: "py_strip hk = hk" "lib_from_line lib hk = Inr (Some k)"
  have "dict_get_or d ''host_key'' (JStr []) = JStr hk"
    using t by (auto simp: target_ok_def d)
  then show ?thesis
    using hk validate_target_fixed [OF t] by (simp add: validate_configuration_def d)
qed

lemma validate_credentials_idem:
  "validate_credentials repr c = Inr d \<Longrightarrow> validate_credentials repr' d = Inr d"
  by (erule validate_credentials_Inr) (simp add: validate_credentials_def)

lemma validate_listener_parameters_idem:
  "validate_listener_parameters repr c = Inr d \<Longrightarrow> validate_listener_parameters repr' d = Inr d"
  by (erule validate_listener_parameters_Inr) (simp add: validate_listener_parameters_def)

section \<open>The driver contract\<close>

text \<open>
  What the services rely on: a validated document validates to itself, so a stored
  configuration can be validated again at every use; a wake validates its three documents;
  it leaves no client open; and with validated documents and a packet's address it fails
  only with an operation error.
\<close>

locale device_driver =
  fixes validate_conf :: "dict \<Rightarrow> exn + dict"
    and validate_cred :: "dict \<Rightarrow> exn + dict"
    and validate_params :: "dict \<Rightarrow> exn + dict"
    and wake :: "dict \<Rightarrow> dict \<Rightarrow> dict \<Rightarrow> string \<Rightarrow> (exn + unit) \<times> ssh_event list"
  assumes conf_idem: "validate_conf c = Inr c' \<Longrightarrow> validate_conf c' = Inr c'"
    and cred_idem: "validate_cred s = Inr s' \<Longrightarrow> validate_cred s' = Inr s'"
    and params_idem: "validate_params p = Inr p' \<Longrightarrow> validate_params p' = Inr p'"
    and wake_validated: "validate_conf c = Inr c' \<Longrightarrow> validate_cred s = Inr s' \<Longrightarrow>
      validate_params p = Inr p' \<Longrightarrow> wake c s p mac = wake c' s' p' mac"
    and wake_closed: "closed_trace (snd (wake c s p mac))"
    and wake_errors: "validate_conf c = Inr c' \<Longrightarrow> validate_cred s = Inr s' \<Longrightarrow>
      validate_params p = Inr p' \<Longrightarrow> re_fullmatch MAC_PATTERN mac \<Longrightarrow>
      fst (wake c s p mac) = Inr () \<or> (\<exists>m. fst (wake c s p mac) = Inl (DriverOperationError m))"
begin

text \<open>A wake on stored documents, which were validated before they were stored.\<close>

lemma stored_wake:
  assumes "validate_conf c = Inr c'" and "validate_cred s = Inr s'" and "validate_params p = Inr p'"
    and "parse_magic_packet data = Inr packet"
  shows "fst (wake c' s' p' (mac_address packet)) = Inr ()
    \<or> (\<exists>m. fst (wake c' s' p' (mac_address packet)) = Inl (DriverOperationError m))"
    and "closed_trace (snd (wake c' s' p' (mac_address packet)))"
proof -
  have "re_fullmatch MAC_PATTERN (mac_address packet)"
    unfolding MAC_PATTERN_iff using parse_magic_packetD [OF assms(4)] by metis
  from wake_errors [OF conf_idem [OF assms(1)] cred_idem [OF assms(2)] params_idem [OF assms(3)] this]
  show "fst (wake c' s' p' (mac_address packet)) = Inr ()
    \<or> (\<exists>m. fst (wake c' s' p' (mac_address packet)) = Inl (DriverOperationError m))" .
qed (rule wake_closed)

end

lemma driver_connect_validated:
  assumes "target_ok t" and "lib_from_line lib hk = Inr (Some k)"
    and "u = [(''username'', JStr user), (''password'', JStr pass)]"
  obtains host port ct where "t ! 0 = (''host'', JStr host)" and "t ! 1 = (''port'', JInt port)"
    and "t ! 2 = (''connect_timeout'', JFloat ct)"
    and "driver_connect lib (t @ [(''host_key'', JStr hk)]) u =
      (case ssh_connect lib [(lookup_name host port, k)] host port user pass ct of
         Inl e \<Rightarrow> (Inl (DriverOperationError (driver_reason e)), [SshCreate, SshConnect host port, SshClose])
       | Inr _ \<Rightarrow> (Inr (), [SshCreate, SshConnect host port]))"
proof -
  from assms(1) obtain host port ct xt where "t = [(''host'', JStr host), (''port'', JInt port),
      (''connect_timeout'', JFloat ct), (''command_timeout'', JFloat xt)]"
    by (auto simp: target_ok_def)
  with assms(2,3) show ?thesis
    by (intro that [of host port ct]) (simp_all add: driver_connect_def dict_item_def)
qed

lemma validated_command:
  assumes "validate_listener_parameters repr p = Inr p'" and "re_fullmatch MAC_PATTERN mac"
  obtains interface gateway command where
    "p' = [(''interface'', JStr interface), (''gateway_ip'', JStr gateway)]"
    and "build_wol_command interface mac gateway = Inr command"
  using assms(1)
proof (rule validate_listener_parameters_Inr)
  fix interface gateway
  assume "p' = [(''interface'', JStr interface), (''gateway_ip'', JStr gateway)]"
    and "re_fullmatch DRIVER_INTERFACE_PATTERN interface" and "normalize_ip gateway = Some gateway"
  with assms(2) show ?thesis
    by (intro that [of interface gateway])
      (auto simp: build_wol_command_def INTERFACE_PATTERN_iff DRIVER_INTERFACE_PATTERN_iff)
qed

text \<open>A wake on validated documents, with the connection and the exec spelled out.\<close>

lemma execute_wake_validated:
  assumes c: "validate_configuration lib c = Inr c'"
    and s: "validate_credentials (lib_repr lib) s = Inr s'"
    and p: "validate_listener_parameters (lib_repr lib) p = Inr p'"
    and mac: "re_fullmatch MAC_PATTERN mac"
  obtains command xt where
    "execute_wake lib c s p mac =
      (case driver_connect lib c' s' of
         (Inl e, tr) \<Rightarrow> (Inl e, tr)
       | (Inr _, tr) \<Rightarrow>
           ((case ssh_exec lib command xt of
               Inl e \<Rightarrow> Inl (DriverOperationError (driver_reason e))
             | Inr (status, output) \<Rightarrow>
                 if status \<noteq> 0 \<or> list_ex (\<lambda>m. occurs_in m (py_lower output)) DRIVER_ERROR_MARKERS
                 then Inl (DriverOperationError ''command_failed'') else Inr ()),
            tr @ [SshExec command, SshClose]))"
    and "\<exists>interface gateway. p' = [(''interface'', JStr interface), (''gateway_ip'', JStr gateway)]
      \<and> build_wol_command interface mac gateway = Inr command"
proof -
  obtain interface gateway command where
    p': "p' = [(''interface'', JStr interface), (''gateway_ip'', JStr gateway)]"
    and b: "build_wol_command interface mac gateway = Inr command"
    using p mac by (rule validated_command)
  obtain t hk k where t: "target_ok t" and c': "c' = t @ [(''host_key'', JStr hk)]"
    using c by (rule validate_configuration_Inr)
  obtain xt where "dict_item c' ''command_timeout'' = Inr (JFloat xt)"
    using t by (auto simp: target_ok_def c' dict_item_def)
  with b p' show ?thesis
    by (intro that [of command xt])
      (auto simp: execute_wake_def c s p dict_item_def split: sum.splits prod.splits)
qed

lemma driver_connect_outcome:
  assumes "validate_configuration lib c = Inr c'" and "validate_credentials repr s = Inr s'"
  shows "(\<exists>m. driver_connect lib c' s' = (Inl (DriverOperationError m), []) ) \<or>
    (\<exists>m h p. driver_connect lib c' s'
        = (Inl (DriverOperationError m), [SshCreate, SshConnect h p, SshClose])) \<or>
    (\<exists>h p. driver_connect lib c' s' = (Inr (), [SshCreate, SshConnect h p]))"
proof -
  obtain t hk k where t: "target_ok t" and c': "c' = t @ [(''host_key'', JStr hk)]"
    and k: "lib_from_line lib hk = Inr (Some k)"
    using assms(1) by (rule validate_configuration_Inr)
  obtain user pass where s': "s' = [(''username'', JStr user), (''password'', JStr pass)]"
    using assms(2) by (rule validate_credentials_Inr)
  show ?thesis
    by (rule driver_connect_validated [OF t k s']) (auto simp: c' split: sum.splits)
qed

lemma closed_trace_connect:
  "closed_trace [SshCreate, SshConnect h p, SshClose]"
  "closed_trace [SshCreate, SshConnect h p, SshExec c, SshClose]"
  unfolding closed_trace_def
  by (rule disjI2, rule exI [of _ "[SshConnect h p]"], simp)
    (rule disjI2, rule exI [of _ "[SshConnect h p, SshExec c]"], simp)

lemma execute_wake_errors:
  assumes "validate_configuration lib c = Inr c'"
    and "validate_credentials (lib_repr lib) s = Inr s'"
    and "validate_listener_parameters (lib_repr lib) p = Inr p'"
    and "re_fullmatch MAC_PATTERN mac"
  shows "fst (execute_wake lib c s p mac) = Inr ()
      \<or> (\<exists>m. fst (execute_wake lib c s p mac) = Inl (DriverOperationError m))"
    and "closed_trace (snd (execute_wake lib c s p mac))"
proof (atomize (full), rule execute_wake_validated [OF assms])
  fix command xt
  assume e: "execute_wake lib c s p mac =
      (case driver_connect lib c' s' of
         (Inl e, tr) \<Rightarrow> (Inl e, tr)
       | (Inr _, tr) \<Rightarrow>
           ((case ssh_exec lib command xt of
               Inl e \<Rightarrow> Inl (DriverOperationError (driver_reason e))
             | Inr (status, output) \<Rightarrow>
                 if status \<noteq> 0 \<or> list_ex (\<lambda>m. occurs_in m (py_lower output)) DRIVER_ERROR_MARKERS
                 then Inl (DriverOperationError ''command_failed'') else Inr ()),
            tr @ [SshExec command, SshClose]))"
  from driver_connect_outcome [OF assms(1,2)]
  show "(fst (execute_wake lib c s p mac) = Inr ()
      \<or> (\<exists>m. fst (execute_wake lib c s p mac) = Inl (DriverOperationError m)))
      \<and> closed_trace (snd (execute_wake lib c s p mac))"
    by (elim disjE exE)
      (auto simp: e closed_trace_connect closed_trace_def [of "[]"] split: sum.splits)
qed

lemma execute_wake_closed: "closed_trace (snd (execute_wake lib c s p mac))"
proof (cases "\<exists>c' s' p' interface gateway command. validate_configuration lib c = Inr c'
    \<and> validate_credentials (lib_repr lib) s = Inr s' \<and> validate_listener_parameters (lib_repr lib) p = Inr p'
    \<and> build_wol_command interface mac gateway = Inr command")
  case True
  then show ?thesis
    using execute_wake_errors(2) build_wol_command_Inr by metis
next
  case False
  then have "snd (execute_wake lib c s p mac) = []"
    unfolding execute_wake_def by (split sum.split) (auto simp: res_simps)
  then show ?thesis by (simp add: closed_trace_def)
qed

interpretation fortigate: device_driver "validate_configuration lib"
  "validate_credentials (lib_repr lib)" "validate_listener_parameters (lib_repr lib)"
  "execute_wake lib"
  for lib :: "'k driver_lib"
proof unfold_locales
  fix c c' s s' p p' mac
  assume "validate_configuration lib c = Inr c'" "validate_credentials (lib_repr lib) s = Inr s'"
    "validate_listener_parameters (lib_repr lib) p = Inr p'"
  moreover from this have "validate_configuration lib c' = Inr c'"
    "validate_credentials (lib_repr lib) s' = Inr s'"
    "validate_listener_parameters (lib_repr lib) p' = Inr p'"
    by (auto intro: validate_configuration_idem validate_credentials_idem
        validate_listener_parameters_idem)
  ultimately show "execute_wake lib c s p mac = execute_wake lib c' s' p' mac"
    by (simp add: execute_wake_def)
next
  fix c c' s s' p p' mac
  assume "validate_configuration lib c = Inr c'" "validate_credentials (lib_repr lib) s = Inr s'"
    "validate_listener_parameters (lib_repr lib) p = Inr p'" "re_fullmatch MAC_PATTERN mac"
  then show "fst (execute_wake lib c s p mac) = Inr ()
      \<or> (\<exists>m. fst (execute_wake lib c s p mac) = Inl (DriverOperationError m))"
    by (rule execute_wake_errors(1))
qed (auto intro: validate_configuration_idem validate_credentials_idem
    validate_listener_parameters_idem execute_wake_closed)

section \<open>Properties\<close>

text \<open>
  Validation is a projection. A configuration, a credential or listener parameters that
  validated once validate again to the very same document, so what the database stores is
  accepted unchanged at every later use.
\<close>

theorem driver_validation_idempotent:
  "(validate_configuration lib c = Inr c' \<longrightarrow> validate_configuration lib c' = Inr c')
   \<and> (validate_credentials (lib_repr lib) s = Inr s' \<longrightarrow> validate_credentials (lib_repr lib) s' = Inr s')
   \<and> (validate_listener_parameters (lib_repr lib) p = Inr p' \<longrightarrow>
        validate_listener_parameters (lib_repr lib) p' = Inr p')"
  using fortigate.conf_idem fortigate.cred_idem fortigate.params_idem by blast

text \<open>A library for the witnesses: any non-empty host key line is a key, the server shows it.\<close>

definition sample_lib :: "string driver_lib" where
  "sample_lib = \<lparr>ssh_load_host_keys = (\<lambda>_. Inr []),
     ssh_connect = (\<lambda>keys h p u pw t. if (lookup_name h p, ''K'') \<in> set keys then Inr () else Inl SshOther),
     ssh_exec = (\<lambda>c t. Inr (0, ''done'')),
     lib_repr = (\<lambda>_. []), lib_from_line = (\<lambda>l. Inr (if l = [] then None else Some l)),
     lib_key_name = (\<lambda>_. ''ssh-ed25519''), lib_key_base64 = id, lib_key_bytes = (\<lambda>_. []),
     lib_key_bits = (\<lambda>_. 256), lib_sha256 = id, lib_open_socket = (\<lambda>_ _ _. Inr ()),
     lib_transport = Inr (), lib_server_key = (\<lambda>_. Inr ''K''),
     lib_auth_password = (\<lambda>_ _. Inr True)\<rparr>"

definition sample_conf :: dict where
  "sample_conf = [(''host'', JStr ''fw1''), (''port'', JInt 22), (''host_key'', JStr '' K '')]"

definition sample_conf_valid :: dict where
  "sample_conf_valid = [(''host'', JStr ''fw1''), (''port'', JInt 22),
     (''connect_timeout'', JFloat (Fin 5)), (''command_timeout'', JFloat (Fin 10)),
     (''host_key'', JStr ''K'')]"

lemma sample_conf_validates: "validate_configuration sample_lib sample_conf = Inr sample_conf_valid"
  by (simp add: validate_configuration_def validate_target_def sample_lib_def sample_conf_def
      sample_conf_valid_def HOST_PATTERN_iff host_char_def fl_le_def small_below_max_double
      as_validation_error_def py_eval)

definition sample_cred :: dict where
  "sample_cred = [(''username'', JStr ''wolt''), (''password'', JStr ''secret'')]"

lemma sample_cred_validates: "validate_credentials repr sample_cred = Inr sample_cred"
  by (simp add: validate_credentials_def sample_cred_def py_eval)

definition sample_params :: dict where
  "sample_params = [(''interface'', JStr ''vlan10''), (''gateway_ip'', JStr ''10.0.0.1'')]"

lemma sample_params_validates: "validate_listener_parameters repr sample_params = Inr sample_params"
  by (simp add: validate_listener_parameters_def sample_params_def DRIVER_INTERFACE_PATTERN_iff
      interface_char_def py_eval)

theorem driver_validation_idempotent_witness:
  "validate_configuration sample_lib sample_conf_valid = Inr sample_conf_valid"
  using driver_validation_idempotent sample_conf_validates by blast

text \<open>
  A wake on stored documents with the address of a parsed packet succeeds or raises an
  operation error, nothing else, whatever the SSH library does, and closes the client it opened.
\<close>

theorem execute_wake_stored:
  assumes "validate_configuration lib c = Inr c'"
    and "validate_credentials (lib_repr lib) s = Inr s'"
    and "validate_listener_parameters (lib_repr lib) p = Inr p'"
    and "parse_magic_packet data = Inr packet"
  shows "(fst (execute_wake lib c' s' p' (mac_address packet)) = Inr ()
      \<or> (\<exists>m. fst (execute_wake lib c' s' p' (mac_address packet)) = Inl (DriverOperationError m)))
    \<and> closed_trace (snd (execute_wake lib c' s' p' (mac_address packet)))"
  using fortigate.stored_wake [OF assms] by blast

theorem execute_wake_stored_witness:
  "closed_trace (snd (execute_wake sample_lib sample_conf_valid sample_cred sample_params
     (mac_str [0, 0, 0, 0, 0, 0])))"
  using execute_wake_stored [OF sample_conf_validates sample_cred_validates sample_params_validates
      parse_build [of "[0, 0, 0, 0, 0, 0]"]]
  by simp

text \<open>
  The reject policy of the SSH library: a connection is made only to a server whose key is
  pinned under the name it was looked up by.
\<close>

definition rejects_unknown_keys :: "'k driver_lib \<Rightarrow> (string \<Rightarrow> int \<Rightarrow> 'k) \<Rightarrow> bool" where
  "rejects_unknown_keys lib server_key \<longleftrightarrow>
     (\<forall>keys h p u pw t. ssh_connect lib keys h p u pw t = Inr () \<longrightarrow>
        (lookup_name h p, server_key h p) \<in> set keys)"


lemma sample_conf_valid_again: "validate_configuration sample_lib sample_conf_valid = Inr sample_conf_valid"
  using sample_conf_validates by (rule validate_configuration_idem)

lemma sample_connects:
  "driver_connect sample_lib sample_conf_valid sample_cred
     = (Inr (), [SshCreate, SshConnect ''fw1'' 22])"
  by (simp add: driver_connect_def sample_conf_valid_def sample_cred_def dict_item_def sample_lib_def
      lookup_name_def)

lemma sample_wake_sends:
  "snd (execute_wake sample_lib sample_conf_valid sample_cred sample_params ''00:00:00:00:00:00'')
     = [SshCreate, SshConnect ''fw1'' 22,
        SshExec ''execute wake-on-lan vlan10 00:00:00:00:00:00 2 9 10.0.0.1'', SshClose]"
proof -
  have "dict_item sample_params ''interface'' = Inr (JStr ''vlan10'')"
    "dict_item sample_params ''gateway_ip'' = Inr (JStr ''10.0.0.1'')"
    "dict_item sample_conf_valid ''command_timeout'' = Inr (JFloat (Fin 10))"
    by (simp_all add: dict_item_def sample_params_def sample_conf_valid_def)
  then show ?thesis
    by (simp add: execute_wake_def sample_conf_valid_again sample_cred_validates sample_params_validates
        sample_command_builds sample_connects)
qed


lemma discovery_session_Inr:
  assumes "discovery_session lib t0 t1 h port timeout user pass = Inr r"
  obtains key where "lib_server_key lib timeout = Inr key"
    and "hk_host_key r = discovered_host_key lib h port key"
    and "hk_latency_ms r = latency_ms t0 t1"
    and "hk_reason r = None \<longleftrightarrow> hk_status r = ''healthy''"
proof (cases "lib_server_key lib timeout")
  case (Inl e)
  with assms show ?thesis by (simp add: discovery_session_def)
next
  case (Inr key)
  show ?thesis
  proof (cases "lib_auth_password lib user pass")
    case (Inl e)
    with assms Inr show ?thesis
      by (cases e) (auto simp: discovery_session_def Let_def intro: that [of key])
  next
    case Inr': (Inr b)
    with assms Inr show ?thesis
      by (cases b) (auto simp: discovery_session_def Let_def intro: that [of key])
  qed
qed

text \<open>
  Host key discovery leaves nothing open, and what it reports can be pinned: when the
  library reads back the line it formats, the reported host key together with the target
  validates as a configuration that pins the key the server showed.
\<close>

theorem discover_host_key_pinnable:
  assumes r: "discover_host_key lib t0 t1 c s = (Inr r, tr)"
    and line: "\<forall>h p k. lib_from_line lib (py_strip (discovered_host_key lib h p k)) = Inr (Some k)"
  shows "(tr = [SocketOpened, TransportOpened, TransportClosed] \<and> 1 \<le> hk_latency_ms r
      \<and> (hk_reason r = None \<longleftrightarrow> hk_status r = ''healthy''))
    \<and> (\<exists>t c' timeout key. validate_target (lib_repr lib) c = Inr t
        \<and> lib_server_key lib timeout = Inr key
        \<and> validate_configuration lib (dict_set t ''host_key'' (JStr (hk_host_key r))) = Inr c'
        \<and> c' = t @ [(''host_key'', JStr (py_strip (hk_host_key r)))])"
proof -
  obtain h port timeout user pass where
    args: "discovery_arguments lib c s = Inr (h, port, timeout, user, pass)"
  proof (cases "discovery_arguments lib c s")
    case (Inl e)
    with r show ?thesis by (simp add: discover_host_key_def)
  next
    case (Inr a)
    then show ?thesis by (cases a) (auto intro: that)
  qed
  obtain u v where steps: "lib_open_socket lib h port timeout = Inr u" "lib_transport lib = Inr v"
    using r args by (cases "lib_open_socket lib h port timeout"; cases "lib_transport lib")
      (auto simp: discover_host_key_def)
  have ses: "discovery_session lib t0 t1 h port timeout user pass = Inr r"
    and tr: "tr = [SocketOpened, TransportOpened, TransportClosed]"
    using r args steps by (cases "discovery_session lib t0 t1 h port timeout user pass";
        simp add: discover_host_key_def)+
  from args obtain t where t: "validate_target (lib_repr lib) c = Inr t"
    unfolding discovery_arguments_def by (auto simp: res_bind_Inr_iff)
  from ses obtain key where key: "lib_server_key lib timeout = Inr key"
    and hk: "hk_host_key r = discovered_host_key lib h port key"
    and lat: "hk_latency_ms r = latency_ms t0 t1"
    and st: "hk_reason r = None \<longleftrightarrow> hk_status r = ''healthy''"
    by (rule discovery_session_Inr)
  have ok: "target_ok t" using t by (rule validate_target_ok)
  then have set: "dict_set t ''host_key'' (JStr (hk_host_key r)) = t @ [(''host_key'', JStr (hk_host_key r))]"
    and get: "dict_get_or (t @ [(''host_key'', JStr (hk_host_key r))]) ''host_key'' (JStr []) = JStr (hk_host_key r)"
    by (auto simp: target_ok_def)
  have "validate_configuration lib (t @ [(''host_key'', JStr (hk_host_key r))])
      = Inr (t @ [(''host_key'', JStr (py_strip (hk_host_key r)))])"
    using line validate_target_fixed [OF ok] get by (simp add: validate_configuration_def hk)
  with t key set tr lat st show ?thesis by (auto simp: latency_ms_def)
qed

definition unit_lib :: "unit driver_lib" where
  "unit_lib = \<lparr>ssh_load_host_keys = (\<lambda>_. Inr []), ssh_connect = (\<lambda>_ _ _ _ _ _. Inr ()),
     ssh_exec = (\<lambda>_ _. Inr (0, [])), lib_repr = (\<lambda>_. []), lib_from_line = (\<lambda>_. Inr (Some ())),
     lib_key_name = (\<lambda>_. ''ssh-ed25519''), lib_key_base64 = (\<lambda>_. ''AAAA''), lib_key_bytes = (\<lambda>_. []),
     lib_key_bits = (\<lambda>_. 256), lib_sha256 = id, lib_open_socket = (\<lambda>_ _ _. Inr ()),
     lib_transport = Inr (), lib_server_key = (\<lambda>_. Inr ()),
     lib_auth_password = (\<lambda>_ _. Inl SshAuthentication)\<rparr>"

lemma sample_arguments:
  "discovery_arguments unit_lib sample_conf sample_cred
     = Inr (''fw1'', 22, Fin 5, ''wolt'', ''secret'')"
proof -
  have "validate_target repr sample_conf = Inr [(''host'', JStr ''fw1''), (''port'', JInt 22),
      (''connect_timeout'', JFloat (Fin 5)), (''command_timeout'', JFloat (Fin 10))]" for repr
    by (simp add: validate_target_def sample_conf_def HOST_PATTERN_iff host_char_def fl_le_def
        small_below_max_double as_validation_error_def py_eval)
  then show ?thesis
    by (simp add: discovery_arguments_def sample_cred_validates dict_item_def)
      (simp add: sample_cred_def)
qed

theorem discover_host_key_pinnable_witness:
  "\<exists>r tr. discover_host_key unit_lib 0 1 sample_conf sample_cred = (Inr r, tr)
     \<and> tr = [SocketOpened, TransportOpened, TransportClosed] \<and> 1 \<le> hk_latency_ms r"
proof -
  have "\<exists>r tr. discover_host_key unit_lib 0 1 sample_conf sample_cred = (Inr r, tr)"
    by (simp add: discover_host_key_def sample_arguments)
      (simp add: unit_lib_def discovery_session_def)
  then obtain r tr where d: "discover_host_key unit_lib 0 1 sample_conf sample_cred = (Inr r, tr)"
    by blast
  have "\<forall>h p k. lib_from_line unit_lib (py_strip (discovered_host_key unit_lib h p k)) = Inr (Some k)"
    by (simp add: unit_lib_def)
  from discover_host_key_pinnable [OF d this] d show ?thesis by blast
qed

end
