(* ===== verification/Credential_Cipher.thy ===== *)
theory Credential_Cipher
  imports Base64 Json_Text
begin

text \<open>
  \<^verbatim>\<open>app/infrastructure/crypto/credentials.py\<close>: the cipher that protects device and mail
  credentials. The AEAD primitive and SHA-256 are the argument \<open>cl\<close>; the named hypothesis
  \<open>aead_correct\<close> states what the documentation of the primitive promises.
\<close>

record crypto_lib =
  cl_encrypt :: "byte list \<Rightarrow> byte list \<Rightarrow> byte list \<Rightarrow> byte list \<Rightarrow> byte list"
  cl_decrypt :: "byte list \<Rightarrow> byte list \<Rightarrow> byte list \<Rightarrow> byte list \<Rightarrow> byte list option"
  cl_sha256 :: "byte list \<Rightarrow> byte list"
  cl_repr :: "json \<Rightarrow> string"

definition aead_correct :: "crypto_lib \<Rightarrow> bool" where
  "aead_correct cl \<longleftrightarrow> (\<forall>k n p a. cl_decrypt cl k n (cl_encrypt cl k n p a) a = Some p)"

text \<open>
  The bytes of a text and back. The plaintext is ASCII, because the JSON printer escapes
  everything else; other bytes than UTF-8 text of the model's characters are refused.
\<close>

definition ascii_bytes :: "string \<Rightarrow> byte list" where
  "ascii_bytes s = map (\<lambda>c. of_nat (code c)) s"

definition ascii_text :: "byte list \<Rightarrow> string option" where
  "ascii_text bs = (if list_all (\<lambda>b. unat b < 128) bs then Some (map (\<lambda>b. char_of (unat b)) bs) else None)"

section \<open>Hexadecimal\<close>

definition hex_char_val :: "char \<Rightarrow> nat option" where
  "hex_char_val c =
     (if is_digit c then Some (code c - 48)
      else if 65 \<le> code c \<and> code c \<le> 70 then Some (code c - 55)
      else if 97 \<le> code c \<and> code c \<le> 102 then Some (code c - 87) else None)"

definition ascii_space :: "char \<Rightarrow> bool" where
  "ascii_space c \<longleftrightarrow> (9 \<le> code c \<and> code c \<le> 13) \<or> code c = 32"

text \<open>\<^verbatim>\<open>bytes.fromhex\<close>: pairs of digits, white space between pairs.\<close>

fun bytes_fromhex :: "string \<Rightarrow> byte list option" where
  "bytes_fromhex [] = Some []"
| "bytes_fromhex [c] = (if ascii_space c then Some [] else None)"
| "bytes_fromhex (c # d # s) =
     (if ascii_space c then bytes_fromhex (d # s)
      else case (hex_char_val c, hex_char_val d) of
          (Some x, Some y) \<Rightarrow> map_option (\<lambda>bs. of_nat (16 * x + y) # bs) (bytes_fromhex s)
        | _ \<Rightarrow> None)"

definition hex_lower_digit :: "nat \<Rightarrow> char" where
  "hex_lower_digit d = char_of (if d < 10 then 48 + d else 87 + d)"

definition hexdigest :: "byte list \<Rightarrow> string" where
  "hexdigest bs = concat (map (\<lambda>b. [hex_lower_digit (unat b div 16), hex_lower_digit (unat b mod 16)]) bs)"

section \<open>The cipher\<close>

definition AAD :: "byte list" where
  "AAD = ascii_bytes ''wolt-device-credential-v1''"

record cipher =
  ci_key :: "byte list"
  key_id :: string

definition cipher_init :: "crypto_lib \<Rightarrow> string \<Rightarrow> exn + cipher" where
  "cipher_init cl hex_key =
     (case bytes_fromhex hex_key of
        None \<Rightarrow> Inl (CredentialCryptoError ''WOLT_MASTER_KEY must be hexadecimal'')
      | Some key \<Rightarrow>
          if length key \<noteq> 32
          then Inl (CredentialCryptoError ''WOLT_MASTER_KEY must contain 32 random bytes'')
          else Inr \<lparr>ci_key = key, key_id = take 16 (hexdigest (cl_sha256 cl key))\<rparr>)"

text \<open>\<open>nonce\<close> is the draw of \<^verbatim>\<open>os.urandom(12)\<close>.\<close>

definition cipher_encrypt :: "crypto_lib \<Rightarrow> cipher \<Rightarrow> byte list \<Rightarrow> dict \<Rightarrow> string" where
  "cipher_encrypt cl ci nonce values =
     (let plaintext = ascii_bytes (json_dumps (cl_repr cl) '','' '':'' (json_sort (JObj values)))
      in urlsafe_b64encode (nonce @ cl_encrypt cl (ci_key ci) nonce plaintext AAD))"

definition cipher_decrypt :: "crypto_lib \<Rightarrow> cipher \<Rightarrow> string \<Rightarrow> exn + dict" where
  "cipher_decrypt cl ci payload =
     (let failed = Inl (CredentialCryptoError ''credential_decryption_failed'')
      in if \<not> list_all (\<lambda>c. code c < 128) payload then failed
         else case urlsafe_b64decode payload of
             None \<Rightarrow> failed
           | Some raw \<Rightarrow>
               (case cl_decrypt cl (ci_key ci) (take 12 raw) (drop 12 raw) AAD of
                  None \<Rightarrow> failed
                | Some plaintext \<Rightarrow>
                    (case Option.bind (ascii_text plaintext) json_loads of
                       None \<Rightarrow> failed
                     | Some (JObj d) \<Rightarrow> Inr d
                     | Some _ \<Rightarrow> Inl (CredentialCryptoError ''credential_payload_invalid''))))"

lemma urlsafe_ascii: "list_all (\<lambda>c. code c < 128) (urlsafe_b64encode bs)"
proof -
  have "code c < 128" if "c \<in> set (b64encode bs)" for c
    using b64encode_chars [OF that]
    by (auto simp: b64_val_def is_upper_def is_lower_def is_digit_def split: if_splits)
  then show ?thesis
    by (auto simp: list_all_iff urlsafe_b64encode_def to_urlsafe_def)
qed

lemma cipher_init_key: "cipher_init cl hk = Inr ci \<Longrightarrow> length (ci_key ci) = 32"
  by (auto simp: cipher_init_def split: option.splits if_splits)

lemma ascii_text_bytes: "list_all (\<lambda>c. code c < 128) s \<Longrightarrow> ascii_text (ascii_bytes s) = Some s"
proof -
  assume a: "list_all (\<lambda>c. code c < 128) s"
  have "unat (of_nat (code c) :: byte) = code c" for c
    using code_bound [of c] by (simp add: unat_of_nat)
  with a show ?thesis
    by (auto simp: ascii_text_def ascii_bytes_def list_all_iff o_def map_idI)
qed

lemma dumps_ascii: "json_ok v \<Longrightarrow> d \<in> set (json_dumps repr '','' '':'' v) \<Longrightarrow> code d < 128"
  using dumps_printable [of v d repr "'',''" "'':''"] by (simp add: printable_def)

lemma cipher_decrypt_encrypt:
  assumes "aead_correct cl" and "length nonce = 12" and ok: "json_ok (JObj d)"
  shows "cipher_decrypt cl ci (cipher_encrypt cl ci nonce d) = Inr (sort_key fst (map (\<lambda>(k, v). (k, json_sort v)) d))"
proof -
  let ?v = "json_sort (JObj d)"
  have v: "json_ok ?v" using ok by (rule json_ok_sort)
  have "list_all (\<lambda>c. code c < 128) (json_dumps (cl_repr cl) '','' '':'' ?v)"
    using dumps_ascii [OF v] by (auto simp: list_all_iff)
  moreover have "json_loads (json_dumps (cl_repr cl) '','' '':'' ?v) = Some ?v"
    using json_roundtrip [OF _ _ v, of "[]" "[]"]
      dumps_repr_irrelevant [OF v, of "cl_repr cl" "'',''" "'':''" "\<lambda>_. []"] by simp
  ultimately show ?thesis
    using assms(1,2)
    by (simp add: cipher_decrypt_def cipher_encrypt_def urlsafe_ascii urlsafe_b64_roundtrip
        aead_correct_def ascii_text_bytes Let_def)
qed

text \<open>The credentials the services store: string values only, which sorting leaves alone.\<close>

definition string_dict :: "dict \<Rightarrow> bool" where
  "string_dict d \<longleftrightarrow> distinct (map fst d) \<and> list_all (\<lambda>(k, v). \<exists>s. v = JStr s) d"

lemma string_dict_ok: "string_dict d \<Longrightarrow> json_ok (JObj d)"
  by (auto simp: string_dict_def list_all_iff)

lemma string_dict_sorted:
  assumes "string_dict d"
  shows "map (\<lambda>(k, v). (k, json_sort v)) d = d"
  using assms by (intro map_idI) (auto simp: string_dict_def list_all_iff)

text \<open>
  What the cipher encrypts it decrypts. For a credential of string values, a 12-byte nonce
  and an AEAD that inverts its own encryption, decrypting the encrypted payload with the
  same key gives the same entries, in the order of their keys.
\<close>

theorem credential_roundtrip:
  assumes "aead_correct cl" and "length nonce = 12" and "string_dict d"
  shows "cipher_decrypt cl ci (cipher_encrypt cl ci nonce d) = Inr (sort_key fst d)
    \<and> map_of (sort_key fst d) = map_of d"
  using cipher_decrypt_encrypt [OF assms(1,2) string_dict_ok [OF assms(3)]] assms(3)
  by (simp add: string_dict_sorted map_of_sort_key string_dict_def)

text \<open>A library for witnesses: the ciphertext is the plaintext followed by the key as its tag.\<close>

definition sample_crypto :: crypto_lib where
  "sample_crypto = \<lparr>cl_encrypt = (\<lambda>k n p a. p @ k),
     cl_decrypt = (\<lambda>k n c a. if drop (length c - length k) c = k then Some (take (length c - length k) c) else None),
     cl_sha256 = id, cl_repr = (\<lambda>_. [])\<rparr>"

lemma sample_crypto_correct: "aead_correct sample_crypto"
  by (simp add: aead_correct_def sample_crypto_def)

definition sample_cipher :: cipher where
  "sample_cipher = \<lparr>ci_key = replicate 32 7, key_id = ''0707070707070707''\<rparr>"

theorem credential_roundtrip_witness:
  "cipher_decrypt sample_crypto sample_cipher
     (cipher_encrypt sample_crypto sample_cipher (replicate 12 0)
        [(''username'', JStr ''wolt''), (''password'', JStr ''pw'')])
   = Inr (sort_key fst [(''username'', JStr ''wolt''), (''password'', JStr ''pw'')])"
  using credential_roundtrip [OF sample_crypto_correct, of "replicate 12 0"
      "[(''username'', JStr ''wolt''), (''password'', JStr ''pw'')]" sample_cipher]
  by (simp add: string_dict_def)

end
