(* ===== verification/Database.thy ===== *)
theory Database
  imports Device_Driver Credential_Cipher Transition_System
begin

text \<open>
  The tables of \<^verbatim>\<open>app/infrastructure/database/models.py\<close> and the session of
  \<^verbatim>\<open>connection.py\<close>. A table is the list of its rows; the three tables that only ever hold
  row 1 are options. \<open>integrity\<close> is what the database engine checks when a transaction
  commits: primary keys, unique constraints and indexes, foreign keys and check constraints.
  A session that raises before its commit leaves the database as it was. Column lengths are
  not checked, and a transaction is one step: interleavings inside it are not modelled.
\<close>

type_synonym uuid = "128 word"

text \<open>A point in time is its number of microseconds since 1970, the resolution of \<^verbatim>\<open>datetime\<close>.\<close>

type_synonym time = int

definition minutes :: "int \<Rightarrow> time" where
  "minutes n = n * 60000000"

definition hours :: "int \<Rightarrow> time" where
  "hours n = n * 3600000000"

definition days :: "int \<Rightarrow> time" where
  "days n = n * 86400000000"

text \<open>Adding a \<^verbatim>\<open>timedelta\<close> raises outside the years 1 to 9999.\<close>

definition time_shift :: "time \<Rightarrow> time \<Rightarrow> exn + time" where
  "time_shift t delta =
     (if -62135596800000000 \<le> t + delta \<and> t + delta < 253402300800000000 then Inr (t + delta)
      else Inl OverflowError)"

lemma time_shift_Inr: "time_shift t delta = Inr u \<Longrightarrow> u = t + delta"
  by (auto simp: time_shift_def split: if_splits)

text \<open>\<^verbatim>\<open>str(uuid)\<close>: 32 hexadecimal digits in groups of 8, 4, 4, 4 and 12.\<close>

definition uuid_hex :: "uuid \<Rightarrow> string" where
  "uuid_hex u = map (\<lambda>i. hex_lower (unat u div 16 ^ i mod 16)) (rev [0..<32])"

definition uuid_str :: "uuid \<Rightarrow> string" where
  "uuid_str u =
     (let h = uuid_hex u
      in py_join ''-'' [take 8 h, take 4 (drop 8 h), take 4 (drop 12 h), take 4 (drop 16 h), drop 20 h])"

section \<open>Rows\<close>

record user =
  u_id :: uuid
  u_username :: string
  u_email :: string
  u_password_hash :: "string option"
  u_role :: string
  u_enabled :: bool
  u_last_login_at :: "time option"
  u_created_at :: time

record user_session =
  s_id :: uuid
  s_user_id :: uuid
  s_token_hash :: string
  s_expires_at :: time
  s_revoked_at :: "time option"
  s_client_ip :: string
  s_created_at :: time

record recovery_code =
  rc_user_id :: uuid
  rc_code_hash :: string
  rc_created_at :: time
  rc_used_at :: "time option"

record user_invitation =
  iv_id :: uuid
  iv_user_id :: uuid
  iv_invited_by :: "uuid option"
  iv_token_hash :: string
  iv_expires_at :: time
  iv_accepted_at :: "time option"
  iv_created_at :: time

record password_reset_token =
  pr_id :: uuid
  pr_user_id :: uuid
  pr_token_hash :: string
  pr_expires_at :: time
  pr_used_at :: "time option"
  pr_created_at :: time

record smtp_settings =
  sm_host :: string
  sm_port :: int
  sm_security :: string
  sm_from_email :: string
  sm_from_name :: string
  sm_public_base_url :: string
  sm_encrypted_credentials :: string
  sm_key_id :: string
  sm_enabled :: bool
  sm_updated_at :: time

record device =
  d_id :: uuid
  d_name :: string
  d_driver_type :: string
  d_configuration :: dict
  d_enabled :: bool
  d_health_status :: string
  d_last_checked_at :: "time option"
  d_created_at :: time

record device_credential =
  dc_device_id :: uuid
  dc_encrypted_payload :: string
  dc_key_id :: string
  dc_rotated_at :: time

record listener_mapping =
  m_id :: uuid
  m_device_id :: uuid
  m_name :: string
  m_description :: "string option"
  m_udp_port :: int
  m_allowed_source_ip :: string
  m_driver_parameters :: dict
  m_enabled :: bool
  m_status :: string
  m_last_error :: "string option"
  m_created_at :: time
  m_updated_at :: time
  m_version :: int

record wake_event =
  w_id :: uuid
  w_mapping_id :: uuid
  w_device_id :: uuid
  w_event_type :: string
  w_mac_address :: string
  w_source_ip :: string
  w_source_port :: int
  w_result_code :: string
  w_duration_ms :: "int option"
  w_correlation_id :: uuid
  w_occurred_at :: time

record audit_event =
  a_id :: uuid
  a_actor_user_id :: "uuid option"
  a_action :: string
  a_object_type :: string
  a_object_id :: "string option"
  a_safe_changes :: dict
  a_client_ip :: string
  a_occurred_at :: time

record application_settings =
  as_udp_port_start :: int
  as_udp_port_end :: int
  as_rate_limit_seconds :: int
  as_wake_event_retention_days :: int
  as_audit_event_retention_days :: int
  as_locale :: string
  as_timezone :: string
  as_updated_at :: time

record engine_state =
  es_desired_state :: string
  es_observed_state :: string
  es_heartbeat_at :: "time option"
  es_last_transition_at :: "time option"
  es_last_error :: "string option"

record db =
  users :: "user list"
  user_sessions :: "user_session list"
  recovery_codes :: "recovery_code list"
  user_invitations :: "user_invitation list"
  password_reset_tokens :: "password_reset_token list"
  smtp :: "smtp_settings option"
  devices :: "device list"
  device_credentials :: "device_credential list"
  listener_mappings :: "listener_mapping list"
  wake_events :: "wake_event list"
  audit_events :: "audit_event list"
  app_settings :: "application_settings option"
  engine :: "engine_state option"

section \<open>Constraints\<close>

abbreviation user_ids :: "db \<Rightarrow> uuid set" where
  "user_ids d \<equiv> u_id ` set (users d)"

abbreviation device_ids :: "db \<Rightarrow> uuid set" where
  "device_ids d \<equiv> d_id ` set (devices d)"

abbreviation mapping_ids :: "db \<Rightarrow> uuid set" where
  "mapping_ids d \<equiv> m_id ` set (listener_mappings d)"

definition users_ok :: "user list \<Rightarrow> bool" where
  "users_ok us \<longleftrightarrow> distinct (map u_id us) \<and> distinct (map u_username us) \<and> distinct (map u_email us)"

definition sessions_ok :: "uuid set \<Rightarrow> user_session list \<Rightarrow> bool" where
  "sessions_ok us ss \<longleftrightarrow> distinct (map s_id ss) \<and> distinct (map s_token_hash ss)
     \<and> list_all (\<lambda>s. s_user_id s \<in> us) ss"

definition recovery_ok :: "uuid set \<Rightarrow> recovery_code list \<Rightarrow> bool" where
  "recovery_ok us rs \<longleftrightarrow> distinct (map rc_user_id rs) \<and> list_all (\<lambda>r. rc_user_id r \<in> us) rs"

definition invitations_ok :: "uuid set \<Rightarrow> user_invitation list \<Rightarrow> bool" where
  "invitations_ok us is \<longleftrightarrow> distinct (map iv_id is) \<and> distinct (map iv_token_hash is)
     \<and> list_all (\<lambda>i. iv_user_id i \<in> us \<and> (\<forall>b. iv_invited_by i = Some b \<longrightarrow> b \<in> us)) is"

definition resets_ok :: "uuid set \<Rightarrow> password_reset_token list \<Rightarrow> bool" where
  "resets_ok us ts \<longleftrightarrow> distinct (map pr_id ts) \<and> distinct (map pr_token_hash ts)
     \<and> list_all (\<lambda>t. pr_user_id t \<in> us) ts"

definition smtp_ok :: "smtp_settings option \<Rightarrow> bool" where
  "smtp_ok s \<longleftrightarrow> (case s of None \<Rightarrow> True
     | Some c \<Rightarrow> 1 \<le> sm_port c \<and> sm_port c \<le> 65535 \<and> sm_security c \<in> {''starttls'', ''tls'', ''none''})"

definition devices_ok :: "device list \<Rightarrow> bool" where
  "devices_ok ds \<longleftrightarrow> distinct (map d_id ds) \<and> distinct (map d_name ds)"

definition credentials_ok :: "uuid set \<Rightarrow> device_credential list \<Rightarrow> bool" where
  "credentials_ok ds cs \<longleftrightarrow> distinct (map dc_device_id cs) \<and> list_all (\<lambda>c. dc_device_id c \<in> ds) cs"

definition listeners_ok :: "uuid set \<Rightarrow> listener_mapping list \<Rightarrow> bool" where
  "listeners_ok ds ms \<longleftrightarrow> distinct (map m_id ms) \<and> distinct (map m_udp_port ms)
     \<and> list_all (\<lambda>m. m_device_id m \<in> ds) ms"

definition wakes_ok :: "uuid set \<Rightarrow> uuid set \<Rightarrow> wake_event list \<Rightarrow> bool" where
  "wakes_ok ms ds ws \<longleftrightarrow> distinct (map w_id ws) \<and> distinct (map w_correlation_id ws)
     \<and> list_all (\<lambda>w. w_mapping_id w \<in> ms \<and> w_device_id w \<in> ds) ws"

definition audits_ok :: "uuid set \<Rightarrow> audit_event list \<Rightarrow> bool" where
  "audits_ok us as \<longleftrightarrow> distinct (map a_id as)
     \<and> list_all (\<lambda>a. \<forall>u. a_actor_user_id a = Some u \<longrightarrow> u \<in> us) as"

definition settings_ok :: "application_settings option \<Rightarrow> bool" where
  "settings_ok s \<longleftrightarrow> (case s of None \<Rightarrow> True
     | Some a \<Rightarrow> 1024 \<le> as_udp_port_start a \<and> as_udp_port_start a \<le> 65535
         \<and> as_udp_port_start a \<le> as_udp_port_end a \<and> as_udp_port_end a \<le> 65535
         \<and> as_udp_port_end a - as_udp_port_start a + 1 \<le> 100)"

definition integrity :: "db \<Rightarrow> bool" where
  "integrity d \<longleftrightarrow> users_ok (users d) \<and> sessions_ok (user_ids d) (user_sessions d)
     \<and> recovery_ok (user_ids d) (recovery_codes d) \<and> invitations_ok (user_ids d) (user_invitations d)
     \<and> resets_ok (user_ids d) (password_reset_tokens d) \<and> smtp_ok (smtp d)
     \<and> devices_ok (devices d) \<and> credentials_ok (device_ids d) (device_credentials d)
     \<and> listeners_ok (device_ids d) (listener_mappings d)
     \<and> wakes_ok (mapping_ids d) (device_ids d) (wake_events d)
     \<and> audits_ok (user_ids d) (audit_events d) \<and> settings_ok (app_settings d)"

section \<open>Sessions\<close>

definition commit :: "db \<Rightarrow> exn + db" where
  "commit d = (if integrity d then Inr d else Inl IntegrityError)"

text \<open>A flush sends the pending statements, which the engine checks the same way.\<close>

abbreviation flush :: "db \<Rightarrow> exn + db" where
  "flush \<equiv> commit"

text \<open>A handler that turns an integrity error into the error \<open>e\<close> after a rollback.\<close>

definition on_integrity :: "exn \<Rightarrow> exn + 'a \<Rightarrow> exn + 'a" where
  "on_integrity e r = (case r of Inl IntegrityError \<Rightarrow> Inl e | _ \<Rightarrow> r)"

text \<open>The block of one session: the committed database, or the old one and the exception.\<close>

definition atomic :: "db \<Rightarrow> exn + 'a \<times> db \<Rightarrow> (exn + 'a) \<times> db" where
  "atomic d r = (case r of Inl e \<Rightarrow> (Inl e, d) | Inr (a, d') \<Rightarrow> (Inr a, d'))"

text \<open>Sequencing of blocks: the second runs in the database the first left, unless it raised.\<close>

definition and_then :: "(exn + 'a) \<times> db \<Rightarrow> ('a \<Rightarrow> db \<Rightarrow> (exn + 'b) \<times> db) \<Rightarrow> (exn + 'b) \<times> db" where
  "and_then r f = (case r of (Inl e, d) \<Rightarrow> (Inl e, d) | (Inr a, d) \<Rightarrow> f a d)"

lemma commit_Inr_iff [res_simps]: "commit d = Inr d' \<longleftrightarrow> integrity d \<and> d' = d"
  by (auto simp: commit_def)

lemma commit_Inl_iff [res_simps]: "commit d = Inl e \<longleftrightarrow> \<not> integrity d \<and> e = IntegrityError"
  by (auto simp: commit_def)

lemma on_integrity_Inr_iff [res_simps]: "on_integrity e r = Inr a \<longleftrightarrow> r = Inr a"
  by (cases r) (auto simp: on_integrity_def split: exn.splits)

lemma on_integrity_Inr [simp]: "on_integrity e (Inr a) = Inr a"
  by (simp add: on_integrity_def)

lemma atomic_Inr_iff [res_simps]: "atomic d r = (Inr a, d') \<longleftrightarrow> r = Inr (a, d')"
  by (auto simp: atomic_def split: sum.splits)

lemma atomic_Inl_iff [res_simps]: "atomic d r = (Inl e, d') \<longleftrightarrow> r = Inl e \<and> d' = d"
  by (auto simp: atomic_def split: sum.splits)

lemma and_then_Inr_iff [res_simps]:
  "and_then r f = (Inr b, d) \<longleftrightarrow> (\<exists>a d'. r = (Inr a, d') \<and> f a d' = (Inr b, d))"
  by (cases r; cases "fst r") (auto simp: and_then_def)

section \<open>What a call draws from its environment\<close>

text \<open>
  The third-party libraries, the cipher the service was built with, and the values that the
  calls of one operation draw: random nonces and identifiers, clock readings, the database
  clock, and the outcome of the probe that binds a UDP port.
\<close>

record 'k env =
  e_lib :: "'k driver_lib"
  e_crypto :: crypto_lib
  e_cipher :: "cipher option"
  e_nonce :: "nat \<Rightarrow> byte list"
  e_id :: "nat \<Rightarrow> uuid"
  e_now :: "nat \<Rightarrow> time"
  e_db_now :: time
  e_mono :: "nat \<Rightarrow> rat"
  e_port_free :: "int \<Rightarrow> bool"

text \<open>What the database engine computes in a query: case folding, pattern matching and the text of a time.\<close>

record sql_lib =
  sql_lower :: "string \<Rightarrow> string"
  sql_ilike :: "string \<Rightarrow> string \<Rightarrow> bool"
  sql_isoformat :: "time \<Rightarrow> string"

section \<open>Session of the connection module\<close>

text \<open>\<^verbatim>\<open>owner_exists\<close> counts enabled owners; the health check's other queries are I/O.\<close>

definition owner_exists :: "db \<Rightarrow> bool" where
  "owner_exists d \<longleftrightarrow> length (filter (\<lambda>u. u_role u = ''owner'' \<and> u_enabled u) (users d)) \<noteq> 0"

lemma owner_exists_iff: "owner_exists d \<longleftrightarrow> (\<exists>u \<in> set (users d). u_role u = ''owner'' \<and> u_enabled u)"
  by (auto simp: owner_exists_def filter_empty_conv)

end
