(* ===== verification/Device_Service.thy ===== *)
theory Device_Service
  imports Database
begin

text \<open>
  \<^verbatim>\<open>DeviceService\<close> of \<^verbatim>\<open>app/application/operations_service.py\<close>: devices and their encrypted
  credentials. Each operation is one function on the database, with the values it draws in
  the argument \<open>e\<close>.
\<close>

section \<open>Audit rows\<close>

definition mk_audit :: "uuid \<Rightarrow> time \<Rightarrow> uuid option \<Rightarrow> string \<Rightarrow> string \<Rightarrow> string option \<Rightarrow> dict \<Rightarrow> string
    \<Rightarrow> audit_event" where
  "mk_audit aid now actor_id action object_type object_id changes client_ip =
     \<lparr>a_id = aid, a_actor_user_id = actor_id, a_action = action, a_object_type = object_type,
      a_object_id = object_id, a_safe_changes = changes, a_client_ip = client_ip,
      a_occurred_at = now\<rparr>"

definition add_audit :: "audit_event \<Rightarrow> db \<Rightarrow> db" where
  "add_audit a d = d\<lparr>audit_events := audit_events d @ [a]\<rparr>"

lemma add_audit_tables [simp]:
  "users (add_audit a d) = users d" "user_sessions (add_audit a d) = user_sessions d"
  "recovery_codes (add_audit a d) = recovery_codes d"
  "user_invitations (add_audit a d) = user_invitations d"
  "password_reset_tokens (add_audit a d) = password_reset_tokens d" "smtp (add_audit a d) = smtp d"
  "devices (add_audit a d) = devices d" "device_credentials (add_audit a d) = device_credentials d"
  "listener_mappings (add_audit a d) = listener_mappings d" "wake_events (add_audit a d) = wake_events d"
  "app_settings (add_audit a d) = app_settings d" "engine (add_audit a d) = engine d"
  "audit_events (add_audit a d) = audit_events d @ [a]"
  by (simp_all add: add_audit_def)

text \<open>The audit row of an operation on an object, written by the actor.\<close>

abbreviation op_audit :: "'k env \<Rightarrow> nat \<Rightarrow> uuid \<Rightarrow> string \<Rightarrow> string \<Rightarrow> string \<Rightarrow> dict \<Rightarrow> string \<Rightarrow> audit_event" where
  "op_audit e i actor_id action object_type object_id changes client_ip \<equiv>
     mk_audit (e_id e i) (e_db_now e) (Some actor_id) action object_type (Some object_id) changes client_ip"

section \<open>Views\<close>

record device_view =
  dv_id :: string
  dv_name :: string
  dv_driver_type :: string
  dv_configuration :: dict
  dv_enabled :: bool
  dv_health_status :: string
  dv_last_checked_at :: "time option"
  dv_listener_count :: nat
  dv_credential_configured :: bool
  dv_created_at :: time

definition mk_device_view :: "device \<Rightarrow> nat \<Rightarrow> bool \<Rightarrow> device_view" where
  "mk_device_view dev listener_count credential_configured =
     \<lparr>dv_id = uuid_str (d_id dev), dv_name = d_name dev, dv_driver_type = d_driver_type dev,
      dv_configuration = d_configuration dev, dv_enabled = d_enabled dev,
      dv_health_status = d_health_status dev, dv_last_checked_at = d_last_checked_at dev,
      dv_listener_count = listener_count, dv_credential_configured = credential_configured,
      dv_created_at = d_created_at dev\<rparr>"

text \<open>
  The grouped outer join of devices with listeners and credentials: one joined row per pair
  of matches, an absent side being null, and the counts of the non-null sides.
\<close>

definition outer :: "'a list \<Rightarrow> 'a option list" where
  "outer xs = (if xs = [] then [None] else map Some xs)"

definition device_join :: "db \<Rightarrow> device \<Rightarrow> (listener_mapping option \<times> device_credential option) list" where
  "device_join d dev =
     [(m, c). m \<leftarrow> outer (filter (\<lambda>m. m_device_id m = d_id dev) (listener_mappings d)),
              c \<leftarrow> outer (filter (\<lambda>c. dc_device_id c = d_id dev) (device_credentials d))]"

definition device_row_view :: "db \<Rightarrow> device \<Rightarrow> device_view" where
  "device_row_view d dev =
     (let rows = device_join d dev
      in mk_device_view dev (length (filter (\<lambda>(m, c). m \<noteq> None) rows))
           (length (filter (\<lambda>(m, c). c \<noteq> None) rows) \<noteq> 0))"

definition device_list :: "db \<Rightarrow> device_view list" where
  "device_list d = map (device_row_view d) (sort_key d_name (devices d))"

definition device_get :: "uuid \<Rightarrow> db \<Rightarrow> exn + device_view" where
  "device_get device_id d =
     (case row_get d_id device_id (devices d) of
        None \<Rightarrow> Inl ResourceNotFoundError
      | Some dev \<Rightarrow> Inr (device_row_view d dev))"

text \<open>The read that follows a committed write.\<close>

definition reading :: "(db \<Rightarrow> exn + 'a) \<Rightarrow> db \<Rightarrow> (exn + 'a) \<times> db" where
  "reading q d = (q d, d)"

section \<open>Credentials\<close>

definition require_cipher :: "'k env \<Rightarrow> exn + cipher" where
  "require_cipher e = of_option MasterKeyRequiredError (e_cipher e)"

definition decrypt_credential :: "'k env \<Rightarrow> device_credential \<Rightarrow> exn + dict" where
  "decrypt_credential e credential =
     res_bind (require_cipher e) (\<lambda>ci.
       if dc_key_id credential \<noteq> key_id ci then Inl (CredentialCryptoError ''credential_key_mismatch'')
       else cipher_decrypt (e_crypto e) ci (dc_encrypted_payload credential))"

section \<open>Operations\<close>

definition new_device :: "'k env \<Rightarrow> string \<Rightarrow> string \<Rightarrow> dict \<Rightarrow> bool \<Rightarrow> device" where
  "new_device e name driver_type config en =
     \<lparr>d_id = e_id e 0, d_name = py_strip name, d_driver_type = driver_type,
      d_configuration = config, d_enabled = en, d_health_status = ''unknown'',
      d_last_checked_at = None, d_created_at = e_db_now e\<rparr>"

definition new_credential :: "'k env \<Rightarrow> cipher \<Rightarrow> uuid \<Rightarrow> dict \<Rightarrow> time \<Rightarrow> device_credential" where
  "new_credential e ci device_id secret rotated =
     \<lparr>dc_device_id = device_id,
      dc_encrypted_payload = cipher_encrypt (e_crypto e) ci (e_nonce e 0) secret,
      dc_key_id = key_id ci, dc_rotated_at = rotated\<rparr>"

definition device_create_tx :: "'k env \<Rightarrow> string \<Rightarrow> string \<Rightarrow> dict \<Rightarrow> dict \<Rightarrow> bool \<Rightarrow> uuid \<Rightarrow> string \<Rightarrow> db
    \<Rightarrow> exn + uuid \<times> db" where
  "device_create_tx e name driver_type configuration credentials en actor_id client_ip d =
     res_bind (require_cipher e) (\<lambda>ci.
     res_bind (registry_get driver_type) (\<lambda>driver.
     res_bind (validate_configuration (e_lib e) configuration) (\<lambda>config.
     res_bind (validate_credentials (lib_repr (e_lib e)) credentials) (\<lambda>secret.
     res_bind (guard (d_name (new_device e name driver_type config en) \<noteq> [])
                 (DriverValidationError ''device_name_required'')) (\<lambda>_.
     on_integrity ResourceConflictError
       (res_bind (flush (d\<lparr>devices := devices d @ [new_device e name driver_type config en]\<rparr>)) (\<lambda>d1.
        res_bind (commit (add_audit
            (op_audit e 1 actor_id ''device.created'' ''device'' (uuid_str (e_id e 0))
               [(''name'', JStr (d_name (new_device e name driver_type config en))),
                (''driver_type'', JStr driver_type), (''enabled'', JBool en)] client_ip)
            (d1\<lparr>device_credentials := device_credentials d1
               @ [new_credential e ci (e_id e 0) secret (e_db_now e)]\<rparr>))) (\<lambda>d2.
        Inr (e_id e 0, d2)))))))))"

definition device_create :: "'k env \<Rightarrow> string \<Rightarrow> string \<Rightarrow> dict \<Rightarrow> dict \<Rightarrow> bool \<Rightarrow> uuid \<Rightarrow> string \<Rightarrow> db
    \<Rightarrow> (exn + device_view) \<times> db" where
  "device_create e name driver_type configuration credentials en actor_id client_ip d =
     and_then (atomic d (device_create_tx e name driver_type configuration credentials en actor_id client_ip d))
       (\<lambda>i. reading (device_get i))"

definition device_discover_host_key :: "'k env \<Rightarrow> string \<Rightarrow> dict \<Rightarrow> dict \<Rightarrow> uuid \<Rightarrow> string \<Rightarrow> db
    \<Rightarrow> (exn + host_key_discovery_result) \<times> db" where
  "device_discover_host_key e driver_type configuration credentials actor_id client_ip d =
     (case registry_get driver_type of
        Inl x \<Rightarrow> (Inl x, d)
      | Inr driver \<Rightarrow>
          (let audit = (\<lambda>changes. op_audit e 0 actor_id ''device.host_key_discovery_tested''
                 ''device_candidate'' ''pending'' changes client_ip)
           in case fst (discover_host_key (e_lib e) (e_mono e 0) (e_mono e 1) configuration credentials) of
                Inl (DriverOperationError reason) \<Rightarrow>
                  and_then (atomic d (res_bind (commit (add_audit (audit
                      [(''status'', JStr ''unhealthy''), (''reason'', JStr reason)]) d)) (\<lambda>d1. Inr ((), d1))))
                    (\<lambda>_ d1. (Inl (DriverOperationError reason), d1))
              | Inl x \<Rightarrow> (Inl x, d)
              | Inr result \<Rightarrow>
                  atomic d (res_bind (commit (add_audit (audit
                      [(''status'', JStr (hk_status result)),
                       (''reason'', case hk_reason result of None \<Rightarrow> JNull | Some r \<Rightarrow> JStr r),
                       (''algorithm'', JStr (hk_algorithm result)),
                       (''fingerprint'', JStr (hk_fingerprint result))]) d)) (\<lambda>d1. Inr (result, d1)))))"

text \<open>The assignments of an update, and the upsert of its credential.\<close>

definition set_device :: "string \<Rightarrow> dict \<Rightarrow> bool \<Rightarrow> device \<Rightarrow> device" where
  "set_device name config en dev =
     (let dev1 = dev\<lparr>d_name := name, d_configuration := config, d_enabled := en\<rparr>
      in if \<not> en then dev1\<lparr>d_health_status := ''disabled''\<rparr> else dev1)"

definition put_credential :: "device_credential \<Rightarrow> db \<Rightarrow> db" where
  "put_credential c d =
     (if row_get dc_device_id (dc_device_id c) (device_credentials d) = None
      then d\<lparr>device_credentials := device_credentials d @ [c]\<rparr>
      else d\<lparr>device_credentials := row_upd dc_device_id (dc_device_id c) (\<lambda>_. c) (device_credentials d)\<rparr>)"

definition replace_credential :: "'k env \<Rightarrow> uuid \<Rightarrow> dict option \<Rightarrow> db \<Rightarrow> exn + db" where
  "replace_credential e device_id credentials d =
     (case credentials of
        None \<Rightarrow> Inr d
      | Some c \<Rightarrow>
          res_bind (require_cipher e) (\<lambda>ci.
          res_bind (validate_credentials (lib_repr (e_lib e)) c) (\<lambda>secret.
          Inr (put_credential (new_credential e ci device_id secret (e_now e 0)) d))))"

definition device_update_tx :: "'k env \<Rightarrow> uuid \<Rightarrow> string \<Rightarrow> dict \<Rightarrow> dict option \<Rightarrow> bool \<Rightarrow> uuid \<Rightarrow> string \<Rightarrow> db
    \<Rightarrow> exn + uuid \<times> db" where
  "device_update_tx e device_id name configuration credentials en actor_id client_ip d =
     res_bind (of_option ResourceNotFoundError (row_get d_id device_id (devices d))) (\<lambda>dev.
     res_bind (registry_get (d_driver_type dev)) (\<lambda>driver.
     res_bind (guard (py_strip name \<noteq> []) (DriverValidationError ''device_name_required'')) (\<lambda>_.
     res_bind (validate_configuration (e_lib e) configuration) (\<lambda>config.
     res_bind (replace_credential e device_id credentials
        (d\<lparr>devices := row_upd d_id device_id (set_device (py_strip name) config en) (devices d)\<rparr>)) (\<lambda>d2.
     on_integrity ResourceConflictError
       (res_bind (commit (add_audit (op_audit e 0 actor_id ''device.updated'' ''device'' (uuid_str device_id)
            [(''name'', JStr (py_strip name)), (''enabled'', JBool en),
             (''credential_replaced'', JBool (credentials \<noteq> None))] client_ip) d2)) (\<lambda>d3.
        Inr (device_id, d3))))))))"

definition device_update :: "'k env \<Rightarrow> uuid \<Rightarrow> string \<Rightarrow> dict \<Rightarrow> dict option \<Rightarrow> bool \<Rightarrow> uuid \<Rightarrow> string \<Rightarrow> db
    \<Rightarrow> (exn + device_view) \<times> db" where
  "device_update e device_id name configuration credentials en actor_id client_ip d =
     and_then (atomic d (device_update_tx e device_id name configuration credentials en actor_id client_ip d))
       (\<lambda>i. reading (device_get i))"

text \<open>Deleting a device cascades to its credential; listeners and wake events restrict it.\<close>

definition delete_device_row :: "uuid \<Rightarrow> db \<Rightarrow> db" where
  "delete_device_row device_id d =
     d\<lparr>devices := row_del d_id device_id (devices d),
       device_credentials := row_del dc_device_id device_id (device_credentials d)\<rparr>"

definition device_delete :: "'k env \<Rightarrow> uuid \<Rightarrow> uuid \<Rightarrow> string \<Rightarrow> db \<Rightarrow> (exn + unit) \<times> db" where
  "device_delete e device_id actor_id client_ip d =
     atomic d
       (res_bind (of_option ResourceNotFoundError (row_get d_id device_id (devices d))) (\<lambda>dev.
        res_bind (guard (filter (\<lambda>m. m_device_id m = device_id) (listener_mappings d) = []) ResourceInUseError) (\<lambda>_.
        res_bind (commit (add_audit (op_audit e 0 actor_id ''device.deleted'' ''device'' (uuid_str device_id)
             [(''name'', JStr (d_name dev))] client_ip) (delete_device_row device_id d))) (\<lambda>d1.
        Inr ((), d1)))))"

record test_result =
  tr_status :: string
  tr_latency_ms :: "int option"
  tr_reason :: "string option"

definition device_test_outcome :: "'k env \<Rightarrow> device \<Rightarrow> device_credential \<Rightarrow> exn + test_result" where
  "device_test_outcome e dev credential =
     (case res_bind (decrypt_credential e credential) (\<lambda>secret.
           res_bind (registry_get (d_driver_type dev)) (\<lambda>driver.
           fst (test_connection (e_lib e) (e_mono e 0) (e_mono e 1) (d_configuration dev) secret))) of
        Inr result \<Rightarrow>
          Inr \<lparr>tr_status = ct_status result, tr_latency_ms = Some (ct_latency_ms result), tr_reason = None\<rparr>
      | Inl (DriverOperationError reason) \<Rightarrow>
          Inr \<lparr>tr_status = ''unhealthy'', tr_latency_ms = None, tr_reason = Some reason\<rparr>
      | Inl (CredentialCryptoError reason) \<Rightarrow>
          Inr \<lparr>tr_status = ''unhealthy'', tr_latency_ms = None, tr_reason = Some reason\<rparr>
      | Inl x \<Rightarrow> Inl x)"

definition opt_str :: "string option \<Rightarrow> json" where
  "opt_str s = (case s of None \<Rightarrow> JNull | Some t \<Rightarrow> JStr t)"

definition device_test_connection :: "'k env \<Rightarrow> uuid \<Rightarrow> uuid \<Rightarrow> string \<Rightarrow> db \<Rightarrow> (exn + test_result) \<times> db" where
  "device_test_connection e device_id actor_id client_ip d =
     atomic d
       (res_bind (of_option ResourceNotFoundError (row_get d_id device_id (devices d))) (\<lambda>dev.
        res_bind (of_option ResourceConflictError (row_get dc_device_id device_id (device_credentials d))) (\<lambda>cred.
        res_bind (device_test_outcome e dev cred) (\<lambda>r.
        res_bind (commit (add_audit (op_audit e 0 actor_id ''device.connection_tested'' ''device''
             (uuid_str device_id) [(''status'', JStr (tr_status r)), (''reason'', opt_str (tr_reason r))] client_ip)
             (d\<lparr>devices := row_upd d_id device_id
                (\<lambda>x. x\<lparr>d_health_status := tr_status r, d_last_checked_at := Some (e_now e 0)\<rparr>) (devices d)\<rparr>)))
        (\<lambda>d1. Inr (r, d1))))))"

definition runtime_material :: "'k env \<Rightarrow> uuid \<Rightarrow> db \<Rightarrow> exn + string \<times> dict \<times> dict" where
  "runtime_material e device_id d =
     (case (row_get d_id device_id (devices d), row_get dc_device_id device_id (device_credentials d)) of
        (Some dev, Some cred) \<Rightarrow>
          if \<not> d_enabled dev then Inl ResourceConflictError
          else res_bind (decrypt_credential e cred) (\<lambda>secret.
                 Inr (d_driver_type dev, d_configuration dev, secret))
      | _ \<Rightarrow> Inl ResourceConflictError)"

section \<open>Results of the operations\<close>

lemma device_get_present: "i \<in> device_ids d \<Longrightarrow> \<exists>v. device_get i d = Inr v"
  by (auto simp: device_get_def row_get_None_iff split: option.splits)

lemma and_then_reading_get:
  assumes "\<And>i d'. r = (Inr i, d') \<Longrightarrow> i \<in> device_ids d'"
    and "and_then r (\<lambda>i. reading (device_get i)) = (Inl x, d')"
  shows "r = (Inl x, d')"
proof (cases "fst r")
  case (Inl y)
  with assms(2) show ?thesis by (cases r) (auto simp: and_then_def)
next
  case (Inr i)
  then have "i \<in> device_ids (snd r)" using assms(1) by (cases r) auto
  from device_get_present [OF this] assms(2) Inr show ?thesis
    by (cases r) (auto simp: and_then_def reading_def)
qed

lemma device_create_tx_Inr:
  "device_create_tx e name driver_type configuration credentials en actor_id client_ip d = Inr (i, d') \<longleftrightarrow>
     (\<exists>ci driver config secret. e_cipher e = Some ci \<and> registry_get driver_type = Inr driver
      \<and> validate_configuration (e_lib e) configuration = Inr config
      \<and> validate_credentials (lib_repr (e_lib e)) credentials = Inr secret
      \<and> py_strip name \<noteq> [] \<and> i = e_id e 0
      \<and> integrity (d\<lparr>devices := devices d @ [new_device e name driver_type config en]\<rparr>) \<and> integrity d'
      \<and> d' = add_audit (op_audit e 1 actor_id ''device.created'' ''device'' (uuid_str (e_id e 0))
           [(''name'', JStr (py_strip name)), (''driver_type'', JStr driver_type), (''enabled'', JBool en)]
           client_ip) (d\<lparr>devices := devices d @ [new_device e name driver_type config en],
             device_credentials := device_credentials d @ [new_credential e ci (e_id e 0) secret (e_db_now e)]\<rparr>))"
  unfolding device_create_tx_def require_cipher_def res_simps by (auto simp: new_device_def)

lemma device_update_tx_Inr:
  "device_update_tx e device_id name configuration credentials en actor_id client_ip d = Inr (i, d') \<longleftrightarrow>
     (\<exists>dev driver config d2. row_get d_id device_id (devices d) = Some dev
      \<and> registry_get (d_driver_type dev) = Inr driver \<and> py_strip name \<noteq> []
      \<and> validate_configuration (e_lib e) configuration = Inr config \<and> i = device_id
      \<and> replace_credential e device_id credentials
          (d\<lparr>devices := row_upd d_id device_id (set_device (py_strip name) config en) (devices d)\<rparr>) = Inr d2
      \<and> integrity d'
      \<and> d' = add_audit (op_audit e 0 actor_id ''device.updated'' ''device'' (uuid_str device_id)
            [(''name'', JStr (py_strip name)), (''enabled'', JBool en),
             (''credential_replaced'', JBool (credentials \<noteq> None))] client_ip) d2)"
  unfolding device_update_tx_def res_simps by auto

lemma replace_credential_Inr:
  assumes "replace_credential e device_id credentials d = Inr d'"
  shows "devices d' = devices d \<and> listener_mappings d' = listener_mappings d \<and> users d' = users d
    \<and> app_settings d' = app_settings d \<and> wake_events d' = wake_events d"
  using assms by (auto simp: replace_credential_def put_credential_def res_simps split: option.splits)

lemma set_device_fields [simp]:
  "d_id (set_device n c en x) = d_id x" "d_name (set_device n c en x) = n"
  "d_configuration (set_device n c en x) = c" "d_enabled (set_device n c en x) = en"
  "d_driver_type (set_device n c en x) = d_driver_type x"
  by (simp_all add: set_device_def Let_def)

lemma image_row_upd: "(\<And>x. g (f x) = g x) \<Longrightarrow> g ` set (row_upd key k f rows) = g ` set rows"
  using map_row_upd [of g f key k rows] by (metis set_map)

lemma device_ids_row_upd [simp]: "d_id ` set (row_upd d_id k (set_device n c en) ds) = d_id ` set ds"
  by (rule image_row_upd) simp

lemma device_create_failed:
  "device_create e name driver_type configuration credentials en actor_id client_ip d = (Inl x, d') \<Longrightarrow> d' = d"
  unfolding device_create_def
  by (drule and_then_reading_get [rotated]) (auto simp: res_simps device_create_tx_Inr new_device_def)

lemma device_update_failed:
  assumes "device_update e device_id name configuration credentials en actor_id client_ip d = (Inl x, d')"
  shows "d' = d"
proof -
  have "i \<in> device_ids d1" if "device_update_tx e device_id name configuration credentials en
      actor_id client_ip d = Inr (i, d1)" for i d1
    using that by (auto simp: device_update_tx_Inr dest!: replace_credential_Inr row_get_SomeD)
  with assms have "atomic d (device_update_tx e device_id name configuration credentials en
      actor_id client_ip d) = (Inl x, d')"
    unfolding device_update_def by (intro and_then_reading_get) (auto simp: res_simps)
  then show ?thesis by (simp add: res_simps)
qed

text \<open>
  A device operation that raises leaves the database exactly as it was. (Host key
  discovery, which records its failures, is not among them.)
\<close>

theorem device_failure_atomic:
  "(device_create e name driver_type configuration credentials en actor_id client_ip d = (Inl x, d') \<longrightarrow> d' = d)
   \<and> (device_update e device_id name configuration new_credentials en actor_id client_ip d = (Inl x, d') \<longrightarrow> d' = d)
   \<and> (device_delete e device_id actor_id client_ip d = (Inl x, d') \<longrightarrow> d' = d)
   \<and> (device_test_connection e device_id actor_id client_ip d = (Inl x, d') \<longrightarrow> d' = d)"
  by (auto simp: device_delete_def device_test_connection_def res_simps
      dest: device_create_failed device_update_failed)

definition empty_db :: db where
  "empty_db = \<lparr>users = [], user_sessions = [], recovery_codes = [], user_invitations = [],
     password_reset_tokens = [], smtp = None, devices = [], device_credentials = [],
     listener_mappings = [], wake_events = [], audit_events = [], app_settings = None, engine = None\<rparr>"

definition sample_env :: "string env" where
  "sample_env = \<lparr>e_lib = sample_lib, e_crypto = sample_crypto, e_cipher = Some sample_cipher,
     e_nonce = (\<lambda>_. replicate 12 0), e_id = (\<lambda>i. of_nat (100 + i)), e_now = (\<lambda>i. 1000),
     e_db_now = 1000, e_mono = (\<lambda>i. of_nat i), e_port_free = (\<lambda>_. True)\<rparr>"

theorem device_failure_atomic_witness:
  "device_delete sample_env 7 1 ''10.0.0.9'' empty_db = (Inl ResourceNotFoundError, empty_db)
   \<and> snd (device_delete sample_env 7 1 ''10.0.0.9'' empty_db) = empty_db"
proof -
  have "device_delete sample_env 7 1 ''10.0.0.9'' empty_db = (Inl ResourceNotFoundError, empty_db)"
    by (simp add: device_delete_def empty_db_def row_get_def atomic_def)
  moreover from this have "snd (device_delete sample_env 7 1 ''10.0.0.9'' empty_db) = empty_db"
    using device_failure_atomic [of sample_env "[]" "[]" "[]" "[]" True 1 "''10.0.0.9''" empty_db
        ResourceNotFoundError empty_db 7] by simp
  ultimately show ?thesis by blast
qed

section \<open>Stored credentials\<close>

lemma validated_string_dict:
  "validate_credentials repr c = Inr secret \<Longrightarrow> string_dict secret"
  by (erule validate_credentials_Inr) (simp add: string_dict_def)

lemma validate_credentials_map_of:
  "map_of d = map_of d' \<Longrightarrow> validate_credentials repr d = validate_credentials repr d'"
  by (simp add: validate_credentials_def dict_get_or_def)

lemma new_credential_decrypts:
  assumes "aead_correct (e_crypto e)" and "length (e_nonce e 0) = 12" and "e_cipher e = Some ci"
    and "validate_credentials repr c = Inr secret"
  shows "decrypt_credential e (new_credential e ci i secret t) = Inr (sort_key fst secret)"
    and "validate_credentials repr (sort_key fst secret) = Inr secret"
proof -
  note sd = validated_string_dict [OF assms(4)]
  have "cipher_decrypt (e_crypto e) ci (cipher_encrypt (e_crypto e) ci (e_nonce e 0) secret)
      = Inr (sort_key fst secret)"
    using cipher_decrypt_encrypt [OF assms(1,2) string_dict_ok [OF sd]] sd
    by (simp add: string_dict_sorted)
  then show "decrypt_credential e (new_credential e ci i secret t) = Inr (sort_key fst secret)"
    using assms(3) by (simp add: decrypt_credential_def require_cipher_def new_credential_def)
  have "map_of (sort_key fst secret) = map_of secret"
    using sd by (simp add: map_of_sort_key string_dict_def)
  then have "validate_credentials repr (sort_key fst secret) = validate_credentials repr secret"
    by (rule validate_credentials_map_of)
  then show "validate_credentials repr (sort_key fst secret) = Inr secret"
    using validate_credentials_idem [OF assms(4)] by simp
qed

text \<open>
  C28: what is stored can be used. After a device is created enabled, the engine's lookup of its
  runtime material gives the driver type, the validated configuration, and a decrypted
  credential that validates to the one that was given.
\<close>

theorem device_create_then_material:
  assumes "device_create e name driver_type configuration credentials True actor_id client_ip d = (Inr v, d')"
    and "aead_correct (e_crypto e)" and "length (e_nonce e 0) = 12"
  shows "\<exists>config secret stored.
      validate_configuration (e_lib e) configuration = Inr config
    \<and> validate_credentials (lib_repr (e_lib e)) credentials = Inr secret
    \<and> runtime_material e (e_id e 0) d' = Inr (driver_type, config, stored)
    \<and> validate_credentials (lib_repr (e_lib e)) stored = Inr secret"
proof -
  from assms(1) obtain i where "device_create_tx e name driver_type configuration credentials True
      actor_id client_ip d = Inr (i, d')"
    by (auto simp: device_create_def res_simps reading_def)
  then obtain ci driver config secret where ci: "e_cipher e = Some ci"
    and v: "validate_configuration (e_lib e) configuration = Inr config"
      "validate_credentials (lib_repr (e_lib e)) credentials = Inr secret"
    and int: "integrity d'"
    and dev: "devices d' = devices d @ [new_device e name driver_type config True]"
    and cred: "device_credentials d' = device_credentials d @ [new_credential e ci (e_id e 0) secret (e_db_now e)]"
    unfolding device_create_tx_Inr by auto
  have "row_get d_id (e_id e 0) (devices d') = Some (new_device e name driver_type config True)"
    using int dev row_get_distinct [of d_id "devices d'" "new_device e name driver_type config True"]
    by (simp add: integrity_def devices_ok_def new_device_def)
  moreover have "row_get dc_device_id (e_id e 0) (device_credentials d')
      = Some (new_credential e ci (e_id e 0) secret (e_db_now e))"
    using int cred row_get_distinct [of dc_device_id "device_credentials d'"
        "new_credential e ci (e_id e 0) secret (e_db_now e)"]
    by (simp add: integrity_def credentials_ok_def new_credential_def)
  ultimately have "runtime_material e (e_id e 0) d' = Inr (driver_type, config, sort_key fst secret)"
    using new_credential_decrypts(1) [OF assms(2,3) ci v(2)]
    by (simp add: runtime_material_def new_device_def)
  with v new_credential_decrypts(2) [OF assms(2,3) ci v(2)] show ?thesis by blast
qed

lemmas integrity_defs = integrity_def users_ok_def sessions_ok_def recovery_ok_def invitations_ok_def
  resets_ok_def smtp_ok_def devices_ok_def credentials_ok_def listeners_ok_def wakes_ok_def
  audits_ok_def settings_ok_def

definition sample_owner :: user where
  "sample_owner = \<lparr>u_id = 1, u_username = ''root'', u_email = ''root@x.io'', u_password_hash = Some ''h:pw'',
     u_role = ''owner'', u_enabled = True, u_last_login_at = None, u_created_at = 0\<rparr>"

definition sample_db :: db where
  "sample_db = empty_db\<lparr>users := [sample_owner],
     app_settings := Some \<lparr>as_udp_port_start = 40000, as_udp_port_end = 40099, as_rate_limit_seconds = 30,
        as_wake_event_retention_days = 90, as_audit_event_retention_days = 365, as_locale = ''en'',
        as_timezone = ''UTC'', as_updated_at = 0\<rparr>,
     engine := Some \<lparr>es_desired_state = ''paused'', es_observed_state = ''starting'',
        es_heartbeat_at = None, es_last_transition_at = None, es_last_error = None\<rparr>\<rparr>"

lemma sample_env_simps:
  "e_lib sample_env = sample_lib" "e_crypto sample_env = sample_crypto"
  "e_cipher sample_env = Some sample_cipher" "e_nonce sample_env i = replicate 12 0"
  "e_id sample_env i = of_nat (100 + i)" "e_now sample_env i = 1000" "e_db_now sample_env = 1000"
  "e_port_free sample_env p = True"
  by (simp_all add: sample_env_def)

lemma sample_create_tx:
  "\<exists>d'. device_create_tx sample_env ''fw'' ''fortigate_ssh'' sample_conf sample_cred True 1 ''10.0.0.9'' sample_db
     = Inr (100, d')"
  unfolding device_create_tx_Inr
  by (rule exI, rule exI [of _ sample_cipher], rule exI [of _ FortiGateSSHDriver],
      rule exI [of _ sample_conf_valid], rule exI [of _ sample_cred], intro conjI)
    (simp_all add: sample_env_simps sample_conf_validates sample_cred_validates registry_get_def
      registry_drivers_def type_key_def integrity_defs sample_db_def empty_db_def sample_owner_def
      new_device_def new_credential_def mk_audit_def py_strip_def is_space_def)

lemma sample_create:
  "\<exists>v d'. device_create sample_env ''fw'' ''fortigate_ssh'' sample_conf sample_cred True 1 ''10.0.0.9'' sample_db
     = (Inr v, d')"
proof -
  obtain d' where c: "device_create_tx sample_env ''fw'' ''fortigate_ssh'' sample_conf sample_cred True 1
      ''10.0.0.9'' sample_db = Inr (100, d')" using sample_create_tx by blast
  then have "100 \<in> device_ids d'" by (auto simp: device_create_tx_Inr new_device_def sample_env_simps)
  then obtain v where "device_get 100 d' = Inr v" using device_get_present by blast
  with c show ?thesis by (simp add: device_create_def atomic_def and_then_def reading_def)
qed

theorem device_create_then_material_witness:
  "\<exists>d' stored. runtime_material sample_env 100 d' = Inr (''fortigate_ssh'', sample_conf_valid, stored)
     \<and> validate_credentials (lib_repr sample_lib) stored = Inr sample_cred"
proof -
  obtain v d' where c: "device_create sample_env ''fw'' ''fortigate_ssh'' sample_conf sample_cred True 1
      ''10.0.0.9'' sample_db = (Inr v, d')" using sample_create by blast
  from device_create_then_material [OF c] show ?thesis
    by (auto simp: sample_env_simps sample_crypto_correct sample_conf_validates sample_cred_validates)
qed

section \<open>Deleting\<close>

lemma delete_device_integrity:
  assumes "integrity d" and "a_id a \<notin> a_id ` set (audit_events d)"
    and "\<And>u. a_actor_user_id a = Some u \<Longrightarrow> u \<in> user_ids d"
  shows "integrity (add_audit a (delete_device_row i d)) \<longleftrightarrow>
    (\<forall>m \<in> set (listener_mappings d). m_device_id m \<noteq> i) \<and> (\<forall>w \<in> set (wake_events d). w_device_id w \<noteq> i)"
proof -
  have ids: "d_id ` {r \<in> set (devices d). d_id r \<noteq> i} = device_ids d - {i}" by auto
  show ?thesis
    using assms unfolding integrity_def delete_device_row_def
    by (auto simp: ids distinct_row_del list_all_iff devices_ok_def credentials_ok_def listeners_ok_def
        wakes_ok_def audits_ok_def)
qed

text \<open>
  C32: when a device is deleted. In a consistent database, with a known actor and a fresh
  audit identifier, deleting an existing device succeeds exactly when no listener and no wake
  event refers to it, and then removes the device and its credential and adds one audit row.
  A listener that uses the device is reported as \<^verbatim>\<open>resource_in_use\<close>; a wake event left behind
  by a listener that has moved to another device surfaces as a bare integrity error.
\<close>

theorem device_delete_outcome:
  assumes "integrity d" and "device_id \<in> device_ids d" and "actor_id \<in> user_ids d"
    and "e_id e 0 \<notin> a_id ` set (audit_events d)"
  shows "device_delete e device_id actor_id client_ip d =
    (if \<exists>m \<in> set (listener_mappings d). m_device_id m = device_id then (Inl ResourceInUseError, d)
     else if \<exists>w \<in> set (wake_events d). w_device_id w = device_id then (Inl IntegrityError, d)
     else (Inr (), d\<lparr>devices := row_del d_id device_id (devices d),
            device_credentials := row_del dc_device_id device_id (device_credentials d),
            audit_events := audit_events d @ [op_audit e 0 actor_id ''device.deleted'' ''device''
              (uuid_str device_id) [(''name'', JStr (d_name (the (row_get d_id device_id (devices d)))))]
              client_ip]\<rparr>))"
proof -
  obtain dev where dev: "row_get d_id device_id (devices d) = Some dev"
    using assms(2) by (cases "row_get d_id device_id (devices d)") (auto simp: row_get_None_iff)
  let ?a = "op_audit e 0 actor_id ''device.deleted'' ''device'' (uuid_str device_id)
      [(''name'', JStr (d_name dev))] client_ip"
  have "integrity (add_audit ?a (delete_device_row device_id d)) \<longleftrightarrow>
    (\<forall>m \<in> set (listener_mappings d). m_device_id m \<noteq> device_id)
      \<and> (\<forall>w \<in> set (wake_events d). w_device_id w \<noteq> device_id)"
    using assms by (intro delete_device_integrity) (auto simp: mk_audit_def)
  then show ?thesis
    by (auto simp: device_delete_def dev guard_def filter_empty_conv commit_def atomic_def
        add_audit_def delete_device_row_def)
qed

theorem device_delete_outcome_witness:
  "\<exists>d'. fst (device_delete sample_env 100 1 ''10.0.0.9'' d') = Inr ()"
proof -
  define d' where "d' = sample_db\<lparr>devices := [new_device sample_env ''fw'' ''fortigate_ssh'' sample_conf_valid True]\<rparr>"
  have "integrity d'" "100 \<in> device_ids d'" "1 \<in> user_ids d'" "e_id sample_env 0 \<notin> a_id ` set (audit_events d')"
    "listener_mappings d' = []" "wake_events d' = []"
    by (simp_all add: d'_def integrity_defs sample_db_def empty_db_def sample_owner_def new_device_def
        sample_env_simps)
  then have "fst (device_delete sample_env 100 1 ''10.0.0.9'' d') = Inr ()"
    using device_delete_outcome [of d' 100 1 sample_env "''10.0.0.9''"] by simp
  then show ?thesis ..
qed

end
