(* ===== verification/Listener_Service.thy ===== *)
theory Listener_Service
  imports Device_Service
begin

text \<open>
  \<^verbatim>\<open>ListenerService\<close> and \<^verbatim>\<open>EngineStateService\<close> of \<^verbatim>\<open>app/application/operations_service.py\<close>:
  the listener mappings with their UDP ports, and the engine's state row. Updates are guarded
  by a version number; a port is allocated as the least free one of the configured range.
\<close>

section \<open>Ports and addresses\<close>

definition source_ip :: "string \<Rightarrow> exn + string" where
  "source_ip value = of_option (DriverValidationError ''invalid_allowed_source_ip'') (normalize_ip (py_strip value))"

definition allocate_port :: "'k env \<Rightarrow> application_settings \<Rightarrow> db \<Rightarrow> exn + int" where
  "allocate_port e st d =
     (let used = map m_udp_port (listener_mappings d)
      in of_option ResourceConflictError
           (find (\<lambda>port. port \<notin> set used \<and> e_port_free e port) [as_udp_port_start st .. as_udp_port_end st]))"

definition validate_port :: "application_settings \<Rightarrow> int \<Rightarrow> uuid option \<Rightarrow> db \<Rightarrow> exn + unit" where
  "validate_port st port exclude_id d =
     (if \<not> (as_udp_port_start st \<le> port \<and> port \<le> as_udp_port_end st)
      then Inl (DriverValidationError ''udp_port_outside_allowed_range'')
      else guard (filter (\<lambda>m. m_udp_port m = port \<and> Some (m_id m) \<noteq> exclude_id) (listener_mappings d) = [])
             ResourceConflictError)"

definition clean_description :: "string option \<Rightarrow> string option" where
  "clean_description description =
     (let s = py_strip (case description of None \<Rightarrow> [] | Some t \<Rightarrow> t) in if s = [] then None else Some s)"

section \<open>Views\<close>

record listener_view =
  lv_id :: string
  lv_device_id :: string
  lv_device_name :: string
  lv_driver_type :: string
  lv_name :: string
  lv_description :: "string option"
  lv_udp_port :: int
  lv_allowed_source_ip :: string
  lv_driver_parameters :: dict
  lv_enabled :: bool
  lv_status :: string
  lv_last_error :: "string option"
  lv_version :: int
  lv_created_at :: time
  lv_updated_at :: time

definition mk_listener_view :: "listener_mapping \<Rightarrow> string \<Rightarrow> string \<Rightarrow> listener_view" where
  "mk_listener_view m device_name driver_type =
     \<lparr>lv_id = uuid_str (m_id m), lv_device_id = uuid_str (m_device_id m), lv_device_name = device_name,
      lv_driver_type = driver_type, lv_name = m_name m, lv_description = m_description m,
      lv_udp_port = m_udp_port m, lv_allowed_source_ip = m_allowed_source_ip m,
      lv_driver_parameters = m_driver_parameters m, lv_enabled = m_enabled m, lv_status = m_status m,
      lv_last_error = m_last_error m, lv_version = m_version m, lv_created_at = m_created_at m,
      lv_updated_at = m_updated_at m\<rparr>"

text \<open>The inner join with the device: a mapping without its device has no row.\<close>

definition listener_rows :: "db \<Rightarrow> listener_mapping list \<Rightarrow> listener_view list" where
  "listener_rows d ms =
     concat (map (\<lambda>m. map (\<lambda>dev. mk_listener_view m (d_name dev) (d_driver_type dev))
                        (filter (\<lambda>dev. d_id dev = m_device_id m) (devices d))) ms)"

definition listener_list :: "db \<Rightarrow> listener_view list" where
  "listener_list d = listener_rows d (sort_key m_udp_port (listener_mappings d))"

definition listener_get :: "uuid \<Rightarrow> db \<Rightarrow> exn + listener_view" where
  "listener_get mapping_id d =
     (case listener_rows d (filter (\<lambda>m. m_id m = mapping_id) (listener_mappings d)) of
        [] \<Rightarrow> Inl ResourceNotFoundError
      | [v] \<Rightarrow> Inr v
      | _ \<Rightarrow> Inl MultipleResultsFound)"

section \<open>Operations\<close>

definition new_mapping :: "'k env \<Rightarrow> uuid \<Rightarrow> string \<Rightarrow> string option \<Rightarrow> int \<Rightarrow> string \<Rightarrow> dict \<Rightarrow> bool \<Rightarrow> listener_mapping" where
  "new_mapping e device_id name description port source parameters en =
     \<lparr>m_id = e_id e 0, m_device_id = device_id, m_name = py_strip name,
      m_description = clean_description description, m_udp_port = port,
      m_allowed_source_ip = source, m_driver_parameters = parameters, m_enabled = en,
      m_status = ''inactive'', m_last_error = None, m_created_at = e_db_now e,
      m_updated_at = e_db_now e, m_version = 1\<rparr>"

definition listener_create_tx :: "'k env \<Rightarrow> uuid \<Rightarrow> string \<Rightarrow> string option \<Rightarrow> int option \<Rightarrow> string \<Rightarrow> dict \<Rightarrow> bool
    \<Rightarrow> uuid \<Rightarrow> string \<Rightarrow> db \<Rightarrow> exn + uuid \<times> db" where
  "listener_create_tx e device_id name description udp_port allowed_source_ip driver_parameters en actor_id client_ip d =
     res_bind (source_ip allowed_source_ip) (\<lambda>source.
     res_bind (of_option NoResultFound (app_settings d)) (\<lambda>st.
     res_bind (of_option ResourceNotFoundError (row_get d_id device_id (devices d))) (\<lambda>dev.
     res_bind (guard (\<not> (en \<and> \<not> d_enabled dev)) ResourceConflictError) (\<lambda>_.
     res_bind (registry_get (d_driver_type dev)) (\<lambda>driver.
     res_bind (validate_listener_parameters (lib_repr (e_lib e)) driver_parameters) (\<lambda>parameters.
     res_bind (case udp_port of Some p \<Rightarrow> Inr p | None \<Rightarrow> allocate_port e st d) (\<lambda>port.
     res_bind (validate_port st port None d) (\<lambda>_.
     res_bind (guard (e_port_free e port) ResourceConflictError) (\<lambda>_.
     res_bind (guard (py_strip name \<noteq> []) (DriverValidationError ''listener_name_required'')) (\<lambda>_.
     on_integrity ResourceConflictError
       (res_bind (flush (d\<lparr>listener_mappings := listener_mappings d
            @ [new_mapping e device_id name description port source parameters en]\<rparr>)) (\<lambda>d1.
        res_bind (commit (add_audit (op_audit e 1 actor_id ''listener.created'' ''listener'' (uuid_str (e_id e 0))
            [(''name'', JStr (py_strip name)), (''udp_port'', JInt port), (''enabled'', JBool en)] client_ip) d1)) (\<lambda>d2.
        Inr (e_id e 0, d2))))))))))))))"

definition listener_create :: "'k env \<Rightarrow> uuid \<Rightarrow> string \<Rightarrow> string option \<Rightarrow> int option \<Rightarrow> string \<Rightarrow> dict \<Rightarrow> bool
    \<Rightarrow> uuid \<Rightarrow> string \<Rightarrow> db \<Rightarrow> (exn + listener_view) \<times> db" where
  "listener_create e device_id name description udp_port allowed_source_ip driver_parameters en actor_id client_ip d =
     and_then (atomic d (listener_create_tx e device_id name description udp_port allowed_source_ip
                           driver_parameters en actor_id client_ip d))
       (\<lambda>i. reading (listener_get i))"

definition set_mapping :: "'k env \<Rightarrow> uuid \<Rightarrow> string \<Rightarrow> string option \<Rightarrow> int \<Rightarrow> string \<Rightarrow> dict \<Rightarrow> bool
    \<Rightarrow> listener_mapping \<Rightarrow> listener_mapping" where
  "set_mapping e device_id name description port source parameters en m =
     m\<lparr>m_device_id := device_id, m_name := py_strip name, m_description := clean_description description,
       m_udp_port := port, m_allowed_source_ip := source, m_driver_parameters := parameters,
       m_enabled := en, m_status := ''inactive'', m_last_error := None,
       m_version := m_version m + 1, m_updated_at := e_db_now e\<rparr>"

definition listener_update_tx :: "'k env \<Rightarrow> uuid \<Rightarrow> int \<Rightarrow> uuid \<Rightarrow> string \<Rightarrow> string option \<Rightarrow> int \<Rightarrow> string \<Rightarrow> dict
    \<Rightarrow> bool \<Rightarrow> uuid \<Rightarrow> string \<Rightarrow> db \<Rightarrow> exn + uuid \<times> db" where
  "listener_update_tx e mapping_id version device_id name description udp_port allowed_source_ip
       driver_parameters en actor_id client_ip d =
     res_bind (source_ip allowed_source_ip) (\<lambda>source.
     res_bind (of_option ResourceNotFoundError (row_get m_id mapping_id (listener_mappings d))) (\<lambda>m.
     res_bind (guard (m_version m = version) StaleVersionError) (\<lambda>_.
     res_bind (of_option ResourceNotFoundError (app_settings d)) (\<lambda>st.
     res_bind (of_option ResourceNotFoundError (row_get d_id device_id (devices d))) (\<lambda>dev.
     res_bind (guard (\<not> (en \<and> \<not> d_enabled dev)) ResourceConflictError) (\<lambda>_.
     res_bind (registry_get (d_driver_type dev)) (\<lambda>driver.
     res_bind (validate_listener_parameters (lib_repr (e_lib e)) driver_parameters) (\<lambda>parameters.
     res_bind (validate_port st udp_port (Some mapping_id) d) (\<lambda>_.
     res_bind (guard (\<not> (udp_port \<noteq> m_udp_port m \<and> \<not> e_port_free e udp_port)) ResourceConflictError) (\<lambda>_.
     res_bind (guard (py_strip name \<noteq> []) (DriverValidationError ''listener_name_required'')) (\<lambda>_.
     on_integrity ResourceConflictError
       (res_bind (commit (add_audit (op_audit e 0 actor_id ''listener.updated'' ''listener'' (uuid_str mapping_id)
            [(''name'', JStr (py_strip name)), (''udp_port'', JInt udp_port), (''enabled'', JBool en),
             (''version'', JInt (m_version m + 1))] client_ip)
            (d\<lparr>listener_mappings := row_upd m_id mapping_id
               (set_mapping e device_id name description udp_port source parameters en)
               (listener_mappings d)\<rparr>))) (\<lambda>d1.
        Inr (mapping_id, d1))))))))))))))"

definition listener_update :: "'k env \<Rightarrow> uuid \<Rightarrow> int \<Rightarrow> uuid \<Rightarrow> string \<Rightarrow> string option \<Rightarrow> int \<Rightarrow> string \<Rightarrow> dict
    \<Rightarrow> bool \<Rightarrow> uuid \<Rightarrow> string \<Rightarrow> db \<Rightarrow> (exn + listener_view) \<times> db" where
  "listener_update e mapping_id version device_id name description udp_port allowed_source_ip
       driver_parameters en actor_id client_ip d =
     and_then (atomic d (listener_update_tx e mapping_id version device_id name description udp_port
                           allowed_source_ip driver_parameters en actor_id client_ip d))
       (\<lambda>i. reading (listener_get i))"

definition listener_delete :: "'k env \<Rightarrow> uuid \<Rightarrow> uuid \<Rightarrow> string \<Rightarrow> db \<Rightarrow> (exn + unit) \<times> db" where
  "listener_delete e mapping_id actor_id client_ip d =
     atomic d
       (res_bind (of_option ResourceNotFoundError (row_get m_id mapping_id (listener_mappings d))) (\<lambda>m.
        res_bind (guard (filter (\<lambda>w. w_mapping_id w = mapping_id) (wake_events d) = []) ResourceInUseError) (\<lambda>_.
        res_bind (commit (add_audit (op_audit e 0 actor_id ''listener.deleted'' ''listener'' (uuid_str mapping_id)
             [(''name'', JStr (m_name m)), (''udp_port'', JInt (m_udp_port m))] client_ip)
             (d\<lparr>listener_mappings := row_del m_id mapping_id (listener_mappings d)\<rparr>))) (\<lambda>d1.
        Inr ((), d1)))))"

section \<open>The engine's state row\<close>

record engine_view =
  ev_desired_state :: string
  ev_observed_state :: string
  ev_heartbeat_at :: "time option"
  ev_last_transition_at :: "time option"
  ev_last_error :: "string option"
  ev_active_listeners :: nat
  ev_enabled_listeners :: nat

definition engine_get :: "db \<Rightarrow> exn + engine_view" where
  "engine_get d =
     (case engine d of
        None \<Rightarrow> Inl ResourceNotFoundError
      | Some s \<Rightarrow> Inr \<lparr>ev_desired_state = es_desired_state s, ev_observed_state = es_observed_state s,
          ev_heartbeat_at = es_heartbeat_at s, ev_last_transition_at = es_last_transition_at s,
          ev_last_error = es_last_error s,
          ev_active_listeners = length (filter (\<lambda>m. m_status m = ''active'') (listener_mappings d)),
          ev_enabled_listeners = length (filter m_enabled (listener_mappings d))\<rparr>)"

definition engine_transition :: "'k env \<Rightarrow> string \<Rightarrow> string \<Rightarrow> string option \<Rightarrow> uuid \<Rightarrow> string \<Rightarrow> db
    \<Rightarrow> (exn + engine_view) \<times> db" where
  "engine_transition e desired_state observed_state last_error actor_id client_ip d =
     and_then (atomic d
       (res_bind (of_option ResourceNotFoundError (engine d)) (\<lambda>s.
        res_bind (commit (add_audit (op_audit e 0 actor_id (''engine.'' @ desired_state) ''engine'' ''1''
             [(''observed_state'', JStr observed_state), (''last_error'', opt_str last_error)] client_ip)
             (d\<lparr>engine := Some (s\<lparr>es_desired_state := desired_state, es_observed_state := observed_state,
                es_last_error := last_error, es_last_transition_at := Some (e_now e 0),
                es_heartbeat_at := Some (e_now e 1)\<rparr>)\<rparr>))) (\<lambda>d1.
        Inr ((), d1))))) (\<lambda>_. reading engine_get)"

section \<open>Port allocation\<close>

lemma find_upto_least:
  "find P [lo .. hi] = Some p \<longleftrightarrow> lo \<le> p \<and> p \<le> hi \<and> P p \<and> (\<forall>q. lo \<le> q \<and> q < p \<longrightarrow> \<not> P q)"
proof (induction lo hi rule: upto.induct)
  case (1 lo hi)
  show ?case
  proof (cases "lo \<le> hi")
    case False
    then show ?thesis by simp
  next
    case True
    show ?thesis
    proof (cases "P lo")
      case P: True
      then show ?thesis using True by (auto simp: upto_rec1)
    next
      case P: False
      then have "find P [lo .. hi] = find P [lo + 1 .. hi]" using True by (simp add: upto_rec1)
      moreover have k: "lo \<le> q \<and> P q \<longleftrightarrow> lo + 1 \<le> q \<and> P q" for q
        using P by (auto simp: add1_zle_eq order_le_less)
      moreover have "(\<forall>q. lo + 1 \<le> q \<and> q < p \<longrightarrow> \<not> P q) \<longleftrightarrow> (\<forall>q. lo \<le> q \<and> q < p \<longrightarrow> \<not> P q)"
        using k by metis
      moreover have "P p \<Longrightarrow> lo + 1 \<le> p \<longleftrightarrow> lo \<le> p" using k by metis
      ultimately show ?thesis using 1 [OF True] by metis
    qed
  qed
qed

lemma find_upto_none: "find P [lo .. hi] = None \<longleftrightarrow> (\<forall>q. lo \<le> q \<and> q \<le> hi \<longrightarrow> \<not> P q)"
  by (auto simp: find_None_iff)

text \<open>
  Allocation gives the least port of the configured range that no listener has and that
  the host lets the service bind, and fails exactly when there is none.
\<close>

theorem allocate_port_least:
  "(allocate_port e st d = Inr p \<longleftrightarrow>
      as_udp_port_start st \<le> p \<and> p \<le> as_udp_port_end st
      \<and> p \<notin> m_udp_port ` set (listener_mappings d) \<and> e_port_free e p
      \<and> \<not> (\<exists>q. as_udp_port_start st \<le> q \<and> q < p
             \<and> q \<notin> m_udp_port ` set (listener_mappings d) \<and> e_port_free e q))
   \<and> (allocate_port e st d = Inl ResourceConflictError \<longleftrightarrow>
      \<not> (\<exists>q. as_udp_port_start st \<le> q \<and> q \<le> as_udp_port_end st
            \<and> q \<notin> m_udp_port ` set (listener_mappings d) \<and> e_port_free e q))"
  by (auto simp: allocate_port_def res_simps find_upto_least find_upto_none)

section \<open>Results of the operations\<close>

lemma validate_port_Inr [res_simps]:
  "validate_port st port ex d = Inr u \<longleftrightarrow> as_udp_port_start st \<le> port \<and> port \<le> as_udp_port_end st
     \<and> (\<forall>m \<in> set (listener_mappings d). m_udp_port m = port \<longrightarrow> Some (m_id m) = ex)"
  by (auto simp: validate_port_def guard_def filter_empty_conv)

lemma source_ip_Inr [res_simps]: "source_ip v = Inr s \<longleftrightarrow> normalize_ip (py_strip v) = Some s"
  by (simp add: source_ip_def res_simps)

lemma listener_create_tx_Inr:
  assumes "listener_create_tx e device_id name description udp_port allowed_source_ip driver_parameters en
      actor_id client_ip d = Inr (i, d')"
  obtains source st dev parameters port where "normalize_ip (py_strip allowed_source_ip) = Some source"
    and "app_settings d = Some st" and "row_get d_id device_id (devices d) = Some dev"
    and "en \<longrightarrow> d_enabled dev"
    and "validate_listener_parameters (lib_repr (e_lib e)) driver_parameters = Inr parameters"
    and "case udp_port of Some p \<Rightarrow> port = p | None \<Rightarrow> allocate_port e st d = Inr port"
    and "as_udp_port_start st \<le> port" and "port \<le> as_udp_port_end st"
    and "port \<notin> m_udp_port ` set (listener_mappings d)" and "e_port_free e port"
    and "py_strip name \<noteq> []" and "i = e_id e 0" and "integrity d'"
    and "d' = add_audit (op_audit e 1 actor_id ''listener.created'' ''listener'' (uuid_str (e_id e 0))
            [(''name'', JStr (py_strip name)), (''udp_port'', JInt port), (''enabled'', JBool en)] client_ip)
          (d\<lparr>listener_mappings := listener_mappings d
            @ [new_mapping e device_id name description port source parameters en]\<rparr>)"
proof -
  from assms obtain source st dev driver parameters port where
    "normalize_ip (py_strip allowed_source_ip) = Some source"
    "app_settings d = Some st" "row_get d_id device_id (devices d) = Some dev" "\<not> (en \<and> \<not> d_enabled dev)"
    "validate_listener_parameters (lib_repr (e_lib e)) driver_parameters = Inr parameters"
    "(case udp_port of Some p \<Rightarrow> Inr p | None \<Rightarrow> allocate_port e st d) = Inr port"
    "as_udp_port_start st \<le> port" "port \<le> as_udp_port_end st"
    "\<forall>m \<in> set (listener_mappings d). m_udp_port m = port \<longrightarrow> Some (m_id m) = None" "e_port_free e port"
    "py_strip name \<noteq> []" "i = e_id e 0" "integrity d'"
    "d' = add_audit (op_audit e 1 actor_id ''listener.created'' ''listener'' (uuid_str (e_id e 0))
            [(''name'', JStr (py_strip name)), (''udp_port'', JInt port), (''enabled'', JBool en)] client_ip)
          (d\<lparr>listener_mappings := listener_mappings d
            @ [new_mapping e device_id name description port source parameters en]\<rparr>)"
    unfolding listener_create_tx_def res_simps by blast
  then show ?thesis by (intro that [of source st dev parameters port]) (auto split: option.splits)
qed

lemma listener_update_tx_Inr:
  assumes "listener_update_tx e mapping_id version device_id name description udp_port allowed_source_ip
       driver_parameters en actor_id client_ip d = Inr (i, d')"
  obtains source m st dev parameters where "normalize_ip (py_strip allowed_source_ip) = Some source"
    and "row_get m_id mapping_id (listener_mappings d) = Some m" and "m_version m = version"
    and "app_settings d = Some st" and "row_get d_id device_id (devices d) = Some dev"
    and "en \<longrightarrow> d_enabled dev"
    and "validate_listener_parameters (lib_repr (e_lib e)) driver_parameters = Inr parameters"
    and "as_udp_port_start st \<le> udp_port" and "udp_port \<le> as_udp_port_end st"
    and "\<forall>m' \<in> set (listener_mappings d). m_udp_port m' = udp_port \<longrightarrow> m_id m' = mapping_id"
    and "py_strip name \<noteq> []" and "i = mapping_id" and "integrity d'"
    and "d' = add_audit (op_audit e 0 actor_id ''listener.updated'' ''listener'' (uuid_str mapping_id)
            [(''name'', JStr (py_strip name)), (''udp_port'', JInt udp_port), (''enabled'', JBool en),
             (''version'', JInt (version + 1))] client_ip)
            (d\<lparr>listener_mappings := row_upd m_id mapping_id
               (set_mapping e device_id name description udp_port source parameters en)
               (listener_mappings d)\<rparr>)"
proof -
  from assms obtain source m st dev driver parameters where
    "normalize_ip (py_strip allowed_source_ip) = Some source"
    "row_get m_id mapping_id (listener_mappings d) = Some m" "m_version m = version"
    "app_settings d = Some st" "row_get d_id device_id (devices d) = Some dev" "\<not> (en \<and> \<not> d_enabled dev)"
    "validate_listener_parameters (lib_repr (e_lib e)) driver_parameters = Inr parameters"
    "as_udp_port_start st \<le> udp_port" "udp_port \<le> as_udp_port_end st"
    "\<forall>m' \<in> set (listener_mappings d). m_udp_port m' = udp_port \<longrightarrow> Some (m_id m') = Some mapping_id"
    "py_strip name \<noteq> []" "i = mapping_id" "integrity d'"
    "d' = add_audit (op_audit e 0 actor_id ''listener.updated'' ''listener'' (uuid_str mapping_id)
            [(''name'', JStr (py_strip name)), (''udp_port'', JInt udp_port), (''enabled'', JBool en),
             (''version'', JInt (m_version m + 1))] client_ip)
            (d\<lparr>listener_mappings := row_upd m_id mapping_id
               (set_mapping e device_id name description udp_port source parameters en)
               (listener_mappings d)\<rparr>)"
    unfolding listener_update_tx_def res_simps by blast
  then show ?thesis by (intro that [of source m st dev parameters]) auto
qed

lemma set_mapping_fields [simp]:
  "m_id (set_mapping e i n ds p s ps en m) = m_id m"
  "m_device_id (set_mapping e i n ds p s ps en m) = i"
  "m_name (set_mapping e i n ds p s ps en m) = py_strip n"
  "m_udp_port (set_mapping e i n ds p s ps en m) = p"
  "m_allowed_source_ip (set_mapping e i n ds p s ps en m) = s"
  "m_driver_parameters (set_mapping e i n ds p s ps en m) = ps"
  "m_version (set_mapping e i n ds p s ps en m) = m_version m + 1"
  by (simp_all add: set_mapping_def)

text \<open>
  C31: no update is lost. When an update made with version \<open>v\<close> succeeds, the mapping's version is
  \<open>v + 1\<close>, and any further update made with the same version (and a valid source address)
  is refused as stale, whatever it would change, and changes nothing.
\<close>

theorem listener_update_no_lost_update:
  assumes "listener_update e mapping_id v device_id name description udp_port allowed_source_ip
      driver_parameters en actor_id client_ip d = (Inr view, d')"
    and "normalize_ip (py_strip source2) \<noteq> None"
  shows "map_option m_version (row_get m_id mapping_id (listener_mappings d')) = Some (v + 1)
    \<and> listener_update e2 mapping_id v device_id2 name2 description2 udp_port2 source2
        driver_parameters2 en2 actor_id2 client_ip2 d' = (Inl StaleVersionError, d')"
proof -
  from assms(1) obtain i where "listener_update_tx e mapping_id v device_id name description udp_port
      allowed_source_ip driver_parameters en actor_id client_ip d = Inr (i, d')"
    by (auto simp: listener_update_def res_simps reading_def)
  then obtain m source parameters where m: "row_get m_id mapping_id (listener_mappings d) = Some m" "m_version m = v"
    and d': "listener_mappings d' = row_upd m_id mapping_id
       (set_mapping e device_id name description udp_port source parameters en) (listener_mappings d)"
    by (rule listener_update_tx_Inr) simp
  have "row_get m_id mapping_id (listener_mappings d')
      = Some (set_mapping e device_id name description udp_port source parameters en m)"
    unfolding d' by (subst row_get_upd) (simp_all add: m)
  moreover obtain s2 where "normalize_ip (py_strip source2) = Some s2" using assms(2) by blast
  ultimately show ?thesis
    using m by (simp add: listener_update_def listener_update_tx_def source_ip_def guard_def
        atomic_def and_then_def)
qed

definition sample_device :: device where
  "sample_device = new_device sample_env ''fw'' ''fortigate_ssh'' sample_conf_valid True"

definition sample_mapping :: listener_mapping where
  "sample_mapping = (new_mapping sample_env 100 ''pc'' None 40000 ''10.0.0.9'' sample_params True)\<lparr>m_id := 200\<rparr>"

definition sample_db2 :: db where
  "sample_db2 = sample_db\<lparr>devices := [sample_device],
     device_credentials := [new_credential sample_env sample_cipher 100 sample_cred 1000],
     listener_mappings := [sample_mapping]\<rparr>"

lemmas sample_db2_eval = sample_db2_def sample_db_def empty_db_def sample_device_def sample_mapping_def
  sample_owner_def new_device_def new_mapping_def new_credential_def sample_env_simps

lemma sample_db2_integrity: "integrity sample_db2"
  by (simp add: integrity_defs sample_db2_eval)

lemma sample_update:
  "\<exists>view d'. listener_update sample_env 200 1 100 ''pc2'' None 40001 ''10.0.0.9'' sample_params True 1
     ''10.0.0.8'' sample_db2 = (Inr view, d')"
proof -
  have ip: "normalize_ip (py_strip ''10.0.0.9'') = Some ''10.0.0.9''" by (simp add: py_eval)
  have rows: "row_get m_id 200 [sample_mapping] = Some sample_mapping"
    "row_get d_id 100 (devices sample_db2) = Some sample_device"
    "\<exists>st. app_settings sample_db2 = Some st \<and> as_udp_port_start st = 40000 \<and> as_udp_port_end st = 40099"
    by (simp_all add: row_get_def sample_db2_eval)
  have vals: "m_version sample_mapping = 1" "d_enabled sample_device"
    "registry_get (d_driver_type sample_device) = Inr FortiGateSSHDriver"
    "py_strip ''pc2'' = ''pc2''" "listener_mappings sample_db2 = [sample_mapping]"
    "m_udp_port sample_mapping = 40000" "m_id sample_mapping = 200"
    by (simp_all add: sample_db2_eval registry_get_def registry_drivers_def type_key_def py_eval)
  obtain st where st: "app_settings sample_db2 = Some st" "as_udp_port_start st = 40000" "as_udp_port_end st = 40099"
    using rows(3) by blast
  let ?d = "add_audit (op_audit sample_env 0 1 ''listener.updated'' ''listener'' (uuid_str 200)
      [(''name'', JStr ''pc2''), (''udp_port'', JInt 40001), (''enabled'', JBool True), (''version'', JInt 2)] ''10.0.0.8'')
      (sample_db2\<lparr>listener_mappings := row_upd m_id 200
         (set_mapping sample_env 100 ''pc2'' None 40001 ''10.0.0.9'' sample_params True) (listener_mappings sample_db2)\<rparr>)"
  have int: "integrity ?d"
    by (simp add: integrity_defs sample_db2_eval mk_audit_def row_upd_def)
  then have "listener_update_tx sample_env 200 1 100 ''pc2'' None 40001 ''10.0.0.9'' sample_params True 1
     ''10.0.0.8'' sample_db2 = Inr (200, ?d)"
    by (simp add: listener_update_tx_def source_ip_def ip rows vals st sample_env_simps
        sample_params_validates validate_port_def commit_def)
  moreover have "\<exists>v. listener_get 200 ?d = Inr v"
    by (simp add: listener_get_def listener_rows_def row_upd_def vals)
      (simp add: sample_db2_eval)
  ultimately show ?thesis
    by (auto simp: listener_update_def atomic_def and_then_def reading_def)
qed

theorem listener_update_no_lost_update_witness:
  "\<exists>d'. map_option m_version (row_get m_id 200 (listener_mappings d')) = Some 2
     \<and> listener_update sample_env 200 1 100 ''other'' None 40002 ''10.0.0.7'' [] False 1 ''10.0.0.8'' d'
         = (Inl StaleVersionError, d')"
proof -
  obtain view d' where u: "listener_update sample_env 200 1 100 ''pc2'' None 40001 ''10.0.0.9'' sample_params
      True 1 ''10.0.0.8'' sample_db2 = (Inr view, d')" using sample_update by blast
  have "normalize_ip (py_strip ''10.0.0.7'') \<noteq> None" by (simp add: py_eval)
  from listener_update_no_lost_update [OF u this, of sample_env 100 "''other''" None 40002 "[]" False 1
      "''10.0.0.8''"] show ?thesis by auto
qed

end
