(* ===== verification/Engine_Runtime.thy ===== *)
theory Engine_Runtime
  imports Listener_Service Headless_Listener
begin

text \<open>
  \<^verbatim>\<open>app/application/engine_runtime.py\<close>: the managed UDP listeners of the web application and
  the engine that starts and stops them. The engine's state is the dictionary of running
  listeners and the limiter they share; the database holds what it reports.
\<close>

record runtime_mapping =
  rm_id :: uuid
  rm_device_id :: uuid
  rm_port :: int
  rm_allowed_source_ip :: string
  rm_driver_parameters :: dict

record runtime =
  rt_listeners :: "(uuid \<times> runtime_mapping) list"
  rt_limiter :: rate_limiter

section \<open>One datagram\<close>

datatype managed_log =
    ManagedRejectedSource string int
  | ManagedRejectedPacket string int
  | ManagedCompleted int string string int

definition duration_ms :: "rat \<Rightarrow> rat \<Rightarrow> int" where
  "duration_ms started finished = max 0 (py_round ((finished - started) * 1000))"

definition new_wake :: "'k env \<Rightarrow> runtime_mapping \<Rightarrow> string \<Rightarrow> string \<Rightarrow> int \<Rightarrow> string \<Rightarrow> int \<Rightarrow> wake_event" where
  "new_wake e rm mac src_ip source_port result dur =
     \<lparr>w_id = e_id e 0, w_mapping_id = rm_id rm, w_device_id = rm_device_id rm,
      w_event_type = ''wake_request'', w_mac_address = mac, w_source_ip = src_ip,
      w_source_port = source_port, w_result_code = result, w_duration_ms = Some dur,
      w_correlation_id = e_id e 1, w_occurred_at = e_db_now e\<rparr>"

definition record_wake :: "'k env \<Rightarrow> runtime_mapping \<Rightarrow> string \<Rightarrow> string \<Rightarrow> int \<Rightarrow> string \<Rightarrow> rat \<Rightarrow> db
    \<Rightarrow> (exn + managed_log list) \<times> db" where
  "record_wake e rm mac src_ip source_port result started d =
     (let dur = duration_ms started (e_mono e 2)
      in atomic d (res_bind (commit (d\<lparr>wake_events := wake_events d
             @ [new_wake e rm mac src_ip source_port result dur]\<rparr>)) (\<lambda>d1.
           Inr ([ManagedCompleted (rm_port rm) mac result dur], d1))))"

definition wake_attempt :: "'k env \<Rightarrow> runtime_mapping \<Rightarrow> string \<Rightarrow> db \<Rightarrow> (exn + unit) \<times> ssh_event list" where
  "wake_attempt e rm mac d =
     (case res_bind (runtime_material e (rm_device_id rm) d) (\<lambda>(driver_type, configuration, credentials).
           res_bind (registry_get driver_type) (\<lambda>_. Inr (configuration, credentials))) of
        Inl x \<Rightarrow> (Inl x, [])
      | Inr (configuration, credentials) \<Rightarrow>
          execute_wake (e_lib e) configuration credentials (rm_driver_parameters rm) mac)"

text \<open>The handler of the three expected errors; anything else is raised again.\<close>

fun wake_result :: "exn + unit \<Rightarrow> exn + string" where
  "wake_result (Inr _) = Inr ''success''"
| "wake_result (Inl (DriverOperationError m)) = Inr (if m = [] then ''device_unavailable'' else m)"
| "wake_result (Inl (CredentialCryptoError m)) = Inr (if m = [] then ''device_unavailable'' else m)"
| "wake_result (Inl ResourceConflictError) = Inr ''device_unavailable''"
| "wake_result (Inl e) = Inl e"

definition managed_handle :: "'k env \<Rightarrow> runtime_mapping \<Rightarrow> byte list \<Rightarrow> string \<Rightarrow> int \<Rightarrow> rate_limiter \<Rightarrow> db
    \<Rightarrow> (exn + managed_log list) \<times> ssh_event list \<times> rate_limiter \<times> db" where
  "managed_handle e rm data src_ip source_port rl d =
     (if src_ip \<noteq> rm_allowed_source_ip rm
      then (Inr [ManagedRejectedSource src_ip (rm_port rm)], [], rl, d)
      else case parse_magic_packet data of
        Inl (InvalidMagicPacketError _) \<Rightarrow> (Inr [ManagedRejectedPacket src_ip (rm_port rm)], [], rl, d)
      | Inl x \<Rightarrow> (Inl x, [], rl, d)
      | Inr packet \<Rightarrow>
          (let mac = mac_address packet; started = e_mono e 0
           in case rate_allow (rm_port rm) mac (e_mono e 1) rl of
                (False, rl') \<Rightarrow>
                  (case record_wake e rm mac src_ip source_port ''rate_limited'' started d of
                     (r, d') \<Rightarrow> (r, [], rl', d'))
              | (True, rl') \<Rightarrow>
                  (case wake_attempt e rm mac d of (r, tr) \<Rightarrow>
                     (case wake_result r of
                        Inl x \<Rightarrow> (Inl x, tr, rl', d)
                      | Inr result \<Rightarrow>
                          (case record_wake e rm mac src_ip source_port result started d of
                             (r', d') \<Rightarrow> (r', tr, rl', d'))))))"

section \<open>The engine\<close>

definition set_mapping_status :: "'k env \<Rightarrow> uuid \<Rightarrow> string \<Rightarrow> string option \<Rightarrow> db \<Rightarrow> exn + db" where
  "set_mapping_status e mapping_id st err d =
     commit (d\<lparr>listener_mappings := row_upd m_id mapping_id
       (\<lambda>m. m\<lparr>m_status := st, m_last_error := err, m_updated_at := e_db_now e\<rparr>) (listener_mappings d)\<rparr>)"

definition heartbeat :: "'k env \<Rightarrow> string \<Rightarrow> string \<Rightarrow> string option \<Rightarrow> db \<Rightarrow> exn + db" where
  "heartbeat e desired observed err d =
     (case engine d of
        None \<Rightarrow> Inr d
      | Some s \<Rightarrow> commit (d\<lparr>engine := Some (s\<lparr>es_desired_state := desired, es_observed_state := observed,
          es_last_error := err, es_heartbeat_at := Some (e_now e 0),
          es_last_transition_at := Some (e_now e 0)\<rparr>)\<rparr>))"

definition runtime_rows :: "db \<Rightarrow> listener_mapping list" where
  "runtime_rows d =
     filter (\<lambda>m. m_enabled m \<and> list_ex (\<lambda>dev. d_id dev = m_device_id m \<and> d_enabled dev) (devices d))
       (listener_mappings d)"

definition runtime_of :: "listener_mapping \<Rightarrow> runtime_mapping" where
  "runtime_of m = \<lparr>rm_id = m_id m, rm_device_id = m_device_id m, rm_port = m_udp_port m,
     rm_allowed_source_ip = m_allowed_source_ip m, rm_driver_parameters = m_driver_parameters m\<rparr>"

text \<open>Preparing one row: its material, its parameters and the socket.\<close>

definition prepare_listener :: "'k env \<Rightarrow> listener_mapping \<Rightarrow> db \<Rightarrow> exn + unit" where
  "prepare_listener e m d =
     res_bind (runtime_material e (m_device_id m) d) (\<lambda>(driver_type, configuration, credentials).
     res_bind (registry_get driver_type) (\<lambda>_.
     res_bind (validate_listener_parameters (lib_repr (e_lib e)) (m_driver_parameters m)) (\<lambda>_.
     guard (e_port_free e (m_udp_port m)) (NetError NetOS))))"

fun resume_loop :: "'k env \<Rightarrow> listener_mapping list \<Rightarrow> (uuid \<times> runtime_mapping) list \<Rightarrow> nat \<Rightarrow> db
    \<Rightarrow> (exn + nat) \<times> (uuid \<times> runtime_mapping) list \<times> db" where
  "resume_loop e [] ls failures d = (Inr failures, ls, d)"
| "resume_loop e (m # rows) ls failures d =
     (let failed = (\<lambda>reason.
            (case set_mapping_status e (m_id m) ''error'' (Some reason) d of
               Inl x \<Rightarrow> (Inl x, ls, d)
             | Inr d1 \<Rightarrow> resume_loop e rows ls (Suc failures) d1))
      in case prepare_listener e m d of
           Inr _ \<Rightarrow>
             (case set_mapping_status e (m_id m) ''active'' None d of
                Inl x \<Rightarrow> (Inl x, dict_set ls (m_id m) (runtime_of m), d)
              | Inr d1 \<Rightarrow> resume_loop e rows (dict_set ls (m_id m) (runtime_of m)) failures d1)
         | Inl (NetError _) \<Rightarrow> failed ''port_bind_failed''
         | Inl ResourceConflictError \<Rightarrow> failed []
         | Inl (CredentialCryptoError reason) \<Rightarrow> failed reason
         | Inl x \<Rightarrow> (Inl x, ls, d))"

definition engine_resume :: "'k env \<Rightarrow> runtime \<Rightarrow> db \<Rightarrow> (exn + string \<times> string option) \<times> runtime \<times> db" where
  "engine_resume e rt d =
     (let rt0 = rt\<lparr>rt_listeners := []\<rparr>
      in case app_settings d of
           None \<Rightarrow> (Inl AttributeError, rt0, d)
         | Some st \<Rightarrow>
             (case rate_limiter_init (Fin (of_int (as_rate_limit_seconds st))) of
                Inl x \<Rightarrow> (Inl x, rt0, d)
              | Inr rl \<Rightarrow>
                  (case resume_loop e (runtime_rows d) [] 0 d of
                     (Inl x, ls, d1) \<Rightarrow> (Inl x, \<lparr>rt_listeners = ls, rt_limiter = rl\<rparr>, d1)
                   | (Inr failures, ls, d1) \<Rightarrow>
                       (let observed = (if failures = 0 then ''active'' else ''degraded'');
                            err = (if failures = 0 then None
                                   else Some (nat_str failures @ ''_listener_failures''));
                            rt1 = \<lparr>rt_listeners = ls, rt_limiter = rl\<rparr>
                        in case heartbeat e ''active'' observed err d1 of
                             Inl x \<Rightarrow> (Inl x, rt1, d1)
                           | Inr d2 \<Rightarrow> (Inr (observed, err), rt1, d2)))))"

definition engine_pause :: "'k env \<Rightarrow> runtime \<Rightarrow> db \<Rightarrow> (exn + unit) \<times> runtime \<times> db" where
  "engine_pause e rt d =
     (let rt0 = rt\<lparr>rt_listeners := []\<rparr>
      in case commit (d\<lparr>listener_mappings := map (\<lambda>m. if m_status m = ''active''
                then m\<lparr>m_status := ''inactive'', m_last_error := None, m_updated_at := e_db_now e\<rparr>
                else m) (listener_mappings d)\<rparr>) of
           Inl x \<Rightarrow> (Inl x, rt0, d)
         | Inr d1 \<Rightarrow>
             (case heartbeat e ''paused'' ''paused'' None d1 of
                Inl x \<Rightarrow> (Inl x, rt0, d1)
              | Inr d2 \<Rightarrow> (Inr (), rt0, d2)))"

definition engine_shutdown :: "runtime \<Rightarrow> runtime" where
  "engine_shutdown rt = rt\<lparr>rt_listeners := []\<rparr>"

definition forget_result :: "(exn + 'a) \<times> runtime \<times> db \<Rightarrow> (exn + unit) \<times> runtime \<times> db" where
  "forget_result r = (case r of (x, rt, d) \<Rightarrow> (map_sum id (\<lambda>_. ()) x, rt, d))"

definition start_from_desired_state :: "'k env \<Rightarrow> runtime \<Rightarrow> db \<Rightarrow> (exn + unit) \<times> runtime \<times> db" where
  "start_from_desired_state e rt d =
     (let desired = (case engine d of None \<Rightarrow> ''paused'' | Some s \<Rightarrow> es_desired_state s)
      in if desired = ''active'' then forget_result (engine_resume e rt d) else engine_pause e rt d)"

definition reconcile_if_active :: "'k env \<Rightarrow> runtime \<Rightarrow> db \<Rightarrow> (exn + unit) \<times> runtime \<times> db" where
  "reconcile_if_active e rt d =
     (if (case engine d of None \<Rightarrow> False | Some s \<Rightarrow> es_desired_state s = ''active'')
      then forget_result (engine_resume e rt d) else (Inr (), rt, d))"

section \<open>What resuming does\<close>

lemma integrity_mappings_cong:
  assumes "map m_id ms = map m_id (listener_mappings d)"
    and "map m_udp_port ms = map m_udp_port (listener_mappings d)"
    and "map m_device_id ms = map m_device_id (listener_mappings d)"
  shows "integrity (d\<lparr>listener_mappings := ms\<rparr>) \<longleftrightarrow> integrity d"
proof -
  have "m_id ` set ms = mapping_ids d"
    using assms(1) by (metis set_map)
  moreover have "list_all (\<lambda>m. m_device_id m \<in> S) ms \<longleftrightarrow> list_all (\<lambda>m. m_device_id m \<in> S) (listener_mappings d)" for S
  proof -
    have "list_all (\<lambda>x. x \<in> S) (map m_device_id xs) \<longleftrightarrow> list_all (\<lambda>m. m_device_id m \<in> S) xs" for xs
      by (simp add: list.pred_map o_def)
    then show ?thesis using assms(3) by metis
  qed
  ultimately show ?thesis
    by (simp add: integrity_def listeners_ok_def assms(1,2))
qed

lemma set_mapping_status_ok:
  assumes "integrity d"
  shows "set_mapping_status e i st err d = Inr (d\<lparr>listener_mappings := row_upd m_id i
     (\<lambda>m. m\<lparr>m_status := st, m_last_error := err, m_updated_at := e_db_now e\<rparr>) (listener_mappings d)\<rparr>)"
proof -
  have "integrity (d\<lparr>listener_mappings := row_upd m_id i
     (\<lambda>m. m\<lparr>m_status := st, m_last_error := err, m_updated_at := e_db_now e\<rparr>) (listener_mappings d)\<rparr>)"
    using assms by (subst integrity_mappings_cong) (simp_all add: map_row_upd)
  then show ?thesis by (simp add: set_mapping_status_def commit_def)
qed

lemma prepare_listener_cong:
  "devices d' = devices d \<Longrightarrow> device_credentials d' = device_credentials d \<Longrightarrow>
     prepare_listener e m d' = prepare_listener e m d"
  by (simp add: prepare_listener_def runtime_material_def)

fun resume_reason :: "exn \<Rightarrow> string option" where
  "resume_reason (NetError _) = Some ''port_bind_failed''"
| "resume_reason ResourceConflictError = Some []"
| "resume_reason (CredentialCryptoError r) = Some r"
| "resume_reason _ = None"

text \<open>The row of a listener after the engine tried to start it with the preparation \<open>r\<close>.\<close>

definition resumed :: "'k env \<Rightarrow> exn + unit \<Rightarrow> listener_mapping \<Rightarrow> listener_mapping" where
  "resumed e r m =
     m\<lparr>m_status := (case r of Inr _ \<Rightarrow> ''active'' | Inl _ \<Rightarrow> ''error''),
       m_last_error := (case r of Inr _ \<Rightarrow> None | Inl x \<Rightarrow> resume_reason x),
       m_updated_at := e_db_now e\<rparr>"

definition startable :: "'k env \<Rightarrow> db \<Rightarrow> listener_mapping \<Rightarrow> bool" where
  "startable e d m \<longleftrightarrow> prepare_listener e m d = Inr ()"

lemma resume_loop_Cons:
  assumes "integrity d"
  shows "resume_loop e (m # rows) ls f d =
    (let d1 = d\<lparr>listener_mappings := row_upd m_id (m_id m) (resumed e (prepare_listener e m d)) (listener_mappings d)\<rparr>
     in case prepare_listener e m d of
          Inr _ \<Rightarrow> resume_loop e rows (dict_set ls (m_id m) (runtime_of m)) f d1
        | Inl x \<Rightarrow> if resume_reason x = None then (Inl x, ls, d) else resume_loop e rows ls (Suc f) d1)"
proof (cases "prepare_listener e m d")
  case (Inl x)
  then show ?thesis
    by (cases x) (auto simp: set_mapping_status_ok [OF assms] resumed_def [abs_def] Let_def)
next
  case (Inr u)
  then show ?thesis
    by (auto simp: set_mapping_status_ok [OF assms] resumed_def [abs_def] Let_def)
qed

lemma resumed_fields [simp]:
  "m_id (resumed e r m) = m_id m" "m_udp_port (resumed e r m) = m_udp_port m"
  "m_device_id (resumed e r m) = m_device_id m" "m_driver_parameters (resumed e r m) = m_driver_parameters m"
  "m_enabled (resumed e r m) = m_enabled m" "m_allowed_source_ip (resumed e r m) = m_allowed_source_ip m"
  "m_name (resumed e r m) = m_name m" "m_version (resumed e r m) = m_version m"
  by (simp_all add: resumed_def)

lemma dict_set_new: "k \<notin> fst ` set m \<Longrightarrow> dict_set m k v = m @ [(k, v)]"
  by (induction m k v rule: dict_set.induct) auto

definition resume_rows :: "'k env \<Rightarrow> db \<Rightarrow> listener_mapping list \<Rightarrow> listener_mapping \<Rightarrow> listener_mapping" where
  "resume_rows e d rows x =
     (case row_get m_id (m_id x) rows of None \<Rightarrow> x | Some m \<Rightarrow> resumed e (prepare_listener e m d) x)"

lemma resume_loop_result:
  assumes "integrity d" and "distinct (map m_id rows)" and "fst ` set ls \<inter> m_id ` set rows = {}"
    and "resume_loop e rows ls f d = (Inr n, ls', d')"
  shows "ls' = ls @ map (\<lambda>m. (m_id m, runtime_of m)) (filter (startable e d) rows)
    \<and> n = f + length (filter (\<lambda>m. \<not> startable e d m) rows)
    \<and> d' = d\<lparr>listener_mappings := map (resume_rows e d rows) (listener_mappings d)\<rparr>"
  using assms
proof (induction rows arbitrary: ls f d)
  case Nil
  then show ?case by (simp add: resume_rows_def row_simps map_idI)
next
  case (Cons m rows)
  let ?r = "prepare_listener e m d"
  define d1 where "d1 = d\<lparr>listener_mappings := row_upd m_id (m_id m) (resumed e ?r) (listener_mappings d)\<rparr>"
  have i1: "integrity d1"
    unfolding d1_def using Cons.prems(1) by (subst integrity_mappings_cong) (simp_all add: map_row_upd)
  have prep: "prepare_listener e x d1 = prepare_listener e x d" for x
    by (rule prepare_listener_cong) (simp_all add: d1_def)
  have st: "startable e d1 = startable e d" by (simp add: fun_eq_iff startable_def prep)
  have new: "m_id m \<notin> m_id ` set rows" "m_id m \<notin> fst ` set ls" using Cons.prems(2,3) by auto
  have rows: "map (resume_rows e d1 rows) (listener_mappings d1)
      = map (resume_rows e d (m # rows)) (listener_mappings d)"
  proof -
    have none: "row_get m_id (m_id m) rows = None" using new(1) by (simp add: row_get_None_iff)
    have "resume_rows e d1 rows (if m_id x = m_id m then resumed e ?r x else x)
        = resume_rows e d (m # rows) x" for x
      using none by (auto simp: resume_rows_def prep row_get_Cons split: option.splits)
    moreover have "listener_mappings d1
        = map (\<lambda>x. if m_id x = m_id m then resumed e ?r x else x) (listener_mappings d)"
      by (simp add: d1_def row_upd_def)
    ultimately show ?thesis by simp
  qed
  have d1': "d1\<lparr>listener_mappings := x\<rparr> = d\<lparr>listener_mappings := x\<rparr>" for x by (simp add: d1_def)
  note L = Cons.prems(4) [unfolded resume_loop_Cons [OF Cons.prems(1)] Let_def, folded d1_def]
  show ?case
  proof (cases ?r)
    case (Inr u)
    have "resume_loop e rows (ls @ [(m_id m, runtime_of m)]) f d1 = (Inr n, ls', d')"
      using L Inr new(2) by (simp add: dict_set_new)
    from Cons.IH [OF i1 _ _ this] Cons.prems(2,3) new show ?thesis
      using Inr by (simp add: st rows d1' startable_def)
  next
    case (Inl x)
    have "resume_loop e rows ls (Suc f) d1 = (Inr n, ls', d')"
      using L Inl by (simp split: if_splits)
    from Cons.IH [OF i1 _ _ this] Cons.prems(2,3) new show ?thesis
      using Inl by (simp add: st rows d1' startable_def)
  qed
qed

lemma heartbeat_ok:
  assumes "integrity d"
  shows "heartbeat e desired observed err d = Inr (d\<lparr>engine := map_option (\<lambda>s. s\<lparr>es_desired_state := desired,
    es_observed_state := observed, es_last_error := err, es_heartbeat_at := Some (e_now e 0),
    es_last_transition_at := Some (e_now e 0)\<rparr>) (engine d)\<rparr>)"
proof -
  have "integrity (d\<lparr>engine := x\<rparr>)" for x using assms by (simp add: integrity_def)
  then show ?thesis by (cases "engine d") (simp_all add: heartbeat_def commit_def)
qed

lemma resume_rows_selected:
  assumes "distinct (map m_id ms)" and "x \<in> set ms"
  shows "resume_rows e d (filter P ms) x = (if P x then resumed e (prepare_listener e x d) x else x)"
proof (cases "P x")
  case True
  have "distinct (map m_id (filter P ms))" using assms(1) by (rule distinct_map_filter)
  then have "row_get m_id (m_id x) (filter P ms) = Some x"
    using True assms(2) by (intro row_get_distinct) auto
  with True show ?thesis by (simp add: resume_rows_def)
next
  case False
  have "m_id x \<notin> m_id ` set (filter P ms)"
    using False assms by (auto simp: distinct_map inj_on_def)
  with False show ?thesis by (simp add: resume_rows_def row_get_None_iff [THEN iffD2])
qed

lemma engine_resume_Inr:
  assumes "integrity d" and "engine_resume e rt d = (Inr (observed, err), rt', d')"
  shows "rt_listeners rt' = map (\<lambda>m. (m_id m, runtime_of m)) (filter (startable e d) (runtime_rows d))
    \<and> listener_mappings d' = map (\<lambda>m. if m \<in> set (runtime_rows d)
          then resumed e (prepare_listener e m d) m else m) (listener_mappings d)
    \<and> observed = (if filter (\<lambda>m. \<not> startable e d m) (runtime_rows d) = [] then ''active'' else ''degraded'')
    \<and> engine d' = map_option (\<lambda>s. s\<lparr>es_desired_state := ''active'', es_observed_state := observed,
          es_last_error := err, es_heartbeat_at := Some (e_now e 0),
          es_last_transition_at := Some (e_now e 0)\<rparr>) (engine d)
    \<and> d' = d\<lparr>listener_mappings := listener_mappings d', engine := engine d'\<rparr>"
proof -
  obtain st rl n ls d1 where st: "app_settings d = Some st"
    and loop: "resume_loop e (runtime_rows d) [] 0 d = (Inr n, ls, d1)"
    and ls: "rt_listeners rt' = ls"
    and obs: "observed = (if n = 0 then ''active'' else ''degraded'')"
    and hb: "heartbeat e ''active'' observed err d1 = Inr d'"
    using assms(2) by (auto simp: engine_resume_def Let_def split: option.splits sum.splits prod.splits)
  have dist: "distinct (map m_id (listener_mappings d))"
    using assms(1) by (simp add: integrity_def listeners_ok_def)
  have d1: "ls = map (\<lambda>m. (m_id m, runtime_of m)) (filter (startable e d) (runtime_rows d))"
    "n = length (filter (\<lambda>m. \<not> startable e d m) (runtime_rows d))"
    "d1 = d\<lparr>listener_mappings := map (resume_rows e d (runtime_rows d)) (listener_mappings d)\<rparr>"
    using resume_loop_result [OF assms(1) _ _ loop] dist
    by (simp_all add: runtime_rows_def distinct_map_filter)
  have rows: "map (resume_rows e d (runtime_rows d)) (listener_mappings d)
      = map (\<lambda>m. if m \<in> set (runtime_rows d) then resumed e (prepare_listener e m d) m else m) (listener_mappings d)"
  proof (rule map_cong [OF refl])
    fix m assume "m \<in> set (listener_mappings d)"
    from resume_rows_selected [OF dist this, of e d] this
    show "resume_rows e d (runtime_rows d) m
        = (if m \<in> set (runtime_rows d) then resumed e (prepare_listener e m d) m else m)"
      unfolding runtime_rows_def by auto
  qed
  have "integrity d1" unfolding d1(3)
    using assms(1) by (subst integrity_mappings_cong) (auto simp: rows)
  then have d': "d' = d1\<lparr>engine := map_option (\<lambda>s. s\<lparr>es_desired_state := ''active'', es_observed_state := observed,
          es_last_error := err, es_heartbeat_at := Some (e_now e 0),
          es_last_transition_at := Some (e_now e 0)\<rparr>) (engine d1)\<rparr>"
    using hb by (simp add: heartbeat_ok)
  have "n = 0 \<longleftrightarrow> filter (\<lambda>m. \<not> startable e d m) (runtime_rows d) = []"
    by (simp add: d1(2))
  then show ?thesis using d' d1(1,3) ls obs rows by simp
qed

text \<open>
  C29: what the engine reports is what runs. After a resume that returns, the running listeners
  are exactly the enabled mappings of enabled devices whose material, parameters and port were
  usable; each of those has status \<^verbatim>\<open>active\<close>, each other selected mapping has status
  \<^verbatim>\<open>error\<close> with the reason, mappings that were not selected keep their row; the engine is
  reported \<^verbatim>\<open>active\<close> if every selected mapping runs and \<^verbatim>\<open>degraded\<close> otherwise.
\<close>

theorem engine_resume_reports_running:
  assumes "integrity d" and "engine_resume e rt d = (Inr (observed, err), rt', d')"
  shows "map fst (rt_listeners rt') = map m_id (filter (startable e d) (runtime_rows d))
    \<and> listener_mappings d' = map (\<lambda>m. if m \<in> set (runtime_rows d)
          then resumed e (prepare_listener e m d) m else m) (listener_mappings d)
    \<and> (observed = ''active'' \<longleftrightarrow> filter (\<lambda>m. \<not> startable e d m) (runtime_rows d) = [])
    \<and> map_option es_desired_state (engine d') = map_option (\<lambda>_. ''active'') (engine d)
    \<and> map_option es_observed_state (engine d') = map_option (\<lambda>_. observed) (engine d)
    \<and> devices d' = devices d \<and> device_credentials d' = device_credentials d
    \<and> wake_events d' = wake_events d \<and> audit_events d' = audit_events d \<and> users d' = users d"
proof -
  note r = engine_resume_Inr [OF assms]
  have "users d' = users (d\<lparr>listener_mappings := listener_mappings d', engine := engine d'\<rparr>)"
    "devices d' = devices (d\<lparr>listener_mappings := listener_mappings d', engine := engine d'\<rparr>)"
    "device_credentials d' = device_credentials (d\<lparr>listener_mappings := listener_mappings d', engine := engine d'\<rparr>)"
    "wake_events d' = wake_events (d\<lparr>listener_mappings := listener_mappings d', engine := engine d'\<rparr>)"
    "audit_events d' = audit_events (d\<lparr>listener_mappings := listener_mappings d', engine := engine d'\<rparr>)"
    using r by metis+
  with r show ?thesis by (simp add: option.map_comp o_def)
qed

text \<open>When preparing a row raises only what the engine handles, resuming returns.\<close>

definition handled :: "exn + unit \<Rightarrow> bool" where
  "handled r \<longleftrightarrow> (case r of Inr _ \<Rightarrow> True | Inl x \<Rightarrow> resume_reason x \<noteq> None)"

lemma resume_loop_returns:
  assumes "integrity d" and "\<forall>m \<in> set rows. handled (prepare_listener e m d)"
  shows "\<exists>n ls' d'. resume_loop e rows ls f d = (Inr n, ls', d') \<and> integrity d'"
  using assms
proof (induction rows arbitrary: ls f d)
  case (Cons m rows)
  let ?r = "prepare_listener e m d"
  define d1 where "d1 = d\<lparr>listener_mappings := row_upd m_id (m_id m) (resumed e ?r) (listener_mappings d)\<rparr>"
  have i1: "integrity d1"
    unfolding d1_def using Cons.prems(1) by (subst integrity_mappings_cong) (simp_all add: map_row_upd)
  have "prepare_listener e x d1 = prepare_listener e x d" for x
    by (rule prepare_listener_cong) (simp_all add: d1_def)
  with Cons.prems(2) have h: "\<forall>x \<in> set rows. handled (prepare_listener e x d1)" by simp
  note L = resume_loop_Cons [OF Cons.prems(1), of e m rows ls f, unfolded Let_def, folded d1_def]
  show ?case
  proof (cases ?r)
    case (Inr u)
    show ?thesis unfolding L using Cons.IH [OF i1 h] Inr by simp
  next
    case (Inl x)
    then have "resume_reason x \<noteq> None" using Cons.prems(2) by (simp add: handled_def)
    then show ?thesis unfolding L using Cons.IH [OF i1 h] Inl by simp
  qed
qed simp

lemma engine_resume_returns:
  assumes "integrity d" and "app_settings d = Some st" and "0 \<le> as_rate_limit_seconds st"
    and "\<forall>m \<in> set (runtime_rows d). handled (prepare_listener e m d)"
  shows "\<exists>observed err rt' d'. engine_resume e rt d = (Inr (observed, err), rt', d')"
proof -
  obtain n ls d1 where l: "resume_loop e (runtime_rows d) [] 0 d = (Inr n, ls, d1)" "integrity d1"
    using resume_loop_returns [OF assms(1,4)] by blast
  show ?thesis
    using assms(2,3) l by (simp add: engine_resume_def rate_limiter_init_def heartbeat_ok Let_def)
qed

lemma sample_db2_rows:
  "runtime_rows sample_db2 = [sample_mapping]"
  by (simp add: runtime_rows_def sample_db2_eval)

lemma sample_material:
  "\<exists>stored. runtime_material sample_env 100 sample_db2 = Inr (''fortigate_ssh'', sample_conf_valid, stored)"
proof -
  have "decrypt_credential sample_env (new_credential sample_env sample_cipher 100 sample_cred 1000)
      = Inr (sort_key fst sample_cred)"
    by (rule new_credential_decrypts(1) [OF _ _ _ sample_cred_validates])
      (simp_all add: sample_env_simps sample_crypto_correct)
  moreover have "row_get d_id 100 (devices sample_db2) = Some sample_device"
    "row_get dc_device_id 100 (device_credentials sample_db2)
       = Some (new_credential sample_env sample_cipher 100 sample_cred 1000)"
    "d_enabled sample_device" "d_driver_type sample_device = ''fortigate_ssh''"
    "d_configuration sample_device = sample_conf_valid"
    by (simp_all add: row_get_def sample_db2_def sample_device_def new_device_def sample_env_simps
        new_credential_def)
  ultimately show ?thesis by (simp add: runtime_material_def)
qed

lemma sample_startable: "startable sample_env sample_db2 sample_mapping"
proof -
  obtain stored where "runtime_material sample_env 100 sample_db2
      = Inr (''fortigate_ssh'', sample_conf_valid, stored)" using sample_material by blast
  moreover have "m_device_id sample_mapping = 100" "m_driver_parameters sample_mapping = sample_params"
    by (simp_all add: sample_mapping_def new_mapping_def)
  ultimately show ?thesis
    by (simp add: startable_def prepare_listener_def registry_get_def registry_drivers_def type_key_def
        sample_env_simps sample_params_validates)
qed

definition idle_runtime :: runtime where
  "idle_runtime = \<lparr>rt_listeners = [], rt_limiter = \<lparr>rl_interval = Fin 30, rl_last_allowed = Map.empty\<rparr>\<rparr>"

theorem engine_resume_reports_running_witness:
  "\<exists>rt' d'. engine_resume sample_env idle_runtime sample_db2 = (Inr (''active'', None), rt', d')
     \<and> map fst (rt_listeners rt') = [200]"
proof -
  obtain st where st: "app_settings sample_db2 = Some st" "0 \<le> as_rate_limit_seconds st"
    by (simp add: sample_db2_def sample_db_def)
  have "\<exists>observed err rt' d'. engine_resume sample_env idle_runtime sample_db2 = (Inr (observed, err), rt', d')"
    using sample_startable
    by (intro engine_resume_returns [OF sample_db2_integrity st])
      (simp add: sample_db2_rows startable_def handled_def)
  then obtain observed err rt' d' where
    r: "engine_resume sample_env idle_runtime sample_db2 = (Inr (observed, err), rt', d')" by blast
  note p = engine_resume_reports_running [OF sample_db2_integrity r]
  have o: "observed = ''active''" using p by (simp add: sample_db2_rows sample_startable)
  moreover have "err = None"
    using r o by (auto simp: engine_resume_def Let_def split: option.splits sum.splits prod.splits if_splits)
  moreover have "map fst (rt_listeners rt') = [200]"
    using p by (simp add: sample_db2_rows sample_startable) (simp add: sample_mapping_def)
  ultimately show ?thesis using r by auto
qed

text \<open>
  A mapping that is no longer selected keeps its row: the status \<^verbatim>\<open>active\<close> of a mapping whose
  device was disabled survives a resume although no listener runs for it.
\<close>

lemma engine_resume_keeps_stale_status:
  assumes "integrity d" and "engine_resume e rt d = (Inr r, rt', d')"
    and "m \<in> set (listener_mappings d)" and "m_status m = ''active''"
    and "\<And>dev. dev \<in> set (devices d) \<Longrightarrow> d_id dev = m_device_id m \<Longrightarrow> \<not> d_enabled dev"
  shows "m \<in> set (listener_mappings d') \<and> m_id m \<notin> fst ` set (rt_listeners rt')"
proof -
  obtain observed err where r: "r = (observed, err)" by (cases r)
  note p = engine_resume_Inr [OF assms(1,2) [unfolded r]]
  have no: "m \<notin> set (runtime_rows d)" using assms(5) by (auto simp: runtime_rows_def list_ex_iff)
  have "inj_on m_id (set (listener_mappings d))"
    using assms(1) by (simp add: integrity_def listeners_ok_def distinct_map)
  with no assms(3) have "m_id m \<notin> m_id ` set (runtime_rows d)"
    by (auto simp: runtime_rows_def inj_on_def)
  with p no assms(3) show ?thesis by (force simp: image_iff)
qed

section \<open>What pausing does\<close>

text \<open>
  After a pause no listener runs, no mapping has status \<^verbatim>\<open>active\<close>, mappings in another state
  keep their row, and the engine is reported paused. In a consistent database pausing always
  returns.
\<close>

theorem engine_pause_stops_all:
  assumes "integrity d"
  shows "\<exists>rt' d'. engine_pause e rt d = (Inr (), rt', d') \<and> rt_listeners rt' = []
    \<and> filter (\<lambda>m. m_status m = ''active'') (listener_mappings d') = []
    \<and> listener_mappings d' = map (\<lambda>m. if m_status m = ''active''
          then m\<lparr>m_status := ''inactive'', m_last_error := None, m_updated_at := e_db_now e\<rparr> else m)
          (listener_mappings d)
    \<and> map_option es_observed_state (engine d') = map_option (\<lambda>_. ''paused'') (engine d)
    \<and> map_option es_desired_state (engine d') = map_option (\<lambda>_. ''paused'') (engine d)"
proof -
  let ?f = "\<lambda>m. if m_status m = ''active''
    then m\<lparr>m_status := ''inactive'', m_last_error := None, m_updated_at := e_db_now e\<rparr> else m"
  let ?d = "d\<lparr>listener_mappings := map ?f (listener_mappings d)\<rparr>"
  have "integrity ?d" using assms by (subst integrity_mappings_cong) auto
  then show ?thesis
    by (auto simp: engine_pause_def commit_def heartbeat_ok option.map_comp o_def filter_empty_conv)
qed

theorem engine_pause_stops_all_witness:
  "\<exists>rt' d'. engine_pause sample_env idle_runtime sample_db2 = (Inr (), rt', d') \<and> rt_listeners rt' = []"
  using engine_pause_stops_all [OF sample_db2_integrity, of sample_env idle_runtime] by blast

section \<open>What a datagram does\<close>

lemma record_wake_cases:
  "record_wake e rm mac ip sport result started d = (r, d') \<Longrightarrow>
     (\<exists>w. r = Inr [ManagedCompleted (rm_port rm) mac result (duration_ms started (e_mono e 2))]
        \<and> d' = d\<lparr>wake_events := wake_events d @ [w]\<rparr> \<and> integrity d'
        \<and> w = new_wake e rm mac ip sport result (duration_ms started (e_mono e 2)))
     \<or> r = Inl IntegrityError \<and> d' = d"
  by (auto simp: record_wake_def Let_def commit_def atomic_def split: if_splits)

lemma wake_attempt_closed: "closed_trace (snd (wake_attempt e rm mac d))"
  by (auto simp: wake_attempt_def closed_trace_def [of "[]"] execute_wake_closed split: sum.split prod.split)



end
