(* ===== verification/Observability.thy ===== *)
theory Observability
  imports Listener_Service "HOL-Library.Multiset"
begin

text \<open>
  \<^verbatim>\<open>app/application/observability_service.py\<close>: the pages of wake and audit events, the CSV
  export, the dashboard, the retention and UDP range settings, and the retention job. What the
  database computes on text is the argument \<open>q\<close> of type \<^typ>\<open>sql_lib\<close>.
\<close>

section \<open>Filters and order\<close>

record wake_filter =
  wf_result_code :: "string option"
  wf_mapping_id :: "uuid option"
  wf_device_id :: "uuid option"
  wf_query :: "string option"
  wf_occurred_after :: "time option"
  wf_occurred_before :: "time option"

text \<open>A clause is added only when its argument is given; the empty string counts as not given.\<close>

definition given :: "string option \<Rightarrow> string option" where
  "given s = (if s = Some [] then None else s)"

definition clause :: "'a option \<Rightarrow> ('a \<Rightarrow> bool) \<Rightarrow> bool" where
  "clause x p = (case x of None \<Rightarrow> True | Some v \<Rightarrow> p v)"

definition like_pattern :: "string \<Rightarrow> string" where
  "like_pattern query = ''%'' @ py_strip query @ ''%''"

definition wake_filters :: "sql_lib \<Rightarrow> wake_filter \<Rightarrow> wake_event \<Rightarrow> bool" where
  "wake_filters q f w \<longleftrightarrow>
     clause (given (wf_result_code f)) (\<lambda>r.
       if r = ''failed'' then w_result_code w \<notin> {''success'', ''rate_limited''} else w_result_code w = r)
     \<and> clause (wf_mapping_id f) (\<lambda>i. w_mapping_id w = i)
     \<and> clause (wf_device_id f) (\<lambda>i. w_device_id w = i)
     \<and> clause (given (wf_query f)) (\<lambda>s.
         sql_ilike q (w_mac_address w) (like_pattern s)
         \<or> sql_ilike q (w_source_ip w) (like_pattern s)
         \<or> sql_ilike q (uuid_str (w_correlation_id w)) (like_pattern s))
     \<and> clause (wf_occurred_after f) (\<lambda>t. t \<le> w_occurred_at w)
     \<and> clause (wf_occurred_before f) (\<lambda>t. w_occurred_at w \<le> t)"

text \<open>The inner join of events with the names of their listener and device.\<close>

definition wake_join :: "db \<Rightarrow> wake_event list \<Rightarrow> (wake_event \<times> string \<times> string) list" where
  "wake_join d ws =
     [(w, m_name m, d_name dev). w \<leftarrow> ws,
        m \<leftarrow> filter (\<lambda>m. m_id m = w_mapping_id w) (listener_mappings d),
        dev \<leftarrow> filter (\<lambda>dev. d_id dev = w_device_id w) (devices d)]"

text \<open>\<^verbatim>\<open>ORDER BY occurred_at DESC, id DESC\<close>.\<close>

definition newest_first :: "('a \<Rightarrow> time) \<Rightarrow> ('a \<Rightarrow> uuid) \<Rightarrow> 'a list \<Rightarrow> 'a list" where
  "newest_first stamp ident rows = sort_key (\<lambda>r. - stamp r) (sort_key (\<lambda>r. - uint (ident r)) rows)"

definition wake_rows :: "sql_lib \<Rightarrow> wake_filter \<Rightarrow> db \<Rightarrow> (wake_event \<times> string \<times> string) list" where
  "wake_rows q f d =
     newest_first (\<lambda>(w, _). w_occurred_at w) (\<lambda>(w, _). w_id w)
       (wake_join d (filter (wake_filters q f) (wake_events d)))"

section \<open>Pages\<close>

record 'a page =
  pg_items :: "'a list"
  pg_page :: int
  pg_page_size :: int
  pg_total :: int
  pg_pages :: int

text \<open>
  \<^verbatim>\<open>OFFSET\<close> and \<^verbatim>\<open>LIMIT\<close> refuse negative numbers; a page size of zero fails only when the
  number of pages is computed.
\<close>

definition paginate :: "nat \<Rightarrow> 'a list \<Rightarrow> int \<Rightarrow> int \<Rightarrow> exn + 'a page" where
  "paginate tot rows page page_size =
     res_bind (guard (0 \<le> (page - 1) * page_size \<and> 0 \<le> page_size) DataError) (\<lambda>_.
     res_bind (guard (page_size \<noteq> 0) ZeroDivisionError) (\<lambda>_.
     Inr \<lparr>pg_items = take (nat page_size) (drop (nat ((page - 1) * page_size)) rows),
          pg_page = page, pg_page_size = page_size, pg_total = int tot,
          pg_pages = max 1 ((int tot + page_size - 1) div page_size)\<rparr>))"

record wake_view =
  wv_id :: string
  wv_mapping_id :: string
  wv_mapping_name :: string
  wv_device_id :: string
  wv_device_name :: string
  wv_event_type :: string
  wv_mac_address :: string
  wv_source_ip :: string
  wv_source_port :: int
  wv_result_code :: string
  wv_duration_ms :: "int option"
  wv_correlation_id :: string
  wv_occurred_at :: time

definition mk_wake_view :: "wake_event \<times> string \<times> string \<Rightarrow> wake_view" where
  "mk_wake_view r =
     (case r of (w, mapping_name, device_name) \<Rightarrow>
       \<lparr>wv_id = uuid_str (w_id w), wv_mapping_id = uuid_str (w_mapping_id w),
        wv_mapping_name = mapping_name, wv_device_id = uuid_str (w_device_id w),
        wv_device_name = device_name, wv_event_type = w_event_type w,
        wv_mac_address = w_mac_address w, wv_source_ip = w_source_ip w,
        wv_source_port = w_source_port w, wv_result_code = w_result_code w,
        wv_duration_ms = w_duration_ms w, wv_correlation_id = uuid_str (w_correlation_id w),
        wv_occurred_at = w_occurred_at w\<rparr>)"

definition list_wake_events :: "sql_lib \<Rightarrow> wake_filter \<Rightarrow> int \<Rightarrow> int \<Rightarrow> db \<Rightarrow> exn + wake_view page" where
  "list_wake_events q f page page_size d =
     (let tot = length (filter (wake_filters q f) (wake_events d))
      in paginate tot (map mk_wake_view (wake_rows q f d)) page page_size)"

record audit_view =
  av_id :: string
  av_actor :: string
  av_action :: string
  av_object_type :: string
  av_object_id :: "string option"
  av_safe_changes :: dict
  av_client_ip :: string
  av_occurred_at :: time

text \<open>The outer join of audit events with the actor's name.\<close>

definition audit_join :: "db \<Rightarrow> (audit_event \<times> string option) list" where
  "audit_join d =
     [(a, map_option u_username u). a \<leftarrow> audit_events d,
        u \<leftarrow> outer (filter (\<lambda>u. Some (u_id u) = a_actor_user_id a) (users d))]"

text \<open>A comparison with a null column is not true.\<close>

definition ilike_opt :: "sql_lib \<Rightarrow> string option \<Rightarrow> string \<Rightarrow> bool" where
  "ilike_opt q v p = (case v of None \<Rightarrow> False | Some s \<Rightarrow> sql_ilike q s p)"

definition audit_clauses :: "sql_lib \<Rightarrow> string option \<Rightarrow> string option \<Rightarrow> string option
    \<Rightarrow> audit_event \<times> string option \<Rightarrow> bool" where
  "audit_clauses q action object_type query r =
     (case r of (a, username) \<Rightarrow>
        clause (given action) (\<lambda>x. a_action a = x)
        \<and> clause (given object_type) (\<lambda>x. a_object_type a = x)
        \<and> clause (given query) (\<lambda>s. let p = like_pattern s in
             sql_ilike q (a_action a) p \<or> sql_ilike q (a_object_type a) p \<or> ilike_opt q (a_object_id a) p
             \<or> sql_ilike q (a_client_ip a) p \<or> ilike_opt q username p))"

definition mk_audit_view :: "audit_event \<times> string option \<Rightarrow> audit_view" where
  "mk_audit_view r =
     (case r of (a, username) \<Rightarrow>
       \<lparr>av_id = uuid_str (a_id a),
        av_actor = (case given username of None \<Rightarrow> ''system'' | Some n \<Rightarrow> n),
        av_action = a_action a, av_object_type = a_object_type a, av_object_id = a_object_id a,
        av_safe_changes = a_safe_changes a, av_client_ip = a_client_ip a,
        av_occurred_at = a_occurred_at a\<rparr>)"

definition list_audit_events :: "sql_lib \<Rightarrow> string option \<Rightarrow> string option \<Rightarrow> string option \<Rightarrow> int \<Rightarrow> int \<Rightarrow> db
    \<Rightarrow> exn + audit_view page" where
  "list_audit_events q action object_type query page page_size d =
     (let rows = filter (audit_clauses q action object_type query) (audit_join d)
      in paginate (length rows)
           (map mk_audit_view (newest_first (\<lambda>(a, _). a_occurred_at a) (\<lambda>(a, _). a_id a) rows))
           page page_size)"

section \<open>CSV export\<close>

definition csv_cell :: "string \<Rightarrow> string" where
  "csv_cell value =
     (if list_ex (\<lambda>p. starts_with p value) [''='', ''+'', ''-'', ''@''] then CHR 0x27 # value else value)"

text \<open>The writer of the \<^verbatim>\<open>csv\<close> module in its default dialect.\<close>

definition csv_special :: "char \<Rightarrow> bool" where
  "csv_special c \<longleftrightarrow> c = CHR '','' \<or> c = CHR 0x22 \<or> c = CHR 0x0D \<or> c = CHR 0x0A"

definition csv_field :: "string \<Rightarrow> string" where
  "csv_field s =
     (if list_ex csv_special s
      then [CHR 0x22] @ concat (map (\<lambda>c. if c = CHR 0x22 then [c, c] else [c]) s) @ [CHR 0x22]
      else s)"

definition csv_row :: "string list \<Rightarrow> string" where
  "csv_row cells = py_join '','' (map csv_field cells) @ [CHR 0x0D, CHR 0x0A]"

definition csv_header :: "string list" where
  "csv_header = [''occurred_at'', ''result'', ''mac_address'', ''mapping'', ''device'', ''source_ip'',
     ''source_port'', ''duration_ms'', ''correlation_id'']"

definition csv_cells :: "sql_lib \<Rightarrow> wake_event \<times> string \<times> string \<Rightarrow> string list" where
  "csv_cells q r =
     (case r of (w, mapping_name, device_name) \<Rightarrow>
       [sql_isoformat q (w_occurred_at w), csv_cell (w_result_code w), w_mac_address w,
        csv_cell mapping_name, csv_cell device_name, w_source_ip w, int_str (w_source_port w),
        (case w_duration_ms w of None \<Rightarrow> [] | Some n \<Rightarrow> int_str n), uuid_str (w_correlation_id w)])"

definition wake_events_csv :: "sql_lib \<Rightarrow> wake_filter \<Rightarrow> db \<Rightarrow> string" where
  "wake_events_csv q f d =
     concat (map csv_row (csv_header # map (csv_cells q) (take 10000 (wake_rows q f d))))"

section \<open>Dashboard\<close>

text \<open>\<^verbatim>\<open>GROUP BY result_code\<close> with the number of rows of each group, as a dictionary.\<close>

definition group_counts :: "wake_event list \<Rightarrow> (string \<times> nat) list" where
  "group_counts ws =
     (let codes = map w_result_code ws
      in map (\<lambda>c. (c, length (filter (\<lambda>x. x = c) codes))) (remdups codes))"

definition count_of :: "(string \<times> nat) list \<Rightarrow> string \<Rightarrow> nat" where
  "count_of g c = (case map_of g c of None \<Rightarrow> 0 | Some n \<Rightarrow> n)"

text \<open>
  The nearest double of a rational in the range of the quotients computed here: the significand
  has 53 bits, halves go to the even neighbour.
\<close>

definition double :: "rat \<Rightarrow> rat" where
  "double x =
     (case find (\<lambda>k. 2 ^ 52 \<le> x * 2 ^ k) [0..<1075] of
        None \<Rightarrow> 0
      | Some k \<Rightarrow> of_int (py_round (x * 2 ^ k)) / 2 ^ k)"

definition success_rate :: "nat \<Rightarrow> nat \<Rightarrow> rat option" where
  "success_rate successes tot =
     (if tot = 0 then None
      else Some (double (of_int (py_round (double (double (of_nat successes / of_nat tot) * 100) * 10)) / 10)))"

record bucket =
  bk_start :: time
  bk_success :: nat
  bk_rate_limited :: nat
  bk_failed :: int
  bk_total :: nat

definition series_bucket :: "time \<Rightarrow> nat \<Rightarrow> db \<Rightarrow> bucket" where
  "series_bucket start index d =
     (let bucket_start = start + hours (int index);
          bucket_end = bucket_start + hours 1;
          values = group_counts (filter (\<lambda>w. bucket_start \<le> w_occurred_at w \<and> w_occurred_at w < bucket_end)
                     (wake_events d));
          bucket_total = sum_list (map snd values);
          bucket_success = count_of values ''success'';
          bucket_limited = count_of values ''rate_limited''
      in \<lparr>bk_start = bucket_start, bk_success = bucket_success, bk_rate_limited = bucket_limited,
          bk_failed = int bucket_total - int bucket_success - int bucket_limited,
          bk_total = bucket_total\<rparr>)"

record dashboard_view =
  db_period_hours :: int
  db_total_requests :: nat
  db_success :: nat
  db_failed :: int
  db_rate_limited :: nat
  db_success_rate :: "rat option"
  db_healthy_devices :: nat
  db_total_devices :: nat
  db_series :: "bucket list"
  db_recent_events :: "wake_view list"

definition dashboard :: "'k env \<Rightarrow> int \<Rightarrow> db \<Rightarrow> exn + dashboard_view" where
  "dashboard e n d =
     (let finish = e_now e 0
      in res_bind (time_shift finish (- hours n)) (\<lambda>start.
         let grouped = group_counts (filter (\<lambda>w. start \<le> w_occurred_at w) (wake_events d));
             tot = sum_list (map snd grouped);
             successes = count_of grouped ''success'';
             limited = count_of grouped ''rate_limited''
         in Inr \<lparr>db_period_hours = n, db_total_requests = tot, db_success = successes,
              db_failed = int tot - int successes - int limited, db_rate_limited = limited,
              db_success_rate = success_rate successes tot,
              db_healthy_devices = length (filter (\<lambda>dev. d_health_status dev = ''healthy'') (devices d)),
              db_total_devices = length (devices d),
              db_series = map (\<lambda>i. series_bucket start i d) [0..<nat n],
              db_recent_events = map mk_wake_view
                (take 8 (sort_key (\<lambda>(w, _). - w_occurred_at w) (wake_join d (wake_events d))))\<rparr>))"

section \<open>Settings\<close>

text \<open>The range of ports that the container publishes, given to the service when it is built.\<close>

record published =
  published_udp_start :: int
  published_udp_end :: int

record settings_view =
  sv_udp_port_start :: int
  sv_udp_port_end :: int
  sv_udp_published_start :: int
  sv_udp_published_end :: int
  sv_udp_port_capacity :: int
  sv_udp_ports_used :: nat
  sv_rate_limit_seconds :: int
  sv_wake_event_retention_days :: int
  sv_audit_event_retention_days :: int
  sv_locale :: string
  sv_timezone :: string
  sv_updated_at :: time

definition mk_settings_view :: "published \<Rightarrow> application_settings \<Rightarrow> nat \<Rightarrow> settings_view" where
  "mk_settings_view pub st used_ports =
     \<lparr>sv_udp_port_start = as_udp_port_start st, sv_udp_port_end = as_udp_port_end st,
      sv_udp_published_start = published_udp_start pub, sv_udp_published_end = published_udp_end pub,
      sv_udp_port_capacity = as_udp_port_end st - as_udp_port_start st + 1,
      sv_udp_ports_used = used_ports, sv_rate_limit_seconds = as_rate_limit_seconds st,
      sv_wake_event_retention_days = as_wake_event_retention_days st,
      sv_audit_event_retention_days = as_audit_event_retention_days st,
      sv_locale = as_locale st, sv_timezone = as_timezone st, sv_updated_at = as_updated_at st\<rparr>"

definition get_settings :: "published \<Rightarrow> db \<Rightarrow> exn + settings_view" where
  "get_settings pub d =
     (case app_settings d of
        None \<Rightarrow> Inl ResourceNotFoundError
      | Some st \<Rightarrow> Inr (mk_settings_view pub st (length (listener_mappings d))))"

text \<open>
  An update of the row sets \<^verbatim>\<open>updated_at\<close> in the database when a column changes; the object the
  service returns holds it as well, since its loaded columns are refreshed from the statement.
\<close>

definition put_settings :: "'k env \<Rightarrow> application_settings \<Rightarrow> application_settings \<Rightarrow> db \<Rightarrow> application_settings \<times> db" where
  "put_settings e old new d =
     (let st = (if new = old then old else new\<lparr>as_updated_at := e_db_now e\<rparr>)
      in (st, d\<lparr>app_settings := Some st\<rparr>))"

definition update_retention :: "'k env \<Rightarrow> published \<Rightarrow> int \<Rightarrow> int \<Rightarrow> int \<Rightarrow> uuid \<Rightarrow> string \<Rightarrow> db
    \<Rightarrow> (exn + settings_view) \<times> db" where
  "update_retention e pub wake_days audit_days rate_limit_seconds actor_id client_ip d =
     atomic d
       (res_bind (of_option ResourceNotFoundError (app_settings d)) (\<lambda>old.
        let (st, d1) = put_settings e old (old\<lparr>as_wake_event_retention_days := wake_days,
              as_audit_event_retention_days := audit_days, as_rate_limit_seconds := rate_limit_seconds\<rparr>) d
        in res_bind (commit (add_audit (op_audit e 0 actor_id ''settings.retention_updated''
               ''application_settings'' ''1''
               [(''wake_event_retention_days'', JInt wake_days), (''audit_event_retention_days'', JInt audit_days),
                (''rate_limit_seconds'', JInt rate_limit_seconds)] client_ip) d1)) (\<lambda>d2.
           Inr (mk_settings_view pub st (length (listener_mappings d2)), d2))))"

definition update_udp_range :: "'k env \<Rightarrow> published \<Rightarrow> int \<Rightarrow> int \<Rightarrow> uuid \<Rightarrow> string \<Rightarrow> db
    \<Rightarrow> (exn + settings_view) \<times> db" where
  "update_udp_range e pub udp_start udp_end actor_id client_ip d =
     atomic d
       (res_bind (guard (\<not> (udp_start < published_udp_start pub \<or> udp_end > published_udp_end pub))
                    UdpRangeOutsidePublishedError) (\<lambda>_.
        res_bind (of_option ResourceNotFoundError (app_settings d)) (\<lambda>old.
        res_bind (guard (filter (\<lambda>m. m_udp_port m < udp_start \<or> m_udp_port m > udp_end) (listener_mappings d) = [])
                    UdpRangeExcludesListenersError) (\<lambda>_.
        let (st, d1) = put_settings e old (old\<lparr>as_udp_port_start := udp_start, as_udp_port_end := udp_end\<rparr>) d
        in res_bind (commit (add_audit (op_audit e 0 actor_id ''settings.udp_range_updated''
               ''application_settings'' ''1''
               [(''previous'', JObj [(''udp_port_start'', JInt (as_udp_port_start old)),
                                     (''udp_port_end'', JInt (as_udp_port_end old))]),
                (''current'', JObj [(''udp_port_start'', JInt udp_start), (''udp_port_end'', JInt udp_end)])]
               client_ip) d1)) (\<lambda>d2.
           Inr (mk_settings_view pub st (length (listener_mappings d2)), d2))))))"

section \<open>Retention\<close>

record cleanup_result =
  cr_acquired :: bool
  cr_wake_events :: nat
  cr_audit_events :: nat
  cr_sessions :: nat

text \<open>
  One run of the job. \<open>acquired\<close> is the answer of the advisory lock; the deletes are one
  transaction, and the lock is released whatever happens.
\<close>

definition cleanup :: "'k env \<Rightarrow> bool \<Rightarrow> db \<Rightarrow> (exn + cleanup_result) \<times> db" where
  "cleanup e acquired d =
     (let now = e_now e 0
      in if \<not> acquired
         then (Inr \<lparr>cr_acquired = False, cr_wake_events = 0, cr_audit_events = 0, cr_sessions = 0\<rparr>, d)
         else atomic d
           (res_bind (of_option NoResultFound (app_settings d)) (\<lambda>st.
            res_bind (time_shift now (- days (as_wake_event_retention_days st))) (\<lambda>wake_limit.
            res_bind (time_shift now (- days (as_audit_event_retention_days st))) (\<lambda>audit_limit.
            let d1 = d\<lparr>wake_events := filter (\<lambda>w. \<not> w_occurred_at w < wake_limit) (wake_events d),
                       audit_events := filter (\<lambda>a. \<not> a_occurred_at a < audit_limit) (audit_events d),
                       user_sessions := filter (\<lambda>s. \<not> s_expires_at s < now) (user_sessions d)\<rparr>
            in res_bind (commit d1) (\<lambda>d2.
               Inr (\<lparr>cr_acquired = True,
                     cr_wake_events = length (filter (\<lambda>w. w_occurred_at w < wake_limit) (wake_events d)),
                     cr_audit_events = length (filter (\<lambda>a. a_occurred_at a < audit_limit) (audit_events d)),
                     cr_sessions = length (filter (\<lambda>s. s_expires_at s < now) (user_sessions d))\<rparr>, d2)))))))"

text \<open>
  The worker: one run per interval until it is stopped; an exception of a run is logged and
  the loop goes on. The list holds, for each interval that elapsed, what the run drew.
\<close>

datatype retention_log = RetentionCleanup cleanup_result | RetentionFailed exn

fun retention_run :: "('k env \<times> bool) list \<Rightarrow> db \<Rightarrow> retention_log list \<times> db" where
  "retention_run [] d = ([], d)"
| "retention_run ((e, acquired) # rest) d =
     (case cleanup e acquired d of
        (r, d1) \<Rightarrow>
          (case retention_run rest d1 of
             (logs, d2) \<Rightarrow>
               ((case r of Inr c \<Rightarrow> RetentionCleanup c | Inl x \<Rightarrow> RetentionFailed x) # logs, d2)))"

section \<open>Pages cover everything\<close>

lemma wake_join_fst:
  assumes "integrity d" and "set ws \<subseteq> set (wake_events d)"
  shows "map fst (wake_join d ws) = ws"
  using assms(2)
proof (induction ws)
  case (Cons w ws)
  have "w_mapping_id w \<in> mapping_ids d" "w_device_id w \<in> device_ids d"
    using assms(1) Cons.prems by (auto simp: integrity_def wakes_ok_def list_all_iff)
  moreover have "distinct (map m_id (listener_mappings d))" "distinct (map d_id (devices d))"
    using assms(1) by (auto simp: integrity_def listeners_ok_def devices_ok_def)
  ultimately obtain m dev where "filter (\<lambda>m. m_id m = w_mapping_id w) (listener_mappings d) = [m]"
    and "filter (\<lambda>dev. d_id dev = w_device_id w) (devices d) = [dev]"
    using filter_key_single by metis
  with Cons show ?case by (simp add: wake_join_def)
qed (simp add: wake_join_def)

lemma mset_newest_first [simp]: "mset (newest_first stamp ident rows) = mset rows"
  by (simp add: newest_first_def)

lemma sorted_newest_first: "sorted_wrt (\<lambda>a b. stamp b \<le> stamp a) (newest_first stamp ident rows)"
proof -
  have "sorted (map (\<lambda>r. - stamp r) (newest_first stamp ident rows))"
    unfolding newest_first_def by (rule sorted_sort_key)
  then show ?thesis by (simp add: sorted_wrt_map)
qed

lemma concat_pages: "concat (map (\<lambda>i. take n (drop (i * n) xs)) [0..<k]) = take (k * n) xs"
proof (induction k)
  case (Suc k)
  have "take (Suc k * n) xs = take (k * n) xs @ take n (drop (k * n) xs)"
    by (metis add.commute mult_Suc take_add)
  with Suc show ?case by simp
qed simp

lemma enough_pages:
  fixes n tot :: int
  assumes "0 < n" and "0 \<le> tot"
  shows "tot \<le> max 1 ((tot + n - 1) div n) * n"
proof -
  have "tot + n - 1 < ((tot + n - 1) div n + 1) * n"
    using assms(1) by (metis add.commute div_mult_mod_eq mult.commute add_less_cancel_left
        pos_mod_bound distrib_left mult.right_neutral)
  then have "tot \<le> ((tot + n - 1) div n) * n" by (simp add: algebra_simps)
  also have "\<dots> \<le> max 1 ((tot + n - 1) div n) * n" using assms(1) by (intro mult_right_mono) auto
  finally show ?thesis .
qed

lemma upto_map: "[1 .. int k] = map (\<lambda>i. int i + 1) [0..<k]"
proof (induction k)
  case (Suc k)
  have "[1 .. int (Suc k)] = [1 .. int k] @ [int k + 1]"
    by (simp add: upto_rec2 add.commute)
  with Suc show ?case by simp
qed simp

text \<open>The pages of a list of rows: each has at most the page size, and together they are the rows.\<close>

lemma paginate_cover:
  assumes "0 < n" and "length rows = tot"
  defines "pages \<equiv> max 1 ((int tot + n - 1) div n)"
  defines "items \<equiv> (\<lambda>p. take (nat n) (drop (nat ((p - 1) * n)) rows))"
  shows "1 \<le> p \<Longrightarrow> paginate tot rows p n = Inr \<lparr>pg_items = items p, pg_page = p, pg_page_size = n,
           pg_total = int tot, pg_pages = pages\<rparr>"
    and "concat (map items [1 .. pages]) = rows"
proof -
  show "paginate tot rows p n = Inr \<lparr>pg_items = items p, pg_page = p, pg_page_size = n,
           pg_total = int tot, pg_pages = pages\<rparr>" if "1 \<le> p"
    using assms(1) that by (simp add: paginate_def pages_def items_def)
  have "items (int i + 1) = take (nat n) (drop (i * nat n) rows)" for i
    using assms(1) by (simp add: items_def nat_mult_distrib)
  moreover have k: "pages = int (nat pages)" by (simp add: pages_def)
  ultimately have "concat (map items [1 .. pages]) = take (nat pages * nat n) rows"
    by (subst k, subst upto_map) (simp add: o_def concat_pages)
  moreover have "tot \<le> nat pages * nat n"
  proof -
    have "int tot \<le> pages * n" unfolding pages_def using assms(1) by (intro enough_pages) auto
    then show ?thesis using assms(1) by (simp add: nat_mult_distrib [symmetric] nat_le_iff pages_def le_nat_iff)
  qed
  ultimately show "concat (map items [1 .. pages]) = rows" using assms(2) by simp
qed

lemma wake_rows_all:
  assumes "integrity d"
  shows "mset (map fst (wake_rows q f d)) = mset (filter (wake_filters q f) (wake_events d))"
    and "sorted_wrt (\<lambda>a b. w_occurred_at (fst b) \<le> w_occurred_at (fst a)) (wake_rows q f d)"
proof -
  have "mset (map fst (wake_rows q f d)) = mset (map fst (wake_join d (filter (wake_filters q f) (wake_events d))))"
    unfolding wake_rows_def mset_map mset_newest_first ..
  also have "\<dots> = mset (filter (wake_filters q f) (wake_events d))"
    by (subst wake_join_fst [OF assms]) auto
  finally show "mset (map fst (wake_rows q f d)) = mset (filter (wake_filters q f) (wake_events d))" .
  show "sorted_wrt (\<lambda>a b. w_occurred_at (fst b) \<le> w_occurred_at (fst a)) (wake_rows q f d)"
    using sorted_newest_first [of "\<lambda>(w, _). w_occurred_at w"] unfolding wake_rows_def
    by (auto simp: case_prod_unfold)
qed

lemma mk_wake_view_fields [simp]:
  "wv_id (mk_wake_view r) = uuid_str (w_id (fst r))" "wv_occurred_at (mk_wake_view r) = w_occurred_at (fst r)"
  by (simp_all add: mk_wake_view_def case_prod_unfold)

text \<open>
  Paging through the wake events loses and repeats nothing. In a consistent database and
  for any filter and positive page size, the pages from 1 to the reported number of pages, put
  together, list every event that passes the filter exactly once, newest first; the total is
  their number and no page is longer than the page size.
\<close>

theorem wake_pages_cover:
  assumes "integrity d" and "0 < n"
  shows "\<exists>pages items. (\<forall>p. 1 \<le> p \<longrightarrow> list_wake_events q f p n d = Inr \<lparr>pg_items = items p,
          pg_page = p, pg_page_size = n,
          pg_total = int (length (filter (wake_filters q f) (wake_events d))), pg_pages = pages\<rparr>)
    \<and> (\<forall>p. int (length (items p)) \<le> n)
    \<and> mset (map wv_id (concat (map items [1 .. pages])))
        = mset (map (\<lambda>w. uuid_str (w_id w)) (filter (wake_filters q f) (wake_events d)))
    \<and> sorted_wrt (\<lambda>a b. wv_occurred_at b \<le> wv_occurred_at a) (concat (map items [1 .. pages]))"
proof -
  let ?rows = "map mk_wake_view (wake_rows q f d)"
  let ?tot = "length (filter (wake_filters q f) (wake_events d))"
  let ?pages = "max 1 ((int ?tot + n - 1) div n)"
  let ?items = "\<lambda>p. take (nat n) (drop (nat ((p - 1) * n)) ?rows)"
  have len: "length ?rows = ?tot"
    using wake_rows_all(1) [OF assms(1), of q f] by (metis length_map mset_eq_length)
  have "mset (map wv_id ?rows) = image_mset (\<lambda>w. uuid_str (w_id w)) (mset (map fst (wake_rows q f d)))"
    by (simp add: multiset.map_comp o_def)
  then have ids: "mset (map wv_id ?rows) = mset (map (\<lambda>w. uuid_str (w_id w)) (filter (wake_filters q f) (wake_events d)))"
    unfolding wake_rows_all(1) [OF assms(1)] by simp
  have "sorted_wrt (\<lambda>a b. wv_occurred_at b \<le> wv_occurred_at a) ?rows"
    using wake_rows_all(2) [OF assms(1)] by (simp add: sorted_wrt_map)
  moreover have "int (length (?items p)) \<le> n" for p using assms(2) by auto
  moreover have "list_wake_events q f p n d = Inr \<lparr>pg_items = ?items p, pg_page = p, pg_page_size = n,
      pg_total = int ?tot, pg_pages = ?pages\<rparr>" if "1 \<le> p" for p
    unfolding list_wake_events_def Let_def by (rule paginate_cover(1) [OF assms(2) len that])
  ultimately show ?thesis
    using paginate_cover(2) [OF assms(2) len] ids by (intro exI [of _ ?pages] exI [of _ ?items]) simp
qed

definition no_filter :: wake_filter where
  "no_filter = \<lparr>wf_result_code = None, wf_mapping_id = None, wf_device_id = None, wf_query = None,
     wf_occurred_after = None, wf_occurred_before = None\<rparr>"

definition sample_sql :: sql_lib where
  "sample_sql = \<lparr>sql_lower = py_lower, sql_ilike = (\<lambda>s p. occurs_in (filter (\<lambda>c. c \<noteq> CHR ''%'') p) s),
     sql_isoformat = int_str\<rparr>"

theorem wake_pages_cover_witness:
  "integrity sample_db2 \<and> (\<exists>items. list_wake_events sample_sql no_filter 1 25 sample_db2
     = Inr \<lparr>pg_items = items, pg_page = 1, pg_page_size = 25, pg_total = 0, pg_pages = 1\<rparr>)"
proof -
  have "wake_events sample_db2 = []" by (simp add: sample_db2_def sample_db_def empty_db_def)
  moreover obtain pages items where "list_wake_events sample_sql no_filter 1 25 sample_db2 = Inr \<lparr>pg_items = items 1,
      pg_page = 1, pg_page_size = 25,
      pg_total = int (length (filter (wake_filters sample_sql no_filter) (wake_events sample_db2))), pg_pages = pages\<rparr>"
    using wake_pages_cover [OF sample_db2_integrity, of 25 sample_sql no_filter] by auto
  ultimately show ?thesis using sample_db2_integrity
    by (auto simp: list_wake_events_def paginate_def)
qed

section \<open>The dashboard adds up\<close>

lemma sum_list_remdups_count: "sum_list (map (\<lambda>c. length (filter (\<lambda>x. x = c) cs)) (remdups cs)) = length cs"
proof -
  have "length (filter (\<lambda>x. x = c) cs) = count_list cs c" for c
    by (induction cs) auto
  then show ?thesis
    by (simp add: sum_list_distinct_conv_sum_set sum_count_set)
qed

lemma group_counts_total: "sum_list (map snd (group_counts ws)) = length ws"
  using sum_list_remdups_count [of "map w_result_code ws"] by (simp add: group_counts_def Let_def o_def)

lemma count_of_group_counts: "count_of (group_counts ws) c = length (filter (\<lambda>w. w_result_code w = c) ws)"
proof (cases "c \<in> set (map w_result_code ws)")
  case True
  then have "map_of (group_counts ws) c = Some (length (filter (\<lambda>x. x = c) (map w_result_code ws)))"
    unfolding group_counts_def Let_def by (intro map_of_mapk_SomeI map_of_is_SomeI) (auto simp: o_def image_iff)
  then show ?thesis by (simp add: count_of_def filter_map o_def)
next
  case False
  then have "map_of (group_counts ws) c = None" by (auto simp: group_counts_def Let_def map_of_eq_None_iff)
  with False show ?thesis by (auto simp: count_of_def filter_empty_conv)
qed

definition failed_count :: "wake_event list \<Rightarrow> nat" where
  "failed_count ws = length (filter (\<lambda>w. w_result_code w \<notin> {''success'', ''rate_limited''}) ws)"

lemma count_partition:
  "int (length ws) - int (length (filter (\<lambda>w. w_result_code w = ''success'') ws))
     - int (length (filter (\<lambda>w. w_result_code w = ''rate_limited'') ws)) = int (failed_count ws)"
  by (induction ws) (auto simp: failed_count_def)

lemma series_bucket_eval:
  fixes start :: time and i :: nat
  defines "ws \<equiv> \<lambda>d. filter (\<lambda>w. start + hours (int i) \<le> w_occurred_at w
      \<and> w_occurred_at w < start + hours (int (Suc i))) (wake_events d)"
  shows "bk_total (series_bucket start i d) = length (ws d)"
    and "bk_failed (series_bucket start i d) = int (failed_count (ws d))"
  using count_partition [of "ws d"]
  by (simp_all add: series_bucket_def Let_def group_counts_total count_of_group_counts ws_def hours_def algebra_simps)

lemma buckets_total:
  "sum_list (map (\<lambda>i. bk_total (series_bucket start i d)) [0..<k])
     = length (filter (\<lambda>w. start \<le> w_occurred_at w \<and> w_occurred_at w < start + hours (int k)) (wake_events d))"
proof (induction k)
  case 0
  show ?case by (simp add: hours_def)
next
  case (Suc k)
  have split: "length (filter (\<lambda>w. a \<le> f w \<and> f w < (c::int)) ws)
      = length (filter (\<lambda>w. a \<le> f w \<and> f w < b) ws) + length (filter (\<lambda>w. b \<le> f w \<and> f w < c) ws)"
    if "a \<le> b" "b \<le> c" for a b c f and ws :: "wake_event list"
    using that by (induction ws) auto
  show ?case
    using Suc split [of start "start + hours (int k)" "start + hours (int (Suc k))" w_occurred_at "wake_events d"]
    by (simp add: series_bucket_eval hours_def)
qed

lemma py_round_mono: "x \<le> y \<Longrightarrow> py_round x \<le> py_round y"
proof -
  assume le: "x \<le> y"
  then have f: "\<lfloor>x\<rfloor> \<le> \<lfloor>y\<rfloor>" by (rule floor_mono)
  have b: "\<lfloor>z\<rfloor> \<le> py_round z \<and> py_round z \<le> \<lfloor>z\<rfloor> + 1" for z
    by (simp add: py_round_def Let_def)
  show ?thesis
  proof (cases "\<lfloor>x\<rfloor> = \<lfloor>y\<rfloor>")
    case True
    with le show ?thesis by (simp add: py_round_def Let_def)
  next
    case False
    with f b [of x] b [of y] show ?thesis by linarith
  qed
qed

lemma py_round_of_int [simp]: "py_round (of_int i) = i"
  by (simp add: py_round_def Let_def)

lemma double_bounds:
  assumes "0 \<le> x" and "x \<le> of_nat n"
  shows "0 \<le> double x" and "double x \<le> of_nat n"
proof -
  have "py_round (x * 2 ^ k) \<le> int n * 2 ^ k" for k
  proof -
    have "x * 2 ^ k \<le> of_int (int n * 2 ^ k)" using assms(2) by (simp add: mult_right_mono)
    then have "py_round (x * 2 ^ k) \<le> py_round (of_int (int n * 2 ^ k))" by (rule py_round_mono)
    then show ?thesis by (simp only: py_round_of_int)
  qed
  then have "of_int (py_round (x * 2 ^ k)) \<le> rat_of_int (int n * 2 ^ k)" for k
    by (simp only: of_int_le_iff)
  then show "double x \<le> of_nat n"
    by (auto simp: double_def divide_le_eq split: option.split)
  show "0 \<le> double x"
    using assms(1) by (auto simp: double_def py_round_mono_zero split: option.split)
qed

lemma success_rate_bounds:
  assumes "success_rate s t = Some r" and "s \<le> t"
  shows "0 \<le> r \<and> r \<le> 100"
proof -
  have t: "0 < t" using assms(1) by (auto simp: success_rate_def split: if_splits)
  let ?a = "double (of_nat s / of_nat t)" let ?b = "double (?a * 100)"
  have "of_nat s / of_nat t \<le> (of_nat 1 :: rat)" using assms(2) t by (simp add: divide_le_eq)
  from double_bounds [OF _ this] have a: "0 \<le> ?a" "?a \<le> 1" by simp_all
  then have "0 \<le> ?a * 100" "?a * 100 \<le> of_nat 100" by simp_all
  from double_bounds [OF this] have b: "0 \<le> ?b * 10" "?b * 10 \<le> of_int 1000" by simp_all
  then have "0 \<le> py_round (?b * 10)" "py_round (?b * 10) \<le> 1000"
    using py_round_mono [OF b(2)] py_round_mono_zero [OF b(1)] by (simp_all only: py_round_of_int)
  then have "0 \<le> rat_of_int (py_round (?b * 10)) / 10" "rat_of_int (py_round (?b * 10)) / 10 \<le> of_nat 100"
    by simp_all
  from double_bounds [OF this] show ?thesis using assms(1) t by (auto simp: success_rate_def)
qed


definition sample_wake :: wake_event where
  "sample_wake = \<lparr>w_id = 300, w_mapping_id = 200, w_device_id = 100, w_event_type = ''wake_request'',
     w_mac_address = ''AA:BB:CC:DD:EE:FF'', w_source_ip = ''10.0.0.9'', w_source_port = 9,
     w_result_code = ''success'', w_duration_ms = Some 12, w_correlation_id = 301, w_occurred_at = 10\<rparr>"

definition sample_db3 :: db where
  "sample_db3 = sample_db2\<lparr>wake_events := [sample_wake]\<rparr>"

lemma sample_db3_integrity: "integrity sample_db3"
  by (simp add: integrity_defs sample_db3_def sample_wake_def sample_db2_eval)


section \<open>The export can be read back\<close>

text \<open>
  A reader of the comma separated format: the fields of each record, quoted fields with doubled
  quotes, records ended by carriage return and line feed. It refuses anything else.
\<close>

datatype csv_state = FieldStart | Plain | Quoted | QuoteSeen | LineEnd

fun csv_read :: "csv_state \<Rightarrow> string \<Rightarrow> string list \<Rightarrow> string \<Rightarrow> string list list option" where
  "csv_read st cur acc [] = (if st = FieldStart \<and> acc = [] then Some [] else None)"
| "csv_read st cur acc (c # s) =
     (if st = Quoted then
        (if c = CHR 0x22 then csv_read QuoteSeen cur acc s else csv_read Quoted (cur @ [c]) acc s)
      else if st = LineEnd then
        (if c = CHR 0x0A then map_option (\<lambda>rows. (acc @ [cur]) # rows) (csv_read FieldStart [] [] s) else None)
      else if c = CHR 0x22 then
        (if st = FieldStart then csv_read Quoted [] acc s
         else if st = QuoteSeen then csv_read Quoted (cur @ [CHR 0x22]) acc s else None)
      else if c = CHR '','' then csv_read FieldStart [] (acc @ [cur]) s
      else if c = CHR 0x0D then csv_read LineEnd cur acc s
      else if st = QuoteSeen \<or> c = CHR 0x0A then None
      else csv_read Plain (cur @ [c]) acc s)"

definition csv_sep :: "char \<Rightarrow> bool" where
  "csv_sep c \<longleftrightarrow> c = CHR '','' \<or> c = CHR 0x0D"

lemma csv_read_plain:
  assumes "\<not> list_ex csv_special f"
  shows "csv_read Plain cur acc (f @ s) = csv_read Plain (cur @ f) acc s"
  using assms by (induction f arbitrary: cur) (auto simp: csv_special_def)

lemma csv_read_quoted:
  "csv_read Quoted cur acc (concat (map (\<lambda>c. if c = CHR 0x22 then [c, c] else [c]) f) @ CHR 0x22 # s)
     = csv_read QuoteSeen (cur @ f) acc s"
  by (induction f arbitrary: cur) auto

lemma csv_read_sep_any:
  assumes "csv_sep c" and "st \<in> {FieldStart, Plain, QuoteSeen}"
  shows "csv_read st cur acc (c # s) =
    (if c = CHR '','' then csv_read FieldStart [] (acc @ [cur]) s else csv_read LineEnd cur acc s)"
  using assms by (auto simp: csv_sep_def)

text \<open>After a written field, the reader stands at the separator with the field's text.\<close>

lemma csv_read_field:
  assumes "csv_sep c"
  shows "csv_read FieldStart [] acc (csv_field f @ c # s) =
    (if c = CHR '','' then csv_read FieldStart [] (acc @ [f]) s else csv_read LineEnd f acc s)"
proof (cases "list_ex csv_special f")
  case True
  then have "csv_field f @ c # s = CHR 0x22 # concat (map (\<lambda>c. if c = CHR 0x22 then [c, c] else [c]) f) @ CHR 0x22 # c # s"
    by (simp add: csv_field_def)
  then show ?thesis using csv_read_quoted [of "[]" acc f "c # s"] csv_read_sep_any [OF assms, of QuoteSeen f acc s]
    by simp
next
  case plain: False
  show ?thesis
  proof (cases f)
    case Nil
    then show ?thesis using csv_read_sep_any [OF assms, of FieldStart "[]" acc s] by (simp add: csv_field_def)
  next
    case (Cons x xs)
    then have "csv_read FieldStart [] acc (csv_field f @ c # s) = csv_read Plain [x] acc (xs @ c # s)"
      using plain by (auto simp: csv_field_def csv_special_def)
    also have "\<dots> = csv_read Plain f acc (c # s)"
      using csv_read_plain [of xs "[x]"] plain Cons by simp
    finally show ?thesis using csv_read_sep_any [OF assms, of Plain f acc s] by simp
  qed
qed

lemma csv_read_row:
  assumes "cells \<noteq> []"
  shows "csv_read FieldStart [] acc (csv_row cells @ s)
     = map_option (\<lambda>rows. (acc @ cells) # rows) (csv_read FieldStart [] [] s)"
  using assms
proof (induction cells arbitrary: acc)
  case (Cons f cells)
  show ?case
  proof (cases cells)
    case Nil
    then show ?thesis using csv_read_field [of "CHR 0x0D" acc f "CHR 0x0A # s"]
      by (simp add: csv_row_def csv_sep_def)
  next
    case (Cons g rest)
    then have "csv_row (f # cells) @ s = csv_field f @ CHR '','' # (csv_row cells @ s)" by (simp add: csv_row_def)
    with Cons.IH Cons csv_read_field [of "CHR '',''" acc f "csv_row cells @ s"] show ?thesis
      by (simp add: csv_sep_def)
  qed
qed simp

lemma csv_read_rows:
  "(\<And>r. r \<in> set rows \<Longrightarrow> r \<noteq> []) \<Longrightarrow> csv_read FieldStart [] [] (concat (map csv_row rows)) = Some rows"
  by (induction rows) (simp_all add: csv_read_row)

definition formula_start :: "string \<Rightarrow> bool" where
  "formula_start s \<longleftrightarrow> s \<noteq> [] \<and> hd s \<in> {CHR ''='', CHR ''+'', CHR ''-'', CHR ''@''}"

lemma csv_cell_safe: "\<not> formula_start (csv_cell s)"
  by (cases s) (auto simp: csv_cell_def formula_start_def starts_with_def)

text \<open>
  The export is a well-formed CSV text. A reader of the format gets back the header and then
  the nine cells of each of the first ten thousand events of the filter, in the order of the list
  view; and the cells of the result code, the listener name and the device name never start as a
  spreadsheet formula does.
\<close>

theorem wake_csv_reads_back:
  "csv_read FieldStart [] [] (wake_events_csv q f d)
     = Some (csv_header # map (csv_cells q) (take 10000 (wake_rows q f d)))
   \<and> \<not> list_ex (\<lambda>r. formula_start (csv_cells q r ! 1) \<or> formula_start (csv_cells q r ! 3)
          \<or> formula_start (csv_cells q r ! 4)) (wake_rows q f d)"
proof -
  have "csv_cells q r ! 1 = csv_cell (w_result_code (fst r))" "csv_cells q r ! 3 = csv_cell (fst (snd r))"
    "csv_cells q r ! 4 = csv_cell (snd (snd r))" "csv_cells q r \<noteq> []" for r
    by (simp_all add: csv_cells_def case_prod_unfold eval_nat_numeral)
  note cells = this
  have "csv_read FieldStart [] [] (wake_events_csv q f d)
     = Some (csv_header # map (csv_cells q) (take 10000 (wake_rows q f d)))"
    unfolding wake_events_csv_def by (rule csv_read_rows) (auto simp: csv_header_def csv_cells_def)
  then show ?thesis unfolding list_ex_iff cells using csv_cell_safe by blast
qed

section \<open>Settings and retention\<close>

lemma put_settings_fields:
  assumes "put_settings e old new d = (st, d')"
  shows "d' = d\<lparr>app_settings := Some st\<rparr>" and "as_udp_port_start st = as_udp_port_start new"
    and "as_udp_port_end st = as_udp_port_end new" and "as_rate_limit_seconds st = as_rate_limit_seconds new"
  using assms by (auto simp: put_settings_def Let_def)

lemma integrity_settings_audit:
  assumes "integrity d" and "actor_id \<in> user_ids d" and "i \<notin> a_id ` set (audit_events d)"
  shows "integrity (add_audit (mk_audit i t (Some actor_id) action ty oid ch ip) (d\<lparr>app_settings := Some st\<rparr>))
     \<longleftrightarrow> settings_ok (Some st)"
  using assms by (auto simp: integrity_def audits_ok_def mk_audit_def list_all_iff)

text \<open>
  When the range of listener ports may change. In a consistent database, with a known actor
  and a fresh audit identifier, the update is refused outside the published range, refused when a
  listener's port would fall outside the new range, refused by the table's check constraints when
  the range is not within 1024 to 65535, is empty or has more than 100 ports, and succeeds
  otherwise; on success every listener port lies in the new range and only the settings row and the audit table change.
\<close>

theorem update_udp_range_outcome:
  assumes "integrity d" and "actor_id \<in> user_ids d" and "e_id e 0 \<notin> a_id ` set (audit_events d)"
    and "app_settings d \<noteq> None" and "update_udp_range e pub a b actor_id ip d = (r, d')"
  shows "if a < published_udp_start pub \<or> b > published_udp_end pub
           then r = Inl UdpRangeOutsidePublishedError \<and> d' = d
         else if \<exists>m \<in> set (listener_mappings d). m_udp_port m < a \<or> m_udp_port m > b
           then r = Inl UdpRangeExcludesListenersError \<and> d' = d
         else if \<not> (1024 \<le> a \<and> a \<le> b \<and> b \<le> 65535 \<and> b - a + 1 \<le> 100)
           then r = Inl IntegrityError \<and> d' = d
         else (\<exists>view st audit. r = Inr view \<and> sv_udp_port_start view = a \<and> sv_udp_port_end view = b
           \<and> as_udp_port_start st = a \<and> as_udp_port_end st = b \<and> integrity d'
           \<and> d' = d\<lparr>app_settings := Some st, audit_events := audit_events d @ [audit]\<rparr>
           \<and> (\<forall>m \<in> set (listener_mappings d'). a \<le> m_udp_port m \<and> m_udp_port m \<le> b))"
proof -
  obtain old where old: "app_settings d = Some old" using assms(4) by blast
  obtain st d1 where put: "put_settings e old (old\<lparr>as_udp_port_start := a, as_udp_port_end := b\<rparr>) d = (st, d1)"
    by fastforce
  note st = put_settings_fields [OF put]
  define A where "A = op_audit e 0 actor_id ''settings.udp_range_updated'' ''application_settings'' ''1''
     [(''previous'', JObj [(''udp_port_start'', JInt (as_udp_port_start old)),
                           (''udp_port_end'', JInt (as_udp_port_end old))]),
      (''current'', JObj [(''udp_port_start'', JInt a), (''udp_port_end'', JInt b)])] ip"
  define ok where "ok \<longleftrightarrow> 1024 \<le> a \<and> a \<le> b \<and> b \<le> 65535 \<and> b - a + 1 \<le> 100"
  define out where "out \<longleftrightarrow> (\<exists>m \<in> set (listener_mappings d). m_udp_port m < a \<or> m_udp_port m > b)"
  have "integrity (add_audit A d1) \<longleftrightarrow> settings_ok (Some st)"
    unfolding st(1) A_def using assms(1-3) by (rule integrity_settings_audit)
  then have int: "integrity (add_audit A d1) \<longleftrightarrow> ok"
    by (auto simp: settings_ok_def st ok_def)
  have "filter (\<lambda>m. m_udp_port m < a \<or> m_udp_port m > b) (listener_mappings d) = [] \<longleftrightarrow> \<not> out"
    by (auto simp: filter_empty_conv out_def)
  then have eq: "(r, d') = (if a < published_udp_start pub \<or> b > published_udp_end pub
      then (Inl UdpRangeOutsidePublishedError, d)
      else if out then (Inl UdpRangeExcludesListenersError, d)
      else if \<not> ok then (Inl IntegrityError, d)
      else (Inr (mk_settings_view pub st (length (listener_mappings (add_audit A d1)))), add_audit A d1))"
    unfolding assms(5) [symmetric] update_udp_range_def
    by (simp add: old put guard_def commit_def atomic_def A_def [symmetric] int)
  have d1: "add_audit A d1 = d\<lparr>app_settings := Some st, audit_events := audit_events d @ [A]\<rparr>"
    by (simp add: st(1) add_audit_def)
  have good: "\<exists>view st audit. r = Inr view \<and> sv_udp_port_start view = a \<and> sv_udp_port_end view = b
       \<and> as_udp_port_start st = a \<and> as_udp_port_end st = b \<and> integrity d'
       \<and> d' = d\<lparr>app_settings := Some st, audit_events := audit_events d @ [audit]\<rparr>
       \<and> (\<forall>m \<in> set (listener_mappings d'). a \<le> m_udp_port m \<and> m_udp_port m \<le> b)"
    if "r = Inr (mk_settings_view pub st k)" "d' = add_audit A d1" "\<not> out" "ok" for k
    by (rule exI, rule exI [of _ st], rule exI [of _ A], intro conjI, rule that(1))
      (use that int d1 st in \<open>auto simp: mk_settings_view_def out_def not_less\<close>)
  show ?thesis
    unfolding ok_def [symmetric] out_def [symmetric] using eq good by (simp split: if_splits)
qed

theorem update_udp_range_outcome_witness:
  "\<exists>view d'. update_udp_range sample_env \<lparr>published_udp_start = 40000, published_udp_end = 40099\<rparr>
     40000 40049 1 ''10.0.0.9'' sample_db2 = (Inr view, d') \<and> sv_udp_port_end view = 40049"
proof -
  obtain r d' where u: "update_udp_range sample_env \<lparr>published_udp_start = 40000, published_udp_end = 40099\<rparr>
     40000 40049 1 ''10.0.0.9'' sample_db2 = (r, d')" by fastforce
  have "1 \<in> user_ids sample_db2" "e_id sample_env 0 \<notin> a_id ` set (audit_events sample_db2)"
    "app_settings sample_db2 \<noteq> None"
    "\<not> (\<exists>m \<in> set (listener_mappings sample_db2). m_udp_port m < 40000 \<or> m_udp_port m > 40049)"
    by (simp_all add: sample_db2_eval)
  with update_udp_range_outcome [OF sample_db2_integrity this(1-3) u] u show ?thesis by auto
qed

lemma integrity_prune:
  assumes "integrity d"
  shows "integrity (d\<lparr>wake_events := filter P (wake_events d), audit_events := filter Q (audit_events d),
      user_sessions := filter R (user_sessions d)\<rparr>)"
  using assms by (auto simp: integrity_def wakes_ok_def audits_ok_def sessions_ok_def list_all_iff
      intro: distinct_map_filter)

text \<open>
  C39: retention deletes exactly what is due. With the lock held and the settings row present, the
  job always succeeds on a consistent database whose retention periods reach back to a valid date:
  what remains are the wake and audit events not older than their period and the sessions that have
  not expired, the numbers reported are those of the deleted rows, nothing else changes, and a
  second run at the same time deletes nothing.
\<close>

theorem cleanup_exact:
  assumes "integrity d" and "app_settings d = Some st"
    and "time_shift (e_now e 0) (- days (as_wake_event_retention_days st)) = Inr wake_limit"
    and "time_shift (e_now e 0) (- days (as_audit_event_retention_days st)) = Inr audit_limit"
  shows "\<exists>r d'. cleanup e True d = (Inr r, d')
    \<and> d' = d\<lparr>wake_events := filter (\<lambda>w. e_now e 0 - days (as_wake_event_retention_days st) \<le> w_occurred_at w) (wake_events d),
            audit_events := filter (\<lambda>a. e_now e 0 - days (as_audit_event_retention_days st) \<le> a_occurred_at a) (audit_events d),
            user_sessions := filter (\<lambda>s. e_now e 0 \<le> s_expires_at s) (user_sessions d)\<rparr>
    \<and> integrity d'
    \<and> cr_wake_events r + length (wake_events d') = length (wake_events d)
    \<and> cr_audit_events r + length (audit_events d') = length (audit_events d)
    \<and> cr_sessions r + length (user_sessions d') = length (user_sessions d)
    \<and> cleanup e True d' = (Inr \<lparr>cr_acquired = True, cr_wake_events = 0, cr_audit_events = 0, cr_sessions = 0\<rparr>, d')"
proof -
  have lim: "wake_limit = e_now e 0 - days (as_wake_event_retention_days st)"
    "audit_limit = e_now e 0 - days (as_audit_event_retention_days st)"
    using assms(3,4) by (auto dest: time_shift_Inr)
  have neg: "(\<lambda>x. \<not> f x < (t::int)) = (\<lambda>x. t \<le> f x)" for f t by auto
  have split: "length (filter (\<lambda>x. f x < t) xs) + length (filter (\<lambda>x. (t::int) \<le> f x) xs) = length xs" for f t xs
    by (induction xs) auto
  note int = integrity_prune [OF assms(1)]
  show ?thesis
    using assms(2-4) int by (auto simp: cleanup_def Let_def commit_def atomic_def neg lim split
        filter_empty_conv not_less)
qed

theorem cleanup_exact_witness:
  "\<exists>r d'. cleanup (sample_env\<lparr>e_now := (\<lambda>_. days 91)\<rparr>) True sample_db3 = (Inr r, d')
     \<and> wake_events d' = [] \<and> cr_wake_events r = 1"
proof -
  let ?e = "sample_env\<lparr>e_now := (\<lambda>_. days 91)\<rparr>"
  obtain st where st: "app_settings sample_db3 = Some st" "as_wake_event_retention_days st = 90"
    "as_audit_event_retention_days st = 365" by (simp add: sample_db3_def sample_db2_eval)
  have w: "wake_events sample_db3 = [sample_wake]" "w_occurred_at sample_wake = 10"
    by (simp_all add: sample_db3_def sample_wake_def)
  have "time_shift (e_now ?e 0) (- days (as_wake_event_retention_days st)) = Inr (days 1)"
    "time_shift (e_now ?e 0) (- days (as_audit_event_retention_days st)) = Inr (days (-274))"
    by (simp_all add: time_shift_def days_def st)
  from cleanup_exact [OF sample_db3_integrity st(1) this] show ?thesis
    by (auto simp: w st days_def)
qed

end
