(* ===== verification/Auth_Service.thy ===== *)
theory Auth_Service
  imports Device_Service
begin

text \<open>
  \<^verbatim>\<open>app/application/auth_service.py\<close>: first-run setup of the owner, login, sessions, logout and
  recovery. The password hasher and SHA-256 are fields of \<open>auth_env\<close>, with the random draws and
  clock readings of one call. A session token is stored only as the hash of its text.
\<close>

datatype argon_outcome = Verified | VerifyMismatch | InvalidHash | VerificationFailed

record auth_env =
  ae_sql :: sql_lib
  ae_sha256 :: "byte list \<Rightarrow> byte list"
  ae_hash :: "nat \<Rightarrow> string \<Rightarrow> string"
  ae_verify :: "string \<Rightarrow> string \<Rightarrow> argon_outcome"
  ae_needs_rehash :: "string \<Rightarrow> bool"
  ae_token_bytes :: "byte list"
  ae_hex_bytes :: "byte list"
  ae_id :: "nat \<Rightarrow> uuid"
  ae_now :: "nat \<Rightarrow> time"
  ae_db_now :: time
  ae_session_hours :: int

section \<open>Tokens and hashes\<close>

text \<open>\<^verbatim>\<open>str.encode("utf-8")\<close> on the code points below 256.\<close>

definition utf8_char :: "char \<Rightarrow> byte list" where
  "utf8_char c = (if code c < 128 then [of_nat (code c)]
     else [of_nat (192 + code c div 64), of_nat (128 + code c mod 64)])"

definition utf8_bytes :: "string \<Rightarrow> byte list" where
  "utf8_bytes s = concat (map utf8_char s)"

definition token_hash :: "auth_env \<Rightarrow> string \<Rightarrow> string" where
  "token_hash e token = hexdigest (ae_sha256 e (utf8_bytes token))"

definition py_rstrip :: "char \<Rightarrow> string \<Rightarrow> string" where
  "py_rstrip c s = rev (dropWhile (\<lambda>x. x = c) (rev s))"

text \<open>\<^verbatim>\<open>secrets.token_urlsafe\<close> and \<^verbatim>\<open>secrets.token_hex\<close> of the bytes drawn.\<close>

definition token_urlsafe :: "byte list \<Rightarrow> string" where
  "token_urlsafe bs = py_rstrip (CHR ''='') (urlsafe_b64encode bs)"

fun chunks4 :: "nat \<Rightarrow> string \<Rightarrow> string list" where
  "chunks4 0 s = []"
| "chunks4 (Suc n) s = (if s = [] then [] else take 4 s # chunks4 n (drop 4 s))"

definition new_recovery_code :: "auth_env \<Rightarrow> string" where
  "new_recovery_code e =
     (let raw = py_upper (hexdigest (ae_hex_bytes e)) in py_join ''-'' (chunks4 (length raw) raw))"

text \<open>A hash that is missing or malformed does not verify; other failures of the hasher are raised.\<close>

definition verify_hash :: "auth_env \<Rightarrow> string option \<Rightarrow> string \<Rightarrow> exn + bool" where
  "verify_hash e stored_hash candidate =
     (case stored_hash of
        None \<Rightarrow> Inr False
      | Some h \<Rightarrow>
          if h = [] then Inr False
          else (case ae_verify e h candidate of
                  Verified \<Rightarrow> Inr True
                | VerifyMismatch \<Rightarrow> Inr False
                | InvalidHash \<Rightarrow> Inr False
                | VerificationFailed \<Rightarrow> Inl PasswordVerificationError))"

section \<open>Results\<close>

record authenticated_user =
  au_id :: uuid
  au_username :: string
  au_email :: string
  au_role :: string

record authentication_result =
  ar_user :: authenticated_user
  ar_session_token :: string
  ar_expires_at :: time
  ar_recovery_code :: "string option"

definition public_user :: "user \<Rightarrow> authenticated_user" where
  "public_user u = \<lparr>au_id = u_id u, au_username = u_username u, au_email = u_email u, au_role = u_role u\<rparr>"

section \<open>Operations\<close>

text \<open>The new row of a session: its identifier is draw \<open>i\<close>, its expiry counts from reading \<open>k\<close>.\<close>

definition new_session :: "auth_env \<Rightarrow> nat \<Rightarrow> nat \<Rightarrow> uuid \<Rightarrow> string \<Rightarrow> user_session" where
  "new_session e i k user_id client_ip =
     \<lparr>s_id = ae_id e i, s_user_id = user_id, s_token_hash = token_hash e (token_urlsafe (ae_token_bytes e)),
      s_expires_at = ae_now e k + hours (ae_session_hours e), s_revoked_at = None,
      s_client_ip = client_ip, s_created_at = ae_db_now e\<rparr>"

definition create_session :: "auth_env \<Rightarrow> nat \<Rightarrow> nat \<Rightarrow> uuid \<Rightarrow> string \<Rightarrow> db \<Rightarrow> (string \<times> time) \<times> db" where
  "create_session e i k user_id client_ip d =
     ((token_urlsafe (ae_token_bytes e), ae_now e k + hours (ae_session_hours e)),
      d\<lparr>user_sessions := user_sessions d @ [new_session e i k user_id client_ip]\<rparr>)"

definition auth_audit :: "auth_env \<Rightarrow> nat \<Rightarrow> uuid \<Rightarrow> string \<Rightarrow> string \<Rightarrow> string option \<Rightarrow> dict \<Rightarrow> string \<Rightarrow> audit_event" where
  "auth_audit e i actor action object_type object_id changes client_ip =
     mk_audit (ae_id e i) (ae_db_now e) (Some actor) action object_type object_id changes client_ip"

definition new_owner :: "auth_env \<Rightarrow> string \<Rightarrow> string \<Rightarrow> string \<Rightarrow> user" where
  "new_owner e username email password =
     \<lparr>u_id = ae_id e 0, u_username = py_strip username, u_email = py_lower (py_strip email),
      u_password_hash = Some (ae_hash e 0 password), u_role = ''owner'', u_enabled = True,
      u_last_login_at = Some (ae_now e 0), u_created_at = ae_db_now e\<rparr>"

definition new_recovery :: "auth_env \<Rightarrow> uuid \<Rightarrow> recovery_code" where
  "new_recovery e user_id =
     \<lparr>rc_user_id = user_id, rc_code_hash = ae_hash e 1 (new_recovery_code e),
      rc_created_at = ae_db_now e, rc_used_at = None\<rparr>"

definition create_owner :: "auth_env \<Rightarrow> string \<Rightarrow> string \<Rightarrow> string \<Rightarrow> string \<Rightarrow> db
    \<Rightarrow> (exn + authentication_result) \<times> db" where
  "create_owner e username email password client_ip d =
     atomic d
       (res_bind (of_option NoResultFound (app_settings d)) (\<lambda>_.
        res_bind (guard (filter (\<lambda>u. u_role u = ''owner'') (users d) = []) SetupAlreadyCompletedError) (\<lambda>_.
        let u = new_owner e username email password
        in res_bind (flush (d\<lparr>users := users d @ [u]\<rparr>)) (\<lambda>d1.
           let d2 = d1\<lparr>recovery_codes := recovery_codes d1 @ [new_recovery e (u_id u)]\<rparr>;
               ((token, expires), d3) = create_session e 1 1 (u_id u) client_ip d2
           in res_bind (commit (add_audit (auth_audit e 2 (u_id u) ''owner.created'' ''user''
                 (Some (uuid_str (u_id u))) [(''role'', JStr ''owner'')] client_ip) d3)) (\<lambda>d4.
              Inr (\<lparr>ar_user = public_user u, ar_session_token = token, ar_expires_at = expires,
                    ar_recovery_code = Some (new_recovery_code e)\<rparr>, d4))))))"

text \<open>The first row that the login query selects; its order among several matches is the table's.\<close>

definition login_user :: "auth_env \<Rightarrow> string \<Rightarrow> db \<Rightarrow> user option" where
  "login_user e identifier d =
     (let normalized = py_lower (py_strip identifier)
      in find (\<lambda>u. u_enabled u \<and> (sql_lower (ae_sql e) (u_username u) = normalized
                \<or> sql_lower (ae_sql e) (u_email u) = normalized)) (users d))"

definition logged_in :: "auth_env \<Rightarrow> string \<Rightarrow> user \<Rightarrow> user" where
  "logged_in e password u =
     (let u1 = (case u_password_hash u of
                  None \<Rightarrow> u
                | Some h \<Rightarrow> if ae_needs_rehash e h then u\<lparr>u_password_hash := Some (ae_hash e 0 password)\<rparr> else u)
      in u1\<lparr>u_last_login_at := Some (ae_now e 0)\<rparr>)"

definition login :: "auth_env \<Rightarrow> string \<Rightarrow> string \<Rightarrow> string \<Rightarrow> db \<Rightarrow> (exn + authentication_result) \<times> db" where
  "login e identifier password client_ip d =
     atomic d
       (res_bind (of_option InvalidCredentialsError (login_user e identifier d)) (\<lambda>u.
        res_bind (verify_hash e (u_password_hash u) password) (\<lambda>ok.
        res_bind (guard ok InvalidCredentialsError) (\<lambda>_.
        let d1 = d\<lparr>users := row_upd u_id (u_id u) (logged_in e password) (users d)\<rparr>;
            ((token, expires), d2) = create_session e 0 1 (u_id u) client_ip d1
        in res_bind (commit (add_audit (auth_audit e 1 (u_id u) ''auth.login'' ''session'' None [] client_ip) d2)) (\<lambda>d3.
           Inr (\<lparr>ar_user = public_user u, ar_session_token = token, ar_expires_at = expires,
                 ar_recovery_code = None\<rparr>, d3))))))"

definition session_live :: "time \<Rightarrow> user_session \<Rightarrow> bool" where
  "session_live now s \<longleftrightarrow> s_revoked_at s = None \<and> now < s_expires_at s"

definition current_user :: "auth_env \<Rightarrow> string \<Rightarrow> db \<Rightarrow> exn + authenticated_user option" where
  "current_user e token d =
     (case [u. s \<leftarrow> filter (\<lambda>s. s_token_hash s = token_hash e token \<and> session_live (ae_now e 0) s) (user_sessions d),
               u \<leftarrow> filter (\<lambda>u. u_id u = s_user_id s \<and> u_enabled u) (users d)] of
        [] \<Rightarrow> Inr None
      | [u] \<Rightarrow> Inr (Some (public_user u))
      | _ \<Rightarrow> Inl MultipleResultsFound)"

definition logout :: "auth_env \<Rightarrow> string \<Rightarrow> string \<Rightarrow> db \<Rightarrow> (exn + unit) \<times> db" where
  "logout e token client_ip d =
     (case find (\<lambda>s. s_token_hash s = token_hash e token \<and> s_revoked_at s = None) (user_sessions d) of
        None \<Rightarrow> (Inr (), d)
      | Some s \<Rightarrow>
          atomic d
            (res_bind (commit (add_audit (auth_audit e 0 (s_user_id s) ''auth.logout'' ''session''
                 (Some (uuid_str (s_id s))) [] client_ip)
               (d\<lparr>user_sessions := row_upd s_id (s_id s) (\<lambda>x. x\<lparr>s_revoked_at := Some (ae_now e 0)\<rparr>) (user_sessions d)\<rparr>)))
             (\<lambda>d1. Inr ((), d1))))"

text \<open>The bulk update that ends every open session of a user.\<close>

definition revoke_user :: "uuid \<Rightarrow> time \<Rightarrow> user_session list \<Rightarrow> user_session list" where
  "revoke_user user_id now ss =
     map (\<lambda>s. if s_user_id s = user_id \<and> s_revoked_at s = None then s\<lparr>s_revoked_at := Some now\<rparr> else s) ss"

definition recovery_rows :: "auth_env \<Rightarrow> string \<Rightarrow> db \<Rightarrow> (user \<times> recovery_code) list" where
  "recovery_rows e email d =
     [(u, r). u \<leftarrow> filter (\<lambda>u. sql_lower (ae_sql e) (u_email u) = py_lower (py_strip email)
                            \<and> u_role u = ''owner'' \<and> u_enabled u) (users d),
              r \<leftarrow> filter (\<lambda>r. rc_user_id r = u_id u \<and> rc_used_at r = None) (recovery_codes d)]"

definition recover_owner :: "auth_env \<Rightarrow> string \<Rightarrow> string \<Rightarrow> string \<Rightarrow> string \<Rightarrow> db
    \<Rightarrow> (exn + authentication_result) \<times> db" where
  "recover_owner e email recovery_code new_password client_ip d =
     atomic d
       (res_bind (case recovery_rows e email d of
                    [] \<Rightarrow> Inl InvalidCredentialsError
                  | [row] \<Rightarrow> Inr row
                  | _ \<Rightarrow> Inl MultipleResultsFound) (\<lambda>(u, stored_code).
        res_bind (verify_hash e (Some (rc_code_hash stored_code)) recovery_code) (\<lambda>ok.
        res_bind (guard ok InvalidCredentialsError) (\<lambda>_.
        let d1 = d\<lparr>users := row_upd u_id (u_id u) (\<lambda>x. x\<lparr>u_password_hash := Some (ae_hash e 0 new_password)\<rparr>) (users d),
                   user_sessions := revoke_user (u_id u) (ae_now e 0) (user_sessions d),
                   recovery_codes := row_upd rc_user_id (u_id u)
                     (\<lambda>r. r\<lparr>rc_code_hash := ae_hash e 1 (new_recovery_code e), rc_created_at := ae_now e 1,
                            rc_used_at := None\<rparr>) (recovery_codes d)\<rparr>;
            ((token, expires), d2) = create_session e 0 2 (u_id u) client_ip d1
        in res_bind (commit (add_audit (auth_audit e 1 (u_id u) ''auth.recovered'' ''user''
              (Some (uuid_str (u_id u))) [(''sessions_revoked'', JBool True)] client_ip) d2)) (\<lambda>d3.
           Inr (\<lparr>ar_user = public_user u, ar_session_token = token, ar_expires_at = expires,
                 ar_recovery_code = Some (new_recovery_code e)\<rparr>, d3))))))"

section \<open>Results of the operations\<close>

lemma create_owner_Inr:
  assumes "create_owner e username email password client_ip d = (Inr r, d')"
  shows "app_settings d \<noteq> None" and "\<forall>u \<in> set (users d). u_role u \<noteq> ''owner''" and "integrity d'"
    and "d' = add_audit (auth_audit e 2 (ae_id e 0) ''owner.created'' ''user''
           (Some (uuid_str (ae_id e 0))) [(''role'', JStr ''owner'')] client_ip)
         (d\<lparr>users := users d @ [new_owner e username email password],
            recovery_codes := recovery_codes d @ [new_recovery e (ae_id e 0)],
            user_sessions := user_sessions d @ [new_session e 1 1 (ae_id e 0) client_ip]\<rparr>)"
    and "r = \<lparr>ar_user = public_user (new_owner e username email password),
           ar_session_token = token_urlsafe (ae_token_bytes e),
           ar_expires_at = ae_now e 1 + hours (ae_session_hours e),
           ar_recovery_code = Some (new_recovery_code e)\<rparr>"
  using assms by (auto simp: create_owner_def res_simps Let_def create_session_def filter_empty_conv new_owner_def)

lemma login_Inr:
  assumes "login e identifier password client_ip d = (Inr r, d')"
  obtains u where "login_user e identifier d = Some u" and "verify_hash e (u_password_hash u) password = Inr True"
    and "integrity d'"
    and "d' = add_audit (auth_audit e 1 (u_id u) ''auth.login'' ''session'' None [] client_ip)
         (d\<lparr>users := row_upd u_id (u_id u) (logged_in e password) (users d),
            user_sessions := user_sessions d @ [new_session e 0 1 (u_id u) client_ip]\<rparr>)"
    and "r = \<lparr>ar_user = public_user u, ar_session_token = token_urlsafe (ae_token_bytes e),
           ar_expires_at = ae_now e 1 + hours (ae_session_hours e), ar_recovery_code = None\<rparr>"
  using assms by (auto simp: login_def res_simps Let_def create_session_def)

lemma recover_owner_Inr:
  assumes "recover_owner e email cand pw client_ip d = (Inr r, d')"
  obtains u rc where "recovery_rows e email d = [(u, rc)]"
    and "verify_hash e (Some (rc_code_hash rc)) cand = Inr True" and "integrity d'"
    and "d' = add_audit (auth_audit e 1 (u_id u) ''auth.recovered'' ''user''
              (Some (uuid_str (u_id u))) [(''sessions_revoked'', JBool True)] client_ip)
         (d\<lparr>users := row_upd u_id (u_id u) (\<lambda>x. x\<lparr>u_password_hash := Some (ae_hash e 0 pw)\<rparr>) (users d),
            user_sessions := revoke_user (u_id u) (ae_now e 0) (user_sessions d) @ [new_session e 0 2 (u_id u) client_ip],
            recovery_codes := row_upd rc_user_id (u_id u)
              (\<lambda>r. r\<lparr>rc_code_hash := ae_hash e 1 (new_recovery_code e), rc_created_at := ae_now e 1,
                     rc_used_at := None\<rparr>) (recovery_codes d)\<rparr>)"
    and "r = \<lparr>ar_user = public_user u, ar_session_token = token_urlsafe (ae_token_bytes e),
           ar_expires_at = ae_now e 2 + hours (ae_session_hours e), ar_recovery_code = Some (new_recovery_code e)\<rparr>"
proof -
  from assms obtain row where row: "recovery_rows e email d = [row]"
    by (auto simp: recover_owner_def res_simps split: list.splits)
  obtain u rc where "row = (u, rc)" by fastforce
  with row assms show ?thesis
    by (intro that [of u rc]) (auto simp: recover_owner_def res_simps Let_def create_session_def)
qed

lemma logged_in_fields [simp]:
  "u_id (logged_in e pw u) = u_id u" "u_username (logged_in e pw u) = u_username u"
  "u_email (logged_in e pw u) = u_email u" "u_role (logged_in e pw u) = u_role u"
  "u_enabled (logged_in e pw u) = u_enabled u" "public_user (logged_in e pw u) = public_user u"
  by (auto simp: logged_in_def public_user_def Let_def split: option.split)

lemma new_session_fields [simp]:
  "s_id (new_session e i k u ip) = ae_id e i" "s_user_id (new_session e i k u ip) = u"
  "s_token_hash (new_session e i k u ip) = token_hash e (token_urlsafe (ae_token_bytes e))"
  "s_expires_at (new_session e i k u ip) = ae_now e k + hours (ae_session_hours e)"
  "s_revoked_at (new_session e i k u ip) = None"
  by (simp_all add: new_session_def)

lemma login_user_Some:
  "login_user e identifier d = Some u \<Longrightarrow> u \<in> set (users d) \<and> u_enabled u"
  unfolding login_user_def Let_def by (auto simp: find_Some_iff)

section \<open>Sessions\<close>

text \<open>What a stored session authenticates: its user, while it is live and the user is enabled.\<close>

lemma current_user_stored:
  assumes "integrity d" and "s \<in> set (user_sessions d)" and "s_token_hash s = token_hash e token"
    and "u \<in> set (users d)" and "u_id u = s_user_id s"
  shows "current_user e token d
     = Inr (if session_live (ae_now e 0) s \<and> u_enabled u then Some (public_user u) else None)"
proof -
  have "distinct (map s_token_hash (user_sessions d))" "distinct (map u_id (users d))"
    using assms(1) by (simp_all add: integrity_def sessions_ok_def users_ok_def)
  from filter_key_pred [OF this(1) assms(2), of "session_live (ae_now e 0)"]
    filter_key_pred [OF this(2) assms(4), of u_enabled]
  show ?thesis unfolding current_user_def using assms(3,5) by simp
qed

lemma current_user_unknown:
  "token_hash e token \<notin> s_token_hash ` set (user_sessions d) \<Longrightarrow> current_user e token d = Inr None"
  by (simp add: current_user_def filter_key_absent)

text \<open>A token authenticates someone only through a live session of an enabled user.\<close>

lemma current_user_SomeD:
  assumes "current_user e token d = Inr (Some a)"
  shows "\<exists>s \<in> set (user_sessions d). \<exists>u \<in> set (users d). s_token_hash s = token_hash e token
     \<and> session_live (ae_now e 0) s \<and> u_id u = s_user_id s \<and> u_enabled u \<and> a = public_user u"
proof -
  let ?rows = "[u. s \<leftarrow> filter (\<lambda>s. s_token_hash s = token_hash e token \<and> session_live (ae_now e 0) s) (user_sessions d),
               u \<leftarrow> filter (\<lambda>u. u_id u = s_user_id s \<and> u_enabled u) (users d)]"
  from assms obtain u where u: "?rows = [u]" "a = public_user u"
    unfolding current_user_def by (auto split: list.splits)
  then have "u \<in> set ?rows" by simp
  with u(2) show ?thesis by auto
qed

lemma current_user_None:
  "(\<And>s. s \<in> set (user_sessions d) \<Longrightarrow> s_token_hash s = token_hash e token \<Longrightarrow> \<not> session_live (ae_now e 0) s)
     \<Longrightarrow> current_user e token d = Inr None"
proof -
  assume "\<And>s. s \<in> set (user_sessions d) \<Longrightarrow> s_token_hash s = token_hash e token \<Longrightarrow> \<not> session_live (ae_now e 0) s"
  then have "filter (\<lambda>s. s_token_hash s = token_hash e token \<and> session_live (ae_now e 0) s) (user_sessions d) = []"
    by (auto simp: filter_empty_conv)
  then show ?thesis by (simp add: current_user_def)
qed

lemma token_hash_cong: "ae_sha256 e' = ae_sha256 e \<Longrightarrow> token_hash e' token = token_hash e token"
  by (simp add: token_hash_def)

lemma logout_ends:
  assumes "integrity d" and "logout e token ip d = (Inr (), d')" and "ae_sha256 e' = ae_sha256 e"
  shows "current_user e' token d' = Inr None"
proof (rule current_user_None)
  fix s assume s: "s \<in> set (user_sessions d')" "s_token_hash s = token_hash e' token"
  then have h: "s_token_hash s = token_hash e token" using token_hash_cong [OF assms(3)] by simp
  show "\<not> session_live (ae_now e' 0) s"
  proof (cases "find (\<lambda>s. s_token_hash s = token_hash e token \<and> s_revoked_at s = None) (user_sessions d)")
    case None
    then have "d' = d" using assms(2) by (simp add: logout_def)
    with None s(1) h show ?thesis by (auto simp: find_None_iff session_live_def)
  next
    case (Some t)
    then have t: "t \<in> set (user_sessions d)" "s_token_hash t = token_hash e token" by (auto simp: find_Some_iff)
    have d': "user_sessions d' = row_upd s_id (s_id t) (\<lambda>x. x\<lparr>s_revoked_at := Some (ae_now e 0)\<rparr>) (user_sessions d)"
      using assms(2) Some by (auto simp: logout_def res_simps)
    have dist: "distinct (map s_token_hash (user_sessions d))"
      using assms(1) by (simp add: integrity_def sessions_ok_def)
    from s(1) obtain s0 where s0: "s0 \<in> set (user_sessions d)"
      "s = (if s_id s0 = s_id t then s0\<lparr>s_revoked_at := Some (ae_now e 0)\<rparr> else s0)"
      unfolding d' set_row_upd by blast
    then have "s_token_hash s0 = s_token_hash t" using h t(2) by (auto split: if_splits)
    then have "s0 = t" using dist s0(1) t(1) by (metis distinct_map inj_onD)
    with s0 show ?thesis by (simp add: session_live_def)
  qed
qed

text \<open>
  C34: the life of a session. A login succeeds only for an enabled user whose stored hash verifies
  the password. From then on the returned token authenticates exactly that user until the expiry
  time, and nobody from then on; after a logout with the token it authenticates nobody at any time.
\<close>

theorem session_lifecycle:
  assumes "login e identifier password client_ip d = (Inr r, d')"
    and "ae_sha256 e2 = ae_sha256 e" and "ae_sha256 e3 = ae_sha256 e"
  shows "(\<exists>u \<in> set (users d). u_enabled u \<and> public_user u = ar_user r
            \<and> verify_hash e (u_password_hash u) password = Inr True)
    \<and> current_user e2 (ar_session_token r) d'
        = Inr (if ae_now e2 0 < ar_expires_at r then Some (ar_user r) else None)
    \<and> (\<forall>d''. logout e2 (ar_session_token r) ip d' = (Inr (), d'') \<longrightarrow>
          current_user e3 (ar_session_token r) d'' = Inr None)"
proof -
  from assms(1) obtain u where u: "login_user e identifier d = Some u"
    and v: "verify_hash e (u_password_hash u) password = Inr True" and int: "integrity d'"
    and us: "users d' = row_upd u_id (u_id u) (logged_in e password) (users d)"
    and ss: "user_sessions d' = user_sessions d @ [new_session e 0 1 (u_id u) client_ip]"
    and r: "ar_user r = public_user u" "ar_session_token r = token_urlsafe (ae_token_bytes e)"
      "ar_expires_at r = ae_now e 1 + hours (ae_session_hours e)"
    by (rule login_Inr) simp
  note uD = login_user_Some [OF u]
  have "logged_in e password u \<in> set (users d')"
    unfolding us set_row_upd using uD by (intro bexI [of _ u]) simp_all
  moreover have "new_session e 0 1 (u_id u) client_ip \<in> set (user_sessions d')" using ss by simp
  ultimately have "current_user e2 (ar_session_token r) d'
      = Inr (if ae_now e2 0 < ar_expires_at r then Some (ar_user r) else None)"
    using current_user_stored [OF int, of "new_session e 0 1 (u_id u) client_ip" e2 "ar_session_token r"
        "logged_in e password u"] uD r token_hash_cong [OF assms(2)]
    by (simp add: session_live_def)
  moreover have "current_user e3 (ar_session_token r) d'' = Inr None"
    if "logout e2 (ar_session_token r) ip d' = (Inr (), d'')" for d''
    by (rule logout_ends [OF int that]) (simp add: assms(2,3))
  ultimately show ?thesis using uD v r(1) [symmetric] by blast
qed

text \<open>
  The setup runs once. When the first owner has been created, the database has exactly one
  owner, enabled; every later attempt to create an owner is refused and changes nothing; and
  the token that was returned authenticates the owner until it expires.
\<close>

theorem create_owner_once:
  assumes "create_owner e username email password client_ip d = (Inr r, d')"
    and "ae_sha256 e2 = ae_sha256 e"
  shows "length (filter (\<lambda>u. u_role u = ''owner'') (users d')) = 1 \<and> owner_exists d'
    \<and> create_owner e2 username2 email2 password2 ip2 d' = (Inl SetupAlreadyCompletedError, d')
    \<and> current_user e2 (ar_session_token r) d'
        = Inr (if ae_now e2 0 < ar_expires_at r then Some (ar_user r) else None)"
proof -
  note c = create_owner_Inr [OF assms(1)]
  let ?u = "new_owner e username email password" and ?s = "new_session e 1 1 (ae_id e 0) client_ip"
  have d': "users d' = users d @ [?u]" "user_sessions d' = user_sessions d @ [?s]" "app_settings d' = app_settings d"
    unfolding c(4) by simp_all
  have u: "u_role ?u = ''owner''" "u_enabled ?u" "u_id ?u = ae_id e 0" by (simp_all add: new_owner_def)
  have "filter (\<lambda>u. u_role u = ''owner'') (users d) = []" using c(2) by (simp add: filter_empty_conv)
  then have f: "filter (\<lambda>u. u_role u = ''owner'') (users d') = [?u]" using d'(1) u by simp
  have "current_user e2 (ar_session_token r) d'
      = Inr (if ae_now e2 0 < ar_expires_at r then Some (ar_user r) else None)"
    using current_user_stored [OF c(3), of ?s e2 "ar_session_token r" ?u] d' u c(5) token_hash_cong [OF assms(2)]
    by (simp add: session_live_def)
  moreover have "create_owner e2 username2 email2 password2 ip2 d' = (Inl SetupAlreadyCompletedError, d')"
    using c(1) d'(3) f by (auto simp: create_owner_def atomic_def)
  moreover have "owner_exists d'" using d'(1) u by (auto simp: owner_exists_iff)
  ultimately show ?thesis using f by simp
qed

definition sample_auth :: auth_env where
  "sample_auth = \<lparr>ae_sql = \<lparr>sql_lower = py_lower, sql_ilike = (\<lambda>s p. s = p), sql_isoformat = int_str\<rparr>,
     ae_sha256 = id, ae_hash = (\<lambda>_ p. ''h:'' @ p),
     ae_verify = (\<lambda>h c. if h = ''h:'' @ c then Verified else VerifyMismatch),
     ae_needs_rehash = (\<lambda>_. False), ae_token_bytes = [1, 2, 3], ae_hex_bytes = [1, 2],
     ae_id = (\<lambda>i. of_nat (500 + i)), ae_now = (\<lambda>_. 1000), ae_db_now = 1000, ae_session_hours = 12\<rparr>"

lemma sample_auth_simps:
  "ae_sql sample_auth = \<lparr>sql_lower = py_lower, sql_ilike = (\<lambda>s p. s = p), sql_isoformat = int_str\<rparr>"
  "ae_hash sample_auth i p = ''h:'' @ p"
  "ae_verify sample_auth h c = (if h = ''h:'' @ c then Verified else VerifyMismatch)"
  "ae_needs_rehash sample_auth h = False" "ae_id sample_auth i = of_nat (500 + i)"
  "ae_now sample_auth i = 1000" "ae_db_now sample_auth = 1000" "ae_session_hours sample_auth = 12"
  by (simp_all add: sample_auth_def)

lemma lower_char_eval [py_eval]: "is_lower c \<Longrightarrow> lower_char c = c"
  by (auto simp: lower_char_def is_lower_def)

lemma sample_login_user: "login_user sample_auth ''root'' sample_db = Some sample_owner"
proof -
  have "py_strip ''root'' = ''root''" "py_lower ''root'' = ''root''"
    by (simp_all add: py_eval py_lower_def)
  then show ?thesis
    by (simp add: login_user_def sample_auth_simps sample_db_def sample_owner_def)
qed

lemma sample_login: "\<exists>r d'. login sample_auth ''root'' ''pw'' ''10.0.0.9'' sample_db = (Inr r, d') \<and> au_id (ar_user r) = 1
    \<and> ar_expires_at r = 1000 + hours 12"
proof -
  have v: "verify_hash sample_auth (u_password_hash sample_owner) ''pw'' = Inr True"
    by (simp add: verify_hash_def sample_owner_def sample_auth_simps)
  have "integrity (add_audit (auth_audit sample_auth 1 (u_id sample_owner) ''auth.login'' ''session'' None [] ''10.0.0.9'')
     (sample_db\<lparr>users := row_upd u_id (u_id sample_owner) (logged_in sample_auth ''pw'') (users sample_db),
        user_sessions := user_sessions sample_db @ [new_session sample_auth 0 1 (u_id sample_owner) ''10.0.0.9'']\<rparr>))"
    by (simp add: integrity_defs auth_audit_def mk_audit_def sample_db_def empty_db_def sample_owner_def row_upd_def)
  then show ?thesis
    by (simp add: login_def sample_login_user v Let_def create_session_def commit_def atomic_def
        public_user_def sample_auth_simps) (simp add: sample_owner_def)
qed

theorem session_lifecycle_witness:
  "\<exists>(r :: authentication_result) d'. current_user sample_auth (ar_session_token r) d' = Inr (Some (ar_user r))
     \<and> au_id (ar_user r) = 1"
proof -
  obtain r d' where l: "login sample_auth ''root'' ''pw'' ''10.0.0.9'' sample_db = (Inr r, d')"
    and r: "au_id (ar_user r) = 1" "ar_expires_at r = 1000 + hours 12" using sample_login by blast
  have "current_user sample_auth (ar_session_token r) d' = Inr (Some (ar_user r))"
    using session_lifecycle [OF l refl refl] r(2) by (simp add: sample_auth_simps hours_def)
  with r show ?thesis by blast
qed

definition fresh_db :: db where
  "fresh_db = sample_db\<lparr>users := []\<rparr>"

lemma sample_create_owner:
  "\<exists>r d'. create_owner sample_auth ''root'' ''root@x.io'' ''pw'' ''10.0.0.9'' fresh_db = (Inr r, d')"
proof -
  let ?u = "new_owner sample_auth ''root'' ''root@x.io'' ''pw''"
  have "integrity (fresh_db\<lparr>users := users fresh_db @ [?u]\<rparr>)"
    by (simp add: integrity_defs fresh_db_def sample_db_def empty_db_def)
  moreover have "integrity (add_audit (auth_audit sample_auth 2 (u_id ?u) ''owner.created'' ''user''
           (Some (uuid_str (u_id ?u))) [(''role'', JStr ''owner'')] ''10.0.0.9'')
         (fresh_db\<lparr>users := users fresh_db @ [?u],
            recovery_codes := recovery_codes fresh_db @ [new_recovery sample_auth (u_id ?u)],
            user_sessions := user_sessions fresh_db @ [new_session sample_auth 1 1 (u_id ?u) ''10.0.0.9'']\<rparr>))"
    by (simp add: integrity_defs fresh_db_def sample_db_def empty_db_def auth_audit_def mk_audit_def
        new_recovery_def)
  moreover have "filter (\<lambda>u. u_role u = ''owner'') (users fresh_db) = []" "\<exists>st. app_settings fresh_db = Some st"
    by (simp_all add: fresh_db_def sample_db_def)
  ultimately show ?thesis
    by (auto simp: create_owner_def Let_def create_session_def commit_def atomic_def)
qed

theorem create_owner_once_witness:
  "\<exists>d'. owner_exists d' \<and> create_owner sample_auth ''eve'' ''eve@x.io'' ''pw'' ''10.0.0.7'' d'
     = (Inl SetupAlreadyCompletedError, d')"
  using sample_create_owner create_owner_once [OF _ refl] by blast

section \<open>Recovery\<close>

text \<open>What the documentation of the hasher promises: a hash is not empty and verifies its own password.\<close>

definition hasher_correct :: "auth_env \<Rightarrow> bool" where
  "hasher_correct e \<longleftrightarrow> (\<forall>i p. ae_hash e i p \<noteq> [] \<and> ae_verify e (ae_hash e i p) p = Verified)"

lemma recovery_rows_single:
  assumes "recovery_rows e email d = [(u, rc)]"
  shows "u \<in> set (users d)" and "u_enabled u" and "u_role u = ''owner''" and "rc \<in> set (recovery_codes d)"
    and "rc_user_id rc = u_id u" and "rc_used_at rc = None"
proof -
  have "(u, rc) \<in> set (recovery_rows e email d)" using assms by simp
  then show "u \<in> set (users d)" "u_enabled u" "u_role u = ''owner''" "rc \<in> set (recovery_codes d)"
    "rc_user_id rc = u_id u" "rc_used_at rc = None"
    unfolding recovery_rows_def by auto
qed

lemma revoke_user_dead: "s \<in> set (revoke_user i now ss) \<Longrightarrow> s_user_id s = i \<Longrightarrow> s_revoked_at s \<noteq> None"
proof -
  assume s: "s \<in> set (revoke_user i now ss)" "s_user_id s = i"
  then obtain s0 where "s = (if s_user_id s0 = i \<and> s_revoked_at s0 = None then s0\<lparr>s_revoked_at := Some now\<rparr> else s0)"
    unfolding revoke_user_def set_map by blast
  with s(2) show ?thesis by (cases "s_user_id s0 = i \<and> s_revoked_at s0 = None") auto
qed


definition recovery_db :: db where
  "recovery_db = sample_db\<lparr>recovery_codes := [\<lparr>rc_user_id = 1, rc_code_hash = ''h:1234'', rc_created_at = 0, rc_used_at = None\<rparr>]\<rparr>"

lemma sample_recover:
  "\<exists>r d'. recover_owner sample_auth ''root@x.io'' ''1234'' ''new'' ''10.0.0.9'' recovery_db = (Inr r, d')"
proof -
  let ?rc = "\<lparr>rc_user_id = 1, rc_code_hash = ''h:1234'', rc_created_at = 0, rc_used_at = None\<rparr>"
  have "py_strip ''root@x.io'' = ''root@x.io''" "py_lower ''root@x.io'' = ''root@x.io''"
    by (simp_all add: py_eval py_lower_def lower_char_def)
  then have rows: "recovery_rows sample_auth ''root@x.io'' recovery_db = [(sample_owner, ?rc)]"
    by (simp add: recovery_rows_def recovery_db_def sample_db_def sample_auth_simps sample_owner_def)
  have v: "verify_hash sample_auth (Some ''h:1234'') ''1234'' = Inr True"
    by (simp add: verify_hash_def sample_auth_simps)
  have "integrity (add_audit (auth_audit sample_auth 1 (u_id sample_owner) ''auth.recovered'' ''user''
              (Some (uuid_str (u_id sample_owner))) [(''sessions_revoked'', JBool True)] ''10.0.0.9'')
         (recovery_db\<lparr>users := row_upd u_id (u_id sample_owner) (\<lambda>x. x\<lparr>u_password_hash := Some (ae_hash sample_auth 0 ''new'')\<rparr>) (users recovery_db),
            recovery_codes := row_upd rc_user_id (u_id sample_owner)
              (\<lambda>r. r\<lparr>rc_code_hash := ae_hash sample_auth 1 (new_recovery_code sample_auth), rc_created_at := ae_now sample_auth 1,
                     rc_used_at := None\<rparr>) (recovery_codes recovery_db),
            user_sessions := revoke_user (u_id sample_owner) (ae_now sample_auth 0) (user_sessions recovery_db) @ [new_session sample_auth 0 2 (u_id sample_owner) ''10.0.0.9'']\<rparr>))"
    by (simp add: integrity_defs recovery_db_def sample_db_def empty_db_def sample_owner_def auth_audit_def mk_audit_def
        row_upd_def revoke_user_def)
  then show ?thesis
    by (simp add: recover_owner_def rows v Let_def create_session_def commit_def atomic_def)
qed

lemma sample_hasher: "hasher_correct sample_auth"
  by (simp add: hasher_correct_def sample_auth_simps)


end
