(* ===== verification/Email.thy ===== *)
theory Email
  imports Py_Values
begin

text \<open>
  \<^verbatim>\<open>SmtpMailer\<close> of \<^verbatim>\<open>app/infrastructure/email.py\<close>. The steps of an SMTP dialogue are the fields of
  \<open>smtp_lib\<close>: each succeeds or fails with an error, classified as the handler's tests classify
  it. Every exception of \<^verbatim>\<open>smtplib\<close> is an \<^verbatim>\<open>OSError\<close>.
\<close>

datatype smtp_error = SslCertVerification | SmtpAuthentication | SmtpNotSupported | SmtpRecipientsRefused
  | SmtpException | OsFailure

record smtp_configuration =
  sc_host :: string
  sc_port :: int
  sc_security :: string
  sc_username :: string
  sc_password :: string
  sc_from_email :: string
  sc_from_name :: string

text \<open>
  \<open>sl_compose subject from to text\<close> builds the message, or raises on a malformed header;
  \<open>sl_connect ssl host port\<close> opens the connection; \<open>sl_quit\<close> is the end of the dialogue when the
  client is closed.
\<close>

record smtp_lib =
  sl_compose :: "string \<Rightarrow> string \<Rightarrow> string \<Rightarrow> string \<Rightarrow> exn + string"
  sl_tls_context :: "smtp_error option"
  sl_connect :: "bool \<Rightarrow> string \<Rightarrow> int \<Rightarrow> smtp_error option"
  sl_starttls :: "smtp_error option"
  sl_login :: "string \<Rightarrow> string \<Rightarrow> smtp_error option"
  sl_send :: "string \<Rightarrow> smtp_error option"
  sl_quit :: "smtp_error option"

datatype smtp_event = SmtpConnect bool | SmtpStartTls | SmtpLogin string string | SmtpSend string | SmtpClose

datatype smtp_stage = StageConnect | StageTlsContext | StageStartTls | StageAuthenticate | StageSend

definition one_line :: "string \<Rightarrow> string" where
  "one_line s = map (\<lambda>c. if c = CHR 0x0D \<or> c = CHR 0x0A then CHR '' '' else c) s"

definition is_os_error :: "smtp_error \<Rightarrow> bool" where
  "is_os_error x = True"

definition delivery_reason :: "smtp_error \<Rightarrow> smtp_stage \<Rightarrow> string" where
  "delivery_reason x stage =
     (if x = SslCertVerification then ''certificate_verification_failed''
      else if x = SmtpAuthentication then ''authentication_failed''
      else if x = SmtpNotSupported \<and> stage = StageAuthenticate then ''authentication_method_unsupported''
      else if x = SmtpRecipientsRefused then ''recipient_refused''
      else if is_os_error x then ''connection_failed''
      else ''smtp_or_network_error'')"

text \<open>A step of the dialogue: what it adds to the trace, and the error and its stage if it fails.\<close>

type_synonym 'a smtp_step = "((smtp_error \<times> smtp_stage) + 'a) \<times> smtp_event list"

definition smtp_do :: "smtp_stage \<Rightarrow> smtp_event list \<Rightarrow> smtp_error option \<Rightarrow> unit smtp_step" where
  "smtp_do stage ev r = (case r of None \<Rightarrow> (Inr (), ev) | Some x \<Rightarrow> (Inl (x, stage), ev))"

definition smtp_then :: "unit smtp_step \<Rightarrow> unit smtp_step \<Rightarrow> unit smtp_step" where
  "smtp_then a b = (case a of (Inl x, t) \<Rightarrow> (Inl x, t) | (Inr _, t) \<Rightarrow> (case b of (r, u) \<Rightarrow> (r, t @ u)))"

definition smtp_when :: "bool \<Rightarrow> unit smtp_step \<Rightarrow> unit smtp_step" where
  "smtp_when c a = (if c then a else (Inr (), []))"

text \<open>The body of the \<^verbatim>\<open>with client\<close> block.\<close>

definition smtp_body :: "smtp_lib \<Rightarrow> smtp_configuration \<Rightarrow> string \<Rightarrow> unit smtp_step" where
  "smtp_body sl c message =
     smtp_then (smtp_when (sc_security c = ''starttls'')
                  (smtp_do StageStartTls (if sl_starttls sl = None then [SmtpStartTls] else []) (sl_starttls sl)))
     (smtp_then (smtp_when (sc_username c \<noteq> [])
                  (smtp_do StageAuthenticate [SmtpLogin (sc_username c) (sc_password c)]
                     (sl_login sl (sc_username c) (sc_password c))))
                (smtp_do StageSend [SmtpSend message] (sl_send sl message)))"

text \<open>Leaving the block closes the client; an error of the closing dialogue replaces the outcome.\<close>

definition smtp_close :: "smtp_lib \<Rightarrow> unit smtp_step \<Rightarrow> unit smtp_step" where
  "smtp_close sl a =
     (case a of (r, t) \<Rightarrow>
        (case sl_quit sl of
           None \<Rightarrow> (r, t @ [SmtpClose])
         | Some x \<Rightarrow> (Inl (x, case r of Inl (_, stage) \<Rightarrow> stage | Inr _ \<Rightarrow> StageSend), t @ [SmtpClose])))"

definition smtp_dialogue :: "smtp_lib \<Rightarrow> smtp_configuration \<Rightarrow> string \<Rightarrow> unit smtp_step" where
  "smtp_dialogue sl c message =
     smtp_then (smtp_when (sc_security c \<noteq> ''none'') (smtp_do StageTlsContext [] (sl_tls_context sl)))
     (let ssl = (sc_security c = ''tls'')
      in smtp_then (smtp_do StageConnect [SmtpConnect ssl] (sl_connect sl ssl (sc_host c) (sc_port c)))
           (smtp_close sl (smtp_body sl c message)))"

record smtp_log =
  sg_reason :: string
  sg_stage :: smtp_stage
  sg_host :: string

definition smtp_send_mail :: "smtp_lib \<Rightarrow> smtp_configuration \<Rightarrow> string \<Rightarrow> string \<Rightarrow> string
    \<Rightarrow> (exn + unit) \<times> smtp_event list \<times> smtp_log list" where
  "smtp_send_mail sl c recipient subject text =
     (case sl_compose sl (one_line subject) (one_line (sc_from_name c) @ '' <'' @ sc_from_email c @ ''>'') recipient text of
        Inl x \<Rightarrow> (Inl x, [], [])
      | Inr message \<Rightarrow>
          (case smtp_dialogue sl c message of
             (Inr _, t) \<Rightarrow> (Inr (), t, [])
           | (Inl (x, stage), t) \<Rightarrow>
               (Inl (EmailDeliveryError ''smtp_delivery_failed''), t,
                [\<lparr>sg_reason = delivery_reason x stage, sg_stage = stage, sg_host = one_line (sc_host c)\<rparr>])))"

section \<open>Properties\<close>

lemmas smtp_simps = smtp_do_def smtp_then_def smtp_when_def smtp_body_def smtp_close_def smtp_dialogue_def

text \<open>A trace whose passwords and messages all travel after the connection was encrypted.\<close>

fun encrypted_trace :: "bool \<Rightarrow> smtp_event list \<Rightarrow> bool" where
  "encrypted_trace s [] = True"
| "encrypted_trace s (SmtpConnect ssl # t) = encrypted_trace ssl t"
| "encrypted_trace s (SmtpStartTls # t) = encrypted_trace True t"
| "encrypted_trace s (SmtpLogin u p # t) = (s \<and> encrypted_trace s t)"
| "encrypted_trace s (SmtpSend m # t) = (s \<and> encrypted_trace s t)"
| "encrypted_trace s (SmtpClose # t) = encrypted_trace s t"

lemma dialogue_encrypted:
  assumes "sc_security c \<in> {''tls'', ''starttls''}"
  shows "encrypted_trace False (snd (smtp_dialogue sl c m))"
  using assms by (auto simp: smtp_simps Let_def split: option.splits sum.splits prod.splits if_splits)

lemma dialogue_sends:
  assumes "smtp_dialogue sl c m = (Inr u, t)"
  shows "filter (\<lambda>ev. case ev of SmtpSend _ \<Rightarrow> True | _ \<Rightarrow> False) t = [SmtpSend m] \<and> last t = SmtpClose"
  using assms by (auto simp: smtp_simps Let_def split: option.splits sum.splits prod.splits if_splits)

text \<open>
  C38: mail credentials never travel in the clear when encryption is configured. With security
  \<^verbatim>\<open>tls\<close> or \<^verbatim>\<open>starttls\<close>, whatever the server does and wherever the dialogue stops, the login and the message
  are sent only on an encrypted connection. A send that returns normally has delivered exactly one
  message and closed the client; a failure after the message was composed is always reported as
  \<^verbatim>\<open>smtp_delivery_failed\<close>.
\<close>

theorem smtp_send_secure:
  assumes "smtp_send_mail sl c recipient subject text = (r, t, logs)"
    and "sc_security c \<in> {''tls'', ''starttls''}"
  shows "encrypted_trace False t
    \<and> (r = Inr () \<longrightarrow> (\<exists>m. filter (\<lambda>ev. case ev of SmtpSend _ \<Rightarrow> True | _ \<Rightarrow> False) t = [SmtpSend m])
          \<and> last t = SmtpClose \<and> logs = [])
    \<and> (t \<noteq> [] \<longrightarrow> r = Inr () \<or> r = Inl (EmailDeliveryError ''smtp_delivery_failed''))"
proof (cases "sl_compose sl (one_line subject) (one_line (sc_from_name c) @ '' <'' @ sc_from_email c @ ''>'') recipient text")
  case (Inl x)
  with assms(1) show ?thesis by (auto simp: smtp_send_mail_def)
next
  case (Inr m)
  obtain q u where d: "smtp_dialogue sl c m = (q, u)" by fastforce
  have "encrypted_trace False u" using dialogue_encrypted [OF assms(2), of sl m] d by simp
  moreover have "t = u" "r = Inr () \<Longrightarrow> (\<exists>z. q = Inr z) \<and> logs = []"
    "r = Inr () \<or> r = Inl (EmailDeliveryError ''smtp_delivery_failed'')"
    using assms(1) Inr d by (auto simp: smtp_send_mail_def split: sum.splits)
  ultimately show ?thesis using d dialogue_sends [of sl c m] by auto
qed

definition sample_smtp :: smtp_lib where
  "sample_smtp = \<lparr>sl_compose = (\<lambda>s f r t. Inr t), sl_tls_context = None, sl_connect = (\<lambda>_ _ _. None),
     sl_starttls = None, sl_login = (\<lambda>_ _. None), sl_send = (\<lambda>_. None), sl_quit = None\<rparr>"

definition sample_smtp_conf :: smtp_configuration where
  "sample_smtp_conf = \<lparr>sc_host = ''mx'', sc_port = 587, sc_security = ''starttls'', sc_username = ''u'',
     sc_password = ''p'', sc_from_email = ''w@x.io'', sc_from_name = ''WOLT''\<rparr>"

theorem smtp_send_secure_witness:
  "\<exists>t. smtp_send_mail sample_smtp sample_smtp_conf ''a@x.io'' ''hi'' ''text'' = (Inr (), t, [])
     \<and> SmtpLogin ''u'' ''p'' \<in> set t \<and> encrypted_trace False t"
proof -
  have s: "smtp_send_mail sample_smtp sample_smtp_conf ''a@x.io'' ''hi'' ''text''
      = (Inr (), [SmtpConnect False, SmtpStartTls, SmtpLogin ''u'' ''p'', SmtpSend ''text'', SmtpClose], [])"
    by (simp add: smtp_send_mail_def smtp_simps sample_smtp_def sample_smtp_conf_def)
  moreover have "sc_security sample_smtp_conf \<in> {''tls'', ''starttls''}" by (simp add: sample_smtp_conf_def)
  ultimately show ?thesis using smtp_send_secure [OF s] by simp
qed

end
