(* ===== verification/Identity_Service.thy ===== *)
theory Identity_Service
  imports Auth_Service Email
begin

text \<open>
  \<^verbatim>\<open>app/application/identity_service.py\<close>: users and their roles, invitations, password resets and
  the mail settings. An operation that sends mail also returns the trace of the SMTP dialogue.
\<close>

record identity_env =
  ie_auth :: auth_env
  ie_crypto :: crypto_lib
  ie_cipher :: "cipher option"
  ie_nonce :: "byte list"
  ie_smtp :: smtp_lib

abbreviation ie_now :: "identity_env \<Rightarrow> nat \<Rightarrow> time" where
  "ie_now e \<equiv> ae_now (ie_auth e)"

section \<open>Helpers\<close>

definition identity_audit :: "identity_env \<Rightarrow> nat \<Rightarrow> uuid option \<Rightarrow> string \<Rightarrow> string option \<Rightarrow> dict \<Rightarrow> string \<Rightarrow> audit_event" where
  "identity_audit e i actor_id action object_id changes client_ip =
     mk_audit (ae_id (ie_auth e) i) (ae_db_now (ie_auth e)) actor_id action
       (if starts_with ''user.'' action then ''user'' else ''identity'') object_id changes client_ip"

definition new_token :: "identity_env \<Rightarrow> string \<times> string" where
  "new_token e = (let raw = token_urlsafe (ae_token_bytes (ie_auth e)) in (raw, token_hash (ie_auth e) raw))"

definition identity_cipher :: "identity_env \<Rightarrow> exn + cipher" where
  "identity_cipher e = of_option IdentityMasterKeyError (ie_cipher e)"

definition str_item :: "identity_env \<Rightarrow> dict \<Rightarrow> string \<Rightarrow> string" where
  "str_item e values k = py_str (cl_repr (ie_crypto e)) (dict_get_or values k (JStr []))"

section \<open>Users\<close>

record user_view =
  uv_id :: string
  uv_username :: string
  uv_email :: string
  uv_role :: string
  uv_enabled :: bool
  uv_status :: string
  uv_active_sessions :: nat
  uv_last_login_at :: "string option"
  uv_created_at :: string

definition list_users :: "identity_env \<Rightarrow> db \<Rightarrow> user_view list" where
  "list_users e d =
     (let now = ie_now e 0;
          iso = sql_isoformat (ae_sql (ie_auth e));
          pending_ids = map iv_user_id (filter (\<lambda>i. iv_accepted_at i = None \<and> now < iv_expires_at i) (user_invitations d))
      in map (\<lambda>u. \<lparr>uv_id = uuid_str (u_id u), uv_username = u_username u, uv_email = u_email u,
              uv_role = u_role u, uv_enabled = u_enabled u,
              uv_status = (if u_id u \<in> set pending_ids then ''pending''
                           else if u_enabled u then ''active'' else ''disabled''),
              uv_active_sessions = length (filter (\<lambda>s. s_user_id s = u_id u \<and> session_live now s) (user_sessions d)),
              uv_last_login_at = map_option iso (u_last_login_at u),
              uv_created_at = iso (u_created_at u)\<rparr>) (sort_key u_created_at (users d)))"

section \<open>Mail settings\<close>

record smtp_input =
  si_host :: string
  si_port :: int
  si_security :: string
  si_from_email :: string
  si_from_name :: string
  si_public_base_url :: string
  si_username :: string
  si_password :: string
  si_enabled :: bool

record smtp_view =
  mv_enabled :: bool
  mv_host :: string
  mv_port :: int
  mv_security :: string
  mv_from_email :: string
  mv_from_name :: string
  mv_public_base_url :: string
  mv_username :: string
  mv_password_configured :: bool
  mv_updated_at :: string

text \<open>\<open>None\<close> is the answer that nothing is configured.\<close>

definition get_smtp_view :: "identity_env \<Rightarrow> db \<Rightarrow> exn + smtp_view option" where
  "get_smtp_view e d =
     (case smtp d of
        None \<Rightarrow> Inr None
      | Some st \<Rightarrow>
          res_bind (identity_cipher e) (\<lambda>ci.
          res_bind (cipher_decrypt (ie_crypto e) ci (sm_encrypted_credentials st)) (\<lambda>credentials.
          Inr (Some \<lparr>mv_enabled = sm_enabled st, mv_host = sm_host st, mv_port = sm_port st,
                mv_security = sm_security st, mv_from_email = sm_from_email st, mv_from_name = sm_from_name st,
                mv_public_base_url = sm_public_base_url st, mv_username = str_item e credentials ''username'',
                mv_password_configured = py_truthy (dict_get_or credentials ''password'' JNull),
                mv_updated_at = sql_isoformat (ae_sql (ie_auth e)) (sm_updated_at st)\<rparr>))))"

text \<open>The password of a form left empty is the stored one, if there is a stored row.\<close>

definition effective_password :: "identity_env \<Rightarrow> string \<Rightarrow> db \<Rightarrow> exn + string" where
  "effective_password e password d =
     (case (password, smtp d) of
        ([], Some st) \<Rightarrow>
          res_bind (identity_cipher e) (\<lambda>ci.
          res_bind (cipher_decrypt (ie_crypto e) ci (sm_encrypted_credentials st)) (\<lambda>credentials.
          Inr (str_item e credentials ''password'')))
      | _ \<Rightarrow> Inr password)"

definition test_smtp :: "identity_env \<Rightarrow> smtp_input \<Rightarrow> string \<Rightarrow> db \<Rightarrow> (exn + unit) \<times> smtp_event list" where
  "test_smtp e values recipient d =
     (case effective_password e (si_password values) d of
        Inl x \<Rightarrow> (Inl x, [])
      | Inr password \<Rightarrow>
          (case smtp_send_mail (ie_smtp e)
                  \<lparr>sc_host = si_host values, sc_port = si_port values, sc_security = si_security values,
                   sc_username = si_username values, sc_password = password,
                   sc_from_email = si_from_email values, sc_from_name = si_from_name values\<rparr>
                  recipient ''WOLT SMTP test'' ''Your WOLT email configuration is working.'' of
             (r, t, _) \<Rightarrow> (r, t)))"

definition smtp_row :: "identity_env \<Rightarrow> smtp_input \<Rightarrow> cipher \<Rightarrow> string \<Rightarrow> time \<Rightarrow> smtp_settings" where
  "smtp_row e values ci password updated =
     \<lparr>sm_host = si_host values, sm_port = si_port values, sm_security = si_security values,
      sm_from_email = si_from_email values, sm_from_name = si_from_name values,
      sm_public_base_url = py_rstrip (CHR ''/'') (si_public_base_url values),
      sm_encrypted_credentials = cipher_encrypt (ie_crypto e) ci (ie_nonce e)
        [(''username'', JStr (si_username values)), (''password'', JStr password)],
      sm_key_id = key_id ci, sm_enabled = si_enabled values, sm_updated_at = updated\<rparr>"

definition save_smtp_tx :: "identity_env \<Rightarrow> smtp_input \<Rightarrow> uuid \<Rightarrow> string \<Rightarrow> db \<Rightarrow> exn + unit \<times> db" where
  "save_smtp_tx e values actor_id client_ip d =
     res_bind (identity_cipher e) (\<lambda>ci.
     res_bind (effective_password e (si_password values) d) (\<lambda>password.
     let updated = (case smtp d of
           Some st \<Rightarrow> if smtp_row e values ci password (sm_updated_at st) = st then sm_updated_at st
                       else ae_db_now (ie_auth e)
         | None \<Rightarrow> ae_db_now (ie_auth e))
     in res_bind (commit (add_audit (identity_audit e 0 (Some actor_id) ''identity.smtp_updated'' (Some ''1'')
            [(''host'', JStr (si_host values)), (''port'', JInt (si_port values)),
             (''security'', JStr (si_security values)), (''enabled'', JBool (si_enabled values))] client_ip)
            (d\<lparr>smtp := Some (smtp_row e values ci password updated)\<rparr>))) (\<lambda>d1.
        Inr ((), d1))))"

definition save_smtp :: "identity_env \<Rightarrow> smtp_input \<Rightarrow> uuid \<Rightarrow> string \<Rightarrow> db \<Rightarrow> (exn + smtp_view option) \<times> db" where
  "save_smtp e values actor_id client_ip d =
     and_then (atomic d (save_smtp_tx e values actor_id client_ip d)) (\<lambda>_. reading (get_smtp_view e))"

definition stored_smtp :: "identity_env \<Rightarrow> db \<Rightarrow> exn + smtp_settings \<times> smtp_configuration" where
  "stored_smtp e d =
     (case smtp d of
        None \<Rightarrow> Inl SmtpNotConfiguredError
      | Some st \<Rightarrow>
          if \<not> sm_enabled st then Inl SmtpNotConfiguredError
          else res_bind (identity_cipher e) (\<lambda>ci.
               res_bind (cipher_decrypt (ie_crypto e) ci (sm_encrypted_credentials st)) (\<lambda>values.
               Inr (st, \<lparr>sc_host = sm_host st, sc_port = sm_port st, sc_security = sm_security st,
                         sc_username = str_item e values ''username'', sc_password = str_item e values ''password'',
                         sc_from_email = sm_from_email st, sc_from_name = sm_from_name st\<rparr>))))"

section \<open>Invitations\<close>

text \<open>Deleting a user row: dependent rows cascade, references by invitations and audit rows become null.\<close>

definition delete_user_row :: "uuid \<Rightarrow> db \<Rightarrow> db" where
  "delete_user_row i d =
     d\<lparr>users := row_del u_id i (users d),
       user_sessions := row_del s_user_id i (user_sessions d),
       recovery_codes := row_del rc_user_id i (recovery_codes d),
       user_invitations := map (\<lambda>v. if iv_invited_by v = Some i then v\<lparr>iv_invited_by := None\<rparr> else v)
         (row_del iv_user_id i (user_invitations d)),
       password_reset_tokens := row_del pr_user_id i (password_reset_tokens d),
       audit_events := map (\<lambda>a. if a_actor_user_id a = Some i then a\<lparr>a_actor_user_id := None\<rparr> else a) (audit_events d)\<rparr>"

definition invited_user :: "identity_env \<Rightarrow> string \<Rightarrow> string \<Rightarrow> string \<Rightarrow> user" where
  "invited_user e username email role =
     \<lparr>u_id = ae_id (ie_auth e) 0, u_username = py_strip username, u_email = py_lower (py_strip email),
      u_password_hash = None, u_role = role, u_enabled = False, u_last_login_at = None,
      u_created_at = ae_db_now (ie_auth e)\<rparr>"

definition new_invitation :: "identity_env \<Rightarrow> uuid \<Rightarrow> user_invitation" where
  "new_invitation e actor_id =
     \<lparr>iv_id = ae_id (ie_auth e) 1, iv_user_id = ae_id (ie_auth e) 0, iv_invited_by = Some actor_id,
      iv_token_hash = snd (new_token e), iv_expires_at = ie_now e 0 + hours 24, iv_accepted_at = None,
      iv_created_at = ae_db_now (ie_auth e)\<rparr>"

definition same_identity :: "identity_env \<Rightarrow> string \<Rightarrow> string \<Rightarrow> user \<Rightarrow> bool" where
  "same_identity e username email u \<longleftrightarrow>
     sql_lower (ae_sql (ie_auth e)) (u_username u) = py_lower (py_strip username)
     \<or> sql_lower (ae_sql (ie_auth e)) (u_email u) = py_lower (py_strip email)"

definition invite_tx :: "identity_env \<Rightarrow> string \<Rightarrow> string \<Rightarrow> string \<Rightarrow> uuid \<Rightarrow> string \<Rightarrow> db \<Rightarrow> exn + uuid \<times> db" where
  "invite_tx e username email role actor_id client_ip d =
     (let existing = filter (same_identity e username email) (users d);
          u = invited_user e username email role
      in res_bind (guard (\<not> list_ex (\<lambda>u. u_password_hash u \<noteq> None \<or> u_enabled u) existing) IdentityConflictError) (\<lambda>_.
         on_integrity IdentityConflictError
           (res_bind (flush (fold (\<lambda>p. delete_user_row (u_id p)) existing d)) (\<lambda>d1.
            res_bind (flush (d1\<lparr>users := users d1 @ [u]\<rparr>)) (\<lambda>d2.
            res_bind (commit (add_audit (identity_audit e 2 (Some actor_id) ''user.invited'' (Some (uuid_str (u_id u)))
                [(''username'', JStr (u_username u)), (''email'', JStr (u_email u)), (''role'', JStr role)] client_ip)
                (d2\<lparr>user_invitations := user_invitations d2 @ [new_invitation e actor_id]\<rparr>))) (\<lambda>d3.
            Inr (u_id u, d3)))))))"

definition invitation_text :: "string \<Rightarrow> string \<Rightarrow> string" where
  "invitation_text role link =
     ''You were invited to WOLT as '' @ role @ ''.'' @ [CHR 0x0A, CHR 0x0A]
     @ ''Set your password within 24 hours:'' @ [CHR 0x0A] @ link @ [CHR 0x0A, CHR 0x0A]
     @ ''If you did not expect this invitation, ignore this message.''"

text \<open>What an invitation that could not be mailed leaves: the pending user is deleted again.\<close>

definition withdraw_user :: "uuid \<Rightarrow> db \<Rightarrow> exn + unit \<times> db" where
  "withdraw_user i d =
     (case row_get u_id i (users d) of
        None \<Rightarrow> Inr ((), d)
      | Some u \<Rightarrow> if u_enabled u then Inr ((), d)
                   else res_bind (commit (delete_user_row i d)) (\<lambda>d1. Inr ((), d1)))"

definition invite_user :: "identity_env \<Rightarrow> string \<Rightarrow> string \<Rightarrow> string \<Rightarrow> uuid \<Rightarrow> string \<Rightarrow> db
    \<Rightarrow> (exn + string \<times> string) \<times> db \<times> smtp_event list" where
  "invite_user e username email role actor_id client_ip d =
     (case stored_smtp e d of
        Inl x \<Rightarrow> (Inl x, d, [])
      | Inr (st, conf) \<Rightarrow>
          (case atomic d (invite_tx e username email role actor_id client_ip d) of
             (Inl x, d1) \<Rightarrow> (Inl x, d1, [])
           | (Inr user_id, d1) \<Rightarrow>
               (let link = sm_public_base_url st @ ''/accept-invite?token='' @ fst (new_token e)
                in case smtp_send_mail (ie_smtp e) conf email ''You are invited to WOLT'' (invitation_text role link) of
                     (Inr _, t, _) \<Rightarrow>
                       (Inr (uuid_str user_id, sql_isoformat (ae_sql (ie_auth e)) (ie_now e 0 + hours 24)), d1, t)
                   | (Inl x, t, _) \<Rightarrow>
                       (case atomic d1 (withdraw_user user_id d1) of
                          (Inl y, d2) \<Rightarrow> (Inl y, d2, t)
                        | (Inr _, d2) \<Rightarrow> (Inl x, d2, t)))))"

definition accept_invitation :: "identity_env \<Rightarrow> string \<Rightarrow> string \<Rightarrow> string \<Rightarrow> db \<Rightarrow> (exn + unit) \<times> db" where
  "accept_invitation e token password client_ip d =
     (let now = ie_now e 0
      in atomic d
        (res_bind (of_option InvalidTokenError (find (\<lambda>i. iv_token_hash i = token_hash (ie_auth e) token
              \<and> iv_accepted_at i = None \<and> now < iv_expires_at i) (user_invitations d))) (\<lambda>inv.
         res_bind (of_option InvalidTokenError (row_get u_id (iv_user_id inv) (users d))) (\<lambda>u.
         res_bind (commit (add_audit (identity_audit e 0 (Some (u_id u)) ''user.invitation_accepted''
              (Some (uuid_str (u_id u))) [(''role'', JStr (u_role u))] client_ip)
            (d\<lparr>users := row_upd u_id (u_id u)
                 (\<lambda>x. x\<lparr>u_password_hash := Some (ae_hash (ie_auth e) 0 password), u_enabled := True\<rparr>) (users d),
               user_invitations := row_upd iv_id (iv_id inv) (\<lambda>x. x\<lparr>iv_accepted_at := Some now\<rparr>) (user_invitations d)\<rparr>)))
         (\<lambda>d1. Inr ((), d1))))))"

section \<open>Administration\<close>

definition update_user :: "identity_env \<Rightarrow> uuid \<Rightarrow> string \<Rightarrow> bool \<Rightarrow> uuid \<Rightarrow> string \<Rightarrow> db \<Rightarrow> (exn + unit) \<times> db" where
  "update_user e user_id role en actor_id client_ip d =
     atomic d
       (res_bind (of_option IdentityNotFoundError (row_get u_id user_id (users d))) (\<lambda>u.
        res_bind (guard (\<not> (en \<and> u_password_hash u = None)) InvitationNotAcceptedError) (\<lambda>_.
        res_bind (guard (\<not> (u_role u = ''owner'' \<and> (role \<noteq> ''owner'' \<or> \<not> en)
              \<and> length (filter (\<lambda>x. u_role x = ''owner'' \<and> u_enabled x) (users d)) \<le> 1)) LastOwnerError) (\<lambda>_.
        res_bind (commit (add_audit (identity_audit e 0 (Some actor_id) ''user.updated'' (Some (uuid_str (u_id u)))
             [(''role'', JList [JStr (u_role u), JStr role]), (''enabled'', JList [JBool (u_enabled u), JBool en])] client_ip)
           (d\<lparr>users := row_upd u_id user_id (\<lambda>x. x\<lparr>u_role := role, u_enabled := en\<rparr>) (users d),
              user_sessions := (if en then user_sessions d else revoke_user user_id (ie_now e 0) (user_sessions d))\<rparr>)))
        (\<lambda>d1. Inr ((), d1))))))"

definition revoke_sessions :: "identity_env \<Rightarrow> uuid \<Rightarrow> uuid \<Rightarrow> string \<Rightarrow> db \<Rightarrow> (exn + unit) \<times> db" where
  "revoke_sessions e user_id actor_id client_ip d =
     atomic d
       (res_bind (of_option IdentityNotFoundError (row_get u_id user_id (users d))) (\<lambda>_.
        res_bind (commit (add_audit (identity_audit e 0 (Some actor_id) ''user.sessions_revoked'' (Some (uuid_str user_id))
             [(''count'', JInt (int (length (filter (\<lambda>s. s_user_id s = user_id \<and> s_revoked_at s = None) (user_sessions d)))))]
             client_ip)
           (d\<lparr>user_sessions := revoke_user user_id (ie_now e 0) (user_sessions d)\<rparr>)))
        (\<lambda>d1. Inr ((), d1))))"

section \<open>Password resets\<close>

definition new_reset :: "identity_env \<Rightarrow> uuid \<Rightarrow> password_reset_token" where
  "new_reset e user_id =
     \<lparr>pr_id = ae_id (ie_auth e) 0, pr_user_id = user_id, pr_token_hash = snd (new_token e),
      pr_expires_at = ie_now e 0 + minutes 30, pr_used_at = None, pr_created_at = ae_db_now (ie_auth e)\<rparr>"

definition void_resets :: "uuid \<Rightarrow> time \<Rightarrow> password_reset_token list \<Rightarrow> password_reset_token list" where
  "void_resets user_id now ts =
     map (\<lambda>t. if pr_user_id t = user_id \<and> pr_used_at t = None then t\<lparr>pr_used_at := Some now\<rparr> else t) ts"

definition reset_tx :: "identity_env \<Rightarrow> user \<Rightarrow> string \<Rightarrow> db \<Rightarrow> exn + unit \<times> db" where
  "reset_tx e u client_ip d =
     res_bind (commit (add_audit (identity_audit e 1 None ''identity.password_reset_requested''
          (Some (uuid_str (u_id u))) [] client_ip)
        (d\<lparr>password_reset_tokens := void_resets (u_id u) (ie_now e 0) (password_reset_tokens d) @ [new_reset e (u_id u)]\<rparr>)))
     (\<lambda>d1. Inr ((), d1))"

definition reset_text :: "string \<Rightarrow> string" where
  "reset_text link =
     ''Use this one-time link within 30 minutes:'' @ [CHR 0x0A] @ link @ [CHR 0x0A, CHR 0x0A]
     @ ''If you did not request this reset, ignore this message.''"

definition request_password_reset :: "identity_env \<Rightarrow> string \<Rightarrow> string \<Rightarrow> db \<Rightarrow> (exn + unit) \<times> db \<times> smtp_event list" where
  "request_password_reset e email client_ip d =
     (case stored_smtp e d of
        Inl SmtpNotConfiguredError \<Rightarrow> (Inr (), d, [])
      | Inl x \<Rightarrow> (Inl x, d, [])
      | Inr (st, conf) \<Rightarrow>
          (case find (\<lambda>u. sql_lower (ae_sql (ie_auth e)) (u_email u) = py_lower (py_strip email) \<and> u_enabled u) (users d) of
             None \<Rightarrow> (Inr (), d, [])
           | Some u \<Rightarrow>
               if u_password_hash u = None then (Inr (), d, [])
               else (case atomic d (reset_tx e u client_ip d) of
                       (Inl x, d1) \<Rightarrow> (Inl x, d1, [])
                     | (Inr _, d1) \<Rightarrow>
                         (let link = sm_public_base_url st @ ''/reset-password?token='' @ fst (new_token e)
                          in case smtp_send_mail (ie_smtp e) conf (u_email u) ''Reset your WOLT password'' (reset_text link) of
                               (r, t, _) \<Rightarrow> (r, d1, t)))))"

definition complete_password_reset :: "identity_env \<Rightarrow> string \<Rightarrow> string \<Rightarrow> string \<Rightarrow> db \<Rightarrow> (exn + unit) \<times> db" where
  "complete_password_reset e token password client_ip d =
     (let now = ie_now e 0
      in atomic d
        (res_bind (of_option InvalidTokenError (find (\<lambda>t. pr_token_hash t = token_hash (ie_auth e) token
              \<and> pr_used_at t = None \<and> now < pr_expires_at t) (password_reset_tokens d))) (\<lambda>rst.
         res_bind (of_option InvalidTokenError (row_get u_id (pr_user_id rst) (users d))) (\<lambda>u.
         res_bind (guard (u_enabled u) InvalidTokenError) (\<lambda>_.
         res_bind (commit (add_audit (identity_audit e 0 (Some (u_id u)) ''identity.password_reset_completed''
              (Some (uuid_str (u_id u))) [(''sessions_revoked'', JBool True)] client_ip)
            (d\<lparr>users := row_upd u_id (u_id u) (\<lambda>x. x\<lparr>u_password_hash := Some (ae_hash (ie_auth e) 0 password)\<rparr>) (users d),
               password_reset_tokens := row_upd pr_id (pr_id rst) (\<lambda>x. x\<lparr>pr_used_at := Some now\<rparr>) (password_reset_tokens d),
               user_sessions := revoke_user (u_id u) now (user_sessions d)\<rparr>)))
         (\<lambda>d1. Inr ((), d1)))))))"

section \<open>Results of the operations\<close>

lemma accept_invitation_Inr:
  assumes "accept_invitation e token password client_ip d = (Inr z, d')"
  obtains inv u where "inv \<in> set (user_invitations d)" and "iv_token_hash inv = token_hash (ie_auth e) token"
    and "iv_accepted_at inv = None" and "ie_now e 0 < iv_expires_at inv"
    and "row_get u_id (iv_user_id inv) (users d) = Some u" and "integrity d'"
    and "d' = add_audit (identity_audit e 0 (Some (u_id u)) ''user.invitation_accepted''
              (Some (uuid_str (u_id u))) [(''role'', JStr (u_role u))] client_ip)
            (d\<lparr>users := row_upd u_id (u_id u)
                 (\<lambda>x. x\<lparr>u_password_hash := Some (ae_hash (ie_auth e) 0 password), u_enabled := True\<rparr>) (users d),
               user_invitations := row_upd iv_id (iv_id inv) (\<lambda>x. x\<lparr>iv_accepted_at := Some (ie_now e 0)\<rparr>) (user_invitations d)\<rparr>)"
proof -
  from assms obtain inv u where "find (\<lambda>i. iv_token_hash i = token_hash (ie_auth e) token
              \<and> iv_accepted_at i = None \<and> ie_now e 0 < iv_expires_at i) (user_invitations d) = Some inv"
    "row_get u_id (iv_user_id inv) (users d) = Some u" "integrity d'"
    "d' = add_audit (identity_audit e 0 (Some (u_id u)) ''user.invitation_accepted''
              (Some (uuid_str (u_id u))) [(''role'', JStr (u_role u))] client_ip)
            (d\<lparr>users := row_upd u_id (u_id u)
                 (\<lambda>x. x\<lparr>u_password_hash := Some (ae_hash (ie_auth e) 0 password), u_enabled := True\<rparr>) (users d),
               user_invitations := row_upd iv_id (iv_id inv) (\<lambda>x. x\<lparr>iv_accepted_at := Some (ie_now e 0)\<rparr>) (user_invitations d)\<rparr>)"
    unfolding accept_invitation_def Let_def res_simps by auto
  then show ?thesis by (intro that [of inv u]) (auto simp: find_Some_iff)
qed

lemma complete_password_reset_Inr:
  assumes "complete_password_reset e token password client_ip d = (Inr z, d')"
  obtains rst u where "rst \<in> set (password_reset_tokens d)" and "pr_token_hash rst = token_hash (ie_auth e) token"
    and "pr_used_at rst = None" and "ie_now e 0 < pr_expires_at rst"
    and "row_get u_id (pr_user_id rst) (users d) = Some u" and "u_enabled u" and "integrity d'"
    and "d' = add_audit (identity_audit e 0 (Some (u_id u)) ''identity.password_reset_completed''
              (Some (uuid_str (u_id u))) [(''sessions_revoked'', JBool True)] client_ip)
            (d\<lparr>users := row_upd u_id (u_id u) (\<lambda>x. x\<lparr>u_password_hash := Some (ae_hash (ie_auth e) 0 password)\<rparr>) (users d),
               password_reset_tokens := row_upd pr_id (pr_id rst) (\<lambda>x. x\<lparr>pr_used_at := Some (ie_now e 0)\<rparr>) (password_reset_tokens d),
               user_sessions := revoke_user (u_id u) (ie_now e 0) (user_sessions d)\<rparr>)"
proof -
  from assms obtain rst u where "find (\<lambda>t. pr_token_hash t = token_hash (ie_auth e) token
              \<and> pr_used_at t = None \<and> ie_now e 0 < pr_expires_at t) (password_reset_tokens d) = Some rst"
    "row_get u_id (pr_user_id rst) (users d) = Some u" "u_enabled u" "integrity d'"
    "d' = add_audit (identity_audit e 0 (Some (u_id u)) ''identity.password_reset_completed''
              (Some (uuid_str (u_id u))) [(''sessions_revoked'', JBool True)] client_ip)
            (d\<lparr>users := row_upd u_id (u_id u) (\<lambda>x. x\<lparr>u_password_hash := Some (ae_hash (ie_auth e) 0 password)\<rparr>) (users d),
               password_reset_tokens := row_upd pr_id (pr_id rst) (\<lambda>x. x\<lparr>pr_used_at := Some (ie_now e 0)\<rparr>) (password_reset_tokens d),
               user_sessions := revoke_user (u_id u) (ie_now e 0) (user_sessions d)\<rparr>)"
    unfolding complete_password_reset_def Let_def res_simps by auto
  then show ?thesis by (intro that [of rst u]) (auto simp: find_Some_iff)
qed

lemma update_user_Inr:
  assumes "update_user e user_id role en actor_id client_ip d = (Inr z, d')"
  obtains u where "row_get u_id user_id (users d) = Some u" and "en \<longrightarrow> u_password_hash u \<noteq> None"
    and "u_role u = ''owner'' \<and> (role \<noteq> ''owner'' \<or> \<not> en) \<longrightarrow>
           1 < length (filter (\<lambda>x. u_role x = ''owner'' \<and> u_enabled x) (users d))"
    and "integrity d'"
    and "d' = add_audit (identity_audit e 0 (Some actor_id) ''user.updated'' (Some (uuid_str (u_id u)))
             [(''role'', JList [JStr (u_role u), JStr role]), (''enabled'', JList [JBool (u_enabled u), JBool en])] client_ip)
           (d\<lparr>users := row_upd u_id user_id (\<lambda>x. x\<lparr>u_role := role, u_enabled := en\<rparr>) (users d),
              user_sessions := (if en then user_sessions d else revoke_user user_id (ie_now e 0) (user_sessions d))\<rparr>)"
proof -
  from assms obtain u where "row_get u_id user_id (users d) = Some u" "\<not> (en \<and> u_password_hash u = None)"
    "\<not> (u_role u = ''owner'' \<and> (role \<noteq> ''owner'' \<or> \<not> en)
              \<and> length (filter (\<lambda>x. u_role x = ''owner'' \<and> u_enabled x) (users d)) \<le> 1)"
    "integrity d'"
    "d' = add_audit (identity_audit e 0 (Some actor_id) ''user.updated'' (Some (uuid_str (u_id u)))
             [(''role'', JList [JStr (u_role u), JStr role]), (''enabled'', JList [JBool (u_enabled u), JBool en])] client_ip)
           (d\<lparr>users := row_upd u_id user_id (\<lambda>x. x\<lparr>u_role := role, u_enabled := en\<rparr>) (users d),
              user_sessions := (if en then user_sessions d else revoke_user user_id (ie_now e 0) (user_sessions d))\<rparr>)"
    unfolding update_user_def res_simps by auto
  then show ?thesis by (intro that [of u]) auto
qed

lemma unique_key_eq: "distinct (map key xs) \<Longrightarrow> x \<in> set xs \<Longrightarrow> y \<in> set xs \<Longrightarrow> key x = key y \<Longrightarrow> x = y"
  by (metis distinct_map inj_onD)

text \<open>After a row with a unique key was changed, the query that asks for the old value finds nothing.\<close>

lemma find_updated_None:
  assumes "distinct (map key rows)" and "x \<in> set rows" and "\<And>r. key (f r) = key r" and "\<And>r. \<not> P (f r)"
  shows "find (\<lambda>r. key r = key x \<and> P r) (row_upd ident (ident x) f rows) = None"
proof -
  have "\<not> P r" if "r \<in> set (row_upd ident (ident x) f rows)" "key r = key x" for r
  proof -
    from that(1) obtain r0 where r0: "r0 \<in> set rows" "r = (if ident r0 = ident x then f r0 else r0)"
      unfolding set_row_upd by blast
    then have "key r0 = key x" using that(2) assms(3) by (auto split: if_splits)
    then have "r0 = x" using unique_key_eq [OF assms(1) r0(1) assms(2)] by simp
    with r0 assms(4) show ?thesis by simp
  qed
  then show ?thesis by (auto simp: find_None_iff)
qed

lemma row_upd_keeps_distinct: "(\<And>r. key (f r) = key r) \<Longrightarrow> map key (row_upd ident k f rows) = map key rows"
  by (rule map_row_upd)

section \<open>Tokens are used once\<close>

text \<open>
  An invitation is accepted once. When acceptance succeeds, the token belongs to an invitation that
  was open and had not expired, the invited user is now enabled and the chosen password verifies; a
  second acceptance with the same token, at whatever time and with whatever password, is refused and changes nothing.
\<close>

theorem invitation_single_use:
  assumes "accept_invitation e token password client_ip d = (Inr (), d')" and "integrity d"
    and "hasher_correct (ie_auth e)" and "ae_sha256 (ie_auth e2) = ae_sha256 (ie_auth e)"
  shows "(\<exists>inv \<in> set (user_invitations d). \<exists>u \<in> set (users d'). iv_token_hash inv = token_hash (ie_auth e) token
            \<and> iv_accepted_at inv = None \<and> ie_now e 0 < iv_expires_at inv \<and> u_id u = iv_user_id inv
            \<and> u_enabled u \<and> verify_hash (ie_auth e) (u_password_hash u) password = Inr True)
    \<and> accept_invitation e2 token password2 client_ip2 d' = (Inl InvalidTokenError, d')"
proof -
  from assms(1) obtain inv u where inv: "inv \<in> set (user_invitations d)" "iv_token_hash inv = token_hash (ie_auth e) token"
    "iv_accepted_at inv = None" "ie_now e 0 < iv_expires_at inv"
    and u: "row_get u_id (iv_user_id inv) (users d) = Some u"
    and us: "users d' = row_upd u_id (u_id u)
       (\<lambda>x. x\<lparr>u_password_hash := Some (ae_hash (ie_auth e) 0 password), u_enabled := True\<rparr>) (users d)"
    and ivs: "user_invitations d' = row_upd iv_id (iv_id inv) (\<lambda>x. x\<lparr>iv_accepted_at := Some (ie_now e 0)\<rparr>) (user_invitations d)"
    by (rule accept_invitation_Inr) simp
  have dist: "distinct (map iv_token_hash (user_invitations d))"
    using assms(2) by (simp add: integrity_def invitations_ok_def)
  have "find (\<lambda>i. iv_token_hash i = token_hash (ie_auth e2) token \<and> iv_accepted_at i = None
      \<and> ie_now e2 0 < iv_expires_at i) (user_invitations d') = None"
    unfolding ivs using find_updated_None [OF dist inv(1), of "\<lambda>x. x\<lparr>iv_accepted_at := Some (ie_now e 0)\<rparr>"
      "\<lambda>i. iv_accepted_at i = None \<and> ie_now e2 0 < iv_expires_at i" iv_id] inv(2) token_hash_cong [OF assms(4)]
    by simp
  then have "accept_invitation e2 token password2 client_ip2 d' = (Inl InvalidTokenError, d')"
    by (simp add: accept_invitation_def atomic_def)
  moreover have "u\<lparr>u_password_hash := Some (ae_hash (ie_auth e) 0 password), u_enabled := True\<rparr> \<in> set (users d')"
    unfolding us set_row_upd using row_get_SomeD [OF u] by (intro bexI [of _ u]) simp_all
  moreover have "verify_hash (ie_auth e) (Some (ae_hash (ie_auth e) 0 password)) password = Inr True"
    using assms(3) by (simp add: hasher_correct_def verify_hash_def)
  ultimately show ?thesis
    using inv row_get_SomeD [OF u] by (intro conjI bexI [of _ inv] bexI [of _ "u\<lparr>u_password_hash := Some (ae_hash (ie_auth e) 0 password), u_enabled := True\<rparr>"]) simp_all
qed

text \<open>A user whose open sessions have all been revoked is authenticated by no token.\<close>

lemma revoked_locked_out:
  assumes "user_sessions d' = revoke_user i now ss" and "current_user e token d' = Inr (Some a)"
  shows "au_id a \<noteq> i"
proof
  assume "au_id a = i"
  with current_user_SomeD [OF assms(2)] obtain s where "s \<in> set (user_sessions d')" "s_user_id s = i"
    "session_live (ae_now e 0) s" by (auto simp: public_user_def)
  with assms(1) revoke_user_dead [of s i now ss] show False by (simp add: session_live_def)
qed

text \<open>
  C37: a password reset link is used once and logs every device out. When the reset succeeds, the token
  was open and unexpired and its user enabled; the new password verifies, no session token authenticates
  the user any more, and the same link is refused from then on.
\<close>

theorem reset_single_use:
  assumes "complete_password_reset e token password client_ip d = (Inr (), d')" and "integrity d"
    and "hasher_correct (ie_auth e)" and "ae_sha256 (ie_auth e2) = ae_sha256 (ie_auth e)"
  shows "\<exists>rst \<in> set (password_reset_tokens d). \<exists>u \<in> set (users d'). pr_token_hash rst = token_hash (ie_auth e) token
        \<and> pr_used_at rst = None \<and> ie_now e 0 < pr_expires_at rst \<and> u_id u = pr_user_id rst \<and> u_enabled u
        \<and> verify_hash (ie_auth e) (u_password_hash u) password = Inr True
        \<and> (\<forall>e3 t a. current_user e3 t d' = Inr (Some a) \<longrightarrow> au_id a \<noteq> u_id u)
        \<and> complete_password_reset e2 token password2 client_ip2 d' = (Inl InvalidTokenError, d')"
proof -
  from assms(1) obtain rst u where rst: "rst \<in> set (password_reset_tokens d)" "pr_token_hash rst = token_hash (ie_auth e) token"
    "pr_used_at rst = None" "ie_now e 0 < pr_expires_at rst"
    and u: "row_get u_id (pr_user_id rst) (users d) = Some u" "u_enabled u"
    and us: "users d' = row_upd u_id (u_id u) (\<lambda>x. x\<lparr>u_password_hash := Some (ae_hash (ie_auth e) 0 password)\<rparr>) (users d)"
    and ts: "password_reset_tokens d' = row_upd pr_id (pr_id rst) (\<lambda>x. x\<lparr>pr_used_at := Some (ie_now e 0)\<rparr>) (password_reset_tokens d)"
    and ss: "user_sessions d' = revoke_user (u_id u) (ie_now e 0) (user_sessions d)"
    by (rule complete_password_reset_Inr) simp
  have dist: "distinct (map pr_token_hash (password_reset_tokens d))"
    using assms(2) by (simp add: integrity_def resets_ok_def)
  have "find (\<lambda>t. pr_token_hash t = token_hash (ie_auth e2) token \<and> pr_used_at t = None
      \<and> ie_now e2 0 < pr_expires_at t) (password_reset_tokens d') = None"
    unfolding ts using find_updated_None [OF dist rst(1), of "\<lambda>x. x\<lparr>pr_used_at := Some (ie_now e 0)\<rparr>"
      "\<lambda>t. pr_used_at t = None \<and> ie_now e2 0 < pr_expires_at t" pr_id] rst(2) token_hash_cong [OF assms(4)]
    by simp
  then have again: "complete_password_reset e2 token password2 client_ip2 d' = (Inl InvalidTokenError, d')"
    by (simp add: complete_password_reset_def atomic_def)
  let ?u = "u\<lparr>u_password_hash := Some (ae_hash (ie_auth e) 0 password)\<rparr>"
  have "?u \<in> set (users d')"
    unfolding us set_row_upd using row_get_SomeD [OF u(1)] by (intro bexI [of _ u]) simp_all
  moreover have "verify_hash (ie_auth e) (Some (ae_hash (ie_auth e) 0 password)) password = Inr True"
    using assms(3) by (simp add: hasher_correct_def verify_hash_def)
  ultimately show ?thesis
    using again rst u row_get_SomeD [OF u(1)] revoked_locked_out [OF ss]
    by (intro bexI [of _ rst] bexI [of _ ?u]) simp_all
qed

section \<open>Disabling a user\<close>

lemma row_upd_all_key:
  "x \<in> set (row_upd key k f rows) \<Longrightarrow> key x = k \<Longrightarrow> (\<And>r. key (f r) = key r) \<Longrightarrow> \<exists>r \<in> set rows. x = f r"
  unfolding set_row_upd by (metis (full_types))

text \<open>
  C36: a disabled user is locked out, and stays logged out. After an update that disables a user no token
  authenticates the user and no login succeeds as the user; and when the user is enabled again, the
  tokens issued before are still dead.
\<close>

theorem disabled_user_locked_out:
  assumes "update_user e user_id role False actor_id client_ip d = (Inr (), d')"
  shows "(\<forall>e2 token a. current_user e2 token d' = Inr (Some a) \<longrightarrow> au_id a \<noteq> user_id)
    \<and> (\<forall>e2 ident password ip r d''. login e2 ident password ip d' = (Inr r, d'') \<longrightarrow> au_id (ar_user r) \<noteq> user_id)
    \<and> (\<forall>e2 role2 actor2 ip d'' e3 token a. update_user e2 user_id role2 True actor2 ip d' = (Inr (), d'')
          \<and> current_user e3 token d'' = Inr (Some a) \<longrightarrow> au_id a \<noteq> user_id)"
proof -
  from assms have us: "users d' = row_upd u_id user_id (\<lambda>x. x\<lparr>u_role := role, u_enabled := False\<rparr>) (users d)"
    and ss: "user_sessions d' = revoke_user user_id (ie_now e 0) (user_sessions d)"
    by (auto elim!: update_user_Inr)
  have "au_id (ar_user r) \<noteq> user_id" if l: "login e2 ident password ip d' = (Inr r, d'')" for e2 ident password ip r d''
  proof
    assume id: "au_id (ar_user r) = user_id"
    from l obtain u where "login_user e2 ident d' = Some u" "ar_user r = public_user u"
      by (rule login_Inr) simp
    then have u: "u \<in> set (users d')" "u_enabled u" "u_id u = user_id"
      using login_user_Some id by (auto simp: public_user_def)
    from row_upd_all_key [OF u(1) [unfolded us] u(3)] u(2) show False by auto
  qed
  moreover have "au_id a \<noteq> user_id" if up: "update_user e2 user_id role2 True actor2 ip d' = (Inr (), d'')"
    and c: "current_user e3 token d'' = Inr (Some a)" for e2 role2 actor2 ip d'' e3 token a
  proof -
    from up have "user_sessions d'' = user_sessions d'" by (auto elim!: update_user_Inr)
    with ss revoked_locked_out [of d'' user_id _ _ e3 token a] c show ?thesis by simp
  qed
  ultimately show ?thesis using revoked_locked_out [OF ss] by blast
qed

section \<open>Samples\<close>

definition sample_identity :: identity_env where
  "sample_identity = \<lparr>ie_auth = sample_auth, ie_crypto = sample_crypto, ie_cipher = Some sample_cipher,
     ie_nonce = replicate 12 0, ie_smtp = sample_smtp\<rparr>"

definition sample_admin :: user where
  "sample_admin = \<lparr>u_id = 2, u_username = ''ann'', u_email = ''ann@x.io'', u_password_hash = Some ''h:ann'',
     u_role = ''admin'', u_enabled = True, u_last_login_at = None, u_created_at = 0\<rparr>"

definition identity_db :: db where
  "identity_db = sample_db\<lparr>users := [sample_owner, sample_admin],
     user_sessions := [\<lparr>s_id = 20, s_user_id = 2, s_token_hash = token_hash sample_auth ''t'', s_expires_at = 5000,
        s_revoked_at = None, s_client_ip = ''10.0.0.9'', s_created_at = 0\<rparr>],
     user_invitations := [\<lparr>iv_id = 30, iv_user_id = 2, iv_invited_by = Some 1, iv_token_hash = token_hash sample_auth ''inv'',
        iv_expires_at = 5000, iv_accepted_at = None, iv_created_at = 0\<rparr>],
     password_reset_tokens := [\<lparr>pr_id = 40, pr_user_id = 2, pr_token_hash = token_hash sample_auth ''rst'',
        pr_expires_at = 5000, pr_used_at = None, pr_created_at = 0\<rparr>]\<rparr>"

lemmas identity_db_eval = identity_db_def sample_db_def empty_db_def sample_owner_def sample_admin_def
  integrity_defs identity_audit_def mk_audit_def row_upd_def revoke_user_def sample_identity_def sample_auth_simps

lemma identity_db_integrity: "integrity identity_db"
  by (simp add: identity_db_eval)

lemma sample_disable: "\<exists>d'. update_user sample_identity 2 ''admin'' False 1 ''10.0.0.9'' identity_db = (Inr (), d')"
proof -
  have "row_get u_id 2 (users identity_db) = Some sample_admin"
    by (simp add: identity_db_def row_get_def sample_owner_def sample_admin_def)
  moreover have "u_role sample_admin = ''admin''" by (simp add: sample_admin_def)
  moreover have "integrity (add_audit (identity_audit sample_identity 0 (Some 1) ''user.updated'' (Some (uuid_str (u_id sample_admin)))
             [(''role'', JList [JStr ''admin'', JStr ''admin'']), (''enabled'', JList [JBool (u_enabled sample_admin), JBool False])] ''10.0.0.9'')
           (identity_db\<lparr>users := row_upd u_id 2 (\<lambda>x. x\<lparr>u_role := ''admin'', u_enabled := False\<rparr>) (users identity_db),
              user_sessions := revoke_user 2 (ie_now sample_identity 0) (user_sessions identity_db)\<rparr>))"
    by (simp add: identity_db_eval)
  ultimately show ?thesis by (simp add: update_user_def commit_def atomic_def)
qed

theorem disabled_user_locked_out_witness:
  "\<exists>d'. update_user sample_identity 2 ''admin'' False 1 ''10.0.0.9'' identity_db = (Inr (), d')
     \<and> current_user sample_auth ''t'' d' \<noteq> Inr (Some (public_user sample_admin))"
proof -
  obtain d' where u: "update_user sample_identity 2 ''admin'' False 1 ''10.0.0.9'' identity_db = (Inr (), d')"
    using sample_disable by blast
  have "au_id (public_user sample_admin) = 2" by (simp add: public_user_def sample_admin_def)
  with u disabled_user_locked_out [OF u] show ?thesis by metis
qed

lemma sample_accept: "\<exists>d'. accept_invitation sample_identity ''inv'' ''pw2'' ''10.0.0.9'' identity_db = (Inr (), d')"
  by (simp add: accept_invitation_def commit_def atomic_def row_get_def identity_db_eval)

theorem invitation_single_use_witness:
  "\<exists>d'. accept_invitation sample_identity ''inv'' ''again'' ''10.0.0.7'' d' = (Inl InvalidTokenError, d')
     \<and> accept_invitation sample_identity ''inv'' ''pw2'' ''10.0.0.9'' identity_db = (Inr (), d')"
proof -
  obtain d' where a: "accept_invitation sample_identity ''inv'' ''pw2'' ''10.0.0.9'' identity_db = (Inr (), d')"
    using sample_accept by blast
  have "hasher_correct (ie_auth sample_identity)" by (simp add: sample_identity_def sample_hasher)
  from invitation_single_use [OF a identity_db_integrity this refl] a show ?thesis by blast
qed

lemma sample_reset: "\<exists>d'. complete_password_reset sample_identity ''rst'' ''pw2'' ''10.0.0.9'' identity_db = (Inr (), d')"
  by (simp add: complete_password_reset_def commit_def atomic_def row_get_def identity_db_eval)

theorem reset_single_use_witness:
  "\<exists>d'. complete_password_reset sample_identity ''rst'' ''again'' ''10.0.0.7'' d' = (Inl InvalidTokenError, d')
     \<and> complete_password_reset sample_identity ''rst'' ''pw2'' ''10.0.0.9'' identity_db = (Inr (), d')"
proof -
  obtain d' where a: "complete_password_reset sample_identity ''rst'' ''pw2'' ''10.0.0.9'' identity_db = (Inr (), d')"
    using sample_reset by blast
  have "hasher_correct (ie_auth sample_identity)" by (simp add: sample_identity_def sample_hasher)
  from reset_single_use [OF a identity_db_integrity this refl] a show ?thesis by blast
qed

end
