(* ===== verification/Stored_Data.thy ===== *)
theory Stored_Data
  imports Engine_Runtime Observability Identity_Service
begin

text \<open>
  What every operation of the web application keeps of the database: the constraints of the tables,
  the validity of the stored documents, an enabled owner, and the audit trail. The lemmas here say it of each
  operation; \<^verbatim>\<open>Spec2Isabelle\<close> puts them together for whole runs.
\<close>

section \<open>Valid stored documents\<close>

text \<open>
  Two calls run in the same deployment when they use the same libraries and the same master key
  and their nonces have the length the cipher asks for.
\<close>

definition env_like :: "'k env \<Rightarrow> 'k env \<Rightarrow> bool" where
  "env_like e0 e \<longleftrightarrow> lib_repr (e_lib e) = lib_repr (e_lib e0) \<and> lib_from_line (e_lib e) = lib_from_line (e_lib e0)
     \<and> e_crypto e = e_crypto e0 \<and> e_cipher e = e_cipher e0 \<and> length (e_nonce e 0) = 12"

definition device_ok :: "'k env \<Rightarrow> device \<Rightarrow> bool" where
  "device_ok e dev \<longleftrightarrow> registry_get (d_driver_type dev) = Inr FortiGateSSHDriver
     \<and> validate_configuration (e_lib e) (d_configuration dev) = Inr (d_configuration dev) \<and> d_name dev \<noteq> []"

text \<open>A credential under the current key decrypts to one that validates; others are left alone.\<close>

definition credential_ok :: "'k env \<Rightarrow> device_credential \<Rightarrow> bool" where
  "credential_ok e c \<longleftrightarrow>
     (case e_cipher e of
        None \<Rightarrow> True
      | Some ci \<Rightarrow> dc_key_id c = key_id ci \<longrightarrow>
          (case cipher_decrypt (e_crypto e) ci (dc_encrypted_payload c) of
             Inl _ \<Rightarrow> False
           | Inr stored \<Rightarrow> \<not> isl (validate_credentials (lib_repr (e_lib e)) stored)))"

definition stored_mapping_ok :: "'k env \<Rightarrow> listener_mapping \<Rightarrow> bool" where
  "stored_mapping_ok e m \<longleftrightarrow>
     validate_listener_parameters (lib_repr (e_lib e)) (m_driver_parameters m) = Inr (m_driver_parameters m)
     \<and> normalize_ip (m_allowed_source_ip m) = Some (m_allowed_source_ip m) \<and> m_name m \<noteq> [] \<and> 1 \<le> m_version m"

definition port_ok :: "application_settings option \<Rightarrow> listener_mapping \<Rightarrow> bool" where
  "port_ok s m \<longleftrightarrow> (case s of None \<Rightarrow> True
     | Some st \<Rightarrow> as_udp_port_start st \<le> m_udp_port m \<and> m_udp_port m \<le> as_udp_port_end st)"

definition stored_ok :: "'k env \<Rightarrow> db \<Rightarrow> bool" where
  "stored_ok e d \<longleftrightarrow> list_all (device_ok e) (devices d) \<and> list_all (credential_ok e) (device_credentials d)
     \<and> list_all (stored_mapping_ok e) (listener_mappings d) \<and> list_all (port_ok (app_settings d)) (listener_mappings d)"

text \<open>The columns of an audit row that no later operation changes.\<close>

definition audit_key :: "audit_event \<Rightarrow> uuid \<times> string \<times> string \<times> string option \<times> dict \<times> string \<times> time" where
  "audit_key a = (a_id a, a_action a, a_object_type a, a_object_id a, a_safe_changes a, a_client_ip a, a_occurred_at a)"

definition audit_grows :: "db \<Rightarrow> db \<Rightarrow> bool" where
  "audit_grows d d' \<longleftrightarrow> take (length (audit_events d)) (map audit_key (audit_events d')) = map audit_key (audit_events d)"

text \<open>A step that keeps all of this.\<close>

definition good_step :: "'k env \<Rightarrow> db \<Rightarrow> db \<Rightarrow> bool" where
  "good_step e d d' \<longleftrightarrow> (integrity d \<longrightarrow> integrity d' \<and> (stored_ok e d \<longrightarrow> stored_ok e d')
     \<and> (owner_exists d \<longrightarrow> owner_exists d'))"

definition safe_step :: "'k env \<Rightarrow> db \<Rightarrow> db \<Rightarrow> bool" where
  "safe_step e d d' \<longleftrightarrow> good_step e d d' \<and> audit_grows d d'"

section \<open>Composition\<close>

lemma good_refl [simp]: "good_step e d d"
  by (simp add: good_step_def)

lemma good_trans: "good_step e d d1 \<Longrightarrow> good_step e d1 d2 \<Longrightarrow> good_step e d d2"
  by (simp add: good_step_def)

lemma grows_refl [simp]: "audit_grows d d"
  by (simp add: audit_grows_def)

lemma grows_append: "map audit_key (audit_events d') = map audit_key (audit_events d) @ ks \<Longrightarrow> audit_grows d d'"
  by (simp add: audit_grows_def)

lemma grows_iff: "audit_grows d d' \<longleftrightarrow> (\<exists>ks. map audit_key (audit_events d') = map audit_key (audit_events d) @ ks)"
  by (metis append_take_drop_id audit_grows_def append_eq_conv_conj length_map)

lemma grows_trans: "audit_grows d d1 \<Longrightarrow> audit_grows d1 d2 \<Longrightarrow> audit_grows d d2"
  unfolding grows_iff by force

lemma safe_refl [simp]: "safe_step e d d"
  by (simp add: safe_step_def)

lemma safe_trans: "safe_step e d d1 \<Longrightarrow> safe_step e d1 d2 \<Longrightarrow> safe_step e d d2"
  unfolding safe_step_def using good_trans grows_trans by blast

lemma safe_atomic:
  "(\<And>a d'. tx = Inr (a, d') \<Longrightarrow> safe_step e d d') \<Longrightarrow> safe_step e d (snd (atomic d tx))"
  by (auto simp: atomic_def split: sum.split)

lemma snd_and_then_reading [simp]: "snd (and_then r (\<lambda>i. reading (q i))) = snd r"
  by (cases r; cases "fst r") (auto simp: and_then_def reading_def)

lemma snd_and_then_const [simp]: "snd (and_then r (\<lambda>a. Pair (f a))) = snd r"
  by (cases r; cases "fst r") (auto simp: and_then_def)

text \<open>A step that adds one audit row to a step that touches no audit row.\<close>

lemma grows_add_audit: "audit_events d1 = audit_events d \<Longrightarrow> audit_grows d (add_audit a d1)"
  by (rule grows_append) simp

text \<open>A step that leaves the tables of the devices and the users alone.\<close>

lemma good_frame:
  assumes "integrity d \<Longrightarrow> integrity d'" and "devices d' = devices d" and "device_credentials d' = device_credentials d"
    and "listener_mappings d' = listener_mappings d" and "app_settings d' = app_settings d" and "users d' = users d"
  shows "good_step e d d'"
  using assms by (simp add: good_step_def stored_ok_def port_ok_def owner_exists_def)

text \<open>A step that leaves the users alone: only the stored documents are in question.\<close>

lemma good_stored:
  assumes "integrity d'" and "users d' = users d" and "stored_ok e d \<Longrightarrow> stored_ok e d'"
  shows "good_step e d d'"
  using assms by (simp add: good_step_def owner_exists_def)

lemma stored_ok_add_audit [simp]: "stored_ok e (add_audit a d) = stored_ok e d"
  by (simp add: stored_ok_def)

lemma safe_audit:
  assumes "integrity (add_audit a d1)" and "users d1 = users d" and "audit_events d1 = audit_events d"
    and "stored_ok e d \<Longrightarrow> stored_ok e d1"
  shows "safe_step e d (add_audit a d1)"
  using assms by (auto simp: safe_step_def intro!: good_stored grows_add_audit)

text \<open>A step on the users: only the owners are in question.\<close>

lemma good_users:
  assumes "integrity d'" and "devices d' = devices d" and "device_credentials d' = device_credentials d"
    and "listener_mappings d' = listener_mappings d" and "app_settings d' = app_settings d"
    and "integrity d \<Longrightarrow> owner_exists d \<Longrightarrow> owner_exists d'"
  shows "good_step e d d'"
  using assms by (simp add: good_step_def stored_ok_def port_ok_def)

lemma validate_configuration_cong:
  "lib_repr l = lib_repr l' \<Longrightarrow> lib_from_line l = lib_from_line l' \<Longrightarrow>
     validate_configuration l c = validate_configuration l' c"
  by (simp add: validate_configuration_def)

lemma env_like_validate:
  assumes "env_like e0 e"
  shows "validate_configuration (e_lib e) c = validate_configuration (e_lib e0) c"
    and "lib_repr (e_lib e) = lib_repr (e_lib e0)"
  using assms validate_configuration_cong [of "e_lib e" "e_lib e0"] by (simp_all add: env_like_def)

lemma list_all_row_upd:
  assumes "list_all P rows" and "\<And>r. r \<in> set rows \<Longrightarrow> key r = k \<Longrightarrow> P r \<Longrightarrow> P (f r)"
  shows "list_all P (row_upd key k f rows)"
  using assms by (auto simp: list_all_iff set_row_upd)

lemma list_all_row_del: "list_all P rows \<Longrightarrow> list_all P (row_del key k rows)"
  by (simp add: list_all_iff)

section \<open>Devices\<close>

lemma registry_get_driver: "registry_get t = Inr x \<Longrightarrow> registry_get t = Inr FortiGateSSHDriver"
  by (cases x) simp

lemma new_credential_ok:
  assumes "env_like e0 e" and "aead_correct (e_crypto e0)" and "e_cipher e = Some ci"
    and "validate_credentials (lib_repr (e_lib e)) c = Inr secret"
  shows "credential_ok e0 (new_credential e ci i secret t)"
proof -
  have "aead_correct (e_crypto e)" "length (e_nonce e 0) = 12" using assms(1,2) by (simp_all add: env_like_def)
  note dec = new_credential_decrypts(1) [OF this assms(3,4), of i t] new_credential_decrypts(2) [OF this assms(3,4)]
  have "cipher_decrypt (e_crypto e0) ci (dc_encrypted_payload (new_credential e ci i secret t)) = Inr (sort_key fst secret)"
    using dec(1) assms(1,3) by (simp add: decrypt_credential_def require_cipher_def env_like_def)
      (simp add: new_credential_def)
  moreover have "e_cipher e0 = Some ci" using assms(1,3) by (simp add: env_like_def)
  ultimately show ?thesis using dec(2) env_like_validate(2) [OF assms(1)] by (simp add: credential_ok_def)
qed

lemma device_create_safe:
  assumes "env_like e0 e" and "aead_correct (e_crypto e0)"
  shows "safe_step e0 d (snd (device_create e name ty conf cred en actor ip d))"
  unfolding device_create_def snd_and_then_reading
proof (rule safe_atomic)
  fix i d' assume "device_create_tx e name ty conf cred en actor ip d = Inr (i, d')"
  then obtain ci driver config secret where c: "e_cipher e = Some ci" "registry_get ty = Inr driver"
    "validate_configuration (e_lib e) conf = Inr config"
    "validate_credentials (lib_repr (e_lib e)) cred = Inr secret" "py_strip name \<noteq> []" "integrity d'"
    and d': "d' = add_audit (op_audit e 1 actor ''device.created'' ''device'' (uuid_str (e_id e 0))
         [(''name'', JStr (py_strip name)), (''driver_type'', JStr ty), (''enabled'', JBool en)]
         ip) (d\<lparr>devices := devices d @ [new_device e name ty config en],
           device_credentials := device_credentials d @ [new_credential e ci (e_id e 0) secret (e_db_now e)]\<rparr>)"
    unfolding device_create_tx_Inr by blast
  have "validate_configuration (e_lib e0) config = Inr config"
    using validate_configuration_idem [OF c(3)] env_like_validate(1) [OF assms(1)] by simp
  then have "device_ok e0 (new_device e name ty config en)"
    using c registry_get_driver [OF c(2)] by (simp add: device_ok_def new_device_def)
  with new_credential_ok [OF assms c(1,4)] c(6) have "good_step e0 d d'"
    by (intro good_stored) (simp_all add: d' stored_ok_def)
  moreover have "audit_grows d d'" unfolding d' by (rule grows_add_audit) simp
  ultimately show "safe_step e0 d d'" by (simp add: safe_step_def)
qed

lemma replace_credential_ok:
  assumes "env_like e0 e" and "aead_correct (e_crypto e0)" and "replace_credential e i cred d = Inr d'"
    and "list_all (credential_ok e0) (device_credentials d)"
  shows "list_all (credential_ok e0) (device_credentials d')" and "audit_events d' = audit_events d"
proof -
  have "list_all (credential_ok e0) (device_credentials d') \<and> audit_events d' = audit_events d"
  proof (cases cred)
    case (Some c)
    then obtain ci secret where ci: "e_cipher e = Some ci"
      and v: "validate_credentials (lib_repr (e_lib e)) c = Inr secret"
      and d': "d' = put_credential (new_credential e ci i secret (e_now e 0)) d"
      using assms(3) by (auto simp: replace_credential_def require_cipher_def res_simps)
    have "credential_ok e0 (new_credential e ci i secret (e_now e 0))"
      by (rule new_credential_ok [OF assms(1,2) ci v])
    with assms(4) show ?thesis unfolding d' put_credential_def by (auto intro: list_all_row_upd)
  qed (use assms in \<open>simp add: replace_credential_def\<close>)
  then show "list_all (credential_ok e0) (device_credentials d')" "audit_events d' = audit_events d" by blast+
qed

lemma replace_credential_audit:
  "replace_credential e i cred d = Inr d' \<Longrightarrow> audit_events d' = audit_events d"
  by (auto simp: replace_credential_def put_credential_def res_simps split: option.splits)

lemma device_update_safe:
  assumes "env_like e0 e" and "aead_correct (e_crypto e0)"
  shows "safe_step e0 d (snd (device_update e i name conf cred en actor ip d))"
  unfolding device_update_def snd_and_then_reading
proof (rule safe_atomic)
  fix j d' assume "device_update_tx e i name conf cred en actor ip d = Inr (j, d')"
  then obtain dev driver config d2 where c: "row_get d_id i (devices d) = Some dev"
    "registry_get (d_driver_type dev) = Inr driver" "py_strip name \<noteq> []"
    "validate_configuration (e_lib e) conf = Inr config" "integrity d'"
    and r: "replace_credential e i cred
      (d\<lparr>devices := row_upd d_id i (set_device (py_strip name) config en) (devices d)\<rparr>) = Inr d2"
    and d': "d' = add_audit (op_audit e 0 actor ''device.updated'' ''device'' (uuid_str i)
            [(''name'', JStr (py_strip name)), (''enabled'', JBool en),
             (''credential_replaced'', JBool (cred \<noteq> None))] ip) d2"
    unfolding device_update_tx_Inr by blast
  have conf: "validate_configuration (e_lib e0) config = Inr config"
    using validate_configuration_idem [OF c(4)] env_like_validate(1) [OF assms(1)] by simp
  note d2 = replace_credential_Inr [OF r]
  have "stored_ok e0 d'" if s: "stored_ok e0 d"
  proof -
    have "list_all (credential_ok e0) (device_credentials d2)"
      using s replace_credential_ok(1) [OF assms r] by (simp add: stored_ok_def)
    moreover have "list_all (device_ok e0) (devices d2)"
      using s d2 c(3) conf by (auto simp: stored_ok_def device_ok_def intro!: list_all_row_upd)
    ultimately show ?thesis using s d2 by (simp add: stored_ok_def d')
  qed
  then have "good_step e0 d d'" using c(5) d2 by (intro good_stored) (simp_all add: d')
  moreover have "audit_grows d d'"
    unfolding d' using replace_credential_audit [OF r] by (intro grows_add_audit) simp
  ultimately show "safe_step e0 d d'" by (simp add: safe_step_def)
qed

lemma device_delete_safe: "safe_step e0 d (snd (device_delete e i actor ip d))"
  unfolding device_delete_def
proof (rule safe_atomic)
  fix u d' assume "res_bind (of_option ResourceNotFoundError (row_get d_id i (devices d))) (\<lambda>dev.
        res_bind (guard (filter (\<lambda>m. m_device_id m = i) (listener_mappings d) = []) ResourceInUseError) (\<lambda>_.
        res_bind (commit (add_audit (op_audit e 0 actor ''device.deleted'' ''device'' (uuid_str i)
             [(''name'', JStr (d_name dev))] ip) (delete_device_row i d))) (\<lambda>d1.
        Inr ((), d1)))) = Inr (u, d')"
  then obtain a where "integrity d'" and d': "d' = add_audit a (delete_device_row i d)"
    unfolding res_simps by blast
  then show "safe_step e0 d d'"
    unfolding d' by (intro safe_audit) (simp_all add: delete_device_row_def stored_ok_def list_all_row_del)
qed

lemma device_ok_health [simp]:
  "device_ok e (x\<lparr>d_health_status := a, d_last_checked_at := b\<rparr>) = device_ok e x"
  by (simp add: device_ok_def)

lemma device_test_connection_safe: "safe_step e0 d (snd (device_test_connection e i actor ip d))"
  unfolding device_test_connection_def
proof (rule safe_atomic, unfold res_simps, elim exE conjE)
  fix u d' dev cred r d1
  assume "integrity (add_audit (op_audit e 0 actor ''device.connection_tested'' ''device''
             (uuid_str i) [(''status'', JStr (tr_status r)), (''reason'', opt_str (tr_reason r))] ip)
             (d\<lparr>devices := row_upd d_id i
                (\<lambda>x. x\<lparr>d_health_status := tr_status r, d_last_checked_at := Some (e_now e 0)\<rparr>) (devices d)\<rparr>))"
    and "d1 = add_audit (op_audit e 0 actor ''device.connection_tested'' ''device''
             (uuid_str i) [(''status'', JStr (tr_status r)), (''reason'', opt_str (tr_reason r))] ip)
             (d\<lparr>devices := row_upd d_id i
                (\<lambda>x. x\<lparr>d_health_status := tr_status r, d_last_checked_at := Some (e_now e 0)\<rparr>) (devices d)\<rparr>)"
    and "Inr (r, d1) = Inr (u, d')"
  then show "safe_step e0 d d'"
    by (auto intro!: safe_audit list_all_row_upd simp: stored_ok_def)
qed

text \<open>A commit that only adds an audit row.\<close>

lemma safe_only_audit: "safe_step e d (snd (atomic d (res_bind (commit (add_audit a d)) (\<lambda>d1. Inr (f d1, d1)))))"
  by (rule safe_atomic) (auto simp: res_simps intro: safe_audit)

lemma device_discover_safe: "safe_step e0 d (snd (device_discover_host_key e ty conf cred actor ip d))"
  using safe_only_audit [of e0 d _ "\<lambda>_. ()"] safe_only_audit [of e0 d _ "\<lambda>_. _ :: host_key_discovery_result"]
  by (auto simp: device_discover_host_key_def Let_def split: sum.splits exn.splits)

section \<open>Listeners and the engine\<close>

lemma new_mapping_ok:
  assumes "env_like e0 e" and "normalize_ip (py_strip src) = Some source"
    and "validate_listener_parameters (lib_repr (e_lib e)) ps = Inr parameters" and "py_strip name \<noteq> []"
  shows "stored_mapping_ok e0 (new_mapping e i name descr port source parameters en)"
    and "stored_mapping_ok e0 m \<Longrightarrow> stored_mapping_ok e0 (set_mapping e i name descr port source parameters en m)"
  using assms validate_listener_parameters_idem [OF assms(3)] normalize_ip_idem [OF assms(2)]
    env_like_validate(2) [OF assms(1)]
  by (simp_all add: stored_mapping_ok_def new_mapping_def)

lemma listener_create_safe:
  assumes "env_like e0 e"
  shows "safe_step e0 d (snd (listener_create e i name descr port src ps en actor ip d))"
  unfolding listener_create_def snd_and_then_reading
proof (rule safe_atomic)
  fix j d' assume "listener_create_tx e i name descr port src ps en actor ip d = Inr (j, d')"
  then show "safe_step e0 d d'"
  proof (rule listener_create_tx_Inr)
    fix source st dev parameters p
    assume c: "normalize_ip (py_strip src) = Some source" "app_settings d = Some st"
      "validate_listener_parameters (lib_repr (e_lib e)) ps = Inr parameters"
      "as_udp_port_start st \<le> p" "p \<le> as_udp_port_end st" "py_strip name \<noteq> []" "integrity d'"
      and d': "d' = add_audit (op_audit e 1 actor ''listener.created'' ''listener'' (uuid_str (e_id e 0))
            [(''name'', JStr (py_strip name)), (''udp_port'', JInt p), (''enabled'', JBool en)] ip)
          (d\<lparr>listener_mappings := listener_mappings d @ [new_mapping e i name descr p source parameters en]\<rparr>)"
    have "port_ok (app_settings d) (new_mapping e i name descr p source parameters en)"
      using c by (simp add: port_ok_def new_mapping_def)
    with new_mapping_ok(1) [OF assms c(1,3,6)] c(7) show ?thesis
      unfolding d' by (intro safe_audit) (simp_all add: stored_ok_def)
  qed
qed

lemma listener_update_safe:
  assumes "env_like e0 e"
  shows "safe_step e0 d (snd (listener_update e k v i name descr port src ps en actor ip d))"
  unfolding listener_update_def snd_and_then_reading
proof (rule safe_atomic)
  fix j d' assume "listener_update_tx e k v i name descr port src ps en actor ip d = Inr (j, d')"
  then show "safe_step e0 d d'"
  proof (rule listener_update_tx_Inr)
    fix source m st dev parameters
    assume c: "normalize_ip (py_strip src) = Some source" "app_settings d = Some st"
      "validate_listener_parameters (lib_repr (e_lib e)) ps = Inr parameters"
      "as_udp_port_start st \<le> port" "port \<le> as_udp_port_end st" "py_strip name \<noteq> []" "integrity d'"
      and d': "d' = add_audit (op_audit e 0 actor ''listener.updated'' ''listener'' (uuid_str k)
            [(''name'', JStr (py_strip name)), (''udp_port'', JInt port), (''enabled'', JBool en),
             (''version'', JInt (v + 1))] ip)
            (d\<lparr>listener_mappings := row_upd m_id k (set_mapping e i name descr port source parameters en)
               (listener_mappings d)\<rparr>)"
    have "port_ok (app_settings d) (set_mapping e i name descr port source parameters en x)" for x
      using c by (simp add: port_ok_def)
    with new_mapping_ok(2) [OF assms c(1,3,6)] c(7) show ?thesis
      unfolding d' by (intro safe_audit) (auto simp: stored_ok_def intro!: list_all_row_upd)
  qed
qed

lemma listener_delete_safe: "safe_step e0 d (snd (listener_delete e k actor ip d))"
  unfolding listener_delete_def
proof (rule safe_atomic)
  fix u d' assume "res_bind (of_option ResourceNotFoundError (row_get m_id k (listener_mappings d))) (\<lambda>m.
        res_bind (guard (filter (\<lambda>w. w_mapping_id w = k) (wake_events d) = []) ResourceInUseError) (\<lambda>_.
        res_bind (commit (add_audit (op_audit e 0 actor ''listener.deleted'' ''listener'' (uuid_str k)
             [(''name'', JStr (m_name m)), (''udp_port'', JInt (m_udp_port m))] ip)
             (d\<lparr>listener_mappings := row_del m_id k (listener_mappings d)\<rparr>))) (\<lambda>d1.
        Inr ((), d1)))) = Inr (u, d')"
  then obtain a where "integrity d'"
    and d': "d' = add_audit a (d\<lparr>listener_mappings := row_del m_id k (listener_mappings d)\<rparr>)"
    unfolding res_simps by blast
  then show "safe_step e0 d d'"
    unfolding d' by (intro safe_audit) (simp_all add: stored_ok_def list_all_row_del)
qed

lemma engine_transition_safe: "safe_step e0 d (snd (engine_transition e desired observed err actor ip d))"
  unfolding engine_transition_def snd_and_then_reading
  by (rule safe_atomic) (auto simp: res_simps stored_ok_def intro!: safe_audit)

text \<open>What the running listeners hold: parameters and addresses as they were stored.\<close>

definition runtime_mapping_ok :: "'k env \<Rightarrow> runtime_mapping \<Rightarrow> bool" where
  "runtime_mapping_ok e rm \<longleftrightarrow>
     validate_listener_parameters (lib_repr (e_lib e)) (rm_driver_parameters rm) = Inr (rm_driver_parameters rm)
     \<and> normalize_ip (rm_allowed_source_ip rm) = Some (rm_allowed_source_ip rm)"

definition runtime_ok :: "'k env \<Rightarrow> runtime \<Rightarrow> bool" where
  "runtime_ok e rt \<longleftrightarrow> list_all (\<lambda>(i, rm). runtime_mapping_ok e rm) (rt_listeners rt)"

text \<open>A commit of the tables the engine writes: statuses, its state row, wake events.\<close>

lemma safe_plain:
  assumes "integrity d'" and "users d' = users d" and "audit_events d' = audit_events d"
    and "stored_ok e d \<Longrightarrow> stored_ok e d'"
  shows "safe_step e d d'"
  using assms by (auto simp: safe_step_def intro!: good_stored grows_append [of _ _ "[]"])

lemma stored_mapping_ok_status [simp]:
  "stored_mapping_ok e (m\<lparr>m_status := a, m_last_error := b, m_updated_at := c\<rparr>) = stored_mapping_ok e m"
  "port_ok s (m\<lparr>m_status := a, m_last_error := b, m_updated_at := c\<rparr>) = port_ok s m"
  by (simp_all add: stored_mapping_ok_def port_ok_def split: option.split)

lemma set_mapping_status_safe: "set_mapping_status e i st err d = Inr d' \<Longrightarrow> safe_step e0 d d'"
  by (auto simp: set_mapping_status_def res_simps stored_ok_def intro!: safe_plain list_all_row_upd)

lemma heartbeat_safe: "heartbeat e desired observed err d = Inr d' \<Longrightarrow> safe_step e0 d d'"
  by (auto simp: heartbeat_def res_simps stored_ok_def intro!: safe_plain split: option.splits)

lemma resume_loop_safe: "safe_step e0 d (snd (snd (resume_loop e rows ls f d)))"
proof (induction rows arbitrary: ls f d)
  case (Cons m rows)
  have step: "safe_step e0 d (snd (snd (case set_mapping_status e (m_id m) st err d of
      Inl x \<Rightarrow> (Inl x, ls', d) | Inr d1 \<Rightarrow> resume_loop e rows ls'' f' d1)))" for st err ls' ls'' f'
    using Cons.IH set_mapping_status_safe [of e "m_id m" st err d _ e0]
    by (cases "set_mapping_status e (m_id m) st err d") (auto intro: safe_trans)
  show ?case
  proof (cases "prepare_listener e m d")
    case (Inl x)
    then show ?thesis by (cases x) (simp_all add: Let_def step)
  qed (simp add: Let_def step)
qed simp

lemma resume_loop_listeners:
  "set (fst (snd (resume_loop e rows ls f d))) \<subseteq> set ls \<union> (\<lambda>m. (m_id m, runtime_of m)) ` set rows"
proof (induction rows arbitrary: ls f d)
  case (Cons m rows)
  have ds: "set (dict_set ls k v) \<subseteq> insert (k, v) (set ls)" for ls :: "(uuid \<times> runtime_mapping) list" and k v
    by (induction ls k v rule: dict_set.induct) auto
  have step: "set (fst (snd (case set_mapping_status e (m_id m) st err d of
      Inl x \<Rightarrow> (Inl x, ls', d) | Inr d1 \<Rightarrow> resume_loop e rows ls' f' d1)))
      \<subseteq> set ls' \<union> (\<lambda>m. (m_id m, runtime_of m)) ` set rows" for st err ls' f'
    using Cons.IH by (auto split: sum.split)
  show ?case
  proof (cases "prepare_listener e m d")
    case (Inl x)
    have "set (fst (snd (resume_loop e (m # rows) ls f d))) \<subseteq> set ls \<union> (\<lambda>m. (m_id m, runtime_of m)) ` set rows"
      using Inl by (cases x) (simp_all add: Let_def step)
    then show ?thesis by auto
  next
    case (Inr u)
    then have "set (fst (snd (resume_loop e (m # rows) ls f d)))
        \<subseteq> set (dict_set ls (m_id m) (runtime_of m)) \<union> (\<lambda>m. (m_id m, runtime_of m)) ` set rows"
      by (simp add: Let_def step)
    then show ?thesis using ds [of ls "m_id m" "runtime_of m"] by auto
  qed
qed simp

lemma runtime_rows_ok:
  assumes "stored_ok e0 d" and "set ls \<subseteq> (\<lambda>m. (m_id m, runtime_of m)) ` set (runtime_rows d)"
  shows "list_all (\<lambda>(i, rm). runtime_mapping_ok e0 rm) ls"
proof -
  have "runtime_mapping_ok e0 (runtime_of m)" if "m \<in> set (runtime_rows d)" for m
    using assms(1) that by (auto simp: stored_ok_def list_all_iff stored_mapping_ok_def runtime_rows_def
        runtime_mapping_ok_def runtime_of_def)
  with assms(2) show ?thesis by (auto simp: list_all_iff)
qed

lemma engine_resume_safe:
  "safe_step e0 d (snd (snd (engine_resume e rt d)))"
  "stored_ok e0 d \<Longrightarrow> runtime_ok e0 (fst (snd (engine_resume e rt d)))"
proof -
  obtain r ls d1 where l: "resume_loop e (runtime_rows d) [] 0 d = (r, ls, d1)" by (metis prod_cases3)
  have d1: "safe_step e0 d d1" using resume_loop_safe [of e0 d e "runtime_rows d" "[]" 0] l by simp
  have ls: "set ls \<subseteq> (\<lambda>m. (m_id m, runtime_of m)) ` set (runtime_rows d)"
    using resume_loop_listeners [of e "runtime_rows d" "[]" 0 d] l by simp
  have hb: "safe_step e0 d1 d2" if "heartbeat e a b c d1 = Inr d2" for a b c d2
    using that by (rule heartbeat_safe)
  show "safe_step e0 d (snd (snd (engine_resume e rt d)))"
    using d1 safe_trans [OF d1 hb]
    by (auto simp: engine_resume_def l Let_def split: option.split sum.split)
  show "runtime_ok e0 (fst (snd (engine_resume e rt d)))" if "stored_ok e0 d"
    using runtime_rows_ok [OF that ls]
    by (auto simp: engine_resume_def l Let_def runtime_ok_def split: option.split sum.split)
qed

lemma engine_pause_safe:
  "safe_step e0 d (snd (snd (engine_pause e rt d)))" "runtime_ok e0 (fst (snd (engine_pause e rt d)))"
proof -
  let ?f = "\<lambda>m. if m_status m = ''active''
      then m\<lparr>m_status := ''inactive'', m_last_error := None, m_updated_at := e_db_now e\<rparr> else m"
  have d1: "safe_step e0 d d1" if "commit (d\<lparr>listener_mappings := map ?f (listener_mappings d)\<rparr>) = Inr d1" for d1
    using that by (auto simp: res_simps stored_ok_def list_all_iff intro!: safe_plain)
  show "safe_step e0 d (snd (snd (engine_pause e rt d)))"
    using d1 heartbeat_safe [of e _ _ _ _ _ e0]
    by (auto simp: engine_pause_def Let_def split: sum.split intro: safe_trans)
  show "runtime_ok e0 (fst (snd (engine_pause e rt d)))"
    by (auto simp: engine_pause_def Let_def runtime_ok_def split: sum.split)
qed

lemma start_from_desired_state_safe:
  "safe_step e0 d (snd (snd (start_from_desired_state e rt d)))"
  "stored_ok e0 d \<Longrightarrow> runtime_ok e0 (fst (snd (start_from_desired_state e rt d)))"
  using engine_resume_safe(1) [of e0 d e rt] engine_resume_safe(2) [of e0 d e rt]
    engine_pause_safe(1) [of e0 d e rt] engine_pause_safe(2) [of e0 e rt d]
  by (auto simp: start_from_desired_state_def Let_def forget_result_def split: prod.split)

lemma reconcile_if_active_safe:
  "safe_step e0 d (snd (snd (reconcile_if_active e rt d)))"
  "stored_ok e0 d \<Longrightarrow> runtime_ok e0 rt \<Longrightarrow> runtime_ok e0 (fst (snd (reconcile_if_active e rt d)))"
  using engine_resume_safe(1) [of e0 d e rt] engine_resume_safe(2) [of e0 d e rt]
  by (auto simp: reconcile_if_active_def forget_result_def split: prod.split)

lemma record_wake_safe: "safe_step e0 d (snd (record_wake e rm mac ip port result started d))"
  unfolding record_wake_def Let_def
  by (rule safe_atomic) (auto simp: res_simps stored_ok_def intro!: safe_plain)

lemma managed_handle_safe:
  "safe_step e0 d (snd (snd (snd (managed_handle e rm data ip port rl d))))"
proof -
  have rec: "safe_step e0 d d'" if "record_wake e rm mac ip port result started d = (r, d')" for mac result started r d'
    using record_wake_safe [of e0 d e rm mac ip port result started] that by simp
  show ?thesis
    unfolding managed_handle_def Let_def
    by (auto split: sum.split exn.split prod.split bool.split dest!: rec)
qed

section \<open>Settings\<close>

lemma put_settings_ports:
  assumes "put_settings e old new d = (st, d1)" and "as_udp_port_start new = as_udp_port_start old"
    and "as_udp_port_end new = as_udp_port_end old"
  shows "port_ok (Some st) = port_ok (Some old)"
  using put_settings_fields(2,3) [OF assms(1)] assms(2,3) by (simp add: port_ok_def fun_eq_iff)

lemma update_retention_safe: "safe_step e0 d (snd (update_retention e pub w a r actor ip d))"
  unfolding update_retention_def
proof (rule safe_atomic, unfold res_simps, elim exE conjE)
  fix v d' old
  assume old: "app_settings d = Some old"
    and tx: "(let (st, d1) = put_settings e old (old\<lparr>as_wake_event_retention_days := w,
              as_audit_event_retention_days := a, as_rate_limit_seconds := r\<rparr>) d
        in res_bind (commit (add_audit (op_audit e 0 actor ''settings.retention_updated''
               ''application_settings'' ''1''
               [(''wake_event_retention_days'', JInt w), (''audit_event_retention_days'', JInt a),
                (''rate_limit_seconds'', JInt r)] ip) d1)) (\<lambda>d2.
           Inr (mk_settings_view pub st (length (listener_mappings d2)), d2))) = Inr (v, d')"
  obtain st d1 where p: "put_settings e old (old\<lparr>as_wake_event_retention_days := w,
              as_audit_event_retention_days := a, as_rate_limit_seconds := r\<rparr>) d = (st, d1)" by fastforce
  from tx obtain A where int: "integrity d'" and d': "d' = add_audit A d1"
    unfolding p by (auto simp: res_simps)
  have "port_ok (Some st) = port_ok (Some old)" by (rule put_settings_ports [OF p]) simp_all
  then show "safe_step e0 d d'"
    using int put_settings_fields(1) [OF p] old unfolding d' by (intro safe_audit) (simp_all add: stored_ok_def)
qed

lemma update_udp_range_safe: "safe_step e0 d (snd (update_udp_range e pub a b actor ip d))"
  unfolding update_udp_range_def
proof (rule safe_atomic, unfold res_simps, elim exE conjE)
  fix v d' old
  assume out: "filter (\<lambda>m. m_udp_port m < a \<or> m_udp_port m > b) (listener_mappings d) = []"
    and tx: "(let (st, d1) = put_settings e old (old\<lparr>as_udp_port_start := a, as_udp_port_end := b\<rparr>) d
        in res_bind (commit (add_audit (op_audit e 0 actor ''settings.udp_range_updated''
               ''application_settings'' ''1''
               [(''previous'', JObj [(''udp_port_start'', JInt (as_udp_port_start old)),
                                     (''udp_port_end'', JInt (as_udp_port_end old))]),
                (''current'', JObj [(''udp_port_start'', JInt a), (''udp_port_end'', JInt b)])]
               ip) d1)) (\<lambda>d2.
           Inr (mk_settings_view pub st (length (listener_mappings d2)), d2))) = Inr (v, d')"
  obtain st d1 where p: "put_settings e old (old\<lparr>as_udp_port_start := a, as_udp_port_end := b\<rparr>) d = (st, d1)" by fastforce
  from tx obtain A where int: "integrity d'" and d': "d' = add_audit A d1"
    unfolding p by (auto simp: res_simps)
  have "list_all (port_ok (Some st)) (listener_mappings d)"
    using out put_settings_fields(2,3) [OF p] by (auto simp: port_ok_def list_all_iff filter_empty_conv not_less)
  then show "safe_step e0 d d'"
    using int put_settings_fields(1) [OF p] unfolding d' by (intro safe_audit) (simp_all add: stored_ok_def)
qed

lemma cleanup_good: "good_step e0 d (snd (cleanup e acquired d))"
proof -
  have "good_step e0 d d'" if "cleanup e acquired d = (Inr c, d')" for c d'
    using that integrity_prune [of d]
    by (auto simp: cleanup_def Let_def res_simps split: if_splits intro!: good_frame)
  moreover have "d' = d" if "cleanup e acquired d = (Inl x, d')" for x d'
    using that by (auto simp: cleanup_def Let_def res_simps split: if_splits)
  ultimately show ?thesis by (cases "cleanup e acquired d"; cases "fst (cleanup e acquired d)") auto
qed

section \<open>Users\<close>

lemma safe_users:
  assumes "integrity d'" and "devices d' = devices d" and "device_credentials d' = device_credentials d"
    and "listener_mappings d' = listener_mappings d" and "app_settings d' = app_settings d"
    and "integrity d \<Longrightarrow> owner_exists d \<Longrightarrow> owner_exists d'" and "audit_grows d d'"
  shows "safe_step e d d'"
  using assms good_users [of d' d e] by (simp add: safe_step_def)

lemma owner_row_upd:
  assumes "\<And>u. u_role (f u) = u_role u" and "\<And>u. u_enabled u \<Longrightarrow> u_enabled (f u)" and "owner_exists d"
    and "users d' = row_upd u_id i f (users d)"
  shows "owner_exists d'"
proof -
  from assms(3) obtain u where u: "u \<in> set (users d)" "u_role u = ''owner''" "u_enabled u"
    by (auto simp: owner_exists_iff)
  then have "(if u_id u = i then f u else u) \<in> set (users d')"
    unfolding assms(4) set_row_upd by blast
  moreover have "u_role (if u_id u = i then f u else u) = ''owner''" "u_enabled (if u_id u = i then f u else u)"
    using u assms(1,2) by simp_all
  ultimately show ?thesis unfolding owner_exists_iff by blast
qed

lemma safe_user_upd:
  assumes "integrity d'" and "d' = add_audit a d1" and "users d1 = row_upd u_id i f (users d)"
    and "\<And>u. u_role (f u) = u_role u" and "\<And>u. u_enabled u \<Longrightarrow> u_enabled (f u)"
    and "devices d1 = devices d" and "device_credentials d1 = device_credentials d"
    and "listener_mappings d1 = listener_mappings d" and "app_settings d1 = app_settings d"
    and "audit_events d1 = audit_events d"
  shows "safe_step e d d'"
proof (rule safe_users [OF assms(1)])
  show "owner_exists d'" if "owner_exists d"
    by (rule owner_row_upd [OF assms(4,5) that]) (simp_all add: assms(2,3))
qed (simp_all add: assms grows_add_audit)

lemma create_owner_safe: "safe_step e0 d (snd (create_owner e name email pw ip d))"
proof (cases "create_owner e name email pw ip d")
  case (Pair r d')
  show ?thesis
  proof (cases r)
    case (Inl x)
    with Pair have "d' = d" by (simp add: create_owner_def res_simps)
    with Pair show ?thesis by simp
  next
    case (Inr a)
    note c = create_owner_Inr [OF Pair [unfolded Inr]]
    have "safe_step e0 d d'"
      by (rule safe_users [OF c(3)]) (auto simp: c(4) owner_exists_iff intro: grows_add_audit)
    with Pair show ?thesis by simp
  qed
qed

lemma login_safe: "safe_step e0 d (snd (login e ident pw ip d))"
proof (cases "login e ident pw ip d")
  case (Pair r d')
  show ?thesis
  proof (cases r)
    case (Inl x)
    with Pair have "d' = d" by (simp add: login_def res_simps)
    with Pair show ?thesis by simp
  next
    case (Inr a)
    have "safe_step e0 d d'"
    proof (rule login_Inr [OF Pair [unfolded Inr]])
      fix u assume i: "integrity d'"
        and d': "d' = add_audit (auth_audit e 1 (u_id u) ''auth.login'' ''session'' None [] ip)
         (d\<lparr>users := row_upd u_id (u_id u) (logged_in e pw) (users d),
            user_sessions := user_sessions d @ [new_session e 0 1 (u_id u) ip]\<rparr>)"
      show ?thesis
        by (rule safe_user_upd [where i = "u_id u" and f = "logged_in e pw", OF i d']) simp_all
    qed
    with Pair show ?thesis by simp
  qed
qed

lemma logout_safe: "safe_step e0 d (snd (logout e token ip d))"
proof (cases "find (\<lambda>s. s_token_hash s = token_hash e token \<and> s_revoked_at s = None) (user_sessions d)")
  case None
  then show ?thesis by (simp add: logout_def)
next
  case (Some s)
  show ?thesis
    unfolding logout_def Some option.case
    by (rule safe_atomic) (auto simp: res_simps stored_ok_def intro!: safe_audit)
qed

lemma recover_owner_safe: "safe_step e0 d (snd (recover_owner e email cand pw ip d))"
proof (cases "recover_owner e email cand pw ip d")
  case (Pair r d')
  show ?thesis
  proof (cases r)
    case (Inl x)
    with Pair have "d' = d" by (simp add: recover_owner_def res_simps)
    with Pair show ?thesis by simp
  next
    case (Inr a)
    have "safe_step e0 d d'"
    proof (rule recover_owner_Inr [OF Pair [unfolded Inr]])
      fix u rc assume i: "integrity d'"
        and d': "d' = add_audit (auth_audit e 1 (u_id u) ''auth.recovered'' ''user''
              (Some (uuid_str (u_id u))) [(''sessions_revoked'', JBool True)] ip)
         (d\<lparr>users := row_upd u_id (u_id u) (\<lambda>x. x\<lparr>u_password_hash := Some (ae_hash e 0 pw)\<rparr>) (users d),
            user_sessions := revoke_user (u_id u) (ae_now e 0) (user_sessions d) @ [new_session e 0 2 (u_id u) ip],
            recovery_codes := row_upd rc_user_id (u_id u)
              (\<lambda>r. r\<lparr>rc_code_hash := ae_hash e 1 (new_recovery_code e), rc_created_at := ae_now e 1,
                     rc_used_at := None\<rparr>) (recovery_codes d)\<rparr>)"
      show ?thesis
        by (rule safe_user_upd [where i = "u_id u" and f = "\<lambda>x. x\<lparr>u_password_hash := Some (ae_hash e 0 pw)\<rparr>", OF i d'])
          simp_all
    qed
    with Pair show ?thesis by simp
  qed
qed

lemma save_smtp_safe: "safe_step e0 d (snd (save_smtp e values actor ip d))"
  unfolding save_smtp_def snd_and_then_reading save_smtp_tx_def
  by (rule safe_atomic) (auto simp: res_simps Let_def stored_ok_def intro!: safe_audit)

lemma accept_invitation_safe: "safe_step e0 d (snd (accept_invitation e token pw ip d))"
proof (cases "accept_invitation e token pw ip d")
  case (Pair r d')
  show ?thesis
  proof (cases r)
    case (Inl x)
    with Pair have "d' = d" by (simp add: accept_invitation_def Let_def res_simps)
    with Pair show ?thesis by simp
  next
    case (Inr z)
    have "safe_step e0 d d'"
    proof (rule accept_invitation_Inr [OF Pair [unfolded Inr]])
      fix inv u assume i: "integrity d'"
        and d': "d' = add_audit (identity_audit e 0 (Some (u_id u)) ''user.invitation_accepted''
              (Some (uuid_str (u_id u))) [(''role'', JStr (u_role u))] ip)
            (d\<lparr>users := row_upd u_id (u_id u)
                 (\<lambda>x. x\<lparr>u_password_hash := Some (ae_hash (ie_auth e) 0 pw), u_enabled := True\<rparr>) (users d),
               user_invitations := row_upd iv_id (iv_id inv) (\<lambda>x. x\<lparr>iv_accepted_at := Some (ie_now e 0)\<rparr>) (user_invitations d)\<rparr>)"
      show ?thesis
        by (rule safe_user_upd [where i = "u_id u" and f = "\<lambda>x. x\<lparr>u_password_hash := Some (ae_hash (ie_auth e) 0 pw),
            u_enabled := True\<rparr>", OF i d']) simp_all
    qed
    with Pair show ?thesis by simp
  qed
qed

lemma complete_password_reset_safe: "safe_step e0 d (snd (complete_password_reset e token pw ip d))"
proof (cases "complete_password_reset e token pw ip d")
  case (Pair r d')
  show ?thesis
  proof (cases r)
    case (Inl x)
    with Pair have "d' = d" by (simp add: complete_password_reset_def Let_def res_simps)
    with Pair show ?thesis by simp
  next
    case (Inr z)
    have "safe_step e0 d d'"
    proof (rule complete_password_reset_Inr [OF Pair [unfolded Inr]])
      fix rst u assume i: "integrity d'"
        and d': "d' = add_audit (identity_audit e 0 (Some (u_id u)) ''identity.password_reset_completed''
              (Some (uuid_str (u_id u))) [(''sessions_revoked'', JBool True)] ip)
            (d\<lparr>users := row_upd u_id (u_id u) (\<lambda>x. x\<lparr>u_password_hash := Some (ae_hash (ie_auth e) 0 pw)\<rparr>) (users d),
               password_reset_tokens := row_upd pr_id (pr_id rst) (\<lambda>x. x\<lparr>pr_used_at := Some (ie_now e 0)\<rparr>) (password_reset_tokens d),
               user_sessions := revoke_user (u_id u) (ie_now e 0) (user_sessions d)\<rparr>)"
      show ?thesis
        by (rule safe_user_upd [where i = "u_id u" and f = "\<lambda>x. x\<lparr>u_password_hash := Some (ae_hash (ie_auth e) 0 pw)\<rparr>",
            OF i d']) simp_all
    qed
    with Pair show ?thesis by simp
  qed
qed

lemma revoke_sessions_safe: "safe_step e0 d (snd (revoke_sessions e i actor ip d))"
  unfolding revoke_sessions_def
  by (rule safe_atomic) (auto simp: res_simps stored_ok_def intro!: safe_audit)

text \<open>Two owners in a table with unique identifiers: one of them is not the user being changed.\<close>

lemma other_owner:
  assumes "distinct (map u_id us)" and "1 < length (filter P us)"
  shows "\<exists>u \<in> set us. P u \<and> u_id u \<noteq> i"
proof (rule ccontr)
  assume "\<not> ?thesis"
  then have "u_id u = i" if "u \<in> set (filter P us)" for u using that by auto
  moreover have "distinct (map u_id (filter P us))" using assms(1) by (rule distinct_map_filter)
  moreover obtain a b rest where "filter P us = a # b # rest"
    using assms(2) by (cases "filter P us" rule: list.exhaust; cases "tl (filter P us)") auto
  ultimately show False by (metis distinct.simps(2) list.set_intros(1,2) list.simps(9))
qed

lemma update_user_owner:
  assumes "integrity d" and "owner_exists d" and "row_get u_id i (users d) = Some u"
    and "u_role u = ''owner'' \<and> (role \<noteq> ''owner'' \<or> \<not> en) \<longrightarrow>
           1 < length (filter (\<lambda>x. u_role x = ''owner'' \<and> u_enabled x) (users d))"
    and "users d' = row_upd u_id i (\<lambda>x. x\<lparr>u_role := role, u_enabled := en\<rparr>) (users d)"
  shows "owner_exists d'"
proof -
  have dist: "distinct (map u_id (users d))" using assms(1) by (simp add: integrity_def users_ok_def)
  have keep: "owner_exists d'" if "x \<in> set (users d)" "u_role x = ''owner''" "u_enabled x" "u_id x \<noteq> i" for x
  proof -
    have "x \<in> set (users d')" unfolding assms(5) set_row_upd using that by (intro bexI [of _ x]) simp_all
    with that show ?thesis by (auto simp: owner_exists_iff)
  qed
  note u = row_get_SomeD [OF assms(3)]
  show ?thesis
  proof (cases "role = ''owner'' \<and> en")
    case True
    have "u\<lparr>u_role := role, u_enabled := en\<rparr> \<in> set (users d')"
      unfolding assms(5) set_row_upd using u by (intro bexI [of _ u]) simp_all
    then show ?thesis unfolding owner_exists_iff
      by (rule bexI [rotated]) (simp add: True)
  next
    case False
    show ?thesis
    proof (cases "u_role u = ''owner''")
      case True
      with False assms(4) have "1 < length (filter (\<lambda>x. u_role x = ''owner'' \<and> u_enabled x) (users d))" by auto
      from other_owner [OF dist this, of i] keep show ?thesis by blast
    next
      case nu: False
      from assms(2) obtain x where x: "x \<in> set (users d)" "u_role x = ''owner''" "u_enabled x"
        by (auto simp: owner_exists_iff)
      moreover have "u_id x \<noteq> i" using unique_key_eq [OF dist x(1)] u nu x(2) by metis
      ultimately show ?thesis using keep by blast
    qed
  qed
qed

lemma update_user_safe: "safe_step e0 d (snd (update_user e i role en actor ip d))"
proof (cases "update_user e i role en actor ip d")
  case (Pair r d')
  show ?thesis
  proof (cases r)
    case (Inl x)
    with Pair have "d' = d" by (simp add: update_user_def res_simps)
    with Pair show ?thesis by simp
  next
    case (Inr z)
    have "safe_step e0 d d'"
    proof (rule update_user_Inr [OF Pair [unfolded Inr]])
      fix u assume u: "row_get u_id i (users d) = Some u"
        "u_role u = ''owner'' \<and> (role \<noteq> ''owner'' \<or> \<not> en) \<longrightarrow>
           1 < length (filter (\<lambda>x. u_role x = ''owner'' \<and> u_enabled x) (users d))" and i: "integrity d'"
        and d': "d' = add_audit (identity_audit e 0 (Some actor) ''user.updated'' (Some (uuid_str (u_id u)))
             [(''role'', JList [JStr (u_role u), JStr role]), (''enabled'', JList [JBool (u_enabled u), JBool en])] ip)
           (d\<lparr>users := row_upd u_id i (\<lambda>x. x\<lparr>u_role := role, u_enabled := en\<rparr>) (users d),
              user_sessions := (if en then user_sessions d else revoke_user i (ie_now e 0) (user_sessions d))\<rparr>)"
      have "owner_exists d'" if "integrity d" "owner_exists d"
        by (rule update_user_owner [OF that u]) (simp add: d')
      then show ?thesis by (intro safe_users [OF i]) (simp_all add: d' grows_add_audit)
    qed
    with Pair show ?thesis by simp
  qed
qed

text \<open>Deleting users that are not enabled keeps the rest: integrity, owners and the audit keys.\<close>

lemma delete_user_tables [simp]:
  "devices (delete_user_row i d) = devices d" "device_credentials (delete_user_row i d) = device_credentials d"
  "listener_mappings (delete_user_row i d) = listener_mappings d" "app_settings (delete_user_row i d) = app_settings d"
  "users (delete_user_row i d) = row_del u_id i (users d)"
  "map audit_key (audit_events (delete_user_row i d)) = map audit_key (audit_events d)"
  by (auto simp: delete_user_row_def audit_key_def)

lemma delete_user_owner:
  assumes "integrity d" and "u \<in> set (users d)" and "\<not> u_enabled u" and "owner_exists d"
  shows "owner_exists (delete_user_row (u_id u) d)"
proof -
  have dist: "distinct (map u_id (users d))" using assms(1) by (simp add: integrity_def users_ok_def)
  from assms(4) obtain x where x: "x \<in> set (users d)" "u_role x = ''owner''" "u_enabled x"
    by (auto simp: owner_exists_iff)
  moreover have "u_id x \<noteq> u_id u" using unique_key_eq [OF dist x(1) assms(2)] x(3) assms(3) by auto
  ultimately show ?thesis by (auto simp: owner_exists_iff)
qed

definition del_frame :: "uuid set \<Rightarrow> db \<Rightarrow> db \<Rightarrow> bool" where
  "del_frame ids d d' \<longleftrightarrow> devices d' = devices d \<and> device_credentials d' = device_credentials d
     \<and> listener_mappings d' = listener_mappings d \<and> app_settings d' = app_settings d
     \<and> users d' = filter (\<lambda>u. u_id u \<notin> ids) (users d)
     \<and> map audit_key (audit_events d') = map audit_key (audit_events d)"

lemma fold_delete_frame: "del_frame (u_id ` set us) d (fold (\<lambda>p. delete_user_row (u_id p)) us d)"
proof (induction us arbitrary: d)
  case Nil
  show ?case by (simp add: del_frame_def)
next
  case (Cons u us)
  from Cons.IH [of "delete_user_row (u_id u) d"] show ?case
    by (simp add: del_frame_def row_del_def)
qed

lemma invite_tx_safe:
  assumes "invite_tx e name email role actor ip d = Inr (i, d')"
  shows "safe_step e0 d d'"
proof -
  let ?ex = "filter (same_identity e name email) (users d)"
  let ?d1 = "fold (\<lambda>p. delete_user_row (u_id p)) ?ex d"
  from assms obtain a where ne: "\<not> list_ex (\<lambda>u. u_password_hash u \<noteq> None \<or> u_enabled u) ?ex" and int: "integrity d'"
    and d': "d' = add_audit a (?d1\<lparr>users := users ?d1 @ [invited_user e name email role],
       user_invitations := user_invitations ?d1 @ [new_invitation e actor]\<rparr>)"
    unfolding invite_tx_def Let_def res_simps by auto
  note f = fold_delete_frame [of ?ex d, unfolded del_frame_def]
  have "owner_exists d'" if o: "integrity d" "owner_exists d"
  proof -
    from o(2) obtain x where x: "x \<in> set (users d)" "u_role x = ''owner''" "u_enabled x"
      by (auto simp: owner_exists_iff)
    have "distinct (map u_id (users d))" using o(1) by (simp add: integrity_def users_ok_def)
    then have "u_id x \<notin> u_id ` set ?ex"
      using ne x(1,3) unique_key_eq [of u_id "users d" x] by (auto simp: list_ex_iff)
    then have "x \<in> set (users ?d1)" using f x(1) by simp
    with x show ?thesis unfolding owner_exists_iff d' by auto
  qed
  moreover have "audit_grows d d'" by (rule grows_append) (simp add: d' f)
  ultimately show ?thesis using f by (intro safe_users [OF int]) (simp_all add: d')
qed

lemma withdraw_user_safe:
  assumes "withdraw_user i d = Inr (x, d')"
  shows "safe_step e0 d d'"
proof (cases "row_get u_id i (users d)")
  case None
  with assms show ?thesis by (simp add: withdraw_user_def)
next
  case (Some u)
  note u = row_get_SomeD [OF Some]
  show ?thesis
  proof (cases "u_enabled u")
    case True
    with assms Some show ?thesis by (simp add: withdraw_user_def)
  next
    case False
    with assms Some have int: "integrity d'" and d': "d' = delete_user_row i d"
      by (auto simp: withdraw_user_def res_simps)
    have "owner_exists d'" if "integrity d" "owner_exists d"
      using delete_user_owner [OF that(1) _ False that(2)] u by (simp add: d')
    then show ?thesis by (intro safe_users [OF int]) (simp_all add: d' grows_append [of _ _ "[]"])
  qed
qed

lemma invite_user_safe: "safe_step e0 d (fst (snd (invite_user e name email role actor ip d)))"
proof -
  have w: "safe_step e0 d d2" if "invite_tx e name email role actor ip d = Inr (i, d1)"
    "atomic d1 (withdraw_user i d1) = (r, d2)" for i d1 d2 r
  proof -
    have "safe_step e0 d1 (snd (atomic d1 (withdraw_user i d1)))"
      by (rule safe_atomic) (rule withdraw_user_safe)
    with that invite_tx_safe [OF that(1)] show ?thesis by (auto intro: safe_trans)
  qed
  show ?thesis
    unfolding invite_user_def
    by (auto simp: Let_def atomic_def [of d] dest: invite_tx_safe w split: sum.split prod.split)
qed

lemma request_password_reset_safe: "safe_step e0 d (fst (snd (request_password_reset e email ip d)))"
proof -
  have tx: "safe_step e0 d d1" if "atomic d (reset_tx e u ip d) = (r, d1)" for u r d1
  proof -
    have "safe_step e0 d (snd (atomic d (reset_tx e u ip d)))"
      unfolding reset_tx_def
      by (rule safe_atomic) (auto simp: res_simps stored_ok_def intro!: safe_audit)
    with that show ?thesis by simp
  qed
  show ?thesis
    unfolding request_password_reset_def
    by (auto simp: Let_def dest: tx split: sum.split prod.split option.split exn.split)
qed

end
