(* ===== verification/Web_System.thy ===== *)
theory Web_System
  imports Stored_Data
begin

text \<open>
  The web application as a state machine. A state is the running engine and the database; a step is
  one call of a service, with any arguments and whatever its environment does, whether it succeeds
  or raises. \<open>web_op\<close> has every operation of the services, \<open>web_step\<close> also the retention job.
\<close>

type_synonym web_state = "runtime \<times> db"

text \<open>The audit row that the host routes write themselves\<close>

definition host_audit :: "'k env \<Rightarrow> uuid \<Rightarrow> string \<Rightarrow> dict \<Rightarrow> string \<Rightarrow> db \<Rightarrow> (exn + unit) \<times> db" where
  "host_audit e user_id action changes client_ip d =
     atomic d
       (res_bind (commit (add_audit (mk_audit (e_id e 0) (e_db_now e) (Some user_id) action ''host'' (Some ''local'')
            changes client_ip) d)) (\<lambda>d1. Inr ((), d1)))"

inductive web_op :: "'k env \<Rightarrow> web_state \<Rightarrow> web_state \<Rightarrow> bool" for e0 where
  op_device_create: "env_like e0 e \<Longrightarrow>
    web_op e0 (rt, d) (rt, snd (device_create e name ty conf cred en actor ip d))"
| op_device_update: "env_like e0 e \<Longrightarrow>
    web_op e0 (rt, d) (rt, snd (device_update e i name conf cred' en actor ip d))"
| op_device_delete: "env_like e0 e \<Longrightarrow>
    web_op e0 (rt, d) (rt, snd (device_delete e i actor ip d))"
| op_device_test: "env_like e0 e \<Longrightarrow>
    web_op e0 (rt, d) (rt, snd (device_test_connection e i actor ip d))"
| op_device_discover: "env_like e0 e \<Longrightarrow>
    web_op e0 (rt, d) (rt, snd (device_discover_host_key e ty conf cred actor ip d))"
| op_listener_create: "env_like e0 e \<Longrightarrow>
    web_op e0 (rt, d) (rt, snd (listener_create e i name descr port src ps en actor ip d))"
| op_listener_update: "env_like e0 e \<Longrightarrow>
    web_op e0 (rt, d) (rt, snd (listener_update e k v i name descr prt src ps en actor ip d))"
| op_listener_delete: "env_like e0 e \<Longrightarrow>
    web_op e0 (rt, d) (rt, snd (listener_delete e k actor ip d))"
| op_engine_transition: "env_like e0 e \<Longrightarrow>
    web_op e0 (rt, d) (rt, snd (engine_transition e desired observed err actor ip d))"
| op_engine_resume: "env_like e0 e \<Longrightarrow>
    web_op e0 (rt, d) (snd (engine_resume e rt d))"
| op_engine_pause: "env_like e0 e \<Longrightarrow>
    web_op e0 (rt, d) (snd (engine_pause e rt d))"
| op_engine_shutdown: "web_op e0 (rt, d) (engine_shutdown rt, d)"
| op_engine_start: "env_like e0 e \<Longrightarrow>
    web_op e0 (rt, d) (snd (start_from_desired_state e rt d))"
| op_engine_reconcile: "env_like e0 e \<Longrightarrow>
    web_op e0 (rt, d) (snd (reconcile_if_active e rt d))"
| op_datagram: "env_like e0 e \<Longrightarrow> (k, rm) \<in> set (rt_listeners rt) \<Longrightarrow>
    managed_handle e rm data ip sport (rt_limiter rt) d = (r, tr, rl, d') \<Longrightarrow>
    web_op e0 (rt, d) (rt\<lparr>rt_limiter := rl\<rparr>, d')"
| op_update_retention: "env_like e0 e \<Longrightarrow>
    web_op e0 (rt, d) (rt, snd (update_retention e pub w a rate actor ip d))"
| op_update_udp_range: "env_like e0 e \<Longrightarrow>
    web_op e0 (rt, d) (rt, snd (update_udp_range e pub lo hi actor ip d))"
| op_host_audit: "env_like e0 e \<Longrightarrow>
    web_op e0 (rt, d) (rt, snd (host_audit e actor action changes ip d))"
| op_create_owner: "web_op e0 (rt, d) (rt, snd (create_owner ae name email pw ip d))"
| op_login: "web_op e0 (rt, d) (rt, snd (login ae ident pw ip d))"
| op_logout: "web_op e0 (rt, d) (rt, snd (logout ae token ip d))"
| op_recover_owner: "web_op e0 (rt, d) (rt, snd (recover_owner ae email cand pw ip d))"
| op_save_smtp: "web_op e0 (rt, d) (rt, snd (save_smtp ie values actor ip d))"
| op_invite_user: "web_op e0 (rt, d) (rt, fst (snd (invite_user ie name email role actor ip d)))"
| op_accept_invitation: "web_op e0 (rt, d) (rt, snd (accept_invitation ie token pw ip d))"
| op_update_user: "web_op e0 (rt, d) (rt, snd (update_user ie i role en actor ip d))"
| op_revoke_sessions: "web_op e0 (rt, d) (rt, snd (revoke_sessions ie i actor ip d))"
| op_request_reset: "web_op e0 (rt, d) (rt, fst (snd (request_password_reset ie email ip d)))"
| op_complete_reset: "web_op e0 (rt, d) (rt, snd (complete_password_reset ie token pw ip d))"

inductive web_step :: "'k env \<Rightarrow> web_state \<Rightarrow> web_state \<Rightarrow> bool" for e0 where
  step_op: "web_op e0 s t \<Longrightarrow> web_step e0 s t"
| step_cleanup: "env_like e0 e \<Longrightarrow> web_step e0 (rt, d) (rt, snd (cleanup e acquired d))"

definition web_inv :: "'k env \<Rightarrow> web_state \<Rightarrow> bool" where
  "web_inv e0 s \<longleftrightarrow> aead_correct (e_crypto e0) \<and> integrity (snd s) \<and> stored_ok e0 (snd s) \<and> runtime_ok e0 (fst s)"

lemma host_audit_safe: "safe_step e0 d (snd (host_audit e actor action changes ip d))"
  unfolding host_audit_def by (rule safe_only_audit)

lemmas safe_ops = host_audit_safe device_create_safe device_update_safe device_delete_safe device_test_connection_safe
  device_discover_safe listener_create_safe listener_update_safe listener_delete_safe engine_transition_safe
  engine_resume_safe(1) engine_pause_safe(1) start_from_desired_state_safe(1) reconcile_if_active_safe(1)
  update_retention_safe update_udp_range_safe create_owner_safe login_safe logout_safe recover_owner_safe
  save_smtp_safe invite_user_safe accept_invitation_safe update_user_safe revoke_sessions_safe
  request_password_reset_safe complete_password_reset_safe

lemma web_op_safe:
  assumes "web_op e0 s t" and "aead_correct (e_crypto e0)"
  shows "safe_step e0 (snd s) (snd t)"
  using assms
proof cases
  case (op_datagram e k rm rt data ip sport d r tr rl d')
  with managed_handle_safe [of e0 d e rm data ip sport "rt_limiter rt"] show ?thesis by simp
qed (simp_all add: safe_ops)

lemma web_op_runtime:
  assumes "web_op e0 s t" and "stored_ok e0 (snd s)" and "runtime_ok e0 (fst s)"
  shows "runtime_ok e0 (fst t)"
  using assms
proof cases
  case (op_datagram e k rm rt data ip sport d r tr rl d')
  with assms(3) show ?thesis by (simp add: runtime_ok_def)
next
  case (op_engine_shutdown rt d)
  then show ?thesis by (simp add: runtime_ok_def engine_shutdown_def)
qed (simp_all add: engine_resume_safe(2) engine_pause_safe(2) start_from_desired_state_safe(2)
    reconcile_if_active_safe(2))

lemma web_step_inv:
  assumes "web_inv e0 s" and "web_step e0 s t"
  shows "web_inv e0 t" and "owner_exists (snd s) \<Longrightarrow> owner_exists (snd t)"
proof -
  have "good_step e0 (snd s) (snd t) \<and> runtime_ok e0 (fst t)"
    using assms(2)
  proof cases
    case step_op
    with assms(1) web_op_safe [of e0 s t] web_op_runtime [of e0 s t] show ?thesis
      by (simp add: web_inv_def safe_step_def)
  next
    case (step_cleanup e rt d acquired)
    with assms(1) cleanup_good [of e0 d e acquired] show ?thesis by (simp add: web_inv_def)
  qed
  with assms(1) show "web_inv e0 t" "owner_exists (snd s) \<Longrightarrow> owner_exists (snd t)"
    by (auto simp: web_inv_def good_step_def)
qed

interpretation web: invariant_system "web_step e0" "web_inv e0" for e0 :: "'k env"
  by unfold_locales (rule web_step_inv(1))

interpretation owners: invariant_system "web_step e0" "\<lambda>s. web_inv e0 s \<and> owner_exists (snd s)" for e0 :: "'k env"
  by unfold_locales (use web_step_inv in blast)

interpretation audited: stepwise "web_op e0" "web_inv e0" "\<lambda>s t. audit_grows (snd s) (snd t)" for e0 :: "'k env"
proof unfold_locales
  show "web_inv e0 t" if "web_inv e0 s" "web_op e0 s t" for s t
    using web_step_inv(1) [OF that(1) step_op [OF that(2)]] .
  show "audit_grows (snd s) (snd u)" if "web_inv e0 t" "audit_grows (snd s) (snd t)" "web_op e0 t u" for s t u
    using web_op_safe [OF that(3)] that(1,2) by (auto simp: web_inv_def safe_step_def intro: grows_trans)
qed simp

section \<open>What the stored documents are good for\<close>

lemma material_handled:
  assumes "stored_ok e0 d" and "env_like e0 e" and "e_cipher e0 = Some ci"
  shows "case runtime_material e i d of
      Inl x \<Rightarrow> x = ResourceConflictError \<or> (\<exists>m. x = CredentialCryptoError m)
    | Inr (ty, conf, cred) \<Rightarrow> registry_get ty = Inr FortiGateSSHDriver
        \<and> validate_configuration (e_lib e) conf = Inr conf
        \<and> (\<exists>secret. validate_credentials (lib_repr (e_lib e)) cred = Inr secret)"
proof (cases "row_get d_id i (devices d)")
  case None
  then show ?thesis by (simp add: runtime_material_def split: option.split)
next
  case (Some dev)
  then have dev: "device_ok e0 dev" using assms(1) row_get_SomeD [OF Some] by (auto simp: stored_ok_def list_all_iff)
  show ?thesis
  proof (cases "row_get dc_device_id i (device_credentials d)")
    case None
    with Some show ?thesis by (simp add: runtime_material_def)
  next
    case cred: (Some c)
    then have c: "credential_ok e0 c" using assms(1) row_get_SomeD [OF cred] by (auto simp: stored_ok_def list_all_iff)
    have ci: "e_cipher e = Some ci" "e_crypto e = e_crypto e0" "lib_repr (e_lib e) = lib_repr (e_lib e0)"
      using assms(2,3) by (simp_all add: env_like_def)
    have conf: "validate_configuration (e_lib e) (d_configuration dev) = Inr (d_configuration dev)"
      using dev env_like_validate(1) [OF assms(2)] by (simp add: device_ok_def)
    show ?thesis
    proof (cases "d_enabled dev \<and> dc_key_id c = key_id ci")
      case False
      then show ?thesis using Some cred ci by (auto simp: runtime_material_def decrypt_credential_def require_cipher_def)
    next
      case True
      with c assms(3) obtain stored where st: "cipher_decrypt (e_crypto e0) ci (dc_encrypted_payload c) = Inr stored"
        "\<not> isl (validate_credentials (lib_repr (e_lib e0)) stored)"
        by (auto simp: credential_ok_def split: sum.splits)
      then obtain secret where "validate_credentials (lib_repr (e_lib e0)) stored = Inr secret"
        by (cases "validate_credentials (lib_repr (e_lib e0)) stored") auto
      with st(1) True dev conf ci show ?thesis using Some cred
        by (simp add: runtime_material_def decrypt_credential_def require_cipher_def device_ok_def)
    qed
  qed
qed

lemma prepare_handled:
  assumes "stored_ok e0 d" and "env_like e0 e" and "e_cipher e0 = Some ci" and "m \<in> set (listener_mappings d)"
  shows "handled (prepare_listener e m d)"
proof -
  have "stored_mapping_ok e0 m" using assms(1,4) by (auto simp: stored_ok_def list_all_iff)
  then have "validate_listener_parameters (lib_repr (e_lib e)) (m_driver_parameters m) = Inr (m_driver_parameters m)"
    using env_like_validate(2) [OF assms(2)] by (simp add: stored_mapping_ok_def)
  with material_handled [OF assms(1-3), of "m_device_id m"] show ?thesis
    by (auto simp: handled_def prepare_listener_def guard_def split: sum.splits prod.splits)
qed

lemma wake_result_handled:
  assumes "stored_ok e0 d" and "env_like e0 e" and "e_cipher e0 = Some ci" and "runtime_mapping_ok e0 rm"
    and "parse_magic_packet data = Inr packet"
  shows "\<exists>result. wake_result (fst (wake_attempt e rm (mac_address packet) d)) = Inr result"
proof -
  have p: "validate_listener_parameters (lib_repr (e_lib e)) (rm_driver_parameters rm) = Inr (rm_driver_parameters rm)"
    using assms(4) env_like_validate(2) [OF assms(2)] by (simp add: runtime_mapping_ok_def)
  have mac: "re_fullmatch MAC_PATTERN (mac_address packet)"
    unfolding MAC_PATTERN_iff using parse_magic_packetD [OF assms(5)] by metis
  note h = material_handled [OF assms(1-3), of "rm_device_id rm"]
  show ?thesis
  proof (cases "runtime_material e (rm_device_id rm) d")
    case (Inl x)
    with h show ?thesis by (auto simp: wake_attempt_def)
  next
    case (Inr m)
    obtain ty conf cred where m: "m = (ty, conf, cred)" by (cases m)
    with h Inr obtain secret where r: "registry_get ty = Inr FortiGateSSHDriver"
      "validate_configuration (e_lib e) conf = Inr conf" "validate_credentials (lib_repr (e_lib e)) cred = Inr secret" by auto
    have "wake_attempt e rm (mac_address packet) d
        = execute_wake (e_lib e) conf cred (rm_driver_parameters rm) (mac_address packet)"
      using Inr m r(1) by (simp add: wake_attempt_def)
    with fortigate.wake_errors [OF r(2,3) p mac] show ?thesis by auto
  qed
qed

end
