(* ===== verification/Managed_Listener.thy ===== *)
theory Managed_Listener
  imports Web_System
begin

text \<open>
  The receive loop of a managed listener (\<^verbatim>\<open>ManagedUDPListener._run\<close> of \<^verbatim>\<open>engine_runtime.py\<close>), over what its socket gives until it
  is stopped. Whatever the handler raises is logged and the loop goes on.
\<close>

text \<open>\<open>stopping\<close> is whether the listener was told to stop before the exception was looked at.\<close>

datatype 'k recv_event =
    RecvDatagram (recv_env: "'k env") "byte list" string int (recv_stopping: bool)
  | RecvTimeout
  | RecvOSError bool

datatype loop_log =
    ListenerStarted int
  | ListenerStopped int
  | HandlerLogs "managed_log list"
  | ListenerSocketError int
  | ListenerRequestError int exn

definition failure_log :: "int \<Rightarrow> bool \<Rightarrow> exn \<Rightarrow> loop_log list" where
  "failure_log port stopping x =
     (case x of
        NetError NetTimeout \<Rightarrow> []
      | NetError NetOS \<Rightarrow> if stopping then [] else [ListenerSocketError port]
      | OSError \<Rightarrow> if stopping then [] else [ListenerSocketError port]
      | FileNotFoundError \<Rightarrow> if stopping then [] else [ListenerSocketError port]
      | _ \<Rightarrow> [ListenerRequestError port x])"

fun managed_loop :: "runtime_mapping \<Rightarrow> 'k recv_event list \<Rightarrow> rate_limiter \<Rightarrow> db \<Rightarrow> loop_log list \<times> rate_limiter \<times> db" where
  "managed_loop rm [] rl d = ([ListenerStopped (rm_port rm)], rl, d)"
| "managed_loop rm (RecvTimeout # evs) rl d = managed_loop rm evs rl d"
| "managed_loop rm (RecvOSError stopping # evs) rl d =
     (case managed_loop rm evs rl d of
        (logs, s) \<Rightarrow> ((if stopping then [] else [ListenerSocketError (rm_port rm)]) @ logs, s))"
| "managed_loop rm (RecvDatagram e data ip port stopping # evs) rl d =
     (case managed_handle e rm data ip port rl d of
        (r, tr, rl', d') \<Rightarrow>
          (case managed_loop rm evs rl' d' of
             (logs, s) \<Rightarrow>
               ((case r of Inr ls \<Rightarrow> [HandlerLogs ls] | Inl x \<Rightarrow> failure_log (rm_port rm) stopping x) @ logs, s)))"

definition managed_run :: "runtime_mapping \<Rightarrow> 'k recv_event list \<Rightarrow> rate_limiter \<Rightarrow> db \<Rightarrow> loop_log list \<times> rate_limiter \<times> db" where
  "managed_run rm evs rl d = (case managed_loop rm evs rl d of (logs, s) \<Rightarrow> (ListenerStarted (rm_port rm) # logs, s))"

section \<open>The loop as a run of the application\<close>

definition like_events :: "'k env \<Rightarrow> 'k recv_event list \<Rightarrow> bool" where
  "like_events e0 evs \<longleftrightarrow> (\<forall>e data ip port stopping. RecvDatagram e data ip port stopping \<in> set evs \<longrightarrow> env_like e0 e)"

lemma like_events_Cons: "like_events e0 (ev # evs) \<Longrightarrow> like_events e0 evs"
  by (auto simp: like_events_def)

lemma managed_loop_run:
  assumes "managed_loop rm evs (rt_limiter rt) d = (logs, rl, d')" and "like_events e0 evs" and "(k, rm) \<in> set (rt_listeners rt)"
  shows "reach (web_step e0) (rt, d) (rt\<lparr>rt_limiter := rl\<rparr>, d')"
  using assms
proof (induction evs arbitrary: rt d logs)
  case (Cons ev evs)
  note like = like_events_Cons [OF Cons.prems(2)]
  show ?case
  proof (cases ev)
    case (RecvDatagram e data ip port stopping)
    obtain r tr rl1 d1 where h: "managed_handle e rm data ip port (rt_limiter rt) d = (r, tr, rl1, d1)" by (metis prod.exhaust)
    let ?rt = "rt\<lparr>rt_limiter := rl1\<rparr>"
    obtain logs1 where l: "managed_loop rm evs (rt_limiter ?rt) d1 = (logs1, rl, d')"
      using Cons.prems(1) h RecvDatagram by (auto split: prod.splits)
    have "reach (web_step e0) (?rt, d1) (?rt\<lparr>rt_limiter := rl\<rparr>, d')"
      using Cons.IH [OF l like] Cons.prems(3) by simp
    moreover have "env_like e0 e" using Cons.prems(2) RecvDatagram by (auto simp: like_events_def)
    then have "web_step e0 (rt, d) (?rt, d1)" using Cons.prems(3) h by (auto intro!: step_op op_datagram)
    then have "reach (web_step e0) (rt, d) (?rt, d1)" by (metis reach_refl reach_step)
    ultimately show ?thesis using reach_trans by fastforce
  next
    case RecvTimeout
    then show ?thesis using Cons.IH [OF _ like Cons.prems(3)] Cons.prems(1) by simp
  next
    case (RecvOSError stopping)
    then obtain logs1 where "managed_loop rm evs (rt_limiter rt) d = (logs1, rl, d')"
      using Cons.prems(1) by (auto split: prod.splits)
    then show ?thesis by (rule Cons.IH [OF _ like Cons.prems(3)])
  qed
qed (auto intro: reach.intros)

text \<open>So that the listener leaves every invariant of the application in place, whatever its socket gives.\<close>

lemma managed_run_keeps:
  assumes "managed_run rm evs (rt_limiter rt) d = (logs, rl, d')" and "like_events e0 evs" and "(k, rm) \<in> set (rt_listeners rt)"
    and "web_inv e0 (rt, d)"
  shows "web_inv e0 (rt\<lparr>rt_limiter := rl\<rparr>, d')" and "hd logs = ListenerStarted (rm_port rm)" and "last logs = ListenerStopped (rm_port rm)"
proof -
  obtain ls where l: "managed_loop rm evs (rt_limiter rt) d = (ls, rl, d')" "logs = ListenerStarted (rm_port rm) # ls"
    using assms(1) by (auto simp: managed_run_def split: prod.splits)
  show "web_inv e0 (rt\<lparr>rt_limiter := rl\<rparr>, d')"
    using web.reach_inv [OF managed_loop_run [OF l(1) assms(2,3)] assms(4)] .
  have "ls \<noteq> [] \<and> last ls = ListenerStopped (rm_port rm)" if "managed_loop rm evs rl0 d0 = (ls, s)" for rl0 d0 ls s
    using that by (induction rm evs rl0 d0 arbitrary: ls s rule: managed_loop.induct) (auto split: prod.splits)
  with l show "hd logs = ListenerStarted (rm_port rm)" "last logs = ListenerStopped (rm_port rm)" by auto
qed

end
