(* ===== verification/Web_Config.thy ===== *)
theory Web_Config
  imports Credential_Cipher
begin

text \<open>
  The settings of the web application, \<^verbatim>\<open>app/web/config.py\<close>, read from the environment variables.
  \<open>render_url\<close> is SQLAlchemy's \<^verbatim>\<open>URL.create(...).render_as_string()\<close> of the user, the password, the host, the
  port and the database. A \<^verbatim>\<open>Path\<close> is kept as its text.
\<close>

section \<open>The checks\<close>

definition parse_boolean :: "string \<Rightarrow> string \<Rightarrow> exn + bool" where
  "parse_boolean v name =
     (let normalized = py_lower (py_strip v)
      in if normalized \<in> {''1'', ''true'', ''yes'', ''on''} then Inr True
         else if normalized \<in> {''0'', ''false'', ''no'', ''off''} then Inr False
         else Inl (WebConfigError (name @ '' must be true or false'')))"

definition bounded_int :: "int \<Rightarrow> int \<Rightarrow> string \<Rightarrow> string \<Rightarrow> exn + int" where
  "bounded_int lo hi name v =
     res_bind (of_option (WebConfigError (name @ '' must be an integer'')) (py_int v)) (\<lambda>n.
     res_bind (guard (lo \<le> n \<and> n \<le> hi)
         (WebConfigError (name @ '' must be between '' @ int_str lo @ '' and '' @ int_str hi))) (\<lambda>_.
     Inr n))"

definition web_port :: "string \<Rightarrow> exn + int" where
  "web_port = bounded_int 1 65535 ''WOLT_WEB_PORT''"

definition database_port :: "string \<Rightarrow> exn + int" where
  "database_port = bounded_int 1 65535 ''WOLT_DB_PORT''"

definition udp_port :: "string \<Rightarrow> string \<Rightarrow> exn + int" where
  "udp_port v name = bounded_int 1024 65535 name v"

definition parse_session_hours :: "string \<Rightarrow> exn + int" where
  "parse_session_hours = bounded_int 1 168 ''WOLT_SESSION_HOURS''"

definition check_master_key :: "string \<Rightarrow> exn + string" where
  "check_master_key v =
     (if v = [] then Inr []
      else case bytes_fromhex v of
             None \<Rightarrow> Inl (WebConfigError ''WOLT_MASTER_KEY must be hexadecimal'')
           | Some decoded \<Rightarrow>
               if length decoded \<noteq> 32 then Inl (WebConfigError ''WOLT_MASTER_KEY must contain 32 random bytes'')
               else Inr v)"

definition check_host_agent_token :: "string \<Rightarrow> exn + string" where
  "check_host_agent_token v =
     (if v \<noteq> [] \<and> length v < 32
      then Inl (WebConfigError ''WOLT_HOST_AGENT_TOKEN must contain at least 32 characters'') else Inr v)"

section \<open>The settings\<close>

record web_settings =
  ws_database_url :: string
  ws_host :: string
  ws_port :: int
  ws_environment :: string
  ws_auto_migrate :: bool
  ws_static_dir :: string
  ws_bootstrap_token :: string
  ws_master_key :: string
  ws_session_secure :: bool
  ws_session_hours :: int
  ws_udp_published_start :: int
  ws_udp_published_end :: int
  ws_version :: string
  ws_commit_sha :: string
  ws_build_date :: string
  ws_host_agent_socket :: string
  ws_host_agent_token :: string
  ws_smtp_ca_file :: "string option"

text \<open>\<^verbatim>\<open>x.strip() or default\<close>\<close>

definition stripped_or :: "(string \<rightharpoonup> string) \<Rightarrow> string \<Rightarrow> string \<Rightarrow> string" where
  "stripped_or env k v = (let s = py_strip (env_or env k v) in if s = [] then v else s)"

definition resolve_database_url ::
    "(string \<Rightarrow> string \<Rightarrow> string \<Rightarrow> int \<Rightarrow> string \<Rightarrow> string) \<Rightarrow> (string \<rightharpoonup> string) \<Rightarrow> exn + string" where
  "resolve_database_url render_url env =
     (let database_url = py_strip (env_or env ''DATABASE_URL'' [])
      in if database_url \<noteq> [] \<and> \<not> starts_with ''postgresql+psycopg://'' database_url
         then Inl (WebConfigError ''DATABASE_URL must use postgresql+psycopg in this phase'')
         else if database_url \<noteq> [] then Inr database_url
         else
           let password = env_or env ''WOLT_DB_PASSWORD'' []
           in if password = []
              then Inl (WebConfigError ''DATABASE_URL or WOLT_DB_PASSWORD is required in web mode'')
              else res_bind (database_port (env_or env ''WOLT_DB_PORT'' ''5432'')) (\<lambda>port.
                Inr (render_url (env_or env ''WOLT_DB_USER'' ''wolt'') password (env_or env ''WOLT_DB_HOST'' ''postgres'')
                       port (env_or env ''WOLT_DB_NAME'' ''wolt''))))"

definition published_range :: "(string \<rightharpoonup> string) \<Rightarrow> exn + int \<times> int" where
  "published_range env =
     res_bind (udp_port (env_or env ''WOLT_UDP_PUBLISHED_START'' ''40000'') ''WOLT_UDP_PUBLISHED_START'') (\<lambda>udp_start.
     res_bind (udp_port (env_or env ''WOLT_UDP_PUBLISHED_END'' ''40099'') ''WOLT_UDP_PUBLISHED_END'') (\<lambda>udp_end.
     res_bind (guard (udp_start \<le> udp_end)
         (WebConfigError ''WOLT_UDP_PUBLISHED_START must not exceed WOLT_UDP_PUBLISHED_END'')) (\<lambda>_.
     res_bind (guard (udp_end - udp_start + 1 \<le> 100)
         (WebConfigError ''The published UDP range cannot exceed 100 ports'')) (\<lambda>_.
     Inr (udp_start, udp_end)))))"

definition web_settings_from_env ::
    "(string \<Rightarrow> string \<Rightarrow> string \<Rightarrow> int \<Rightarrow> string \<Rightarrow> string) \<Rightarrow> (string \<rightharpoonup> string) \<Rightarrow> exn + web_settings" where
  "web_settings_from_env render_url env =
     res_bind (resolve_database_url render_url env) (\<lambda>database_url.
     res_bind (published_range env) (\<lambda>(udp_start, udp_end).
     let smtp_ca_file = py_strip (env_or env ''WOLT_SMTP_CA_FILE'' [])
     in
     res_bind (web_port (env_or env ''WOLT_WEB_PORT'' ''8080'')) (\<lambda>port.
     res_bind (parse_boolean (env_or env ''WOLT_AUTO_MIGRATE'' ''false'') ''WOLT_AUTO_MIGRATE'') (\<lambda>auto_migrate.
     res_bind (check_master_key (env_or env ''WOLT_MASTER_KEY'' [])) (\<lambda>master_key.
     res_bind (parse_boolean (env_or env ''WOLT_SESSION_SECURE'' ''false'') ''WOLT_SESSION_SECURE'') (\<lambda>session_secure.
     res_bind (parse_session_hours (env_or env ''WOLT_SESSION_HOURS'' ''12'')) (\<lambda>session_hours.
     res_bind (check_host_agent_token (env_or env ''WOLT_HOST_AGENT_TOKEN'' [])) (\<lambda>host_agent_token.
     Inr \<lparr>ws_database_url = database_url, ws_host = stripped_or env ''WOLT_WEB_HOST'' ''0.0.0.0'', ws_port = port,
          ws_environment = stripped_or env ''WOLT_ENVIRONMENT'' ''production'', ws_auto_migrate = auto_migrate,
          ws_static_dir = env_or env ''WOLT_STATIC_DIR'' ''/app/app/web/static'',
          ws_bootstrap_token = env_or env ''WOLT_BOOTSTRAP_TOKEN'' [], ws_master_key = master_key,
          ws_session_secure = session_secure, ws_session_hours = session_hours,
          ws_udp_published_start = udp_start, ws_udp_published_end = udp_end,
          ws_version = stripped_or env ''WOLT_VERSION'' ''v1.1.2-dev'',
          ws_commit_sha = stripped_or env ''WOLT_COMMIT_SHA'' ''local'',
          ws_build_date = stripped_or env ''WOLT_BUILD_DATE'' ''unknown'',
          ws_host_agent_socket = env_or env ''WOLT_HOST_AGENT_SOCKET'' ''/run/wolt-agent/agent.sock'',
          ws_host_agent_token = host_agent_token,
          ws_smtp_ca_file = (if smtp_ca_file = [] then None else Some smtp_ca_file)\<rparr>))))))))"

section \<open>Settings that load\<close>

definition config_error :: "exn \<Rightarrow> bool" where
  "config_error e \<longleftrightarrow> (\<exists>m. e = WebConfigError m)"

lemma bounded_int_Inr: "bounded_int lo hi name v = Inr n \<longleftrightarrow> py_int v = Some n \<and> lo \<le> n \<and> n \<le> hi"
  by (auto simp: bounded_int_def res_simps)

lemma config_errors:
  "bounded_int lo hi name v = Inl e \<Longrightarrow> config_error e" "parse_boolean v name = Inl e \<Longrightarrow> config_error e"
  "check_master_key v = Inl e \<Longrightarrow> config_error e" "check_host_agent_token v = Inl e \<Longrightarrow> config_error e"
  "resolve_database_url render_url env = Inl e \<Longrightarrow> config_error e" "published_range env = Inl e \<Longrightarrow> config_error e"
  by (auto simp: config_error_def bounded_int_def parse_boolean_def check_master_key_def check_host_agent_token_def
      resolve_database_url_def published_range_def database_port_def udp_port_def Let_def res_simps
      split: if_splits option.splits)

text \<open>A key that passes the check makes a cipher.\<close>

lemma checked_key_cipher: "check_master_key v = Inr k \<Longrightarrow> v \<noteq> [] \<Longrightarrow> k = v \<and> (\<exists>ci. cipher_init cl k = Inr ci \<and> length (ci_key ci) = 32)"
  by (auto simp: check_master_key_def cipher_init_def split: option.splits if_splits)

lemma settings_error: "web_settings_from_env render_url env = Inl e \<Longrightarrow> config_error e"
  by (auto simp: web_settings_from_env_def res_simps Let_def web_port_def parse_session_hours_def intro: config_errors
      split: prod.splits)


end
