(* ===== verification/Web_Http.thy ===== *)
theory Web_Http
  imports Web_System Web_Config Host_Http
begin

text \<open>
  What the route modules of \<^verbatim>\<open>app/web/\<close> share. The state of the process is the engine, the database, the three
  attempt limiters, the mail that was sent, and the host behind the agent's socket. A route is a function on that
  state which returns a value or raises; an exception leaves the state as the calls before it made it.

  Of FastAPI the model has what its documentation says: a dependency that raises ends the request,
  a body or a parameter that does not fit its model is answered with 422 before the function runs, an
  \<^verbatim>\<open>HTTPException\<close> is answered with its status, and any other exception with 500. \<^verbatim>\<open>EmailStr\<close> and \<^verbatim>\<open>HttpUrl\<close>
  are functions of the environment that refuse a text or give its normal form.
\<close>

section \<open>State and environment\<close>

record web =
  wb_runtime :: runtime
  wb_db :: db
  wb_limiter :: login_limiter
  wb_bootstrap_limiter :: login_limiter
  wb_reset_limiter :: login_limiter
  wb_mail :: "smtp_event list"
  wb_host :: host

text \<open>
  \<open>we_ops\<close>, \<open>we_engine\<close>, \<open>we_auth\<close> and \<open>we_identity\<close> are what the services, the engine, the sessions and the
  identity service draw during this request; \<open>we_lock\<close> is whether the retention job gets its lock, \<open>we_exchange\<close>
  the socket of the host agent.
\<close>

record 'k web_env =
  we_ops :: "'k env"
  we_engine :: "'k env"
  we_auth :: auth_env
  we_identity :: identity_env
  we_settings :: web_settings
  we_sql :: sql_lib
  we_mono :: rat
  we_lock :: bool
  we_email :: "string \<Rightarrow> string option"
  we_url :: "string \<Rightarrow> string option"
  we_repr :: "json \<Rightarrow> string"
  we_exchange :: "agent_request \<Rightarrow> host \<Rightarrow> (Host_System.io_error + int \<times> string) \<times> host"

text \<open>The session cookie and the address a request comes with\<close>

record caller =
  cx_session_token :: "string option"
  cx_client :: "string option"

definition client_ip :: "caller \<Rightarrow> string" where
  "client_ip cx = (case cx_client cx of None \<Rightarrow> ''unknown'' | Some h \<Rightarrow> h)"

section \<open>Routes\<close>

type_synonym 'a route = "web \<Rightarrow> (exn + 'a) \<times> web"

definition w_return :: "'a \<Rightarrow> 'a route" where
  "w_return x s = (Inr x, s)"

definition w_raise :: "exn \<Rightarrow> 'a route" where
  "w_raise x s = (Inl x, s)"

definition w_bind :: "'a route \<Rightarrow> ('a \<Rightarrow> 'b route) \<Rightarrow> 'b route" where
  "w_bind m g s = (case m s of (Inr x, s') \<Rightarrow> g x s' | (Inl x, s') \<Rightarrow> (Inl x, s'))"

text \<open>\<^verbatim>\<open>try: m except Exception as exc: f(exc)\<close>, where \<open>f exc\<close> is the exception that the handler raises\<close>

definition w_translate :: "(exn \<Rightarrow> exn) \<Rightarrow> 'a route \<Rightarrow> 'a route" where
  "w_translate f m s = (case m s of (Inr x, s') \<Rightarrow> (Inr x, s') | (Inl x, s') \<Rightarrow> (Inl (f x), s'))"

definition w_catch :: "'a route \<Rightarrow> (exn \<Rightarrow> 'a route) \<Rightarrow> 'a route" where
  "w_catch m g s = (case m s of (Inr x, s') \<Rightarrow> (Inr x, s') | (Inl x, s') \<Rightarrow> g x s')"

definition w_guard :: "bool \<Rightarrow> exn \<Rightarrow> unit route" where
  "w_guard b x = (if b then w_return () else w_raise x)"

text \<open>A call of a service, which reads the database, changes it, or drives the engine\<close>

definition w_read :: "(db \<Rightarrow> exn + 'a) \<Rightarrow> 'a route" where
  "w_read q s = (q (wb_db s), s)"

definition w_db :: "(db \<Rightarrow> (exn + 'a) \<times> db) \<Rightarrow> 'a route" where
  "w_db f s = (case f (wb_db s) of (r, d) \<Rightarrow> (r, s\<lparr>wb_db := d\<rparr>))"

definition w_engine :: "(runtime \<Rightarrow> db \<Rightarrow> (exn + 'a) \<times> runtime \<times> db) \<Rightarrow> 'a route" where
  "w_engine f s = (case f (wb_runtime s) (wb_db s) of (r, rt, d) \<Rightarrow> (r, s\<lparr>wb_runtime := rt, wb_db := d\<rparr>))"

definition w_mailing :: "(db \<Rightarrow> (exn + 'a) \<times> db \<times> smtp_event list) \<Rightarrow> 'a route" where
  "w_mailing f s = (case f (wb_db s) of (r, d, t) \<Rightarrow> (r, s\<lparr>wb_db := d, wb_mail := wb_mail s @ t\<rparr>))"

section \<open>Who may call\<close>

text \<open>The three guards are declared in every route module, with the same text up to the order of the tests.\<close>

definition unauthenticated :: exn where
  "unauthenticated = HTTPException 401 ''authentication_required''"

definition forbidden :: exn where
  "forbidden = HTTPException 403 ''insufficient_permissions''"

definition require_user :: "'k web_env \<Rightarrow> caller \<Rightarrow> authenticated_user route" where
  "require_user e cx =
     (case cx_session_token cx of
        None \<Rightarrow> w_raise unauthenticated
      | Some session_token \<Rightarrow>
          if session_token = [] then w_raise unauthenticated
          else w_bind (w_read (current_user (we_auth e) session_token)) (\<lambda>user.
            case user of None \<Rightarrow> w_raise unauthenticated | Some u \<Rightarrow> w_return u))"

definition require_admin :: "'k web_env \<Rightarrow> caller \<Rightarrow> authenticated_user route" where
  "require_admin e cx =
     w_bind (require_user e cx) (\<lambda>user.
     w_bind (w_guard (au_role user \<in> {''owner'', ''administrator''}) forbidden) (\<lambda>_. w_return user))"

definition require_owner :: "'k web_env \<Rightarrow> caller \<Rightarrow> authenticated_user route" where
  "require_owner e cx =
     w_bind (require_user e cx) (\<lambda>user.
     w_bind (w_guard (au_role user = ''owner'') forbidden) (\<lambda>_. w_return user))"

section \<open>Request models\<close>

text \<open>A value that does not fit its model\<close>

definition w_valid :: "bool \<Rightarrow> unit route" where
  "w_valid b = w_guard b (HTTPException 422 ''request_validation_error'')"

definition length_in :: "nat \<Rightarrow> nat \<Rightarrow> string \<Rightarrow> bool" where
  "length_in lo hi s \<longleftrightarrow> lo \<le> length s \<and> length s \<le> hi"

definition opt_max :: "nat \<Rightarrow> string option \<Rightarrow> bool" where
  "opt_max hi s = (case s of None \<Rightarrow> True | Some t \<Rightarrow> length t \<le> hi)"

definition w_email :: "'k web_env \<Rightarrow> string \<Rightarrow> string route" where
  "w_email e s = (case we_email e s of None \<Rightarrow> w_raise (HTTPException 422 ''request_validation_error'') | Some t \<Rightarrow> w_return t)"

text \<open>\<^verbatim>\<open>^[A-Za-z0-9_.-]+$\<close>\<close>

definition username_char :: "char \<Rightarrow> bool" where
  "username_char c \<longleftrightarrow> is_alnum c \<or> c \<in> {CHR ''_'', CHR ''.'', CHR ''-''}"

definition username_valid :: "string \<Rightarrow> bool" where
  "username_valid s \<longleftrightarrow> length_in 3 80 s \<and> list_all username_char s"

section \<open>Errors\<close>

fun translate_error :: "exn \<Rightarrow> exn" where
  "translate_error ResourceNotFoundError = HTTPException 404 ''resource_not_found''"
| "translate_error ResourceConflictError = HTTPException 409 ''resource_conflict''"
| "translate_error ResourceInUseError = HTTPException 409 ''resource_in_use''"
| "translate_error StaleVersionError = HTTPException 409 ''stale_listener_version''"
| "translate_error MasterKeyRequiredError = HTTPException 503 ''master_key_not_configured''"
| "translate_error (DriverValidationError m) = HTTPException 422 m"
| "translate_error (DriverOperationError m) = HTTPException 502 m"
| "translate_error x = x"

fun translate_identity :: "exn \<Rightarrow> exn" where
  "translate_identity IdentityConflictError = HTTPException 409 ''user_already_exists''"
| "translate_identity InvalidTokenError = HTTPException 400 ''invalid_or_expired_token''"
| "translate_identity (EmailDeliveryError m) = HTTPException 502 m"
| "translate_identity IdentityNotFoundError = HTTPException 404 ''user_not_found''"
| "translate_identity LastOwnerError = HTTPException 409 ''last_owner_required''"
| "translate_identity SmtpNotConfiguredError = HTTPException 503 ''smtp_not_configured''"
| "translate_identity IdentityMasterKeyError = HTTPException 503 ''master_key_not_configured''"
| "translate_identity InvitationNotAcceptedError = HTTPException 503 ''invitation_not_accepted''"
| "translate_identity x = x"

text \<open>The status of the answer, with \<open>ok\<close> the status that the route declares\<close>

fun exn_status :: "exn \<Rightarrow> int" where
  "exn_status (HTTPException st detail) = st"
| "exn_status _ = 500"

definition status_of :: "int \<Rightarrow> exn + 'a \<Rightarrow> int" where
  "status_of ok r = (case r of Inr x \<Rightarrow> ok | Inl x \<Rightarrow> exn_status x)"

lemma status_of_simps [simp]: "status_of ok (Inr x) = ok" "status_of ok (Inl y) = exn_status y"
  by (simp_all add: status_of_def)

end
