(* ===== verification/Web_Routes.thy ===== *)
theory Web_Routes
  imports Web_Http
begin

text \<open>
  The functions of the route modules: \<^verbatim>\<open>auth_routes.py\<close>, \<^verbatim>\<open>identity_routes.py\<close>, \<^verbatim>\<open>host_routes.py\<close>,
  \<^verbatim>\<open>operations_routes.py\<close> and \<^verbatim>\<open>observability_routes.py\<close>, in the order of the modules. A request model is a
  record with the fields of the class and a predicate for their bounds.
\<close>

section \<open>Authentication\<close>

record session_cookie =
  ck_value :: string
  ck_max_age :: int
  ck_secure :: bool
  ck_httponly :: bool
  ck_samesite :: string

definition set_session_cookie :: "'k web_env \<Rightarrow> authentication_result \<Rightarrow> session_cookie" where
  "set_session_cookie e r =
     \<lparr>ck_value = ar_session_token r, ck_max_age = ws_session_hours (we_settings e) * 3600,
      ck_secure = ws_session_secure (we_settings e), ck_httponly = True, ck_samesite = ''strict''\<rparr>"

record setup_owner_request =
  so_bootstrap_token :: string
  so_username :: string
  so_email :: string
  so_password :: string

record login_request =
  lq_identifier :: string
  lq_password :: string

record recovery_request =
  rr_email :: string
  rr_recovery_code :: string
  rr_new_password :: string

text \<open>An attempt that a limiter counts: \<^verbatim>\<open>if not limiter.allow(key): raise\<close>. \<open>get\<close> and \<open>put\<close> select the limiter.\<close>

definition w_allow :: "(web \<Rightarrow> login_limiter) \<Rightarrow> (login_limiter \<Rightarrow> web \<Rightarrow> web) \<Rightarrow> string \<Rightarrow> rat \<Rightarrow> bool route" where
  "w_allow get put key now s = (case login_allow key now (get s) of (b, ll) \<Rightarrow> (Inr b, put ll s))"

definition w_modify :: "(web \<Rightarrow> web) \<Rightarrow> unit route" where
  "w_modify f s = (Inr (), f s)"

abbreviation put_limiter :: "login_limiter \<Rightarrow> web \<Rightarrow> web" where
  "put_limiter ll s \<equiv> s\<lparr>wb_limiter := ll\<rparr>"

abbreviation put_bootstrap_limiter :: "login_limiter \<Rightarrow> web \<Rightarrow> web" where
  "put_bootstrap_limiter ll s \<equiv> s\<lparr>wb_bootstrap_limiter := ll\<rparr>"

abbreviation put_reset_limiter :: "login_limiter \<Rightarrow> web \<Rightarrow> web" where
  "put_reset_limiter ll s \<equiv> s\<lparr>wb_reset_limiter := ll\<rparr>"

definition w_only :: "exn \<Rightarrow> exn \<Rightarrow> exn \<Rightarrow> exn" where
  "w_only x y z = (if z = x then y else z)"

definition create_owner_route :: "'k web_env \<Rightarrow> caller \<Rightarrow> setup_owner_request \<Rightarrow> (authentication_result \<times> session_cookie) route" where
  "create_owner_route e cx payload =
     w_bind (w_valid (username_valid (so_username payload) \<and> length_in 12 128 (so_password payload))) (\<lambda>_.
     w_bind (w_email e (so_email payload)) (\<lambda>email.
     let key = client_ip cx
     in w_bind (w_allow wb_bootstrap_limiter put_bootstrap_limiter key (we_mono e)) (\<lambda>ok.
        w_bind (w_guard ok (HTTPException 429 ''too_many_setup_attempts'')) (\<lambda>_.
        w_bind (w_guard (ws_bootstrap_token (we_settings e) \<noteq> []) (HTTPException 503 ''bootstrap_token_not_configured'')) (\<lambda>_.
        w_bind (\<lambda>s. (compare_digest (so_bootstrap_token payload) (ws_bootstrap_token (we_settings e)), s)) (\<lambda>same.
        w_bind (w_guard same (HTTPException 403 ''invalid_bootstrap_token'')) (\<lambda>_.
        w_bind (w_translate (w_only SetupAlreadyCompletedError (HTTPException 409 ''setup_already_completed''))
                  (w_db (create_owner (we_auth e) (so_username payload) email (so_password payload) key))) (\<lambda>result.
        w_bind (w_modify (\<lambda>s. put_bootstrap_limiter (login_clear key (wb_bootstrap_limiter s)) s)) (\<lambda>_.
        w_return (result, set_session_cookie e result))))))))))"

definition login_route :: "'k web_env \<Rightarrow> caller \<Rightarrow> login_request \<Rightarrow> (authentication_result \<times> session_cookie) route" where
  "login_route e cx payload =
     w_bind (w_valid (length_in 1 320 (lq_identifier payload) \<and> length_in 1 128 (lq_password payload))) (\<lambda>_.
     let key = client_ip cx
     in w_bind (w_allow wb_limiter put_limiter key (we_mono e)) (\<lambda>ok.
        w_bind (w_guard ok (HTTPException 429 ''too_many_login_attempts'')) (\<lambda>_.
        w_bind (w_translate (w_only InvalidCredentialsError (HTTPException 401 ''invalid_credentials''))
                  (w_db (login (we_auth e) (lq_identifier payload) (lq_password payload) key))) (\<lambda>result.
        w_bind (w_modify (\<lambda>s. put_limiter (login_clear key (wb_limiter s)) s)) (\<lambda>_.
        w_return (result, set_session_cookie e result))))))"

definition current_user_route :: "'k web_env \<Rightarrow> caller \<Rightarrow> authenticated_user route" where
  "current_user_route e cx = require_user e cx"

definition logout_route :: "'k web_env \<Rightarrow> caller \<Rightarrow> unit route" where
  "logout_route e cx =
     (case cx_session_token cx of
        None \<Rightarrow> w_return ()
      | Some session_token \<Rightarrow>
          if session_token = [] then w_return ()
          else w_db (logout (we_auth e) session_token (client_ip cx)))"

definition recover_route :: "'k web_env \<Rightarrow> caller \<Rightarrow> recovery_request \<Rightarrow> (authentication_result \<times> session_cookie) route" where
  "recover_route e cx payload =
     w_bind (w_valid (length_in 20 64 (rr_recovery_code payload) \<and> length_in 12 128 (rr_new_password payload))) (\<lambda>_.
     w_bind (w_email e (rr_email payload)) (\<lambda>email.
     let key = client_ip cx
     in w_bind (w_allow wb_limiter put_limiter key (we_mono e)) (\<lambda>ok.
        w_bind (w_guard ok (HTTPException 429 ''too_many_recovery_attempts'')) (\<lambda>_.
        w_bind (w_translate (w_only InvalidCredentialsError (HTTPException 400 ''invalid_recovery_credentials''))
                  (w_db (recover_owner (we_auth e) email (py_upper (rr_recovery_code payload)) (rr_new_password payload) key))) (\<lambda>result.
        w_bind (w_modify (\<lambda>s. put_limiter (login_clear key (wb_limiter s)) s)) (\<lambda>_.
        w_return (result, set_session_cookie e result)))))))"

section \<open>Identity\<close>

record smtp_request =
  sq_host :: string
  sq_port :: int
  sq_security :: string
  sq_from_email :: string
  sq_from_name :: string
  sq_public_base_url :: string
  sq_username :: string
  sq_password :: string
  sq_enabled :: bool

definition smtp_request_valid :: "smtp_request \<Rightarrow> bool" where
  "smtp_request_valid p \<longleftrightarrow> length_in 1 255 (sq_host p) \<and> 1 \<le> sq_port p \<and> sq_port p \<le> 65535
     \<and> sq_security p \<in> {''starttls'', ''tls'', ''none''} \<and> length_in 1 120 (sq_from_name p)
     \<and> length (sq_username p) \<le> 320 \<and> length (sq_password p) \<le> 256"

definition w_url :: "'k web_env \<Rightarrow> string \<Rightarrow> string route" where
  "w_url e s = (case we_url e s of None \<Rightarrow> w_raise (HTTPException 422 ''request_validation_error'') | Some t \<Rightarrow> w_return t)"

text \<open>The validated form as the input of the service\<close>

definition w_smtp_input :: "'k web_env \<Rightarrow> smtp_request \<Rightarrow> smtp_input route" where
  "w_smtp_input e p =
     w_bind (w_valid (smtp_request_valid p)) (\<lambda>_.
     w_bind (w_email e (sq_from_email p)) (\<lambda>from_email.
     w_bind (w_url e (sq_public_base_url p)) (\<lambda>url.
     w_return \<lparr>si_host = py_strip (sq_host p), si_port = sq_port p, si_security = sq_security p,
       si_from_email = from_email, si_from_name = py_strip (sq_from_name p),
       si_public_base_url = py_rstrip (CHR ''/'') url, si_username = py_strip (sq_username p),
       si_password = sq_password p, si_enabled = sq_enabled p\<rparr>)))"

record invite_request =
  iq_username :: string
  iq_email :: string
  iq_role :: string

record token_password_request =
  tp_token :: string
  tp_password :: string

definition token_password_valid :: "token_password_request \<Rightarrow> bool" where
  "token_password_valid p \<longleftrightarrow> length_in 32 256 (tp_token p) \<and> length_in 12 128 (tp_password p)"

definition users_route :: "'k web_env \<Rightarrow> caller \<Rightarrow> user_view list route" where
  "users_route e cx = w_bind (require_owner e cx) (\<lambda>_. w_read (\<lambda>d. Inr (list_users (we_identity e) d)))"

definition invite :: "'k web_env \<Rightarrow> caller \<Rightarrow> invite_request \<Rightarrow> (string \<times> string) route" where
  "invite e cx payload =
     w_bind (require_owner e cx) (\<lambda>user.
     w_bind (w_valid (username_valid (iq_username payload) \<and> iq_role payload \<in> {''administrator'', ''operator''})) (\<lambda>_.
     w_bind (w_email e (iq_email payload)) (\<lambda>email.
     w_translate translate_identity
       (w_mailing (invite_user (we_identity e) (iq_username payload) email (iq_role payload) (au_id user) (client_ip cx))))))"

definition update_user_route :: "'k web_env \<Rightarrow> caller \<Rightarrow> uuid \<Rightarrow> string \<Rightarrow> bool \<Rightarrow> unit route" where
  "update_user_route e cx user_id role en =
     w_bind (require_owner e cx) (\<lambda>user.
     w_bind (w_valid (role \<in> {''owner'', ''administrator'', ''operator''})) (\<lambda>_.
     w_translate translate_identity
       (w_db (update_user (we_identity e) user_id role en (au_id user) (client_ip cx)))))"

definition revoke_sessions_route :: "'k web_env \<Rightarrow> caller \<Rightarrow> uuid \<Rightarrow> unit route" where
  "revoke_sessions_route e cx user_id =
     w_bind (require_owner e cx) (\<lambda>user.
     w_translate translate_identity
       (w_db (revoke_sessions (we_identity e) user_id (au_id user) (client_ip cx))))"

definition smtp_route :: "'k web_env \<Rightarrow> caller \<Rightarrow> smtp_view option route" where
  "smtp_route e cx =
     w_bind (require_owner e cx) (\<lambda>_. w_translate translate_identity (w_read (get_smtp_view (we_identity e))))"

definition save_smtp_route :: "'k web_env \<Rightarrow> caller \<Rightarrow> smtp_request \<Rightarrow> smtp_view option route" where
  "save_smtp_route e cx payload =
     w_bind (require_owner e cx) (\<lambda>user.
     w_bind (w_smtp_input e payload) (\<lambda>values.
     w_translate translate_identity (w_db (save_smtp (we_identity e) values (au_id user) (client_ip cx)))))"

definition test_smtp_route :: "'k web_env \<Rightarrow> caller \<Rightarrow> smtp_request \<Rightarrow> string \<Rightarrow> unit route" where
  "test_smtp_route e cx payload recipient =
     w_bind (require_owner e cx) (\<lambda>_.
     w_bind (w_smtp_input e payload) (\<lambda>values.
     w_bind (w_email e recipient) (\<lambda>to.
     w_translate translate_identity
       (w_mailing (\<lambda>d. case test_smtp (we_identity e) values to d of (r, t) \<Rightarrow> (r, d, t))))))"

definition accept_invitation_route :: "'k web_env \<Rightarrow> caller \<Rightarrow> token_password_request \<Rightarrow> unit route" where
  "accept_invitation_route e cx payload =
     w_bind (w_valid (token_password_valid payload)) (\<lambda>_.
     w_translate translate_identity
       (w_db (accept_invitation (we_identity e) (tp_token payload) (tp_password payload) (client_ip cx))))"

text \<open>The answer is the same whether the request was throttled, the account exists, or the mail could be delivered.\<close>

definition request_reset :: "'k web_env \<Rightarrow> caller \<Rightarrow> string \<Rightarrow> string route" where
  "request_reset e cx email =
     w_bind (w_email e email) (\<lambda>address.
     w_bind (w_allow wb_reset_limiter put_reset_limiter (client_ip cx) (we_mono e)) (\<lambda>ok.
     if \<not> ok then w_return ''accepted''
     else
       w_bind (w_catch (w_mailing (request_password_reset (we_identity e) address (client_ip cx)))
                 (\<lambda>x. case x of EmailDeliveryError m \<Rightarrow> w_return () | _ \<Rightarrow> w_raise x)) (\<lambda>_.
       w_return ''accepted'')))"

definition complete_reset :: "'k web_env \<Rightarrow> caller \<Rightarrow> token_password_request \<Rightarrow> unit route" where
  "complete_reset e cx payload =
     w_bind (w_valid (token_password_valid payload)) (\<lambda>_.
     w_translate translate_identity
       (w_db (complete_password_reset (we_identity e) (tp_token payload) (tp_password payload) (client_ip cx))))"

section \<open>The host\<close>

record host_network_request =
  nq_source_ip :: string
  nq_udp_start :: int
  nq_udp_end :: int

definition host_network_valid :: "host_network_request \<Rightarrow> bool" where
  "host_network_valid p \<longleftrightarrow> length_in 2 45 (nq_source_ip p) \<and> 1024 \<le> nq_udp_start p \<and> nq_udp_start p \<le> 65535
     \<and> 1024 \<le> nq_udp_end p \<and> nq_udp_end p \<le> 65535"

definition network_dump :: "host_network_request \<Rightarrow> dict" where
  "network_dump p =
     [(''source_ip'', JStr (nq_source_ip p)), (''udp_start'', JInt (nq_udp_start p)), (''udp_end'', JInt (nq_udp_end p))]"

definition w_host :: "'k web_env \<Rightarrow> string \<Rightarrow> string \<Rightarrow> json option \<Rightarrow> json route" where
  "w_host e method p payload s =
     (case client_request (we_repr e) (we_exchange e) (ws_host_agent_token (we_settings e)) method p payload (wb_host s) of
        (r, h) \<Rightarrow> (r, s\<lparr>wb_host := h\<rparr>))"

fun host_error :: "exn \<Rightarrow> exn" where
  "host_error (HostAgentError detail st) = HTTPException (if 400 \<le> st \<and> st < 600 then st else 503) detail"
| "host_error x = x"

definition host_call :: "'k web_env \<Rightarrow> string \<Rightarrow> string \<Rightarrow> json option \<Rightarrow> json route" where
  "host_call e method p payload = w_translate host_error (w_host e method p payload)"

text \<open>\<^verbatim>\<open>{**a, **b}\<close>\<close>

definition dict_merge :: "dict \<Rightarrow> json \<Rightarrow> dict" where
  "dict_merge a b = (case b of JObj d \<Rightarrow> foldl (\<lambda>acc (k, v). dict_set acc k v) a d | _ \<Rightarrow> a)"

definition w_host_audit :: "'k web_env \<Rightarrow> caller \<Rightarrow> authenticated_user \<Rightarrow> string \<Rightarrow> dict \<Rightarrow> unit route" where
  "w_host_audit e cx user action changes = w_db (host_audit (we_ops e) (au_id user) action changes (client_ip cx))"

definition host_status :: "'k web_env \<Rightarrow> caller \<Rightarrow> json route" where
  "host_status e cx = w_bind (require_owner e cx) (\<lambda>_. host_call e ''GET'' ''/v1/status'' None)"

definition host_releases :: "'k web_env \<Rightarrow> caller \<Rightarrow> json route" where
  "host_releases e cx = w_bind (require_owner e cx) (\<lambda>_. host_call e ''GET'' ''/v1/releases'' None)"

definition host_job :: "'k web_env \<Rightarrow> caller \<Rightarrow> uuid \<Rightarrow> json route" where
  "host_job e cx job_id =
     w_bind (require_owner e cx) (\<lambda>_. host_call e ''GET'' (''/v1/jobs/'' @ uuid_str job_id) None)"

definition host_preview :: "'k web_env \<Rightarrow> caller \<Rightarrow> host_network_request \<Rightarrow> json route" where
  "host_preview e cx payload =
     w_bind (require_owner e cx) (\<lambda>_.
     w_bind (w_valid (host_network_valid payload)) (\<lambda>_.
     host_call e ''POST'' ''/v1/firewall/preview'' (Some (JObj (network_dump payload)))))"

definition host_apply_firewall :: "'k web_env \<Rightarrow> caller \<Rightarrow> host_network_request \<Rightarrow> json route" where
  "host_apply_firewall e cx payload =
     w_bind (require_owner e cx) (\<lambda>user.
     w_bind (w_valid (host_network_valid payload)) (\<lambda>_.
     w_bind (host_call e ''POST'' ''/v1/firewall/apply'' (Some (JObj (network_dump payload)))) (\<lambda>result.
     w_bind (w_host_audit e cx user ''host.firewall_applied'' (network_dump payload)) (\<lambda>_.
     w_return result))))"

definition host_deployment :: "'k web_env \<Rightarrow> caller \<Rightarrow> host_network_request \<Rightarrow> json route" where
  "host_deployment e cx payload =
     w_bind (require_owner e cx) (\<lambda>user.
     w_bind (w_valid (host_network_valid payload)) (\<lambda>_.
     w_bind (w_read (\<lambda>d. Inr (app_settings d))) (\<lambda>active.
     w_bind (w_guard (case active of None \<Rightarrow> True
          | Some st \<Rightarrow> nq_udp_start payload \<le> as_udp_port_start st \<and> as_udp_port_end st \<le> nq_udp_end payload)
        (HTTPException 422 ''published_range_excludes_active_range'')) (\<lambda>_.
     w_bind (host_call e ''POST'' ''/v1/deployment'' (Some (JObj (network_dump payload)))) (\<lambda>result.
     w_bind (w_host_audit e cx user ''host.deployment_started'' (dict_merge (network_dump payload) result)) (\<lambda>_.
     w_return result))))))"

definition host_upgrade :: "'k web_env \<Rightarrow> caller \<Rightarrow> string \<Rightarrow> json route" where
  "host_upgrade e cx version =
     w_bind (require_owner e cx) (\<lambda>user.
     w_bind (w_valid (length_in 1 80 version)) (\<lambda>_.
     w_bind (host_call e ''POST'' ''/v1/upgrade'' (Some (JObj [(''version'', JStr version)]))) (\<lambda>result.
     w_bind (w_host_audit e cx user ''host.upgrade_started'' (dict_merge [(''version'', JStr version)] result)) (\<lambda>_.
     w_return result))))"

definition host_rollback :: "'k web_env \<Rightarrow> caller \<Rightarrow> json route" where
  "host_rollback e cx =
     w_bind (require_owner e cx) (\<lambda>user.
     w_bind (host_call e ''POST'' ''/v1/rollback'' (Some (JObj []))) (\<lambda>result.
     w_bind (w_host_audit e cx user ''host.rollback_started'' (dict_merge [] result)) (\<lambda>_.
     w_return result)))"

section \<open>Devices, listeners and the engine\<close>

record device_create_request =
  dq_name :: string
  dq_driver_type :: string
  dq_configuration :: dict
  dq_credentials :: dict
  dq_enabled :: bool

record device_update_request =
  du_name :: string
  du_configuration :: dict
  du_credentials :: "dict option"
  du_enabled :: bool

record device_discovery_request =
  dd_driver_type :: string
  dd_configuration :: dict
  dd_credentials :: dict

record listener_create_request =
  lc_device_id :: uuid
  lc_name :: string
  lc_description :: "string option"
  lc_udp_port :: "int option"
  lc_allowed_source_ip :: string
  lc_driver_parameters :: dict
  lc_enabled :: bool

definition listener_create_valid :: "listener_create_request \<Rightarrow> bool" where
  "listener_create_valid p \<longleftrightarrow> length_in 1 120 (lc_name p) \<and> opt_max 1000 (lc_description p)
     \<and> (case lc_udp_port p of None \<Rightarrow> True | Some n \<Rightarrow> 1 \<le> n \<and> n \<le> 65535) \<and> length_in 2 45 (lc_allowed_source_ip p)"

record listener_update_request =
  lu_version :: int
  lu_device_id :: uuid
  lu_name :: string
  lu_description :: "string option"
  lu_udp_port :: int
  lu_allowed_source_ip :: string
  lu_driver_parameters :: dict
  lu_enabled :: bool

definition listener_update_valid :: "listener_update_request \<Rightarrow> bool" where
  "listener_update_valid p \<longleftrightarrow> 1 \<le> lu_version p \<and> length_in 1 120 (lu_name p) \<and> opt_max 1000 (lu_description p)
     \<and> 1 \<le> lu_udp_port p \<and> lu_udp_port p \<le> 65535 \<and> length_in 2 45 (lu_allowed_source_ip p)"

text \<open>\<^verbatim>\<open>result = ...; runtime.reconcile_if_active(); return result\<close>\<close>

definition then_reconcile :: "'k web_env \<Rightarrow> 'a route \<Rightarrow> 'a route" where
  "then_reconcile e m =
     w_bind m (\<lambda>result. w_bind (w_engine (reconcile_if_active (we_engine e))) (\<lambda>_. w_return result))"

definition driver_schemas :: "'k web_env \<Rightarrow> caller \<Rightarrow> json list route" where
  "driver_schemas e cx = w_bind (require_user e cx) (\<lambda>_. w_return registry_schemas)"

definition list_devices :: "'k web_env \<Rightarrow> caller \<Rightarrow> device_view list route" where
  "list_devices e cx = w_bind (require_user e cx) (\<lambda>_. w_read (\<lambda>d. Inr (device_list d)))"

definition create_device :: "'k web_env \<Rightarrow> caller \<Rightarrow> device_create_request \<Rightarrow> device_view route" where
  "create_device e cx payload =
     w_bind (require_admin e cx) (\<lambda>user.
     w_bind (w_valid (length_in 1 120 (dq_name payload) \<and> length_in 1 80 (dq_driver_type payload))) (\<lambda>_.
     w_translate translate_error (then_reconcile e
       (w_db (device_create (we_ops e) (dq_name payload) (dq_driver_type payload) (dq_configuration payload)
                (dq_credentials payload) (dq_enabled payload) (au_id user) (client_ip cx))))))"

definition discover_device_host_key :: "'k web_env \<Rightarrow> caller \<Rightarrow> device_discovery_request \<Rightarrow> host_key_discovery_result route" where
  "discover_device_host_key e cx payload =
     w_bind (require_admin e cx) (\<lambda>user.
     w_bind (w_valid (length_in 1 80 (dd_driver_type payload))) (\<lambda>_.
     w_translate translate_error
       (w_db (device_discover_host_key (we_ops e) (dd_driver_type payload) (dd_configuration payload)
                (dd_credentials payload) (au_id user) (client_ip cx)))))"

definition update_device :: "'k web_env \<Rightarrow> caller \<Rightarrow> uuid \<Rightarrow> device_update_request \<Rightarrow> device_view route" where
  "update_device e cx device_id payload =
     w_bind (require_admin e cx) (\<lambda>user.
     w_bind (w_valid (length_in 1 120 (du_name payload))) (\<lambda>_.
     w_translate translate_error (then_reconcile e
       (w_db (device_update (we_ops e) device_id (du_name payload) (du_configuration payload)
                (du_credentials payload) (du_enabled payload) (au_id user) (client_ip cx))))))"

definition delete_device :: "'k web_env \<Rightarrow> caller \<Rightarrow> uuid \<Rightarrow> unit route" where
  "delete_device e cx device_id =
     w_bind (require_admin e cx) (\<lambda>user.
     w_translate translate_error (w_db (device_delete (we_ops e) device_id (au_id user) (client_ip cx))))"

definition test_device :: "'k web_env \<Rightarrow> caller \<Rightarrow> uuid \<Rightarrow> test_result route" where
  "test_device e cx device_id =
     w_bind (require_user e cx) (\<lambda>user.
     w_translate translate_error (w_db (device_test_connection (we_ops e) device_id (au_id user) (client_ip cx))))"

definition list_listeners :: "'k web_env \<Rightarrow> caller \<Rightarrow> listener_view list route" where
  "list_listeners e cx = w_bind (require_user e cx) (\<lambda>_. w_read (\<lambda>d. Inr (listener_list d)))"

definition create_listener :: "'k web_env \<Rightarrow> caller \<Rightarrow> listener_create_request \<Rightarrow> listener_view route" where
  "create_listener e cx payload =
     w_bind (require_admin e cx) (\<lambda>user.
     w_bind (w_valid (listener_create_valid payload)) (\<lambda>_.
     w_translate translate_error (then_reconcile e
       (w_db (listener_create (we_ops e) (lc_device_id payload) (lc_name payload) (lc_description payload)
                (lc_udp_port payload) (lc_allowed_source_ip payload) (lc_driver_parameters payload) (lc_enabled payload)
                (au_id user) (client_ip cx))))))"

definition update_listener :: "'k web_env \<Rightarrow> caller \<Rightarrow> uuid \<Rightarrow> listener_update_request \<Rightarrow> listener_view route" where
  "update_listener e cx listener_id payload =
     w_bind (require_admin e cx) (\<lambda>user.
     w_bind (w_valid (listener_update_valid payload)) (\<lambda>_.
     w_translate translate_error (then_reconcile e
       (w_db (listener_update (we_ops e) listener_id (lu_version payload) (lu_device_id payload) (lu_name payload)
                (lu_description payload) (lu_udp_port payload) (lu_allowed_source_ip payload) (lu_driver_parameters payload)
                (lu_enabled payload) (au_id user) (client_ip cx))))))"

definition delete_listener :: "'k web_env \<Rightarrow> caller \<Rightarrow> uuid \<Rightarrow> unit route" where
  "delete_listener e cx listener_id =
     w_bind (require_admin e cx) (\<lambda>user.
     w_translate translate_error (then_reconcile e
       (w_db (listener_delete (we_ops e) listener_id (au_id user) (client_ip cx)))))"

definition get_engine :: "'k web_env \<Rightarrow> caller \<Rightarrow> engine_view route" where
  "get_engine e cx = w_bind (require_user e cx) (\<lambda>_. w_read engine_get)"

definition resume_engine :: "'k web_env \<Rightarrow> caller \<Rightarrow> engine_view route" where
  "resume_engine e cx =
     w_bind (require_user e cx) (\<lambda>user.
     w_bind (w_engine (engine_resume (we_engine e))) (\<lambda>(observed, err).
     w_db (engine_transition (we_ops e) ''active'' observed err (au_id user) (client_ip cx))))"

definition pause_engine :: "'k web_env \<Rightarrow> caller \<Rightarrow> engine_view route" where
  "pause_engine e cx =
     w_bind (require_user e cx) (\<lambda>user.
     w_bind (w_engine (engine_pause (we_engine e))) (\<lambda>_.
     w_db (engine_transition (we_ops e) ''paused'' ''paused'' None (au_id user) (client_ip cx))))"

section \<open>Observability and settings\<close>

definition page_valid :: "int \<Rightarrow> int \<Rightarrow> bool" where
  "page_valid page page_size \<longleftrightarrow> 1 \<le> page \<and> 1 \<le> page_size \<and> page_size \<le> 100"

definition filter_valid :: "wake_filter \<Rightarrow> bool" where
  "filter_valid f \<longleftrightarrow> opt_max 80 (wf_result_code f) \<and> opt_max 120 (wf_query f)"

definition dashboard_route :: "'k web_env \<Rightarrow> caller \<Rightarrow> int \<Rightarrow> dashboard_view route" where
  "dashboard_route e cx n =
     w_bind (require_user e cx) (\<lambda>_.
     w_bind (w_valid (1 \<le> n \<and> n \<le> 168)) (\<lambda>_.
     w_read (dashboard (we_ops e) n)))"

definition events_route :: "'k web_env \<Rightarrow> caller \<Rightarrow> int \<Rightarrow> int \<Rightarrow> wake_filter \<Rightarrow> wake_view page route" where
  "events_route e cx page page_size f =
     w_bind (require_user e cx) (\<lambda>_.
     w_bind (w_valid (page_valid page page_size \<and> filter_valid f)) (\<lambda>_.
     w_read (list_wake_events (we_sql e) f page page_size)))"

text \<open>The byte order mark in front of the export is the character U+FEFF, which is left to the sender.\<close>

definition export_events :: "'k web_env \<Rightarrow> caller \<Rightarrow> wake_filter \<Rightarrow> string route" where
  "export_events e cx f =
     w_bind (require_user e cx) (\<lambda>_.
     w_bind (w_valid (filter_valid f)) (\<lambda>_.
     w_read (\<lambda>d. Inr (wake_events_csv (we_sql e) f d))))"

definition audit_route :: "'k web_env \<Rightarrow> caller \<Rightarrow> int \<Rightarrow> int \<Rightarrow> string option \<Rightarrow> string option \<Rightarrow> string option \<Rightarrow> audit_view page route" where
  "audit_route e cx page page_size action object_type query =
     w_bind (require_admin e cx) (\<lambda>_.
     w_bind (w_valid (page_valid page page_size \<and> opt_max 120 action \<and> opt_max 80 object_type \<and> opt_max 120 query)) (\<lambda>_.
     w_read (list_audit_events (we_sql e) action object_type query page page_size)))"

definition published_of :: "'k web_env \<Rightarrow> published" where
  "published_of e =
     \<lparr>published_udp_start = ws_udp_published_start (we_settings e), published_udp_end = ws_udp_published_end (we_settings e)\<rparr>"

definition get_settings_route :: "'k web_env \<Rightarrow> caller \<Rightarrow> settings_view route" where
  "get_settings_route e cx = w_bind (require_admin e cx) (\<lambda>_. w_read (get_settings (published_of e)))"

definition retention_settings_valid :: "int \<Rightarrow> int \<Rightarrow> int \<Rightarrow> bool" where
  "retention_settings_valid wake_days audit_days rate_limit_seconds \<longleftrightarrow>
     1 \<le> wake_days \<and> wake_days \<le> 3650 \<and> 30 \<le> audit_days \<and> audit_days \<le> 3650
     \<and> 0 \<le> rate_limit_seconds \<and> rate_limit_seconds \<le> 3600"

definition update_settings :: "'k web_env \<Rightarrow> caller \<Rightarrow> int \<Rightarrow> int \<Rightarrow> int \<Rightarrow> settings_view route" where
  "update_settings e cx wake_days audit_days rate_limit_seconds =
     w_bind (require_admin e cx) (\<lambda>user.
     w_bind (w_valid (retention_settings_valid wake_days audit_days rate_limit_seconds)) (\<lambda>_.
     then_reconcile e
       (w_db (update_retention (we_ops e) (published_of e) wake_days audit_days rate_limit_seconds (au_id user) (client_ip cx)))))"

definition udp_range_valid :: "int \<Rightarrow> int \<Rightarrow> bool" where
  "udp_range_valid udp_start udp_end \<longleftrightarrow> 1024 \<le> udp_start \<and> udp_start \<le> 65535 \<and> 1024 \<le> udp_end \<and> udp_end \<le> 65535
     \<and> udp_start \<le> udp_end \<and> udp_end - udp_start + 1 \<le> 100"

fun udp_range_error :: "exn \<Rightarrow> exn" where
  "udp_range_error UdpRangeOutsidePublishedError = HTTPException 422 ''udp_range_outside_published_range''"
| "udp_range_error UdpRangeExcludesListenersError = HTTPException 409 ''udp_range_excludes_existing_listeners''"
| "udp_range_error x = x"

definition update_udp_range_route :: "'k web_env \<Rightarrow> caller \<Rightarrow> int \<Rightarrow> int \<Rightarrow> settings_view route" where
  "update_udp_range_route e cx udp_start udp_end =
     w_bind (require_admin e cx) (\<lambda>user.
     w_bind (w_valid (udp_range_valid udp_start udp_end)) (\<lambda>_.
     then_reconcile e
       (w_translate udp_range_error
          (w_db (update_udp_range (we_ops e) (published_of e) udp_start udp_end (au_id user) (client_ip cx))))))"

definition run_retention :: "'k web_env \<Rightarrow> caller \<Rightarrow> cleanup_result route" where
  "run_retention e cx = w_bind (require_admin e cx) (\<lambda>_. w_db (cleanup (we_ops e) (we_lock e)))"

end
