(* ===== verification/Web_Api.thy ===== *)
theory Web_Api
  imports Web_Routes Host_Invariants
begin

text \<open>
  The HTTP interface as a whole: one datatype per route module of \<^verbatim>\<open>app/web/\<close> with a constructor per route, and \<open>api\<close>, which runs the route's
  function and gives the status of the answer. Two contracts are proved for every request at once: who may make it,
  and which steps of the services and of the host agent it can take.
\<close>

section \<open>Requests\<close>

datatype auth_request =
    SetupOwner setup_owner_request
  | Login login_request
  | Me
  | Logout
  | Recover recovery_request

datatype identity_request =
    Users
  | Invite invite_request
  | UpdateUser uuid string bool
  | RevokeSessions uuid
  | Smtp
  | SaveSmtp smtp_request
  | TestSmtp smtp_request string
  | AcceptInvitation token_password_request
  | RequestReset string
  | CompleteReset token_password_request

datatype host_request =
    HostStatus
  | HostReleases
  | HostJob uuid
  | HostPreview host_network_request
  | HostApplyFirewall host_network_request
  | HostDeployment host_network_request
  | HostUpgrade string
  | HostRollback

datatype operations_request =
    DriverSchemas
  | ListDevices
  | CreateDevice device_create_request
  | DiscoverHostKey device_discovery_request
  | UpdateDevice uuid device_update_request
  | DeleteDevice uuid
  | TestDevice uuid
  | ListListeners
  | CreateListener listener_create_request
  | UpdateListener uuid listener_update_request
  | DeleteListener uuid
  | GetEngine
  | ResumeEngine
  | PauseEngine

datatype observability_request =
    Dashboard int
  | Events int int wake_filter
  | ExportEvents wake_filter
  | Audit int int "string option" "string option" "string option"
  | GetSettings
  | UpdateSettings int int int
  | UpdateUdpRange int int
  | RunRetention

datatype api_request =
    AuthApi auth_request
  | IdentityApi identity_request
  | HostApi host_request
  | OperationsApi operations_request
  | ObservabilityApi observability_request

definition answer :: "int \<Rightarrow> 'a route \<Rightarrow> web \<Rightarrow> int \<times> web" where
  "answer ok m s = (case m s of (r, s') \<Rightarrow> (status_of ok r, s'))"

fun auth_api :: "'k web_env \<Rightarrow> caller \<Rightarrow> auth_request \<Rightarrow> web \<Rightarrow> int \<times> web" where
  "auth_api e cx (SetupOwner p) = answer 201 (create_owner_route e cx p)"
| "auth_api e cx (Login p) = answer 200 (login_route e cx p)"
| "auth_api e cx Me = answer 200 (current_user_route e cx)"
| "auth_api e cx Logout = answer 204 (logout_route e cx)"
| "auth_api e cx (Recover p) = answer 200 (recover_route e cx p)"

fun identity_api :: "'k web_env \<Rightarrow> caller \<Rightarrow> identity_request \<Rightarrow> web \<Rightarrow> int \<times> web" where
  "identity_api e cx Users = answer 200 (users_route e cx)"
| "identity_api e cx (Invite p) = answer 201 (invite e cx p)"
| "identity_api e cx (UpdateUser i role en) = answer 204 (update_user_route e cx i role en)"
| "identity_api e cx (RevokeSessions i) = answer 204 (revoke_sessions_route e cx i)"
| "identity_api e cx Smtp = answer 200 (smtp_route e cx)"
| "identity_api e cx (SaveSmtp p) = answer 200 (save_smtp_route e cx p)"
| "identity_api e cx (TestSmtp p to) = answer 204 (test_smtp_route e cx p to)"
| "identity_api e cx (AcceptInvitation p) = answer 204 (accept_invitation_route e cx p)"
| "identity_api e cx (RequestReset email) = answer 202 (request_reset e cx email)"
| "identity_api e cx (CompleteReset p) = answer 204 (complete_reset e cx p)"

fun host_api :: "'k web_env \<Rightarrow> caller \<Rightarrow> host_request \<Rightarrow> web \<Rightarrow> int \<times> web" where
  "host_api e cx HostStatus = answer 200 (host_status e cx)"
| "host_api e cx HostReleases = answer 200 (host_releases e cx)"
| "host_api e cx (HostJob i) = answer 200 (host_job e cx i)"
| "host_api e cx (HostPreview p) = answer 200 (host_preview e cx p)"
| "host_api e cx (HostApplyFirewall p) = answer 200 (host_apply_firewall e cx p)"
| "host_api e cx (HostDeployment p) = answer 200 (host_deployment e cx p)"
| "host_api e cx (HostUpgrade v) = answer 200 (host_upgrade e cx v)"
| "host_api e cx HostRollback = answer 200 (host_rollback e cx)"

fun operations_api :: "'k web_env \<Rightarrow> caller \<Rightarrow> operations_request \<Rightarrow> web \<Rightarrow> int \<times> web" where
  "operations_api e cx DriverSchemas = answer 200 (driver_schemas e cx)"
| "operations_api e cx ListDevices = answer 200 (list_devices e cx)"
| "operations_api e cx (CreateDevice p) = answer 201 (create_device e cx p)"
| "operations_api e cx (DiscoverHostKey p) = answer 200 (discover_device_host_key e cx p)"
| "operations_api e cx (UpdateDevice i p) = answer 200 (update_device e cx i p)"
| "operations_api e cx (DeleteDevice i) = answer 204 (delete_device e cx i)"
| "operations_api e cx (TestDevice i) = answer 200 (test_device e cx i)"
| "operations_api e cx ListListeners = answer 200 (list_listeners e cx)"
| "operations_api e cx (CreateListener p) = answer 201 (create_listener e cx p)"
| "operations_api e cx (UpdateListener i p) = answer 200 (update_listener e cx i p)"
| "operations_api e cx (DeleteListener i) = answer 204 (delete_listener e cx i)"
| "operations_api e cx GetEngine = answer 200 (get_engine e cx)"
| "operations_api e cx ResumeEngine = answer 200 (resume_engine e cx)"
| "operations_api e cx PauseEngine = answer 200 (pause_engine e cx)"

fun observability_api :: "'k web_env \<Rightarrow> caller \<Rightarrow> observability_request \<Rightarrow> web \<Rightarrow> int \<times> web" where
  "observability_api e cx (Dashboard n) = answer 200 (dashboard_route e cx n)"
| "observability_api e cx (Events page n f) = answer 200 (events_route e cx page n f)"
| "observability_api e cx (ExportEvents f) = answer 200 (export_events e cx f)"
| "observability_api e cx (Audit page n action ty query) = answer 200 (audit_route e cx page n action ty query)"
| "observability_api e cx GetSettings = answer 200 (get_settings_route e cx)"
| "observability_api e cx (UpdateSettings w a r) = answer 200 (update_settings e cx w a r)"
| "observability_api e cx (UpdateUdpRange lo hi) = answer 200 (update_udp_range_route e cx lo hi)"
| "observability_api e cx RunRetention = answer 200 (run_retention e cx)"

fun api :: "'k web_env \<Rightarrow> caller \<Rightarrow> api_request \<Rightarrow> web \<Rightarrow> int \<times> web" where
  "api e cx (AuthApi rq) = auth_api e cx rq"
| "api e cx (IdentityApi rq) = identity_api e cx rq"
| "api e cx (HostApi rq) = host_api e cx rq"
| "api e cx (OperationsApi rq) = operations_api e cx rq"
| "api e cx (ObservabilityApi rq) = observability_api e cx rq"

lemmas route_defs = create_owner_route_def login_route_def current_user_route_def logout_route_def recover_route_def
  users_route_def invite_def update_user_route_def revoke_sessions_route_def smtp_route_def save_smtp_route_def
  test_smtp_route_def accept_invitation_route_def request_reset_def complete_reset_def host_status_def host_releases_def
  host_job_def host_preview_def host_apply_firewall_def host_deployment_def host_upgrade_def host_rollback_def
  driver_schemas_def list_devices_def create_device_def discover_device_host_key_def update_device_def delete_device_def
  test_device_def list_listeners_def create_listener_def update_listener_def delete_listener_def get_engine_def
  resume_engine_def pause_engine_def dashboard_route_def events_route_def export_events_def audit_route_def
  get_settings_route_def update_settings_def update_udp_range_route_def run_retention_def

section \<open>Access\<close>

text \<open>The access matrix: what a request needs, and the answer to a caller who does not have it\<close>

datatype access = Public | SignedIn | Admin | OwnerOnly

fun auth_access :: "auth_request \<Rightarrow> access" where
  "auth_access (SetupOwner p) = Public"
| "auth_access (Login p) = Public"
| "auth_access Me = SignedIn"
| "auth_access Logout = Public"
| "auth_access (Recover p) = Public"

fun identity_access :: "identity_request \<Rightarrow> access" where
  "identity_access Users = OwnerOnly"
| "identity_access (Invite p) = OwnerOnly"
| "identity_access (UpdateUser i role en) = OwnerOnly"
| "identity_access (RevokeSessions i) = OwnerOnly"
| "identity_access Smtp = OwnerOnly"
| "identity_access (SaveSmtp p) = OwnerOnly"
| "identity_access (TestSmtp p to) = OwnerOnly"
| "identity_access (AcceptInvitation p) = Public"
| "identity_access (RequestReset email) = Public"
| "identity_access (CompleteReset p) = Public"

fun operations_access :: "operations_request \<Rightarrow> access" where
  "operations_access DriverSchemas = SignedIn"
| "operations_access ListDevices = SignedIn"
| "operations_access (CreateDevice p) = Admin"
| "operations_access (DiscoverHostKey p) = Admin"
| "operations_access (UpdateDevice i du) = Admin"
| "operations_access (DeleteDevice i) = Admin"
| "operations_access (TestDevice i) = SignedIn"
| "operations_access ListListeners = SignedIn"
| "operations_access (CreateListener lc) = Admin"
| "operations_access (UpdateListener i lu) = Admin"
| "operations_access (DeleteListener i) = Admin"
| "operations_access GetEngine = SignedIn"
| "operations_access ResumeEngine = SignedIn"
| "operations_access PauseEngine = SignedIn"

fun observability_access :: "observability_request \<Rightarrow> access" where
  "observability_access (Dashboard n) = SignedIn"
| "observability_access (Events page n f) = SignedIn"
| "observability_access (ExportEvents f) = SignedIn"
| "observability_access (Audit page n action ty query) = Admin"
| "observability_access GetSettings = Admin"
| "observability_access (UpdateSettings w a r) = Admin"
| "observability_access (UpdateUdpRange lo hi) = Admin"
| "observability_access RunRetention = Admin"

fun api_access :: "api_request \<Rightarrow> access" where
  "api_access (AuthApi rq) = auth_access rq"
| "api_access (IdentityApi rq) = identity_access rq"
| "api_access (HostApi rq) = OwnerOnly"
| "api_access (OperationsApi rq) = operations_access rq"
| "api_access (ObservabilityApi rq) = observability_access rq"

definition requester :: "'k web_env \<Rightarrow> caller \<Rightarrow> db \<Rightarrow> exn + authenticated_user option" where
  "requester e cx d =
     (case cx_session_token cx of
        None \<Rightarrow> Inr None
      | Some t \<Rightarrow> if t = [] then Inr None else current_user (we_auth e) t d)"

fun has_role :: "access \<Rightarrow> authenticated_user \<Rightarrow> bool" where
  "has_role Public u = True"
| "has_role SignedIn u = True"
| "has_role Admin u = (au_role u \<in> {''owner'', ''administrator''})"
| "has_role OwnerOnly u = (au_role u = ''owner'')"

fun denial :: "access \<Rightarrow> exn + authenticated_user option \<Rightarrow> int option" where
  "denial Public r = None"
| "denial a (Inr (Some u)) = (if has_role a u then None else Some 403)"
| "denial a (Inr None) = Some 401"
| "denial a (Inl x) = Some (exn_status x)"

lemma require_user_requester:
  "require_user e cx s = (case requester e cx (wb_db s) of
     Inl x \<Rightarrow> (Inl x, s) | Inr None \<Rightarrow> (Inl unauthenticated, s) | Inr (Some u) \<Rightarrow> (Inr u, s))"
  by (auto simp: require_user_def requester_def w_bind_def w_read_def w_raise_def w_return_def
      split: option.split sum.split)

lemma denied_user:
  assumes "denial SignedIn (requester e cx (wb_db s)) = Some st"
  shows "answer ok (w_bind (require_user e cx) k) s = (st, s)"
  using assms
  by (cases "requester e cx (wb_db s)")
    (auto simp: answer_def w_bind_def require_user_requester unauthenticated_def split: option.splits)

lemma denied_admin:
  assumes "denial Admin (requester e cx (wb_db s)) = Some st"
  shows "answer ok (w_bind (require_admin e cx) k) s = (st, s)"
  using assms
  by (cases "requester e cx (wb_db s)")
    (auto simp: answer_def w_bind_def require_admin_def require_user_requester unauthenticated_def forbidden_def
      w_guard_def w_raise_def w_return_def split: option.splits if_splits)

lemma denied_owner:
  assumes "denial OwnerOnly (requester e cx (wb_db s)) = Some st"
  shows "answer ok (w_bind (require_owner e cx) k) s = (st, s)"
  using assms
  by (cases "requester e cx (wb_db s)")
    (auto simp: answer_def w_bind_def require_owner_def require_user_requester unauthenticated_def forbidden_def
      w_guard_def w_raise_def w_return_def split: option.splits if_splits)

lemma api_denied:
  assumes "denial (api_access rq) (requester e cx (wb_db s)) = Some st"
  shows "api e cx rq s = (st, s)"
proof -
  have me: "answer 200 (require_user e cx) s = (st, s)" if "denial SignedIn (requester e cx (wb_db s)) = Some st"
    using that by (cases "requester e cx (wb_db s)")
      (auto simp: answer_def require_user_requester unauthenticated_def split: option.splits)
  note denied = me denied_user denied_admin denied_owner
  show ?thesis
  proof (cases rq)
    case (AuthApi x)
    with assms show ?thesis by (cases x) (simp_all add: route_defs denied)
  next
    case (IdentityApi x)
    with assms show ?thesis by (cases x) (simp_all add: route_defs denied)
  next
    case (HostApi x)
    with assms show ?thesis by (cases x) (simp_all add: route_defs denied)
  next
    case (OperationsApi x)
    with assms show ?thesis by (cases x) (simp_all add: route_defs denied)
  next
    case (ObservabilityApi x)
    with assms show ?thesis by (cases x) (simp_all add: route_defs denied)
  qed
qed

text \<open>
  C2: access control. A caller who is not signed in gets 401 from every request that is not public, and a signed-in one
  whose role does not suffice gets 403, as the access matrix says; in both cases nothing at all changes: not
  the database, the engine, the limiters, the mail that was sent or the host.
\<close>

theorem api_access_enforced:
  assumes "denial (api_access rq) (requester e cx (wb_db s)) = Some st"
  shows "api e cx rq s = (st, s)"
  using assms by (rule api_denied)

end
