(* ===== verification/Web_Runs.thy ===== *)
theory Web_Runs
  imports Web_Api
begin

text \<open>
  What a request does, as a run of the systems below. The locale \<open>route_relation\<close> reduces a statement on
  a whole route to its calls; it is interpreted by the runs of the services, by the runs of the host agent and by the routes
  that leave the host alone. The last section puts the web application, the host agent and the network together.
\<close>

section \<open>Routes and relations on states\<close>

definition moves :: "(web \<Rightarrow> web \<Rightarrow> bool) \<Rightarrow> (web \<Rightarrow> 'b \<times> web) \<Rightarrow> bool" where
  "moves R m \<longleftrightarrow> (\<forall>s. R s (snd (m s)))"

locale route_relation =
  fixes R :: "web \<Rightarrow> web \<Rightarrow> bool"
  assumes rel_refl: "R s s" and rel_trans: "R s t \<Longrightarrow> R t u \<Longrightarrow> R s u"
begin

lemma moves_return: "moves R (w_return x)"
  by (simp add: moves_def w_return_def rel_refl)

lemma moves_raise: "moves R (w_raise x)"
  by (simp add: moves_def w_raise_def rel_refl)

lemma moves_pure: "moves R (\<lambda>s. (r, s))"
  by (simp add: moves_def rel_refl)

lemma moves_read: "moves R (w_read q)"
  by (simp add: moves_def w_read_def rel_refl)

lemma moves_guard: "moves R (w_guard b x)"
  by (simp add: w_guard_def moves_return moves_raise)

lemma moves_valid: "moves R (w_valid b)"
  by (simp add: w_valid_def moves_guard)

lemma moves_bind: "moves R m \<Longrightarrow> (\<And>x. moves R (g x)) \<Longrightarrow> moves R (w_bind m g)"
  unfolding moves_def
proof (intro allI)
  fix s :: web
  assume m: "\<forall>s. R s (snd (m s))" and g: "\<And>x. \<forall>s. R s (snd (g x s))"
  obtain r t where r: "m s = (r, t)" by fastforce
  then have "R s t" using m by (metis snd_conv)
  then show "R s (snd (w_bind m g s))" using r g by (cases r) (auto simp: w_bind_def intro: rel_trans)
qed

lemma moves_translate: "moves R m \<Longrightarrow> moves R (w_translate f m)"
  by (auto simp: moves_def w_translate_def split: prod.split sum.split) (metis snd_conv)+

lemma moves_catch: "moves R m \<Longrightarrow> (\<And>x. moves R (g x)) \<Longrightarrow> moves R (w_catch m g)"
  unfolding moves_def
proof (intro allI)
  fix s :: web
  assume m: "\<forall>s. R s (snd (m s))" and g: "\<And>x. \<forall>s. R s (snd (g x s))"
  obtain r t where r: "m s = (r, t)" by fastforce
  then have "R s t" using m by (metis snd_conv)
  then show "R s (snd (w_catch m g s))" using r g by (cases r) (auto simp: w_catch_def intro: rel_trans)
qed

lemma moves_answer: "moves R m \<Longrightarrow> moves R (answer ok m)"
  by (simp add: moves_def answer_def split: prod.split) (metis snd_conv)

lemma moves_if: "moves R m \<Longrightarrow> moves R m' \<Longrightarrow> moves R (if b then m else m')"
  by simp

lemma moves_option: "moves R m \<Longrightarrow> (\<And>a. moves R (m' a)) \<Longrightarrow> moves R (case x of None \<Rightarrow> m | Some a \<Rightarrow> m' a)"
  by (simp split: option.split)

lemma moves_prod: "(\<And>a b. moves R (m a b)) \<Longrightarrow> moves R (case x of (a, b) \<Rightarrow> m a b)"
  by (simp split: prod.split)

lemma moves_delivery:
  "(\<And>a. moves R (m a)) \<Longrightarrow> moves R m' \<Longrightarrow> moves R (case x of EmailDeliveryError a \<Rightarrow> m a | _ \<Rightarrow> m')"
  by (simp split: exn.split)

lemma moves_email: "moves R (w_email e x)"
  by (simp add: w_email_def moves_return moves_raise split: option.split)

lemma moves_url: "moves R (w_url e x)"
  by (simp add: w_url_def moves_return moves_raise split: option.split)

lemma moves_user: "moves R (require_user e cx)"
  unfolding require_user_def
  by (intro moves_option moves_raise moves_if moves_bind moves_read moves_return)

lemma moves_admin: "moves R (require_admin e cx)"
  unfolding require_admin_def by (intro moves_bind moves_user moves_guard moves_return)

lemma moves_owner: "moves R (require_owner e cx)"
  unfolding require_owner_def by (intro moves_bind moves_user moves_guard moves_return)

lemma moves_smtp: "moves R (w_smtp_input e p)"
  unfolding w_smtp_input_def by (intro moves_bind moves_valid moves_email moves_url moves_return)

lemma moves_reconcile: "moves R m \<Longrightarrow> moves R (w_engine (reconcile_if_active (we_engine e))) \<Longrightarrow> moves R (then_reconcile e m)"
  unfolding then_reconcile_def by (intro moves_bind moves_return)

lemmas moves_intros = moves_return moves_raise moves_pure moves_read moves_guard moves_valid moves_bind moves_translate moves_catch
  moves_answer moves_if moves_option moves_prod moves_delivery moves_email moves_url moves_user moves_admin moves_owner
  moves_smtp moves_reconcile

end

section \<open>Every request is a run of the services\<close>

definition core :: "web \<Rightarrow> web_state" where
  "core s = (wb_runtime s, wb_db s)"

definition serves :: "'k env \<Rightarrow> web \<Rightarrow> web \<Rightarrow> bool" where
  "serves e0 s t \<longleftrightarrow> reach (web_step e0) (core s) (core t)"

interpretation served: route_relation "serves e0" for e0 :: "'k env"
  by unfold_locales (auto simp: serves_def intro: reach_refl reach_trans)

lemma serves_core: "core t = core s \<Longrightarrow> serves e0 s t"
  by (simp add: serves_def reach_refl)

lemma serves_step: "web_step e0 (core s) (core t) \<Longrightarrow> serves e0 s t"
  unfolding serves_def by (rule reach_step [OF reach_refl])

lemma serves_db: "(\<And>rt d. web_step e0 (rt, d) (rt, snd (f d))) \<Longrightarrow> moves (serves e0) (w_db f)"
  by (auto simp: moves_def w_db_def core_def intro!: serves_step split: prod.split) (metis snd_conv)

lemma serves_mailing: "(\<And>rt d. web_step e0 (rt, d) (rt, fst (snd (f d)))) \<Longrightarrow> moves (serves e0) (w_mailing f)"
  by (auto simp: moves_def w_mailing_def core_def intro!: serves_step split: prod.split) (metis fst_conv snd_conv)

lemma serves_engine: "(\<And>rt d. web_step e0 (rt, d) (snd (f rt d))) \<Longrightarrow> moves (serves e0) (w_engine f)"
  by (auto simp: moves_def w_engine_def core_def intro!: serves_step split: prod.split) (metis snd_conv)

lemma serves_plain:
  "moves (serves e0) (w_allow wb_limiter put_limiter key now)"
  "moves (serves e0) (w_allow wb_bootstrap_limiter put_bootstrap_limiter key now)"
  "moves (serves e0) (w_allow wb_reset_limiter put_reset_limiter key now)"
  "moves (serves e0) (w_modify (\<lambda>s. put_limiter (login_clear key (wb_limiter s)) s))"
  "moves (serves e0) (w_modify (\<lambda>s. put_bootstrap_limiter (login_clear key (wb_bootstrap_limiter s)) s))"
  "moves (serves e0) (w_host e method p payload)"
  "moves (serves e0) (w_mailing (\<lambda>d. case test_smtp ie values to d of (r, t) \<Rightarrow> (r, d, t)))"
  by (auto simp: moves_def w_allow_def w_modify_def w_host_def w_mailing_def core_def intro!: serves_core split: prod.split)

lemmas op_steps = web_op.intros [THEN step_op]

lemma api_serves:
  assumes ops: "env_like e0 (we_ops e)" and eng: "env_like e0 (we_engine e)"
  shows "moves (serves e0) (api e cx rq)"
proof -
  note intros = served.moves_intros serves_plain serves_db serves_mailing serves_engine
    op_steps step_cleanup [OF ops]
  note defs = route_defs Let_def host_call_def w_host_audit_def
  show ?thesis
  proof (cases rq)
    case (AuthApi x)
    show ?thesis unfolding AuthApi api.simps
      by (cases x; simp only: auth_api.simps defs; intro intros)
  next
    case (IdentityApi x)
    show ?thesis unfolding IdentityApi api.simps
      by (cases x; simp only: identity_api.simps defs; intro intros)
  next
    case (HostApi x)
    show ?thesis unfolding HostApi api.simps
      by (cases x; simp only: host_api.simps defs; intro intros ops)
  next
    case (OperationsApi x)
    show ?thesis unfolding OperationsApi api.simps
      by (cases x; simp only: operations_api.simps defs; intro intros ops eng)
  next
    case (ObservabilityApi x)
    show ?thesis unfolding ObservabilityApi api.simps
      by (cases x; simp only: observability_api.simps defs; intro intros ops eng)
  qed
qed

section \<open>Every request is a run of the host agent\<close>

definition same_host :: "web \<Rightarrow> web \<Rightarrow> bool" where
  "same_host s t \<longleftrightarrow> wb_host t = wb_host s"

definition agent_serves :: "agent_config \<Rightarrow> host_lib \<Rightarrow> web \<Rightarrow> web \<Rightarrow> bool" where
  "agent_serves c l s t \<longleftrightarrow> reach (agent_step c l) (wb_host s) (wb_host t)"

interpretation hostless: route_relation same_host
  by unfold_locales (simp_all add: same_host_def)

interpretation agent_served: route_relation "agent_serves c l" for c l
  by unfold_locales (auto simp: agent_serves_def intro: reach_refl reach_trans)

lemma hostless_calls:
  "moves same_host (w_db f)" "moves same_host (w_mailing g)" "moves same_host (w_engine h)"
  "moves same_host (w_allow wb_limiter put_limiter key now)"
  "moves same_host (w_allow wb_bootstrap_limiter put_bootstrap_limiter key now)"
  "moves same_host (w_allow wb_reset_limiter put_reset_limiter key now)"
  "moves same_host (w_modify (\<lambda>s. put_limiter (login_clear key (wb_limiter s)) s))"
  "moves same_host (w_modify (\<lambda>s. put_bootstrap_limiter (login_clear key (wb_bootstrap_limiter s)) s))"
  by (simp_all add: moves_def same_host_def w_db_def w_mailing_def w_engine_def w_allow_def w_modify_def split: prod.split)

lemma api_hostless:
  assumes "\<And>x. rq \<noteq> HostApi x"
  shows "moves same_host (api e cx rq)"
proof -
  note intros = hostless.moves_intros hostless_calls
  note defs = route_defs Let_def
  show ?thesis
  proof (cases rq)
    case (AuthApi x)
    show ?thesis unfolding AuthApi api.simps
      by (cases x; simp only: auth_api.simps defs; intro intros)
  next
    case (IdentityApi x)
    show ?thesis unfolding IdentityApi api.simps
      by (cases x; simp only: identity_api.simps defs; intro intros)
  next
    case (OperationsApi x)
    show ?thesis unfolding OperationsApi api.simps
      by (cases x; simp only: operations_api.simps defs; intro intros)
  next
    case (ObservabilityApi x)
    show ?thesis unfolding ObservabilityApi api.simps
      by (cases x; simp only: observability_api.simps defs; intro intros)
  qed (use assms in simp)
qed

lemma agent_serves_same: "moves same_host m \<Longrightarrow> moves (agent_serves c l) m"
  by (simp add: moves_def same_host_def agent_serves_def reach_refl)

lemma agent_serves_host:
  assumes "we_exchange e = agent_exchange c l"
  shows "moves (agent_serves c l) (w_host e method p payload)"
  unfolding moves_def agent_serves_def
proof
  fix s :: web
  let ?rq = "client_message (we_repr e) (ws_host_agent_token (we_settings e)) method p payload"
  obtain reply h where h: "handle_request c ?rq l (wb_host s) = (reply, h)" by fastforce
  have ex: "snd (agent_exchange c l ?rq (wb_host s)) = h" using h by (simp add: agent_exchange_def split: agent_reply.split)
  show "reach (agent_step c l) (wb_host s) (wb_host (snd (w_host e method p payload s)))"
  proof (cases "ws_host_agent_token (we_settings e) = []")
    case True
    then show ?thesis by (simp add: w_host_def client_request_def reach_refl)
  next
    case False
    then have "wb_host (snd (w_host e method p payload s)) = h"
      using ex by (auto simp: w_host_def client_request_message assms split: prod.split)
    moreover have "agent_step c l (wb_host s) h" by (rule agent_step.request [OF h])
    ultimately show ?thesis using reach_step [OF reach_refl] by metis
  qed
qed

lemma api_agent_serves:
  assumes "we_exchange e = agent_exchange c l"
  shows "moves (agent_serves c l) (api e cx rq)"
proof (cases rq)
  case (HostApi x)
  show ?thesis unfolding HostApi api.simps
    by (cases x; simp only: host_api.simps route_defs host_call_def w_host_audit_def;
        intro agent_served.moves_intros agent_serves_host assms agent_serves_same [OF hostless_calls(1)])
qed (rule agent_serves_same [OF api_hostless], simp)+

section \<open>Changes of the host\<close>

definition host_action :: "host_request \<Rightarrow> string option" where
  "host_action x =
     (case x of
        HostApplyFirewall p \<Rightarrow> Some ''host.firewall_applied''
      | HostDeployment p \<Rightarrow> Some ''host.deployment_started''
      | HostUpgrade v \<Rightarrow> Some ''host.upgrade_started''
      | HostRollback \<Rightarrow> Some ''host.rollback_started''
      | _ \<Rightarrow> None)"

lemma w_bind_iff:
  "w_bind m g s = (r, t) \<longleftrightarrow>
     (\<exists>x. m s = (Inl x, t) \<and> r = Inl x) \<or> (\<exists>x u. m s = (Inr x, u) \<and> g x u = (r, t))"
  by (auto simp: w_bind_def split: prod.split sum.split)

lemma require_owner_iff:
  "require_owner e cx s = (Inr u, t) \<longleftrightarrow> t = s \<and> requester e cx (wb_db s) = Inr (Some u) \<and> au_role u = ''owner''"
  by (auto simp: require_owner_def w_bind_iff require_user_requester w_guard_def w_return_def w_raise_def
      split: sum.splits option.splits if_splits)

lemma host_call_db: "host_call e method p payload s = (r, t) \<Longrightarrow> wb_db t = wb_db s"
  by (auto simp: host_call_def w_translate_def w_host_def split: prod.splits sum.splits)

lemma host_audit_row:
  assumes "w_host_audit e cx user action changes s = (Inr x, t)"
  shows "\<exists>a. audit_events (wb_db t) = audit_events (wb_db s) @ [a] \<and> a_actor_user_id a = Some (au_id user) \<and> a_action a = action"
  using assms
  by (auto simp: w_host_audit_def w_db_def host_audit_def res_simps add_audit_def mk_audit_def split: prod.splits)

lemma requester_live:
  assumes "requester e cx d = Inr (Some u)"
  shows "\<exists>v se. u = public_user v \<and> v \<in> set (users d) \<and> u_enabled v \<and> se \<in> set (user_sessions d)
    \<and> s_user_id se = u_id v \<and> session_live (ae_now (we_auth e) 0) se"
proof -
  obtain token where "current_user (we_auth e) token d = Inr (Some u)"
    using assms by (auto simp: requester_def split: option.splits if_splits)
  from current_user_SomeD [OF this] show ?thesis by metis
qed

lemma w_guard_iff: "w_guard b x s = (r, t) \<longleftrightarrow> t = s \<and> (if b then r = Inr () else r = Inl x)"
  by (auto simp: w_guard_def w_return_def w_raise_def)

text \<open>A computation that never raises an exception answered with 200\<close>

definition fails_visibly :: "'a route \<Rightarrow> bool" where
  "fails_visibly m \<longleftrightarrow> (\<forall>s x t. m s = (Inl x, t) \<longrightarrow> exn_status x \<noteq> 200)"

lemma visible_bind: "fails_visibly m \<Longrightarrow> (\<And>x. fails_visibly (g x)) \<Longrightarrow> fails_visibly (w_bind m g)"
  unfolding fails_visibly_def w_bind_iff by blast

lemma visible_basic:
  "fails_visibly (w_return x)" "fails_visibly (w_valid b)" "fails_visibly (w_read (\<lambda>d. Inr (q d)))"
  "fails_visibly (w_guard b (HTTPException 422 m))" "fails_visibly (require_owner e cx)"
  "fails_visibly (w_host_audit e cx user action changes)"
  by (auto simp: fails_visibly_def w_return_def w_valid_def w_guard_iff w_read_def require_owner_def w_bind_iff
      require_user_requester unauthenticated_def forbidden_def w_host_audit_def w_db_def host_audit_def res_simps requester_def
      current_user_def split: if_splits prod.splits sum.splits option.splits list.splits)

lemma visible_host_call: "fails_visibly (host_call e method p payload)"
proof -
  have "exn_status (host_error x) \<noteq> 200"
    if "client_request repr ex token method p payload h = (Inl x, h')" for repr ex token x and h h' :: host
    using that
    by (auto simp: client_request_def Let_def res_simps split: if_splits prod.splits sum.splits json.splits)
  then show ?thesis
    by (auto simp: fails_visibly_def host_call_def w_translate_def w_host_def split: prod.splits sum.splits)
qed

lemma answer_200:
  assumes "answer 200 m s = (200, t)" and "fails_visibly m"
  shows "\<exists>v. m s = (Inr v, t)"
  using assms by (cases "m s"; cases "fst (m s)") (auto simp: answer_def fails_visibly_def)

lemma visible_actions:
  "fails_visibly (host_apply_firewall e cx p)" "fails_visibly (host_deployment e cx p)"
  "fails_visibly (host_upgrade e cx v)" "fails_visibly (host_rollback e cx)"
  unfolding host_apply_firewall_def host_deployment_def host_upgrade_def host_rollback_def
  by (intro visible_bind visible_basic visible_host_call)+

lemma host_action_audited:
  assumes "host_api e cx x s = (200, t)" and "host_action x = Some action"
  shows "\<exists>u a. requester e cx (wb_db s) = Inr (Some u) \<and> au_role u = ''owner''
    \<and> audit_events (wb_db t) = audit_events (wb_db s) @ [a] \<and> a_actor_user_id a = Some (au_id u) \<and> a_action a = action"
proof -
  note simps = w_bind_iff require_owner_iff w_valid_def w_guard_iff w_read_def w_return_def
  show ?thesis
  proof (cases x)
    case (HostApplyFirewall p)
    then obtain v where "host_apply_firewall e cx p s = (Inr v, t)"
      using assms(1) by (auto dest: answer_200 [OF _ visible_actions(1)])
    then show ?thesis using assms(2) HostApplyFirewall
      by (auto simp: host_apply_firewall_def simps host_action_def dest!: host_audit_row host_call_db split: if_splits)
  next
    case (HostDeployment p)
    then obtain v where "host_deployment e cx p s = (Inr v, t)"
      using assms(1) by (auto dest: answer_200 [OF _ visible_actions(2)])
    then show ?thesis using assms(2) HostDeployment
      by (auto simp: host_deployment_def simps host_action_def dest!: host_audit_row host_call_db split: if_splits)
  next
    case (HostUpgrade p)
    then obtain v where "host_upgrade e cx p s = (Inr v, t)"
      using assms(1) by (auto dest: answer_200 [OF _ visible_actions(3)])
    then show ?thesis using assms(2) HostUpgrade
      by (auto simp: host_upgrade_def simps host_action_def dest!: host_audit_row host_call_db split: if_splits)
  next
    case HostRollback
    then obtain v where "host_rollback e cx s = (Inr v, t)"
      using assms(1) by (auto dest: answer_200 [OF _ visible_actions(4)])
    then show ?thesis using assms(2) HostRollback
      by (auto simp: host_rollback_def simps host_action_def dest!: host_audit_row host_call_db split: if_splits)
  qed (use assms(2) in \<open>simp_all add: host_action_def\<close>)
qed

text \<open>
  C16: the host changes only for an owner. If a request changes anything on the host, it is a host request of a
  signed-in, enabled owner with a live session. A request that applies a firewall rule or starts a job, if it is answered
  with 200, leaves exactly one more audit row, with the action and the identifier of that owner.
\<close>

theorem host_changes_by_owner:
  assumes "api e cx rq s = (st, t)"
    and "wb_host t \<noteq> wb_host s \<or> (\<exists>x action. rq = HostApi x \<and> host_action x = Some action \<and> st = 200)"
  shows "\<exists>x v se. rq = HostApi x \<and> v \<in> set (users (wb_db s)) \<and> u_enabled v \<and> u_role v = ''owner''
    \<and> se \<in> set (user_sessions (wb_db s)) \<and> s_user_id se = u_id v \<and> session_live (ae_now (we_auth e) 0) se
    \<and> (\<forall>action. host_action x = Some action \<and> st = 200 \<longrightarrow>
         (\<exists>a. audit_events (wb_db t) = audit_events (wb_db s) @ [a] \<and> a_actor_user_id a = Some (u_id v) \<and> a_action a = action))"
proof -
  obtain x where x: "rq = HostApi x"
    using assms api_hostless [of rq e cx] by (auto simp: moves_def same_host_def) (metis snd_conv)
  have "denial OwnerOnly (requester e cx (wb_db s)) = None"
  proof (rule ccontr)
    assume "denial OwnerOnly (requester e cx (wb_db s)) \<noteq> None"
    then obtain k where k: "denial OwnerOnly (requester e cx (wb_db s)) = Some k" by auto
    have "k \<noteq> 200" using k by (cases "requester e cx (wb_db s)") (auto simp: requester_def current_user_def
      split: option.splits if_splits list.splits)
    then show False using assms api_denied [of rq e cx s k] k x by auto
  qed
  then obtain u where u: "requester e cx (wb_db s) = Inr (Some u)" "au_role u = ''owner''"
    by (cases "requester e cx (wb_db s)"; cases "projr (requester e cx (wb_db s))") (auto split: if_splits)
  from requester_live [OF u(1)] obtain v se where v: "u = public_user v" "v \<in> set (users (wb_db s))" "u_enabled v"
    "se \<in> set (user_sessions (wb_db s))" "s_user_id se = u_id v" "session_live (ae_now (we_auth e) 0) se" by auto
  have "\<exists>a. audit_events (wb_db t) = audit_events (wb_db s) @ [a] \<and> a_actor_user_id a = Some (u_id v) \<and> a_action a = action"
    if "host_action x = Some action" "st = 200" for action
    using host_action_audited [OF _ that(1), of e cx s t] assms(1) that(2) x u(1) v(1) by (auto simp: public_user_def)
  then show ?thesis using x v u(2) by (auto simp: public_user_def)
qed

end
