(* ===== verification/Whole_System.thy ===== *)
theory Whole_System
  imports Web_Runs Host_Examples
begin

text \<open>
  The web application, the network and the host agent together. A state is the whole process with the host behind its socket.
  A step is one HTTP request by anyone, a datagram at a listener, the retention worker, a start or a stop of the engine, or
  a step of the host agent on its own: another client's request or the work of a job.
\<close>

section \<open>Steps\<close>

inductive system_step :: "'k env \<Rightarrow> agent_config \<Rightarrow> host_lib \<Rightarrow> web \<Rightarrow> web \<Rightarrow> bool" for e0 c l where
  http: "env_like e0 (we_ops e) \<Longrightarrow> env_like e0 (we_engine e) \<Longrightarrow> we_exchange e = agent_exchange c l \<Longrightarrow>
    api e cx rq s = (st, t) \<Longrightarrow> system_step e0 c l s t"
| datagram: "env_like e0 e \<Longrightarrow> (k, rm) \<in> set (rt_listeners (wb_runtime s)) \<Longrightarrow>
    managed_handle e rm data ip sport (rt_limiter (wb_runtime s)) (wb_db s) = (r, tr, rl, d') \<Longrightarrow>
    system_step e0 c l s (s\<lparr>wb_runtime := (wb_runtime s)\<lparr>rt_limiter := rl\<rparr>, wb_db := d'\<rparr>)"
| retention: "env_like e0 e \<Longrightarrow> cleanup e acquired (wb_db s) = (r, d') \<Longrightarrow> system_step e0 c l s (s\<lparr>wb_db := d'\<rparr>)"
| startup: "env_like e0 e \<Longrightarrow> start_from_desired_state e (wb_runtime s) (wb_db s) = (r, rt, d') \<Longrightarrow>
    system_step e0 c l s (s\<lparr>wb_runtime := rt, wb_db := d'\<rparr>)"
| shutdown: "system_step e0 c l s (s\<lparr>wb_runtime := engine_shutdown (wb_runtime s)\<rparr>)"
| agent: "agent_step c l (wb_host s) h \<Longrightarrow> system_step e0 c l s (s\<lparr>wb_host := h\<rparr>)"

text \<open>Each step is a run of the services and a run of the agent.\<close>

lemma system_step_parts:
  assumes "system_step e0 c l s t"
  shows "reach (web_step e0) (core s) (core t)" and "reach (agent_step c l) (wb_host s) (wb_host t)"
proof -
  have "reach (web_step e0) (core s) (core t) \<and> reach (agent_step c l) (wb_host s) (wb_host t)"
    using assms
  proof cases
    case (http e cx rq st)
    then show ?thesis
      using api_serves [of e0 e cx rq] api_agent_serves [of e c l cx rq]
      by (auto simp: moves_def serves_def agent_serves_def) (metis snd_conv)+
  next
    case (datagram e k rm data ip sport r tr rl d')
    then have "web_step e0 (core s) (core t)" by (auto simp: core_def intro!: step_op op_datagram)
    then show ?thesis using datagram(1) reach_refl reach_step by (metis web.select_convs web.surjective web.update_convs)
  next
    case (retention e acquired r d')
    then have "web_step e0 (core s) (core t)"
      using step_cleanup [of e0 e "wb_runtime s" "wb_db s" acquired] by (simp add: core_def)
    then show ?thesis using retention(1) by (auto intro: reach.intros)
  next
    case (startup e r rt d')
    then have "web_step e0 (core s) (core t)"
      using op_engine_start [of e0 e "wb_runtime s" "wb_db s"] by (auto simp: core_def intro: step_op)
    then show ?thesis using startup(1) by (auto intro: reach.intros)
  next
    case shutdown
    then have "web_step e0 (core s) (core t)" by (auto simp: core_def intro!: step_op op_engine_shutdown)
    then show ?thesis using shutdown by (auto intro: reach.intros)
  next
    case (agent h)
    then show ?thesis by (auto simp: core_def intro: reach.intros)
  qed
  then show "reach (web_step e0) (core s) (core t)" "reach (agent_step c l) (wb_host s) (wb_host t)" by simp_all
qed

lemma system_run_parts:
  assumes "reach (system_step e0 c l) s t"
  shows "reach (web_step e0) (core s) (core t)" and "reach (agent_step c l) (wb_host s) (wb_host t)"
  using assms by (induction rule: reach.induct) (auto intro: reach_refl reach_trans system_step_parts)

section \<open>Runs\<close>


section \<open>Samples\<close>

text \<open>An owner is signed in with the cookie \<^verbatim>\<open>o\<close>, an account with another role with the cookie \<^verbatim>\<open>t\<close>.\<close>

definition demo_db :: db where
  "demo_db = identity_db\<lparr>user_sessions := user_sessions identity_db @
     [\<lparr>s_id = 21, s_user_id = 1, s_token_hash = token_hash sample_auth ''o'', s_expires_at = 5000,
        s_revoked_at = None, s_client_ip = ''10.0.0.9'', s_created_at = 0\<rparr>]\<rparr>"

definition demo_web :: web where
  "demo_web =
     \<lparr>wb_runtime = idle_runtime, wb_db = demo_db, wb_limiter = login_limiter_init 5 900,
      wb_bootstrap_limiter = login_limiter_init 5 900, wb_reset_limiter = login_limiter_init 5 900, wb_mail = [],
      wb_host = demo_host\<rparr>"

definition demo_settings :: web_settings where
  "demo_settings =
     \<lparr>ws_database_url = ''db'', ws_host = ''0.0.0.0'', ws_port = 8080, ws_environment = ''production'', ws_auto_migrate = False,
      ws_static_dir = [], ws_bootstrap_token = [], ws_master_key = [], ws_session_secure = True, ws_session_hours = 12,
      ws_udp_published_start = 40000, ws_udp_published_end = 40099, ws_version = ''1'', ws_commit_sha = [], ws_build_date = [],
      ws_host_agent_socket = ''/run/agent.sock'', ws_host_agent_token = ''secret'', ws_smtp_ca_file = None\<rparr>"

definition demo_web_env :: "string web_env" where
  "demo_web_env =
     \<lparr>we_ops = sample_env, we_engine = sample_env, we_auth = sample_auth, we_identity = sample_identity,
      we_settings = demo_settings, we_sql = ae_sql sample_auth, we_mono = 0, we_lock = True,
      we_email = Some, we_url = Some, we_repr = (\<lambda>v. []), we_exchange = agent_exchange demo_config demo_lib\<rparr>"

definition demo_caller :: "string \<Rightarrow> caller" where
  "demo_caller token = \<lparr>cx_session_token = Some token, cx_client = Some ''10.0.0.9''\<rparr>"

lemma demo_digest: "hexdigest (utf8_bytes ''t'') \<noteq> hexdigest (utf8_bytes ''o'')"
  by code_simp

lemmas demo_db_eval = demo_db_def identity_db_eval token_hash_def sample_auth_def demo_digest demo_digest [symmetric]

lemma demo_requester:
  "requester demo_web_env (demo_caller ''o'') (wb_db demo_web) = Inr (Some (public_user sample_owner))"
  "requester demo_web_env (demo_caller ''t'') (wb_db demo_web) = Inr (Some (public_user sample_admin))"
  by (simp_all add: requester_def demo_caller_def demo_web_env_def demo_web_def current_user_def session_live_def demo_db_eval)

theorem api_access_enforced_witness:
  "api demo_web_env (demo_caller ''t'') (HostApi HostRollback) demo_web = (403, demo_web)"
proof -
  have "denial (api_access (HostApi HostRollback)) (requester demo_web_env (demo_caller ''t'') (wb_db demo_web)) = Some 403"
    by (simp add: demo_requester public_user_def sample_admin_def)
  then show ?thesis by (rule api_access_enforced)
qed

lemma demo_web_ok:
  "integrity (wb_db demo_web)" "stored_ok sample_env (wb_db demo_web)" "runtime_ok sample_env (wb_runtime demo_web)"
  "owner_exists (wb_db demo_web)" "h_trace (wb_host demo_web) = []" "h_jobs (wb_host demo_web) = []" "h_threads (wb_host demo_web) = []"
  by (simp_all add: demo_web_def demo_db_eval stored_ok_def runtime_ok_def idle_runtime_def owner_exists_iff demo_host_def)

lemma demo_env_like: "env_like sample_env (we_ops demo_web_env)" "env_like sample_env (we_engine demo_web_env)"
  by (simp_all add: env_like_def demo_web_env_def sample_env_simps)


text \<open>The owner's request starts the job and is recorded.\<close>

lemma demo_rollback: "\<exists>t. api demo_web_env (demo_caller ''o'') (HostApi HostRollback) demo_web = (200, t)"
proof -
  let ?rq = "client_request (\<lambda>v. []) (agent_exchange demo_config demo_lib) ''secret'' ''POST'' ''/v1/rollback'' (Some (JObj [])) demo_host"
  have "fst ?rq = Inr (JObj [(''job_id'', JStr ''u'')])" by code_simp
  then obtain h where h: "?rq = (Inr (JObj [(''job_id'', JStr ''u'')]), h)" by (metis prod.collapse)
  have "\<exists>x d. host_audit sample_env 1 ''host.rollback_started'' (dict_merge [] (JObj [(''job_id'', JStr ''u'')])) ''10.0.0.9'' demo_db
      = (Inr x, d)"
    by (simp add: host_audit_def commit_def atomic_def demo_db_eval sample_env_simps)
  then obtain x d where "host_audit sample_env 1 ''host.rollback_started'' (dict_merge [] (JObj [(''job_id'', JStr ''u'')])) ''10.0.0.9'' demo_db
      = (Inr x, d)" by blast
  moreover have "require_owner demo_web_env (demo_caller ''o'') demo_web = (Inr (public_user sample_owner), demo_web)"
    by (simp add: require_owner_iff demo_requester) (simp add: public_user_def sample_owner_def)
  moreover have "au_id (public_user sample_owner) = 1" by (simp add: public_user_def sample_owner_def)
  ultimately show ?thesis using h
    by (simp add: answer_def host_rollback_def w_bind_def host_call_def w_translate_def w_host_def w_host_audit_def w_db_def
        w_return_def client_ip_def demo_caller_def demo_web_env_def demo_settings_def demo_web_def)
qed

theorem host_changes_by_owner_witness:
  "\<exists>t a. api demo_web_env (demo_caller ''o'') (HostApi HostRollback) demo_web = (200, t)
     \<and> audit_events (wb_db t) = audit_events (wb_db demo_web) @ [a] \<and> a_action a = ''host.rollback_started''"
proof -
  obtain t where t: "api demo_web_env (demo_caller ''o'') (HostApi HostRollback) demo_web = (200, t)"
    using demo_rollback by blast
  from host_changes_by_owner [OF this] t show ?thesis by (auto simp: host_action_def)
qed

end
