(* ===== verification/Migrations.thy ===== *)
theory Migrations
  imports Stored_Data
begin

text \<open>
  The schema scripts of \<^verbatim>\<open>migrations/versions/\<close> and the tables that \<^verbatim>\<open>database/models.py\<close> declares. A script is the list of
  its operations; \<open>apply_op\<close> performs one as PostgreSQL does and refuses what the engine refuses: a table or a name that
  exists or is missing, a table that others refer to, rows that violate a constraint being added. The state is the schema
  with the rows that the scripts themselves insert.
\<close>

section \<open>Schemas\<close>

datatype sql_type = SqlUuid | SqlString nat | SqlText | SqlBoolean | SqlDateTime | SqlJson | SqlInteger

datatype server_default = NoDefault | DefaultNow | DefaultText string

record column =
  col_name :: string
  col_type :: sql_type
  col_nullable :: bool
  col_default :: server_default

datatype on_delete = Cascade | Restrict | SetNull

text \<open>
  The conditions of the check constraints: \<^verbatim>\<open>c BETWEEN lo AND hi\<close>, \<^verbatim>\<open>c BETWEEN d AND hi\<close>,
  \<^verbatim>\<open>c - d + 1 <= n\<close> and \<^verbatim>\<open>c IN (...)\<close>
\<close>

datatype sql_check =
    CheckBetween string int int
  | CheckBetweenColumn string string int
  | CheckWidth string string int
  | CheckIn string "string list"

datatype table_constraint =
    PrimaryKey "string list"
  | UniqueKey "string option" "string list"
  | ForeignKeyTo string string string on_delete
  | CheckThat string sql_check

record table =
  tb_columns :: "column list"
  tb_constraints :: "table_constraint list"
  tb_indexes :: "(string \<times> string list \<times> bool) list"

type_synonym schema = "(string \<times> table) list"

text \<open>\<open>VNow\<close> is a time that \<^verbatim>\<open>now()\<close> gave.\<close>

datatype sql_value = VNull | VInt int | VText string | VNow

type_synonym sql_row = "(string \<times> sql_value) list"

record migration_state =
  ms_schema :: schema
  ms_rows :: "(string \<times> sql_row) list"

definition empty_state :: migration_state where
  "empty_state = \<lparr>ms_schema = [], ms_rows = []\<rparr>"

definition rows_of :: "string \<Rightarrow> migration_state \<Rightarrow> sql_row list" where
  "rows_of t s = map snd (filter (\<lambda>(t', r). t' = t) (ms_rows s))"

definition cell :: "sql_row \<Rightarrow> string \<Rightarrow> sql_value" where
  "cell r c = (case map_of r c of None \<Rightarrow> VNull | Some v \<Rightarrow> v)"

text \<open>A check holds unless it is false; with a null it is unknown.\<close>

fun check_holds :: "sql_check \<Rightarrow> sql_row \<Rightarrow> bool" where
  "check_holds (CheckBetween c lo hi) r = (case cell r c of VInt i \<Rightarrow> lo \<le> i \<and> i \<le> hi | _ \<Rightarrow> True)"
| "check_holds (CheckBetweenColumn c d hi) r =
     (case (cell r c, cell r d) of (VInt i, VInt j) \<Rightarrow> j \<le> i \<and> i \<le> hi | (VInt i, _) \<Rightarrow> i \<le> hi | _ \<Rightarrow> True)"
| "check_holds (CheckWidth c d n) r =
     (case (cell r c, cell r d) of (VInt i, VInt j) \<Rightarrow> i - j + 1 \<le> n | _ \<Rightarrow> True)"
| "check_holds (CheckIn c xs) r = (case cell r c of VText x \<Rightarrow> x \<in> set xs | _ \<Rightarrow> True)"

section \<open>Operations\<close>

datatype migration_op =
    CreateTable string "column list" "table_constraint list"
  | DropTable string
  | CreateIndex string string "string list" bool
  | DropIndex string string
  | AddColumn string column
  | DropColumn string string
  | AlterDefault string string server_default
  | AlterNullable string string bool
  | CreateCheck string string sql_check
  | DropCheck string string
  | BulkInsert string sql_row

definition set_table :: "string \<Rightarrow> (table \<Rightarrow> table) \<Rightarrow> migration_state \<Rightarrow> migration_state" where
  "set_table t f s = s\<lparr>ms_schema := map (\<lambda>(t', tb). if t' = t then (t', f tb) else (t', tb)) (ms_schema s)\<rparr>"

fun refers_to :: "string \<Rightarrow> table_constraint \<Rightarrow> bool" where
  "refers_to t (ForeignKeyTo c t' d a) = (t' = t)"
| "refers_to t _ = False"

fun check_columns :: "sql_check \<Rightarrow> string list" where
  "check_columns (CheckBetween c lo hi) = [c]"
| "check_columns (CheckBetweenColumn c d hi) = [c, d]"
| "check_columns (CheckWidth c d n) = [c, d]"
| "check_columns (CheckIn c xs) = [c]"

fun constraint_columns :: "table_constraint \<Rightarrow> string list" where
  "constraint_columns (PrimaryKey cs) = cs"
| "constraint_columns (UniqueKey n cs) = cs"
| "constraint_columns (ForeignKeyTo c t d a) = [c]"
| "constraint_columns (CheckThat n x) = check_columns x"

fun refers_to_column :: "string \<Rightarrow> string \<Rightarrow> table_constraint \<Rightarrow> bool" where
  "refers_to_column t d (ForeignKeyTo c t' d' a) = (t' = t \<and> d' = d)"
| "refers_to_column t d _ = False"

fun target_known :: "schema \<Rightarrow> table_constraint \<Rightarrow> bool" where
  "target_known sc (ForeignKeyTo c t d a) =
     (case map_of sc t of None \<Rightarrow> False | Some tb \<Rightarrow> list_ex (\<lambda>k. k = PrimaryKey [d]) (tb_constraints tb))"
| "target_known sc _ = True"

definition index_names :: "schema \<Rightarrow> string list" where
  "index_names sc = concat (map (\<lambda>(t, tb). map fst (tb_indexes tb)) sc)"

definition default_value :: "server_default \<Rightarrow> sql_value" where
  "default_value d = (case d of NoDefault \<Rightarrow> VNull | DefaultNow \<Rightarrow> VNow | DefaultText s \<Rightarrow> VText s)"

definition unique_on :: "string list \<Rightarrow> sql_row list \<Rightarrow> bool" where
  "unique_on cs rs \<longleftrightarrow> distinct (filter (\<lambda>k. VNull \<notin> set k) (map (\<lambda>r. map (cell r) cs) rs))"

text \<open>A row that is inserted, with the defaults of the columns it leaves out, and when the table takes it\<close>

definition filled :: "table \<Rightarrow> sql_row \<Rightarrow> sql_row" where
  "filled tb r = r @ map (\<lambda>col. (col_name col, default_value (col_default col)))
     (filter (\<lambda>col. map_of r (col_name col) = None) (tb_columns tb))"

fun constraint_holds :: "migration_state \<Rightarrow> sql_row list \<Rightarrow> table_constraint \<Rightarrow> bool" where
  "constraint_holds s rs (PrimaryKey cs) = unique_on cs rs"
| "constraint_holds s rs (UniqueKey n cs) = unique_on cs rs"
| "constraint_holds s rs (ForeignKeyTo c t d a) =
     list_all (\<lambda>r. cell r c = VNull \<or> list_ex (\<lambda>r'. cell r' d = cell r c) (rows_of t s)) rs"
| "constraint_holds s rs (CheckThat n x) = list_all (check_holds x) rs"

definition accepts :: "migration_state \<Rightarrow> string \<Rightarrow> table \<Rightarrow> sql_row \<Rightarrow> bool" where
  "accepts s t tb r \<longleftrightarrow>
     list_all (\<lambda>(c, v). c \<in> set (map col_name (tb_columns tb))) r
     \<and> list_all (\<lambda>col. col_nullable col \<or> cell (filled tb r) (col_name col) \<noteq> VNull) (tb_columns tb)
     \<and> list_all (constraint_holds s (rows_of t s @ [filled tb r])) (tb_constraints tb)
     \<and> list_all (\<lambda>(n, cs, uniq). uniq \<longrightarrow> unique_on cs (rows_of t s @ [filled tb r])) (tb_indexes tb)"

fun apply_op :: "migration_op \<Rightarrow> migration_state \<Rightarrow> migration_state option" where
  "apply_op (CreateTable t cols ks) s =
     (if map_of (ms_schema s) t = None \<and> distinct (map col_name cols)
         \<and> list_all (\<lambda>k. target_known (ms_schema s) k \<and> set (constraint_columns k) \<subseteq> set (map col_name cols)) ks
      then Some (s\<lparr>ms_schema := ms_schema s @ [(t, \<lparr>tb_columns = cols, tb_constraints = ks, tb_indexes = []\<rparr>)]\<rparr>)
      else None)"
| "apply_op (DropTable t) s =
     (if map_of (ms_schema s) t \<noteq> None
         \<and> list_all (\<lambda>(t', tb). t' = t \<or> list_all (\<lambda>k. \<not> refers_to t k) (tb_constraints tb)) (ms_schema s)
      then Some \<lparr>ms_schema = filter (\<lambda>(t', tb). t' \<noteq> t) (ms_schema s), ms_rows = filter (\<lambda>(t', r). t' \<noteq> t) (ms_rows s)\<rparr>
      else None)"
| "apply_op (CreateIndex n t cs uniq) s =
     (case map_of (ms_schema s) t of
        None \<Rightarrow> None
      | Some tb \<Rightarrow>
          if n \<notin> set (index_names (ms_schema s)) \<and> set cs \<subseteq> set (map col_name (tb_columns tb))
             \<and> (\<not> uniq \<or> unique_on cs (rows_of t s))
          then Some (set_table t (\<lambda>tb. tb\<lparr>tb_indexes := tb_indexes tb @ [(n, cs, uniq)]\<rparr>) s) else None)"
| "apply_op (DropIndex n t) s =
     (case map_of (ms_schema s) t of
        None \<Rightarrow> None
      | Some tb \<Rightarrow>
          if n \<in> set (map fst (tb_indexes tb))
          then Some (set_table t (\<lambda>tb. tb\<lparr>tb_indexes := filter (\<lambda>i. fst i \<noteq> n) (tb_indexes tb)\<rparr>) s) else None)"
| "apply_op (AddColumn t col) s =
     (case map_of (ms_schema s) t of
        None \<Rightarrow> None
      | Some tb \<Rightarrow>
          if col_name col \<notin> set (map col_name (tb_columns tb))
             \<and> (col_nullable col \<or> default_value (col_default col) \<noteq> VNull \<or> rows_of t s = [])
          then Some ((set_table t (\<lambda>tb. tb\<lparr>tb_columns := tb_columns tb @ [col]\<rparr>) s)
                 \<lparr>ms_rows := map (\<lambda>(t', r). if t' = t then (t', r @ [(col_name col, default_value (col_default col))]) else (t', r)) (ms_rows s)\<rparr>)
          else None)"
| "apply_op (DropColumn t c) s =
     (case map_of (ms_schema s) t of
        None \<Rightarrow> None
      | Some tb \<Rightarrow>
          if c \<in> set (map col_name (tb_columns tb))
             \<and> list_all (\<lambda>(t', tb'). list_all (\<lambda>k. \<not> refers_to_column t c k) (tb_constraints tb')) (ms_schema s)
          then Some ((set_table t (\<lambda>tb. tb\<lparr>tb_columns := filter (\<lambda>col. col_name col \<noteq> c) (tb_columns tb),
                   tb_constraints := filter (\<lambda>k. c \<notin> set (constraint_columns k)) (tb_constraints tb),
                   tb_indexes := filter (\<lambda>(n, cs, u). c \<notin> set cs) (tb_indexes tb)\<rparr>) s)
                 \<lparr>ms_rows := map (\<lambda>(t', r). if t' = t then (t', filter (\<lambda>(c', v). c' \<noteq> c) r) else (t', r)) (ms_rows s)\<rparr>)
          else None)"
| "apply_op (AlterDefault t c d) s =
     (case map_of (ms_schema s) t of
        None \<Rightarrow> None
      | Some tb \<Rightarrow>
          if c \<in> set (map col_name (tb_columns tb))
          then Some (set_table t (\<lambda>tb. tb\<lparr>tb_columns :=
                 map (\<lambda>col. if col_name col = c then col\<lparr>col_default := d\<rparr> else col) (tb_columns tb)\<rparr>) s) else None)"
| "apply_op (AlterNullable t c b) s =
     (case map_of (ms_schema s) t of
        None \<Rightarrow> None
      | Some tb \<Rightarrow>
          if c \<in> set (map col_name (tb_columns tb)) \<and> (b \<or> list_all (\<lambda>r. cell r c \<noteq> VNull) (rows_of t s))
          then Some (set_table t (\<lambda>tb. tb\<lparr>tb_columns :=
                 map (\<lambda>col. if col_name col = c then col\<lparr>col_nullable := b\<rparr> else col) (tb_columns tb)\<rparr>) s) else None)"
| "apply_op (CreateCheck n t x) s =
     (case map_of (ms_schema s) t of
        None \<Rightarrow> None
      | Some tb \<Rightarrow>
          if list_all (\<lambda>k. case k of CheckThat n' y \<Rightarrow> n' \<noteq> n | UniqueKey n' cs \<Rightarrow> n' \<noteq> Some n | _ \<Rightarrow> True) (tb_constraints tb)
             \<and> set (check_columns x) \<subseteq> set (map col_name (tb_columns tb)) \<and> list_all (check_holds x) (rows_of t s)
          then Some (set_table t (\<lambda>tb. tb\<lparr>tb_constraints := tb_constraints tb @ [CheckThat n x]\<rparr>) s) else None)"
| "apply_op (DropCheck n t) s =
     (case map_of (ms_schema s) t of
        None \<Rightarrow> None
      | Some tb \<Rightarrow>
          if list_ex (\<lambda>k. case k of CheckThat n' y \<Rightarrow> n' = n | _ \<Rightarrow> False) (tb_constraints tb)
          then Some (set_table t (\<lambda>tb. tb\<lparr>tb_constraints :=
                 filter (\<lambda>k. case k of CheckThat n' y \<Rightarrow> n' \<noteq> n | _ \<Rightarrow> True) (tb_constraints tb)\<rparr>) s) else None)"
| "apply_op (BulkInsert t r) s =
     (case map_of (ms_schema s) t of
        None \<Rightarrow> None
      | Some tb \<Rightarrow> if accepts s t tb r then Some (s\<lparr>ms_rows := ms_rows s @ [(t, filled tb r)]\<rparr>) else None)"

fun run_ops :: "migration_op list \<Rightarrow> migration_state \<Rightarrow> migration_state option" where
  "run_ops [] s = Some s"
| "run_ops (x # xs) s = (case apply_op x s of None \<Rightarrow> None | Some s' \<Rightarrow> run_ops xs s')"

text \<open>Columns: required, optional, and stamped with the time\<close>

definition req :: "string \<Rightarrow> sql_type \<Rightarrow> column" where
  "req n ty = \<lparr>col_name = n, col_type = ty, col_nullable = False, col_default = NoDefault\<rparr>"

definition opt :: "string \<Rightarrow> sql_type \<Rightarrow> column" where
  "opt n ty = \<lparr>col_name = n, col_type = ty, col_nullable = True, col_default = NoDefault\<rparr>"

definition stamp :: "string \<Rightarrow> column" where
  "stamp n = \<lparr>col_name = n, col_type = SqlDateTime, col_nullable = False, col_default = DefaultNow\<rparr>"

section \<open>The scripts\<close>

definition upgrade_01 :: "migration_op list" where
  "upgrade_01 =
    [CreateTable ''users''
       [req ''id'' SqlUuid, req ''username'' (SqlString 80), req ''email'' (SqlString 320),
        req ''password_hash'' SqlText, req ''role'' (SqlString 32), req ''enabled'' SqlBoolean,
        opt ''last_login_at'' SqlDateTime, stamp ''created_at'']
       [PrimaryKey [''id''], UniqueKey None [''email''], UniqueKey None [''username'']],
     CreateTable ''devices''
       [req ''id'' SqlUuid, req ''name'' (SqlString 120), req ''driver_type'' (SqlString 80),
        req ''configuration'' SqlJson, req ''enabled'' SqlBoolean, req ''health_status'' (SqlString 32),
        opt ''last_checked_at'' SqlDateTime, stamp ''created_at'']
       [PrimaryKey [''id''], UniqueKey None [''name'']],
     CreateTable ''application_settings''
       [req ''id'' SqlInteger, req ''udp_port_start'' SqlInteger, req ''udp_port_end'' SqlInteger,
        req ''rate_limit_seconds'' SqlInteger, req ''wake_event_retention_days'' SqlInteger,
        req ''audit_event_retention_days'' SqlInteger, req ''locale'' (SqlString 16), req ''timezone'' (SqlString 80),
        stamp ''updated_at'']
       [PrimaryKey [''id'']],
     CreateTable ''engine_state''
       [req ''id'' SqlInteger, req ''desired_state'' (SqlString 32), req ''observed_state'' (SqlString 32),
        opt ''heartbeat_at'' SqlDateTime, opt ''last_transition_at'' SqlDateTime, opt ''last_error'' (SqlString 160)]
       [PrimaryKey [''id'']],
     CreateTable ''device_credentials''
       [req ''device_id'' SqlUuid, req ''encrypted_payload'' SqlText, req ''key_id'' (SqlString 120),
        stamp ''rotated_at'']
       [ForeignKeyTo ''device_id'' ''devices'' ''id'' Cascade, PrimaryKey [''device_id'']],
     CreateTable ''listener_mappings''
       [req ''id'' SqlUuid, req ''device_id'' SqlUuid, req ''name'' (SqlString 120), opt ''description'' SqlText,
        req ''udp_port'' SqlInteger, req ''driver_parameters'' SqlJson, req ''enabled'' SqlBoolean,
        req ''status'' (SqlString 32), opt ''last_error'' (SqlString 160), req ''version'' SqlInteger,
        stamp ''created_at'', stamp ''updated_at'']
       [ForeignKeyTo ''device_id'' ''devices'' ''id'' Restrict, PrimaryKey [''id''],
        UniqueKey (Some ''uq_listener_mappings_udp_port'') [''udp_port'']],
     CreateTable ''audit_events''
       [req ''id'' SqlUuid, opt ''actor_user_id'' SqlUuid, req ''action'' (SqlString 120),
        req ''object_type'' (SqlString 80), opt ''object_id'' (SqlString 120), req ''safe_changes'' SqlJson,
        req ''client_ip'' (SqlString 45), stamp ''occurred_at'']
       [ForeignKeyTo ''actor_user_id'' ''users'' ''id'' SetNull, PrimaryKey [''id'']],
     CreateIndex ''ix_audit_events_occurred_at'' ''audit_events'' [''occurred_at''] False,
     CreateTable ''wake_events''
       [req ''id'' SqlUuid, req ''mapping_id'' SqlUuid, req ''device_id'' SqlUuid, req ''event_type'' (SqlString 80),
        req ''mac_address'' (SqlString 17), req ''source_ip'' (SqlString 45), req ''source_port'' SqlInteger,
        req ''result_code'' (SqlString 80), opt ''duration_ms'' SqlInteger, req ''correlation_id'' SqlUuid,
        stamp ''occurred_at'']
       [ForeignKeyTo ''device_id'' ''devices'' ''id'' Restrict,
        ForeignKeyTo ''mapping_id'' ''listener_mappings'' ''id'' Restrict, PrimaryKey [''id'']],
     CreateIndex ''ix_wake_events_occurred_at'' ''wake_events'' [''occurred_at''] False,
     CreateIndex ''ix_wake_events_result_code'' ''wake_events'' [''result_code''] False,
     BulkInsert ''application_settings''
       [(''id'', VInt 1), (''udp_port_start'', VInt 40000), (''udp_port_end'', VInt 40099),
        (''rate_limit_seconds'', VInt 30), (''wake_event_retention_days'', VInt 90),
        (''audit_event_retention_days'', VInt 365), (''locale'', VText ''en''), (''timezone'', VText ''UTC'')],
     BulkInsert ''engine_state''
       [(''id'', VInt 1), (''desired_state'', VText ''paused''), (''observed_state'', VText ''starting'')]]"

definition downgrade_01 :: "migration_op list" where
  "downgrade_01 =
    [DropIndex ''ix_wake_events_result_code'' ''wake_events'',
     DropIndex ''ix_wake_events_occurred_at'' ''wake_events'',
     DropTable ''wake_events'',
     DropIndex ''ix_audit_events_occurred_at'' ''audit_events'',
     DropTable ''audit_events'',
     DropTable ''listener_mappings'',
     DropTable ''device_credentials'',
     DropTable ''engine_state'',
     DropTable ''application_settings'',
     DropTable ''devices'',
     DropTable ''users'']"

definition upgrade_02 :: "migration_op list" where
  "upgrade_02 =
    [CreateTable ''recovery_codes''
       [req ''user_id'' SqlUuid, req ''code_hash'' SqlText, stamp ''created_at'', opt ''used_at'' SqlDateTime]
       [ForeignKeyTo ''user_id'' ''users'' ''id'' Cascade, PrimaryKey [''user_id'']],
     CreateTable ''user_sessions''
       [req ''id'' SqlUuid, req ''user_id'' SqlUuid, req ''token_hash'' (SqlString 64), req ''expires_at'' SqlDateTime,
        opt ''revoked_at'' SqlDateTime, req ''client_ip'' (SqlString 45), stamp ''created_at'']
       [ForeignKeyTo ''user_id'' ''users'' ''id'' Cascade, PrimaryKey [''id'']],
     CreateIndex ''ix_user_sessions_expires_at'' ''user_sessions'' [''expires_at''] False,
     CreateIndex ''ix_user_sessions_token_hash'' ''user_sessions'' [''token_hash''] True]"

definition downgrade_02 :: "migration_op list" where
  "downgrade_02 =
    [DropIndex ''ix_user_sessions_token_hash'' ''user_sessions'',
     DropIndex ''ix_user_sessions_expires_at'' ''user_sessions'',
     DropTable ''user_sessions'',
     DropTable ''recovery_codes'']"

definition upgrade_03 :: "migration_op list" where
  "upgrade_03 =
    [AddColumn ''listener_mappings''
       \<lparr>col_name = ''allowed_source_ip'', col_type = SqlString 45, col_nullable = False, col_default = DefaultText ''127.0.0.1''\<rparr>,
     AlterDefault ''listener_mappings'' ''allowed_source_ip'' NoDefault]"

definition downgrade_03 :: "migration_op list" where
  "downgrade_03 =
    [DropColumn ''listener_mappings'' ''allowed_source_ip'']"

definition upgrade_04 :: "migration_op list" where
  "upgrade_04 =
    [CreateIndex ''ix_wake_events_mapping_id'' ''wake_events'' [''mapping_id''] False,
     CreateIndex ''ix_wake_events_device_id'' ''wake_events'' [''device_id''] False,
     CreateIndex ''ix_wake_events_source_ip'' ''wake_events'' [''source_ip''] False,
     CreateIndex ''ix_wake_events_correlation_id'' ''wake_events'' [''correlation_id''] True,
     CreateIndex ''ix_audit_events_action'' ''audit_events'' [''action''] False,
     CreateIndex ''ix_audit_events_object_type'' ''audit_events'' [''object_type''] False,
     CreateIndex ''ix_audit_events_actor_user_id'' ''audit_events'' [''actor_user_id''] False]"

definition downgrade_04 :: "migration_op list" where
  "downgrade_04 =
    [DropIndex ''ix_audit_events_actor_user_id'' ''audit_events'',
     DropIndex ''ix_audit_events_object_type'' ''audit_events'',
     DropIndex ''ix_audit_events_action'' ''audit_events'',
     DropIndex ''ix_wake_events_correlation_id'' ''wake_events'',
     DropIndex ''ix_wake_events_source_ip'' ''wake_events'',
     DropIndex ''ix_wake_events_device_id'' ''wake_events'',
     DropIndex ''ix_wake_events_mapping_id'' ''wake_events'']"

definition upgrade_05 :: "migration_op list" where
  "upgrade_05 =
    [CreateCheck ''ck_application_settings_udp_start'' ''application_settings'' (CheckBetween ''udp_port_start'' 1024 65535),
     CreateCheck ''ck_application_settings_udp_end'' ''application_settings'' (CheckBetweenColumn ''udp_port_end'' ''udp_port_start'' 65535),
     CreateCheck ''ck_application_settings_udp_width'' ''application_settings'' (CheckWidth ''udp_port_end'' ''udp_port_start'' 100)]"

definition downgrade_05 :: "migration_op list" where
  "downgrade_05 =
    [DropCheck ''ck_application_settings_udp_width'' ''application_settings'',
     DropCheck ''ck_application_settings_udp_end'' ''application_settings'',
     DropCheck ''ck_application_settings_udp_start'' ''application_settings'']"

definition upgrade_06 :: "migration_op list" where
  "upgrade_06 =
    [AlterNullable ''users'' ''password_hash'' True,
     CreateTable ''smtp_settings''
       [req ''id'' SqlInteger, req ''host'' (SqlString 255), req ''port'' SqlInteger, req ''security'' (SqlString 16),
        req ''from_email'' (SqlString 320), req ''from_name'' (SqlString 120), req ''public_base_url'' (SqlString 500),
        req ''encrypted_credentials'' SqlText, req ''key_id'' (SqlString 120), req ''enabled'' SqlBoolean,
        stamp ''updated_at'']
       [PrimaryKey [''id''], CheckThat ''ck_smtp_settings_port'' (CheckBetween ''port'' 1 65535),
        CheckThat ''ck_smtp_settings_security'' (CheckIn ''security'' [''starttls'', ''tls'', ''none''])],
     CreateTable ''user_invitations''
       [req ''id'' SqlUuid, req ''user_id'' SqlUuid, opt ''invited_by'' SqlUuid, req ''token_hash'' (SqlString 64),
        req ''expires_at'' SqlDateTime, opt ''accepted_at'' SqlDateTime, stamp ''created_at'']
       [ForeignKeyTo ''invited_by'' ''users'' ''id'' SetNull, ForeignKeyTo ''user_id'' ''users'' ''id'' Cascade,
        PrimaryKey [''id'']],
     CreateIndex ''ix_user_invitations_token_hash'' ''user_invitations'' [''token_hash''] True,
     CreateIndex ''ix_user_invitations_expires_at'' ''user_invitations'' [''expires_at''] False,
     CreateTable ''password_reset_tokens''
       [req ''id'' SqlUuid, req ''user_id'' SqlUuid, req ''token_hash'' (SqlString 64), req ''expires_at'' SqlDateTime,
        opt ''used_at'' SqlDateTime, stamp ''created_at'']
       [ForeignKeyTo ''user_id'' ''users'' ''id'' Cascade, PrimaryKey [''id'']],
     CreateIndex ''ix_password_reset_tokens_token_hash'' ''password_reset_tokens'' [''token_hash''] True,
     CreateIndex ''ix_password_reset_tokens_expires_at'' ''password_reset_tokens'' [''expires_at''] False]"

definition downgrade_06 :: "migration_op list" where
  "downgrade_06 =
    [DropIndex ''ix_password_reset_tokens_expires_at'' ''password_reset_tokens'',
     DropIndex ''ix_password_reset_tokens_token_hash'' ''password_reset_tokens'',
     DropTable ''password_reset_tokens'',
     DropIndex ''ix_user_invitations_expires_at'' ''user_invitations'',
     DropIndex ''ix_user_invitations_token_hash'' ''user_invitations'',
     DropTable ''user_invitations'',
     DropTable ''smtp_settings'',
     AlterNullable ''users'' ''password_hash'' False]"


text \<open>
  The revisions. Alembic stores the revision of the database and runs the scripts one after the other: \<open>upgrade_head\<close> runs
  the script whose \<^verbatim>\<open>down_revision\<close> is the current one until there is none, with the number of scripts as its fuel.
\<close>

record migration =
  mg_revision :: string
  mg_down_revision :: "string option"
  mg_upgrade :: "migration_op list"
  mg_downgrade :: "migration_op list"

definition migration_01 :: migration where
  "migration_01 = \<lparr>mg_revision = ''20260717_01'', mg_down_revision = None, mg_upgrade = upgrade_01, mg_downgrade = downgrade_01\<rparr>"

definition migration_02 :: migration where
  "migration_02 = \<lparr>mg_revision = ''20260717_02'', mg_down_revision = Some ''20260717_01'', mg_upgrade = upgrade_02, mg_downgrade = downgrade_02\<rparr>"

definition migration_03 :: migration where
  "migration_03 = \<lparr>mg_revision = ''20260717_03'', mg_down_revision = Some ''20260717_02'', mg_upgrade = upgrade_03, mg_downgrade = downgrade_03\<rparr>"

definition migration_04 :: migration where
  "migration_04 = \<lparr>mg_revision = ''20260718_04'', mg_down_revision = Some ''20260717_03'', mg_upgrade = upgrade_04, mg_downgrade = downgrade_04\<rparr>"

definition migration_05 :: migration where
  "migration_05 = \<lparr>mg_revision = ''20260718_05'', mg_down_revision = Some ''20260718_04'', mg_upgrade = upgrade_05, mg_downgrade = downgrade_05\<rparr>"

definition migration_06 :: migration where
  "migration_06 = \<lparr>mg_revision = ''20260718_06'', mg_down_revision = Some ''20260718_05'', mg_upgrade = upgrade_06, mg_downgrade = downgrade_06\<rparr>"

definition migrations :: "migration list" where
  "migrations = [migration_01, migration_02, migration_03, migration_04, migration_05, migration_06]"

fun upgrade_head :: "nat \<Rightarrow> string option \<times> migration_state \<Rightarrow> (string option \<times> migration_state) option" where
  "upgrade_head 0 (current, s) = Some (current, s)"
| "upgrade_head (Suc n) (current, s) =
     (case find (\<lambda>m. mg_down_revision m = current) migrations of
        None \<Rightarrow> Some (current, s)
      | Some m \<Rightarrow> (case run_ops (mg_upgrade m) s of None \<Rightarrow> None | Some s' \<Rightarrow> upgrade_head n (Some (mg_revision m), s')))"

section \<open>The declared tables\<close>

text \<open>The tables as the classes declare them, a table per class; \<open>TimestampMixin\<close> adds the last column.\<close>

definition users_table :: table where
  "users_table =
    \<lparr>tb_columns =
       [req ''id'' SqlUuid, req ''username'' (SqlString 80), req ''email'' (SqlString 320),
        opt ''password_hash'' SqlText, req ''role'' (SqlString 32), req ''enabled'' SqlBoolean,
        opt ''last_login_at'' SqlDateTime, stamp ''created_at''],
     tb_constraints =
       [PrimaryKey [''id''], UniqueKey None [''username''], UniqueKey None [''email'']],
     tb_indexes = []\<rparr>"

definition user_sessions_table :: table where
  "user_sessions_table =
    \<lparr>tb_columns =
       [req ''id'' SqlUuid, req ''user_id'' SqlUuid, req ''token_hash'' (SqlString 64),
        req ''expires_at'' SqlDateTime, opt ''revoked_at'' SqlDateTime, req ''client_ip'' (SqlString 45),
        stamp ''created_at''],
     tb_constraints =
       [PrimaryKey [''id''], ForeignKeyTo ''user_id'' ''users'' ''id'' Cascade],
     tb_indexes = [(''ix_user_sessions_token_hash'', [''token_hash''], True),
       (''ix_user_sessions_expires_at'', [''expires_at''], False)]\<rparr>"

definition recovery_codes_table :: table where
  "recovery_codes_table =
    \<lparr>tb_columns =
       [req ''user_id'' SqlUuid, req ''code_hash'' SqlText, stamp ''created_at'',
        opt ''used_at'' SqlDateTime],
     tb_constraints =
       [ForeignKeyTo ''user_id'' ''users'' ''id'' Cascade, PrimaryKey [''user_id'']],
     tb_indexes = []\<rparr>"

definition user_invitations_table :: table where
  "user_invitations_table =
    \<lparr>tb_columns =
       [req ''id'' SqlUuid, req ''user_id'' SqlUuid, opt ''invited_by'' SqlUuid,
        req ''token_hash'' (SqlString 64), req ''expires_at'' SqlDateTime, opt ''accepted_at'' SqlDateTime,
        stamp ''created_at''],
     tb_constraints =
       [PrimaryKey [''id''], ForeignKeyTo ''user_id'' ''users'' ''id'' Cascade,
        ForeignKeyTo ''invited_by'' ''users'' ''id'' SetNull],
     tb_indexes = [(''ix_user_invitations_token_hash'', [''token_hash''], True),
       (''ix_user_invitations_expires_at'', [''expires_at''], False)]\<rparr>"

definition password_reset_tokens_table :: table where
  "password_reset_tokens_table =
    \<lparr>tb_columns =
       [req ''id'' SqlUuid, req ''user_id'' SqlUuid, req ''token_hash'' (SqlString 64),
        req ''expires_at'' SqlDateTime, opt ''used_at'' SqlDateTime, stamp ''created_at''],
     tb_constraints =
       [PrimaryKey [''id''], ForeignKeyTo ''user_id'' ''users'' ''id'' Cascade],
     tb_indexes = [(''ix_password_reset_tokens_token_hash'', [''token_hash''], True),
       (''ix_password_reset_tokens_expires_at'', [''expires_at''], False)]\<rparr>"

definition smtp_settings_table :: table where
  "smtp_settings_table =
    \<lparr>tb_columns =
       [req ''id'' SqlInteger, req ''host'' (SqlString 255), req ''port'' SqlInteger,
        req ''security'' (SqlString 16), req ''from_email'' (SqlString 320),
        req ''from_name'' (SqlString 120), req ''public_base_url'' (SqlString 500),
        req ''encrypted_credentials'' SqlText, req ''key_id'' (SqlString 120), req ''enabled'' SqlBoolean,
        stamp ''updated_at''],
     tb_constraints =
       [CheckThat ''ck_smtp_settings_port'' (CheckBetween ''port'' 1 65535),
        CheckThat ''ck_smtp_settings_security'' (CheckIn ''security'' [''starttls'', ''tls'', ''none'']),
        PrimaryKey [''id'']],
     tb_indexes = []\<rparr>"

definition devices_table :: table where
  "devices_table =
    \<lparr>tb_columns =
       [req ''id'' SqlUuid, req ''name'' (SqlString 120), req ''driver_type'' (SqlString 80),
        req ''configuration'' SqlJson, req ''enabled'' SqlBoolean, req ''health_status'' (SqlString 32),
        opt ''last_checked_at'' SqlDateTime, stamp ''created_at''],
     tb_constraints =
       [PrimaryKey [''id''], UniqueKey None [''name'']],
     tb_indexes = []\<rparr>"

definition device_credentials_table :: table where
  "device_credentials_table =
    \<lparr>tb_columns =
       [req ''device_id'' SqlUuid, req ''encrypted_payload'' SqlText, req ''key_id'' (SqlString 120),
        stamp ''rotated_at''],
     tb_constraints =
       [ForeignKeyTo ''device_id'' ''devices'' ''id'' Cascade, PrimaryKey [''device_id'']],
     tb_indexes = []\<rparr>"

definition listener_mappings_table :: table where
  "listener_mappings_table =
    \<lparr>tb_columns =
       [req ''id'' SqlUuid, req ''device_id'' SqlUuid, req ''name'' (SqlString 120),
        opt ''description'' SqlText, req ''udp_port'' SqlInteger, req ''allowed_source_ip'' (SqlString 45),
        req ''driver_parameters'' SqlJson, req ''enabled'' SqlBoolean, req ''status'' (SqlString 32),
        opt ''last_error'' (SqlString 160), stamp ''updated_at'', req ''version'' SqlInteger,
        stamp ''created_at''],
     tb_constraints =
       [UniqueKey (Some ''uq_listener_mappings_udp_port'') [''udp_port''], PrimaryKey [''id''],
        ForeignKeyTo ''device_id'' ''devices'' ''id'' Restrict],
     tb_indexes = []\<rparr>"

definition wake_events_table :: table where
  "wake_events_table =
    \<lparr>tb_columns =
       [req ''id'' SqlUuid, req ''mapping_id'' SqlUuid, req ''device_id'' SqlUuid,
        req ''event_type'' (SqlString 80), req ''mac_address'' (SqlString 17),
        req ''source_ip'' (SqlString 45), req ''source_port'' SqlInteger,
        req ''result_code'' (SqlString 80), opt ''duration_ms'' SqlInteger, req ''correlation_id'' SqlUuid,
        stamp ''occurred_at''],
     tb_constraints =
       [PrimaryKey [''id''], ForeignKeyTo ''mapping_id'' ''listener_mappings'' ''id'' Restrict,
        ForeignKeyTo ''device_id'' ''devices'' ''id'' Restrict],
     tb_indexes = [(''ix_wake_events_occurred_at'', [''occurred_at''], False),
       (''ix_wake_events_result_code'', [''result_code''], False),
       (''ix_wake_events_mapping_id'', [''mapping_id''], False),
       (''ix_wake_events_device_id'', [''device_id''], False),
       (''ix_wake_events_source_ip'', [''source_ip''], False),
       (''ix_wake_events_correlation_id'', [''correlation_id''], True)]\<rparr>"

definition audit_events_table :: table where
  "audit_events_table =
    \<lparr>tb_columns =
       [req ''id'' SqlUuid, opt ''actor_user_id'' SqlUuid, req ''action'' (SqlString 120),
        req ''object_type'' (SqlString 80), opt ''object_id'' (SqlString 120),
        req ''safe_changes'' SqlJson, req ''client_ip'' (SqlString 45), stamp ''occurred_at''],
     tb_constraints =
       [PrimaryKey [''id''], ForeignKeyTo ''actor_user_id'' ''users'' ''id'' SetNull],
     tb_indexes = [(''ix_audit_events_occurred_at'', [''occurred_at''], False),
       (''ix_audit_events_action'', [''action''], False),
       (''ix_audit_events_object_type'', [''object_type''], False),
       (''ix_audit_events_actor_user_id'', [''actor_user_id''], False)]\<rparr>"

definition application_settings_table :: table where
  "application_settings_table =
    \<lparr>tb_columns =
       [req ''id'' SqlInteger, req ''udp_port_start'' SqlInteger, req ''udp_port_end'' SqlInteger,
        req ''rate_limit_seconds'' SqlInteger, req ''wake_event_retention_days'' SqlInteger,
        req ''audit_event_retention_days'' SqlInteger, req ''locale'' (SqlString 16),
        req ''timezone'' (SqlString 80), stamp ''updated_at''],
     tb_constraints =
       [CheckThat ''ck_application_settings_udp_start'' (CheckBetween ''udp_port_start'' 1024 65535),
        CheckThat ''ck_application_settings_udp_end'' (CheckBetweenColumn ''udp_port_end'' ''udp_port_start'' 65535),
        CheckThat ''ck_application_settings_udp_width'' (CheckWidth ''udp_port_end'' ''udp_port_start'' 100),
        PrimaryKey [''id'']],
     tb_indexes = []\<rparr>"

definition engine_state_table :: table where
  "engine_state_table =
    \<lparr>tb_columns =
       [req ''id'' SqlInteger, req ''desired_state'' (SqlString 32), req ''observed_state'' (SqlString 32),
        opt ''heartbeat_at'' SqlDateTime, opt ''last_transition_at'' SqlDateTime,
        opt ''last_error'' (SqlString 160)],
     tb_constraints =
       [PrimaryKey [''id'']],
     tb_indexes = []\<rparr>"

definition model_schema :: schema where
  "model_schema =
    [(''users'', users_table), (''user_sessions'', user_sessions_table),
     (''recovery_codes'', recovery_codes_table), (''user_invitations'', user_invitations_table),
     (''password_reset_tokens'', password_reset_tokens_table), (''smtp_settings'', smtp_settings_table),
     (''devices'', devices_table), (''device_credentials'', device_credentials_table),
     (''listener_mappings'', listener_mappings_table), (''wake_events'', wake_events_table),
     (''audit_events'', audit_events_table), (''application_settings'', application_settings_table),
     (''engine_state'', engine_state_table)]"

text \<open>The order of tables, columns, constraints and indexes does not matter.\<close>

definition same_table :: "table \<Rightarrow> table \<Rightarrow> bool" where
  "same_table a b \<longleftrightarrow> distinct (map col_name (tb_columns a)) \<and> set (tb_columns a) = set (tb_columns b)
     \<and> set (tb_constraints a) = set (tb_constraints b) \<and> set (tb_indexes a) = set (tb_indexes b)"

definition same_schema :: "schema \<Rightarrow> schema \<Rightarrow> bool" where
  "same_schema a b \<longleftrightarrow> distinct (map fst a) \<and> set (map fst a) = set (map fst b)
     \<and> list_all (\<lambda>(t, tb). case map_of b t of None \<Rightarrow> False | Some tb' \<Rightarrow> same_table tb tb') a"

text \<open>The rows that the scripts insert, read as the application reads them at the time \<open>now\<close>\<close>

definition int_cell :: "sql_row \<Rightarrow> string \<Rightarrow> int" where
  "int_cell r c = (case cell r c of VInt i \<Rightarrow> i | _ \<Rightarrow> 0)"

definition text_cell :: "sql_row \<Rightarrow> string \<Rightarrow> string" where
  "text_cell r c = (case cell r c of VText x \<Rightarrow> x | _ \<Rightarrow> [])"

definition settings_row :: "time \<Rightarrow> sql_row \<Rightarrow> application_settings" where
  "settings_row now r =
     \<lparr>as_udp_port_start = int_cell r ''udp_port_start'', as_udp_port_end = int_cell r ''udp_port_end'',
      as_rate_limit_seconds = int_cell r ''rate_limit_seconds'',
      as_wake_event_retention_days = int_cell r ''wake_event_retention_days'',
      as_audit_event_retention_days = int_cell r ''audit_event_retention_days'', as_locale = text_cell r ''locale'',
      as_timezone = text_cell r ''timezone'', as_updated_at = now\<rparr>"

definition engine_row :: "sql_row \<Rightarrow> engine_state" where
  "engine_row r =
     \<lparr>es_desired_state = text_cell r ''desired_state'', es_observed_state = text_cell r ''observed_state'',
      es_heartbeat_at = None, es_last_transition_at = None, es_last_error = None\<rparr>"

definition fresh_db :: "time \<Rightarrow> migration_state \<Rightarrow> db" where
  "fresh_db now s = empty_db
     \<lparr>app_settings := map_option (settings_row now) (find (\<lambda>r. cell r ''id'' = VInt 1) (rows_of ''application_settings'' s)),
      engine := map_option engine_row (find (\<lambda>r. cell r ''id'' = VInt 1) (rows_of ''engine_state'' s))\<rparr>"

end
