(* ===== verification/Web_App.thy ===== *)
theory Web_App
  imports Whole_System Migrations
begin

text \<open>
  The assembly of the web application (\<^verbatim>\<open>web/application.py\<close>, \<^verbatim>\<open>web/__main__.py\<close>) and the probes of \<^verbatim>\<open>connection.py\<close>: the health
  and setup answers, the pages of the front end, the headers of every response, the life of the process and its start.
  FastAPI, uvicorn and Alembic are called through parameters.
\<close>

section \<open>Probes of the database\<close>

text \<open>
  What a probe finds: whether a connection can be made, the rows of \<^verbatim>\<open>alembic_version\<close>, and the tables of the application;
  \<open>None\<close> where the query fails.
\<close>

record database_probe =
  dp_connects :: bool
  dp_versions :: "string list option"
  dp_tables :: "db option"

definition is_ready :: "database_probe \<Rightarrow> bool" where
  "is_ready p = dp_connects p"

definition schema_revision :: "database_probe \<Rightarrow> string option" where
  "schema_revision p =
     (if \<not> dp_connects p then None
      else case dp_versions p of Some [revision] \<Rightarrow> if revision = [] then None else Some revision | _ \<Rightarrow> None)"

definition schema_is_ready :: "database_probe \<Rightarrow> bool" where
  "schema_is_ready p \<longleftrightarrow> schema_revision p \<noteq> None"

definition probe_owner :: "database_probe \<Rightarrow> bool" where
  "probe_owner p \<longleftrightarrow> dp_connects p \<and> (case dp_tables p of None \<Rightarrow> False | Some d \<Rightarrow> owner_exists d)"

section \<open>Health, setup and version\<close>

definition liveness :: "web_settings \<Rightarrow> dict" where
  "liveness st = [(''status'', JStr ''ok''), (''service'', JStr ''wolt-web''), (''version'', JStr (ws_version st))]"

definition readiness :: "database_probe \<Rightarrow> int \<times> dict" where
  "readiness p =
     (if \<not> is_ready p then (503, [(''status'', JStr ''not_ready''), (''database'', JStr ''unavailable'')])
      else if \<not> schema_is_ready p then (503, [(''status'', JStr ''not_ready''), (''database'', JStr ''migration_required'')])
      else (200, [(''status'', JStr ''ready''), (''database'', JStr ''ready'')]))"

definition setup_status :: "web_settings \<Rightarrow> database_probe \<Rightarrow> dict" where
  "setup_status st p =
     (let database_ready = is_ready p;
          schema_ready = (database_ready \<and> schema_is_ready p);
          owner = (schema_ready \<and> probe_owner p)
      in [(''database_ready'', JBool database_ready), (''schema_ready'', JBool schema_ready),
          (''setup_required'', JBool (\<not> owner)), (''bootstrap_configured'', JBool (ws_bootstrap_token st \<noteq> [])),
          (''master_key_configured'', JBool (ws_master_key st \<noteq> []))])"

definition system_info :: "web_settings \<Rightarrow> database_probe \<Rightarrow> dict" where
  "system_info st p =
     [(''name'', JStr ''WOLT''), (''version'', JStr (ws_version st)), (''environment'', JStr (ws_environment st)),
      (''api_version'', JStr ''v1''), (''commit_sha'', JStr (ws_commit_sha st)), (''build_date'', JStr (ws_build_date st)),
      (''schema_revision'', JStr (case schema_revision p of None \<Rightarrow> ''unavailable'' | Some r \<Rightarrow> r))]"

section \<open>The front end\<close>

text \<open>
  \<^verbatim>\<open>Path.resolve\<close> walks down from the root, leaves \<^verbatim>\<open>..\<close> out and goes on at the target of every link it meets, of which
  Linux follows at most forty. Links of the file system are absolute here.
\<close>

function walk :: "nat \<Rightarrow> fs \<Rightarrow> path \<Rightarrow> path \<Rightarrow> path option" where
  "walk n f acc [] = Some acc"
| "walk n f acc (c # cs) =
     (if c = ''..'' then walk n f (butlast acc) cs
      else case map_of f (acc @ [c]) of
             Some (Link q) \<Rightarrow> (if n = 0 then None else walk (n - 1) f [] (q @ cs))
           | _ \<Rightarrow> walk n f (acc @ [c]) cs)"
  by pat_completeness auto
termination
  by (relation "measures [\<lambda>(n, f, acc, cs). n, \<lambda>(n, f, acc, cs). length cs]") auto

definition real_path :: "fs \<Rightarrow> path \<Rightarrow> path option" where
  "real_path f p = walk 40 f [] p"

definition plain_file :: "fs \<Rightarrow> path \<Rightarrow> bool" where
  "plain_file f p \<longleftrightarrow>
     (case real_path f p of
        None \<Rightarrow> False
      | Some q \<Rightarrow> (case map_of f q of Some (File s m) \<Rightarrow> True | _ \<Rightarrow> False))"

text \<open>An answer with a file, one with a status and a detail, or an exception of the named class, which is answered with 500\<close>

datatype page = PageFile path | PageJson int string | PageRaises string

definition spa :: "fs \<Rightarrow> path \<Rightarrow> string \<Rightarrow> page" where
  "spa f static_dir p =
     (if p = ''api'' \<or> starts_with ''api/'' p then PageJson 404 ''Not found''
      else if CHR 0x00 \<in> set p then PageRaises ''ValueError''
      else case (real_path f (path_of static_dir p), real_path f static_dir) of
             (Some requested, Some base) \<Rightarrow>
               if \<not> below base requested then PageJson 404 ''Not found''
               else if p \<noteq> [] \<and> plain_file f requested then PageFile requested
               else if plain_file f (static_dir @ [''index.html'']) then PageFile (static_dir @ [''index.html''])
               else PageJson 503 ''Web assets are not installed''
           | _ \<Rightarrow> PageRaises ''RuntimeError'')"

section \<open>Headers\<close>

type_synonym headers = "(string \<times> string) list"

definition content_security_policy :: string where
  "content_security_policy =
     ''default-src 'self'; connect-src 'self'; img-src 'self' data:; '' @
     ''style-src 'self'; base-uri 'none'; frame-ancestors 'none'; '' @
     ''form-action 'self'' @ [CHR 0x27]"

text \<open>The middleware; an exception of the route passes it by.\<close>

definition security_headers :: "string \<Rightarrow> exn + headers \<Rightarrow> exn + headers" where
  "security_headers url_path response =
     res_bind response (\<lambda>h.
       let h1 = dict_set h ''X-Content-Type-Options'' ''nosniff'';
           h2 = dict_set h1 ''X-Frame-Options'' ''DENY'';
           h3 = dict_set h2 ''Referrer-Policy'' ''no-referrer'';
           h4 = dict_set h3 ''Content-Security-Policy'' content_security_policy
       in Inr (if starts_with ''/api/'' url_path then dict_set h4 ''Cache-Control'' ''no-store'' else h4))"

section \<open>Starting and stopping\<close>

record web_app =
  ap_cipher :: "cipher option"
  ap_docs_url :: "string option"
  ap_openapi_url :: "string option"
  ap_version :: string

definition app_cipher :: "crypto_lib \<Rightarrow> web_settings \<Rightarrow> exn + cipher option" where
  "app_cipher cl st = (if ws_master_key st \<noteq> [] then map_sum id Some (cipher_init cl (ws_master_key st)) else Inr None)"

definition create_app :: "crypto_lib \<Rightarrow> web_settings \<Rightarrow> exn + web_app" where
  "create_app cl st =
     res_bind (app_cipher cl st) (\<lambda>cipher.
     let docs_url = (if ws_environment st \<noteq> ''production'' then Some ''/api/docs'' else None)
     in Inr \<lparr>ap_cipher = cipher, ap_docs_url = docs_url,
             ap_openapi_url = (if docs_url \<noteq> None then Some ''/api/openapi.json'' else None), ap_version = ws_version st\<rparr>)"

text \<open>
  The life of the application: \<open>body\<close> is what happens while it runs, the requests, datagrams and retention runs. If the
  engine cannot be started, the application does not run at all.
\<close>

definition lifespan :: "'k env \<Rightarrow> (web \<Rightarrow> web) \<Rightarrow> web \<Rightarrow> (exn + unit) \<times> web" where
  "lifespan e body s =
     (case start_from_desired_state e (wb_runtime s) (wb_db s) of
        (r, rt, d) \<Rightarrow>
          (let s1 = s\<lparr>wb_runtime := rt, wb_db := d\<rparr>;
               s2 = (case r of Inr _ \<Rightarrow> body s1 | Inl x \<Rightarrow> s1)
           in (r, s2\<lparr>wb_runtime := engine_shutdown (wb_runtime s2)\<rparr>)))"

datatype start_action = Migrated string | Served string int

fun double_percent :: "string \<Rightarrow> string" where
  "double_percent [] = []"
| "double_percent (c # s) = (if c = CHR ''%'' then [c, c] else [c]) @ double_percent s"

text \<open>\<open>migrate\<close> is \<^verbatim>\<open>command.upgrade\<close> on the database of a URL, \<open>serve\<close> is \<^verbatim>\<open>uvicorn.run\<close>; the actions that were taken are returned.\<close>

definition web_main ::
    "(string \<Rightarrow> string \<Rightarrow> string \<Rightarrow> int \<Rightarrow> string \<Rightarrow> string) \<Rightarrow> (string \<rightharpoonup> string) \<Rightarrow> (string \<Rightarrow> exn + unit) \<Rightarrow> (string \<Rightarrow> int \<Rightarrow> exn + unit)
     \<Rightarrow> (exn + int) \<times> start_action list" where
  "web_main render_url env migrate serve =
     (case web_settings_from_env render_url env of
        Inl (WebConfigError m) \<Rightarrow> (Inr 1, [])
      | Inl x \<Rightarrow> (Inl x, [])
      | Inr st \<Rightarrow>
          (let url = double_percent (ws_database_url st);
               acts = (if ws_auto_migrate st then [Migrated url] else [])
           in case (if ws_auto_migrate st then migrate url else Inr ()) of
                Inl x \<Rightarrow> (Inl x, acts)
              | Inr _ \<Rightarrow>
                  (case serve (ws_host st) (ws_port st) of
                     Inl x \<Rightarrow> (Inl x, acts @ [Served (ws_host st) (ws_port st)])
                   | Inr _ \<Rightarrow> (Inr 0, acts @ [Served (ws_host st) (ws_port st)]))))"

section \<open>What is served\<close>

text \<open>A path without \<^verbatim>\<open>..\<close> on which no link lies is where it says it is.\<close>

definition clean :: "fs \<Rightarrow> path \<Rightarrow> bool" where
  "clean f p \<longleftrightarrow> ''..'' \<notin> set p \<and> (\<forall>k. 0 < k \<and> k \<le> length p \<longrightarrow> \<not> is_symlink f (take k p))"

lemma clean_butlast: "clean f p \<Longrightarrow> clean f (butlast p)"
  by (auto simp: clean_def take_butlast dest: in_set_butlastD)

lemma clean_snoc: "clean f (p @ [c]) \<longleftrightarrow> clean f p \<and> c \<noteq> ''..'' \<and> \<not> is_symlink f (p @ [c])"
  by (auto simp: clean_def le_Suc_eq)

lemma clean_Nil [simp]: "clean f []"
  by (simp add: clean_def)

lemma walk_clean: "walk n f acc cs = Some p \<Longrightarrow> clean f acc \<Longrightarrow> clean f p"
proof (induction n f acc cs rule: walk.induct)
  case (2 n f acc c cs)
  then show ?case
    by (auto simp: clean_snoc clean_butlast is_symlink_def split: if_splits option.splits node.splits)
qed simp

lemma clean_prefix:
  assumes "clean f (p @ q)"
  shows "clean f p"
proof -
  have "\<not> is_symlink f (take k p)" if "0 < k" "k \<le> length p" for k
    using assms that unfolding clean_def by (auto dest!: spec [of _ k])
  with assms show ?thesis by (simp add: clean_def)
qed

lemma walk_stays: "clean f (acc @ cs) \<Longrightarrow> walk n f acc cs = Some (acc @ cs)"
proof (induction cs arbitrary: acc)
  case (Cons c cs)
  then have "clean f (acc @ [c])" using clean_prefix [of f "acc @ [c]" cs] by simp
  with Cons show ?case by (auto simp: clean_snoc is_symlink_def split: option.split node.split)
qed simp

lemma real_path_clean: "real_path f p = Some q \<Longrightarrow> clean f q"
  by (simp add: real_path_def walk_clean)

lemma real_path_id: "clean f p \<Longrightarrow> real_path f p = Some p"
  by (simp add: real_path_def walk_stays)

text \<open>
  C21: the front end serves nothing outside its directory. Whatever path is asked for, with \<^verbatim>\<open>..\<close>, a leading slash or links on the way, a
  file that is sent is the index page, or a regular file whose true place, with no link on its path, lies inside the
  true place of the static directory; and a path of the API is never answered with a page.
\<close>

theorem spa_contained:
  assumes "spa f static_dir p = PageFile q"
  shows "p \<noteq> ''api'' \<and> \<not> starts_with ''api/'' p
    \<and> (q = static_dir @ [''index.html''] \<and> plain_file f q
       \<or> (\<exists>base r s m. real_path f static_dir = Some base \<and> q = base @ r \<and> clean f q \<and> map_of f q = Some (File s m)))"
proof -
  from assms have api: "p \<noteq> ''api'' \<and> \<not> starts_with ''api/'' p" by (auto simp: spa_def split: if_splits)
  with assms obtain requested base where rp: "real_path f (path_of static_dir p) = Some requested" "real_path f static_dir = Some base"
      "below base requested"
    and q: "q = requested \<and> plain_file f requested \<or> q = static_dir @ [''index.html''] \<and> plain_file f q"
    by (auto simp: spa_def split: if_splits option.splits)
  have "clean f requested" by (rule real_path_clean [OF rp(1)])
  then have "\<exists>s m. map_of f requested = Some (File s m)" if "plain_file f requested"
    using that real_path_id [of f requested] by (auto simp: plain_file_def split: option.splits node.splits)
  with q api rp \<open>clean f requested\<close> show ?thesis by (auto simp: below_iff)
qed

text \<open>Two files: the page in the directory, and one outside that a link of the directory points at\<close>

definition demo_fs :: fs where
  "demo_fs = [([''srv''], Dir), ([''srv'', ''index.html''], File ''page'' 420), ([''srv'', ''app.js''], File ''js'' 420),
     ([''srv'', ''out''], Link [''etc'']), ([''etc'', ''passwd''], File ''secret'' 420)]"

theorem spa_contained_witness:
  "spa demo_fs [''srv''] ''x/../app.js'' = PageFile [''srv'', ''app.js''] \<and> clean demo_fs [''srv'', ''app.js'']
   \<and> spa demo_fs [''srv''] ''out/passwd'' = PageJson 404 ''Not found'' \<and> spa demo_fs [''srv''] ''../etc/passwd'' = PageJson 404 ''Not found''
   \<and> spa demo_fs [''srv''] ''/etc/passwd'' = PageJson 404 ''Not found''"
proof -
  have served: "spa demo_fs [''srv''] ''x/../app.js'' = PageFile [''srv'', ''app.js'']" by code_simp
  from spa_contained [OF this] have "clean demo_fs [''srv'', ''app.js'']" by auto
  moreover have "spa demo_fs [''srv''] ''out/passwd'' = PageJson 404 ''Not found''"
    "spa demo_fs [''srv''] ''../etc/passwd'' = PageJson 404 ''Not found''"
    "spa demo_fs [''srv''] ''/etc/passwd'' = PageJson 404 ''Not found''"
    by code_simp+
  ultimately show ?thesis using served by blast
qed

lemma security_headers_set:
  assumes "security_headers url_path (Inr h) = Inr h'"
  shows "map_of h' ''X-Frame-Options'' = Some ''DENY'' \<and> map_of h' ''X-Content-Type-Options'' = Some ''nosniff''
    \<and> map_of h' ''Content-Security-Policy'' = Some content_security_policy
    \<and> (starts_with ''/api/'' url_path \<longrightarrow> map_of h' ''Cache-Control'' = Some ''no-store'')"
  using assms by (auto simp: security_headers_def Let_def)

section \<open>Setup, start and stop\<close>

text \<open>When the setup page is told that no setup is required, creating an owner is refused.\<close>

lemma setup_not_required_closed:
  assumes "(''setup_required'', JBool False) \<in> set (setup_status st p)" and "dp_tables p = Some (wb_db s)"
    and "answer 201 (create_owner_route e cx payload) s = (n, t)"
  shows "n \<noteq> 201 \<and> wb_db t = wb_db s"
proof -
  have "owner_exists (wb_db s)"
    using assms(1,2) by (auto simp: setup_status_def Let_def probe_owner_def)
  then have "filter (\<lambda>u. u_role u = ''owner'') (users (wb_db s)) \<noteq> []" by (auto simp: owner_exists_iff filter_empty_conv)
  then have refused: "create_owner a u m pw ip (wb_db s)
      = (Inl (if app_settings (wb_db s) = None then NoResultFound else SetupAlreadyCompletedError), wb_db s)" for a u m pw ip
    by (cases "app_settings (wb_db s)") (simp_all add: create_owner_def atomic_def)
  have "\<exists>x. fst (create_owner_route e cx payload s) = Inl x \<and> exn_status x \<noteq> 201
      \<and> wb_db (snd (create_owner_route e cx payload s)) = wb_db s"
    by (simp add: create_owner_route_def w_bind_def w_valid_def w_guard_def w_return_def w_raise_def w_email_def w_allow_def
        compare_digest_def w_translate_def w_only_def w_db_def refused Let_def split: option.split prod.split)
  with assms(3) show ?thesis by (auto simp: answer_def split: prod.splits)
qed

lemma lifespan_stops: "rt_listeners (wb_runtime (snd (lifespan e body s))) = []"
  by (simp add: lifespan_def Let_def engine_shutdown_def split: prod.split)

text \<open>An application is made from all settings that load.\<close>

lemma loaded_settings_start: "web_settings_from_env render_url env = Inr st \<Longrightarrow> \<exists>a. create_app cl st = Inr a"
proof -
  assume "web_settings_from_env render_url env = Inr st"
  then obtain k where k: "check_master_key (env_or env ''WOLT_MASTER_KEY'' []) = Inr k" "ws_master_key st = k"
    unfolding web_settings_from_env_def Let_def res_bind_Inr_iff case_prod_beta by (elim exE conjE) auto
  then have "k = [] \<or> (\<exists>ci. cipher_init cl k = Inr ci)"
    using checked_key_cipher [OF k(1), of cl] by (cases "env_or env ''WOLT_MASTER_KEY'' [] = []") (auto simp: check_master_key_def)
  with k(2) show ?thesis by (auto simp: create_app_def app_cipher_def Let_def)
qed

lemma bad_settings_exit:
  "web_settings_from_env render_url env = Inl e \<Longrightarrow> web_main render_url env migrate serve = (Inr 1, [])"
  by (auto simp: web_main_def config_error_def dest!: settings_error)

text \<open>The server is started on a port in range, and after a migration that succeeded if one is configured.\<close>

lemma served_after_migration:
  assumes "web_main render_url env migrate serve = (r, acts)" and "Served host port \<in> set acts"
  shows "\<exists>st. web_settings_from_env render_url env = Inr st \<and> ws_port st = port
    \<and> (ws_auto_migrate st \<longrightarrow> migrate (double_percent (ws_database_url st)) = Inr () \<and> hd acts = Migrated (double_percent (ws_database_url st)))"
  using assms by (auto simp: web_main_def Let_def split: sum.splits exn.splits if_splits)

text \<open>
  C22: a missing master key stops the application. If the engine is to run, a listener of an enabled device with stored credentials is enabled,
  and the application is started without its master key, then the start of the engine raises and the application does not run at
  all: nothing of it is executed, so that the engine cannot be paused through it either. The database is left as it was.
\<close>

theorem startup_needs_master_key:
  assumes "create_app cl settings = Inr a" and "ws_master_key settings = []" and "e_cipher e = ap_cipher a"
    and "engine (wb_db s) = Some es" and "es_desired_state es = ''active''"
    and "app_settings (wb_db s) = Some st" and "0 \<le> as_rate_limit_seconds st"
    and "runtime_rows (wb_db s) = m # rows" and "row_get dc_device_id (m_device_id m) (device_credentials (wb_db s)) = Some cred"
    and "integrity (wb_db s)"
  shows "\<exists>t. lifespan e body s = (Inl MasterKeyRequiredError, t) \<and> wb_db t = wb_db s \<and> rt_listeners (wb_runtime t) = []"
proof -
  have c: "e_cipher e = None" using assms(1-3) by (auto simp: create_app_def app_cipher_def Let_def)
  have "m \<in> set (runtime_rows (wb_db s))" using assms(8) by simp
  then obtain dev where "dev \<in> set (devices (wb_db s))" "d_id dev = m_device_id m" and en: "d_enabled dev"
    by (auto simp: runtime_rows_def list_ex_iff)
  then have dev: "row_get d_id (m_device_id m) (devices (wb_db s)) = Some dev"
    using row_get_distinct [of d_id "devices (wb_db s)" dev] assms(10) by (simp add: integrity_def devices_ok_def)
  have p: "prepare_listener e m (wb_db s) = Inl MasterKeyRequiredError"
    using dev en assms(9) c by (simp add: prepare_listener_def runtime_material_def decrypt_credential_def require_cipher_def)
  obtain rl where rl: "rate_limiter_init (Fin (of_int (as_rate_limit_seconds st))) = Inr rl"
    using assms(7) by (simp add: rate_limiter_init_def)
  have "start_from_desired_state e (wb_runtime s) (wb_db s) = (Inl MasterKeyRequiredError, \<lparr>rt_listeners = [], rt_limiter = rl\<rparr>, wb_db s)"
    using assms(4-6,8) rl p by (simp add: start_from_desired_state_def engine_resume_def forget_result_def Let_def)
  then show ?thesis by (simp add: lifespan_def Let_def engine_shutdown_def)
qed

text \<open>The sample listener of the engine, in an application whose key is gone\<close>

theorem startup_needs_master_key_witness:
  "\<exists>a t. create_app sample_crypto demo_settings = Inr a
     \<and> lifespan (sample_env\<lparr>e_cipher := ap_cipher a\<rparr>) (\<lambda>s. s)
         (demo_web\<lparr>wb_db := sample_db2\<lparr>engine := Some \<lparr>es_desired_state = ''active'', es_observed_state = ''active'',
            es_heartbeat_at = None, es_last_transition_at = None, es_last_error = None\<rparr>\<rparr>\<rparr>) = (Inl MasterKeyRequiredError, t)"
proof -
  let ?d = "sample_db2\<lparr>engine := Some \<lparr>es_desired_state = ''active'', es_observed_state = ''active'',
    es_heartbeat_at = None, es_last_transition_at = None, es_last_error = None\<rparr>\<rparr>"
  let ?s = "demo_web\<lparr>wb_db := ?d\<rparr>"
  obtain a where a: "create_app sample_crypto demo_settings = Inr a" by (simp add: create_app_def app_cipher_def demo_settings_def)
  have rows: "runtime_rows (wb_db ?s) = [sample_mapping]" using sample_db2_rows by (simp add: runtime_rows_def)
  have key: "ws_master_key demo_settings = []" by (simp add: demo_settings_def)
  have c: "e_cipher (sample_env\<lparr>e_cipher := ap_cipher a\<rparr>) = ap_cipher a" by simp
  obtain es where es: "engine (wb_db ?s) = Some es" "es_desired_state es = ''active''" by simp
  obtain st where st: "app_settings (wb_db ?s) = Some st" "0 \<le> as_rate_limit_seconds st"
    by (simp add: sample_db2_def sample_db_def)
  obtain cred where cred: "row_get dc_device_id (m_device_id sample_mapping) (device_credentials (wb_db ?s)) = Some cred"
    by (simp add: row_get_def sample_db2_def sample_mapping_def new_mapping_def new_credential_def)
  have "integrity (wb_db ?s)" using sample_db2_integrity by (simp add: integrity_defs)
  from startup_needs_master_key [OF a key c es st rows cred this] a show ?thesis by blast
qed

end
