(* ===== verification/Migration_Runs.thy ===== *)
theory Migration_Runs
  imports Migrations
begin

text \<open>
  Runs of the schema scripts: where they lead from an empty database, and when a script can be undone. The states that
  can be undone have arbitrary rows.
\<close>

section \<open>Fresh databases\<close>

text \<open>Where the scripts lead from an empty database\<close>

definition head_state :: "string option \<times> migration_state" where
  "head_state = the (upgrade_head (length migrations) (None, empty_state))"

lemma head_reached: "upgrade_head (length migrations) (None, empty_state) = Some head_state"
proof -
  have "upgrade_head (length migrations) (None, empty_state) \<noteq> None" by code_simp
  then show ?thesis by (auto simp: head_state_def)
qed

lemma head_revision: "fst head_state = Some ''20260718_06''"
  "find (\<lambda>m. mg_down_revision m = Some ''20260718_06'') migrations = None"
  by code_simp+

lemma head_schema: "same_schema (ms_schema (snd head_state)) model_schema"
  by code_simp

lemma head_rows: "map fst (ms_rows (snd head_state)) = [''application_settings'', ''engine_state'']"
  by code_simp

lemma head_settings:
  "map_option (settings_row now) (find (\<lambda>r. cell r ''id'' = VInt 1) (rows_of ''application_settings'' (snd head_state)))
     = Some \<lparr>as_udp_port_start = 40000, as_udp_port_end = 40099, as_rate_limit_seconds = 30,
        as_wake_event_retention_days = 90, as_audit_event_retention_days = 365, as_locale = ''en'',
        as_timezone = ''UTC'', as_updated_at = now\<rparr>"
  "map_option engine_row (find (\<lambda>r. cell r ''id'' = VInt 1) (rows_of ''engine_state'' (snd head_state)))
     = Some \<lparr>es_desired_state = ''paused'', es_observed_state = ''starting'', es_heartbeat_at = None,
        es_last_transition_at = None, es_last_error = None\<rparr>"
proof -
  have "find (\<lambda>r. cell r ''id'' = VInt 1) (rows_of ''application_settings'' (snd head_state))
      = Some [(''id'', VInt 1), (''udp_port_start'', VInt 40000), (''udp_port_end'', VInt 40099), (''rate_limit_seconds'', VInt 30),
          (''wake_event_retention_days'', VInt 90), (''audit_event_retention_days'', VInt 365), (''locale'', VText ''en''),
          (''timezone'', VText ''UTC''), (''updated_at'', VNow)]"
    by code_simp
  then show "map_option (settings_row now) (find (\<lambda>r. cell r ''id'' = VInt 1) (rows_of ''application_settings'' (snd head_state)))
     = Some \<lparr>as_udp_port_start = 40000, as_udp_port_end = 40099, as_rate_limit_seconds = 30,
        as_wake_event_retention_days = 90, as_audit_event_retention_days = 365, as_locale = ''en'',
        as_timezone = ''UTC'', as_updated_at = now\<rparr>"
    by (simp add: settings_row_def int_cell_def text_cell_def cell_def)
qed code_simp

text \<open>
  C18: the migrations build the declared schema. Upgrading an empty database runs every script to the last revision, after which no
  script is left; the tables are exactly those that the model classes declare, column by column, with their types, nullability, defaults,
  keys, checks and indexes; and the rows that are there form a consistent database without an owner, in which the ports
  40000 to 40099 are configured and the engine is to stay paused.
\<close>

theorem migrations_build_models:
  "\<exists>s. upgrade_head (length migrations) (None, empty_state) = Some (Some ''20260718_06'', s)
     \<and> find (\<lambda>m. mg_down_revision m = Some ''20260718_06'') migrations = None
     \<and> same_schema (ms_schema s) model_schema
     \<and> map fst (ms_rows s) = [''application_settings'', ''engine_state'']
     \<and> integrity (fresh_db now s) \<and> stored_ok e (fresh_db now s) \<and> \<not> owner_exists (fresh_db now s)
     \<and> map_option es_desired_state (engine (fresh_db now s)) = Some ''paused''
     \<and> map_option (\<lambda>st. (as_udp_port_start st, as_udp_port_end st)) (app_settings (fresh_db now s)) = Some (40000, 40099)"
proof -
  have up: "upgrade_head (length migrations) (None, empty_state) = Some (Some ''20260718_06'', snd head_state)"
    using head_reached head_revision(1) by (metis prod.collapse)
  have ok: "integrity (fresh_db now (snd head_state))" "stored_ok e (fresh_db now (snd head_state))"
    "\<not> owner_exists (fresh_db now (snd head_state))"
    by (simp_all add: fresh_db_def head_settings empty_db_def integrity_defs stored_ok_def owner_exists_iff)
  have vals: "map_option es_desired_state (engine (fresh_db now (snd head_state))) = Some ''paused''"
    "map_option (\<lambda>st. (as_udp_port_start st, as_udp_port_end st)) (app_settings (fresh_db now (snd head_state))) = Some (40000, 40099)"
    by (simp_all only: fresh_db_def head_settings) simp_all
  show ?thesis by (intro exI [of _ "snd head_state"] conjI) (rule up head_revision(2) head_schema head_rows ok vals)+
qed

section \<open>Undoing a script\<close>

text \<open>
  What a database guarantees of its catalogue and its rows: constraints and indexes are on columns of their table, a foreign key refers to
  a column that exists, and rows have values for columns of their table.
\<close>

definition columns_of :: "schema \<Rightarrow> string \<Rightarrow> string list" where
  "columns_of sc t = (case map_of sc t of None \<Rightarrow> [] | Some tb \<Rightarrow> map col_name (tb_columns tb))"

fun target_in :: "schema \<Rightarrow> table_constraint \<Rightarrow> bool" where
  "target_in sc (ForeignKeyTo c t d a) = (d \<in> set (columns_of sc t))"
| "target_in sc _ = True"

definition table_ok :: "schema \<Rightarrow> table \<Rightarrow> bool" where
  "table_ok sc tb \<longleftrightarrow>
     list_all (\<lambda>k. set (constraint_columns k) \<subseteq> set (map col_name (tb_columns tb)) \<and> target_in sc k) (tb_constraints tb)
     \<and> list_all (\<lambda>(n, cs, uniq). set cs \<subseteq> set (map col_name (tb_columns tb))) (tb_indexes tb)"

definition row_ok :: "schema \<Rightarrow> string \<times> sql_row \<Rightarrow> bool" where
  "row_ok sc x \<longleftrightarrow> map_of sc (fst x) \<noteq> None \<and> set (map fst (snd x)) \<subseteq> set (columns_of sc (fst x))"

definition state_ok :: "migration_state \<Rightarrow> bool" where
  "state_ok s \<longleftrightarrow> distinct (map fst (ms_schema s))
     \<and> list_all (\<lambda>x. table_ok (ms_schema s) (snd x)) (ms_schema s) \<and> list_all (row_ok (ms_schema s)) (ms_rows s)"

definition undoes :: "migration_op \<Rightarrow> migration_op \<Rightarrow> bool" where
  "undoes y x \<longleftrightarrow> (\<forall>s s'. state_ok s \<and> apply_op x s = Some s' \<longrightarrow> state_ok s' \<and> apply_op y s' = Some s)"

lemma run_ops_append: "run_ops (xs @ ys) s = (case run_ops xs s of None \<Rightarrow> None | Some s' \<Rightarrow> run_ops ys s')"
  by (induction xs arbitrary: s) (auto split: option.split)

lemma run_undo:
  assumes "list_all2 undoes ys xs" and "state_ok s" and "run_ops xs s = Some s'"
  shows "state_ok s' \<and> run_ops (rev ys) s' = Some s"
  using assms
proof (induction arbitrary: s rule: list_all2_induct)
  case (Cons y ys x xs)
  then obtain u where u: "apply_op x s = Some u" "run_ops xs u = Some s'" by (auto split: option.splits)
  with Cons(1) Cons.prems(1) have "state_ok u" "apply_op y u = Some s" by (auto simp: undoes_def)
  with Cons.IH [OF _ u(2)] show ?case by (simp add: run_ops_append)
qed simp

subsection \<open>Changes of one table\<close>

lemma set_table_names [simp]: "map fst (ms_schema (set_table t f s)) = map fst (ms_schema s)"
  by (simp add: set_table_def case_prod_beta if_distrib)

lemma set_table_rows [simp]: "ms_rows (set_table t f s) = ms_rows s"
  by (simp add: set_table_def)

lemma map_of_set_table:
  "map_of (ms_schema (set_table t f s)) t' = (if t' = t then map_option f (map_of (ms_schema s) t) else map_of (ms_schema s) t')"
proof -
  have "map_of (map (\<lambda>(t', tb). if t' = t then (t', f tb) else (t', tb)) sc) t'
      = (if t' = t then map_option f (map_of sc t) else map_of sc t')" for sc
    by (induction sc) auto
  then show ?thesis by (simp add: set_table_def)
qed

lemma set_table_undo:
  assumes "state_ok s" and "map_of (ms_schema s) t = Some tb" and "g (f tb) = tb"
  shows "set_table t g (set_table t f s) = s"
proof -
  have "g (f y) = y" if "(t, y) \<in> set (ms_schema s)" for y
  proof -
    have "map_of (ms_schema s) t = Some y" using assms(1) that by (simp add: state_ok_def)
    with assms(2,3) show ?thesis by simp
  qed
  then have "map (\<lambda>(t', y). if t' = t then (t', g y) else (t', y)) (map (\<lambda>(t', y). if t' = t then (t', f y) else (t', y)) (ms_schema s))
      = ms_schema s"
    unfolding map_map by (intro map_idI) auto
  then show ?thesis by (simp add: set_table_def)
qed

lemma target_in_mono: "(\<And>t. set (columns_of sc t) \<subseteq> set (columns_of sc' t)) \<Longrightarrow> target_in sc k \<Longrightarrow> target_in sc' k"
  by (cases k) auto

lemma table_ok_mono: "(\<And>t. set (columns_of sc t) \<subseteq> set (columns_of sc' t)) \<Longrightarrow> table_ok sc tb \<Longrightarrow> table_ok sc' tb"
  using target_in_mono [of sc sc'] by (auto simp: table_ok_def list_all_iff)

lemma state_ok_table: "state_ok s \<Longrightarrow> map_of (ms_schema s) t = Some tb \<Longrightarrow> table_ok (ms_schema s) tb"
  by (auto simp: state_ok_def list_all_iff dest!: map_of_SomeD)

text \<open>A change that keeps the columns of a table keeps the state in order.\<close>

lemma state_ok_set_table:
  assumes "state_ok s" and "map_of (ms_schema s) t = Some tb" and "table_ok (ms_schema s) (f tb)"
    and "map col_name (tb_columns (f tb)) = map col_name (tb_columns tb)"
  shows "state_ok (set_table t f s)"
proof -
  have cols: "columns_of (ms_schema (set_table t f s)) = columns_of (ms_schema s)"
    using assms(2,4) by (auto simp: columns_of_def map_of_set_table fun_eq_iff split: option.split)
  have "table_ok (ms_schema (set_table t f s)) y" if "(t', y) \<in> set (ms_schema (set_table t f s))" for t' y
  proof -
    have "map_of (ms_schema (set_table t f s)) t' = Some y" using assms(1) that by (simp add: state_ok_def)
    then have "table_ok (ms_schema s) y"
      using assms(2,3) state_ok_table [OF assms(1)] by (auto simp: map_of_set_table split: if_splits)
    then show ?thesis by (rule table_ok_mono [rotated]) (simp add: cols)
  qed
  moreover have "row_ok (ms_schema (set_table t f s)) x = row_ok (ms_schema s) x" for x
    using assms(2) by (simp add: row_ok_def map_of_set_table cols)
  ultimately show ?thesis using assms(1) by (auto simp: state_ok_def list_all_iff)
qed

lemma undo_index: "undoes (DropIndex n t) (CreateIndex n t cs uniq)"
  unfolding undoes_def
proof (intro allI impI)
  fix s s' assume "state_ok s \<and> apply_op (CreateIndex n t cs uniq) s = Some s'"
  then obtain tb where s: "state_ok s" "map_of (ms_schema s) t = Some tb" "n \<notin> set (index_names (ms_schema s))"
    "set cs \<subseteq> set (map col_name (tb_columns tb))" "s' = set_table t (\<lambda>tb. tb\<lparr>tb_indexes := tb_indexes tb @ [(n, cs, uniq)]\<rparr>) s"
    by (auto split: option.splits if_splits)
  have "n \<notin> fst ` set (tb_indexes tb)" using s(3) map_of_SomeD [OF s(2)] by (auto simp: index_names_def)
  then have fresh: "filter (\<lambda>i. fst i \<noteq> n) (tb_indexes tb) = tb_indexes tb" by (auto simp: filter_id_conv)
  have "state_ok s'" unfolding s(5)
    by (rule state_ok_set_table [OF s(1,2)]) (use state_ok_table [OF s(1,2)] s(4) in \<open>auto simp: table_ok_def\<close>)
  then show "state_ok s' \<and> apply_op (DropIndex n t) s' = Some s"
    using s fresh by (simp add: map_of_set_table set_table_undo)
qed

lemma undo_check: "undoes (DropCheck n t) (CreateCheck n t x)"
  unfolding undoes_def
proof (intro allI impI)
  fix s s' assume "state_ok s \<and> apply_op (CreateCheck n t x) s = Some s'"
  then obtain tb where s: "state_ok s" "map_of (ms_schema s) t = Some tb"
    "list_all (\<lambda>k. case k of CheckThat n' y \<Rightarrow> n' \<noteq> n | UniqueKey n' cs \<Rightarrow> n' \<noteq> Some n | _ \<Rightarrow> True) (tb_constraints tb)"
    "set (check_columns x) \<subseteq> set (map col_name (tb_columns tb))"
    "s' = set_table t (\<lambda>tb. tb\<lparr>tb_constraints := tb_constraints tb @ [CheckThat n x]\<rparr>) s"
    by (auto split: option.splits if_splits)
  have fresh: "filter (\<lambda>k. case k of CheckThat n' y \<Rightarrow> n' \<noteq> n | _ \<Rightarrow> True) (tb_constraints tb) = tb_constraints tb"
    using s(3) by (auto simp: filter_id_conv list_all_iff split: table_constraint.splits)
  have "state_ok s'" unfolding s(5)
    by (rule state_ok_set_table [OF s(1,2)]) (use state_ok_table [OF s(1,2)] s(4) in \<open>auto simp: table_ok_def\<close>)
  then show "state_ok s' \<and> apply_op (DropCheck n t) s' = Some s"
    using s fresh by (simp add: map_of_set_table set_table_undo)
qed

lemma undo_nullable:
  assumes "state_ok s" and "apply_op (AlterNullable t c True) s = Some s'"
    and "\<forall>tb. map_of (ms_schema s) t = Some tb \<longrightarrow> list_all (\<lambda>col. col_name col = c \<longrightarrow> \<not> col_nullable col) (tb_columns tb)"
    and "list_all (\<lambda>r. cell r c \<noteq> VNull) (rows_of t s)"
  shows "state_ok s' \<and> apply_op (AlterNullable t c False) s' = Some s"
proof -
  let ?set = "\<lambda>b tb. tb\<lparr>tb_columns := map (\<lambda>col. if col_name col = c then col\<lparr>col_nullable := b\<rparr> else col) (tb_columns tb)\<rparr>"
  obtain tb where tb: "map_of (ms_schema s) t = Some tb" and s': "s' = set_table t (?set True) s" "c \<in> set (map col_name (tb_columns tb))"
    using assms(2) by (auto split: option.splits if_splits)
  have names: "map col_name (tb_columns (?set True tb)) = map col_name (tb_columns tb)" by simp
  have "map (\<lambda>col. if col_name col = c then col\<lparr>col_nullable := False\<rparr> else col)
      (map (\<lambda>col. if col_name col = c then col\<lparr>col_nullable := True\<rparr> else col) (tb_columns tb)) = tb_columns tb"
    using assms(3) tb unfolding map_map by (intro map_idI) (auto simp: list_all_iff)
  then have "?set False (?set True tb) = tb" by simp
  from set_table_undo [OF assms(1) tb, of "?set False" "?set True", OF this]
  have restored: "set_table t (?set False) s' = s" by (simp add: s')
  have "table_ok (ms_schema s) (?set True tb)"
    using state_ok_table [OF assms(1) tb] names unfolding table_ok_def by (simp only: names) simp
  then have "state_ok s'" unfolding s'(1) using names by (rule state_ok_set_table [OF assms(1) tb])
  moreover have "rows_of t s' = rows_of t s" by (simp add: s' rows_of_def)
  moreover have "map_of (ms_schema s') t = Some (?set True tb)" using tb by (simp add: s' map_of_set_table)
  ultimately show ?thesis using restored s'(2) assms(4) names by simp
qed

subsection \<open>Tables and columns\<close>

lemma target_known_in:
  assumes "state_ok s" and "target_known (ms_schema s) k"
  shows "target_in (ms_schema s) k"
proof (cases k)
  case (ForeignKeyTo c t d a)
  then obtain tb where "map_of (ms_schema s) t = Some tb" "PrimaryKey [d] \<in> set (tb_constraints tb)"
    using assms(2) by (auto simp: list_ex_iff split: option.splits)
  with state_ok_table [OF assms(1)] show ?thesis
    by (fastforce simp: ForeignKeyTo columns_of_def table_ok_def list_all_iff)
qed simp_all

lemma undo_table: "undoes (DropTable t) (CreateTable t cols ks)"
  unfolding undoes_def
proof (intro allI impI)
  fix s s' assume "state_ok s \<and> apply_op (CreateTable t cols ks) s = Some s'"
  then have s: "state_ok s" "map_of (ms_schema s) t = None"
    "list_all (\<lambda>k. target_known (ms_schema s) k \<and> set (constraint_columns k) \<subseteq> set (map col_name cols)) ks"
    and s': "s' = s\<lparr>ms_schema := ms_schema s @ [(t, \<lparr>tb_columns = cols, tb_constraints = ks, tb_indexes = []\<rparr>)]\<rparr>"
    by (auto split: if_splits)
  have new: "t \<notin> set (map fst (ms_schema s))" using s(2) by (simp add: map_of_eq_None_iff)
  have old: "map_of (ms_schema s') t' = map_of (ms_schema s) t'" if "t' \<noteq> t" for t'
    using that by (simp add: s' map_add_def split: option.split)
  have grow: "set (columns_of (ms_schema s) t') \<subseteq> set (columns_of (ms_schema s') t')" for t'
    using s(2) old [of t'] by (cases "t' = t") (simp_all add: columns_of_def)
  have "table_ok (ms_schema s) \<lparr>tb_columns = cols, tb_constraints = ks, tb_indexes = []\<rparr>"
    using s(3) target_known_in [OF s(1)] by (auto simp: table_ok_def list_all_iff)
  then have "table_ok (ms_schema s) tb" if "(t', tb) \<in> set (ms_schema s')" for t' tb
    using that s(1) by (auto simp: s' state_ok_def list_all_iff)
  moreover have "row_ok (ms_schema s') x" if "row_ok (ms_schema s) x" for x
    using that s(2) old [of "fst x"] by (cases "fst x = t") (simp_all add: row_ok_def columns_of_def)
  ultimately have ok: "state_ok s'"
    using s(1) new table_ok_mono [OF grow] by (auto simp: state_ok_def list_all_iff) (simp_all add: s')
  have others: "\<not> refers_to t k" if "(t', tb) \<in> set (ms_schema s)" "k \<in> set (tb_constraints tb)" for t' tb k
  proof -
    have "target_in (ms_schema s) k" using s(1) that by (fastforce simp: state_ok_def table_ok_def list_all_iff)
    then show ?thesis using s(2) by (cases k) (auto simp: columns_of_def)
  qed
  have rows: "fst x \<noteq> t" if "x \<in> set (ms_rows s)" for x
    using s(1,2) that by (auto simp: state_ok_def row_ok_def list_all_iff)
  have "filter (\<lambda>(t', tb). t' \<noteq> t) (ms_schema s) = ms_schema s" "filter (\<lambda>(t', r). t' \<noteq> t) (ms_rows s) = ms_rows s"
    using new rows by (auto simp: filter_id_conv) (metis image_eqI fst_conv, metis fst_conv)
  then show "state_ok s' \<and> apply_op (DropTable t) s' = Some s"
    using ok others s(2) by (auto simp: s' list_all_iff map_add_def)
qed

text \<open>A column that is added with a default, which is then dropped\<close>

lemma set_table_comp: "set_table t g (set_table t f s) = set_table t (\<lambda>tb. g (f tb)) s"
proof -
  have "(\<lambda>(t', tb). if t' = t then (t', g tb) else (t', tb)) \<circ> (\<lambda>(t', tb). if t' = t then (t', f tb) else (t', tb))
      = (\<lambda>(t', tb). if t' = t then (t', g (f tb)) else (t', tb))"
    by auto
  then show ?thesis by (simp add: set_table_def)
qed

lemma set_table_ms_rows: "set_table t f (s\<lparr>ms_rows := R\<rparr>) = (set_table t f s)\<lparr>ms_rows := R\<rparr>"
  by (simp add: set_table_def)

lemma set_table_same: "state_ok s \<Longrightarrow> map_of (ms_schema s) t = Some tb \<Longrightarrow> f tb = tb \<Longrightarrow> set_table t f s = s"
  using set_table_undo [of s t tb f "\<lambda>x. x"] by (simp add: set_table_comp)

lemma no_reference:
  assumes "state_ok s" and "c \<notin> set (columns_of (ms_schema s) t)" and "\<And>tb. tb_constraints (f tb) = tb_constraints tb"
  shows "list_all (\<lambda>(t', tb'). list_all (\<lambda>k. \<not> refers_to_column t c k) (tb_constraints tb')) (ms_schema (set_table t0 f s))"
proof -
  have "\<not> refers_to_column t c k" if "(t', tb) \<in> set (ms_schema s)" "k \<in> set (tb_constraints tb)" for t' tb k
  proof -
    have "target_in (ms_schema s) k" using assms(1) that by (fastforce simp: state_ok_def table_ok_def list_all_iff)
    then show ?thesis using assms(2) by (cases k) auto
  qed
  then show ?thesis using assms(3) by (fastforce simp: set_table_def list_all_iff split: if_splits)
qed

lemma undo_column:
  assumes "state_ok s" and "apply_op (AddColumn t col) s = Some u" and "apply_op (AlterDefault t (col_name col) d) u = Some s'"
  shows "apply_op (DropColumn t (col_name col)) s' = Some s"
proof -
  let ?c = "col_name col" and ?add = "\<lambda>tb. tb\<lparr>tb_columns := tb_columns tb @ [col]\<rparr>"
  let ?alter = "\<lambda>tb. tb\<lparr>tb_columns := map (\<lambda>col'. if col_name col' = ?c then col'\<lparr>col_default := d\<rparr> else col') (tb_columns tb)\<rparr>"
  let ?drop = "\<lambda>tb. tb\<lparr>tb_columns := filter (\<lambda>col'. col_name col' \<noteq> ?c) (tb_columns tb),
    tb_constraints := filter (\<lambda>k. ?c \<notin> set (constraint_columns k)) (tb_constraints tb),
    tb_indexes := filter (\<lambda>(n, cs, u). ?c \<notin> set cs) (tb_indexes tb)\<rparr>"
  let ?grow = "\<lambda>(t', r). if t' = t then (t', r @ [(?c, default_value (col_default col))]) else (t', r)"
  let ?shrink = "\<lambda>(t', r). if t' = t then (t', filter (\<lambda>(c', v). c' \<noteq> ?c) r) else (t', r)"
  obtain tb where tb: "map_of (ms_schema s) t = Some tb" "?c \<notin> set (map col_name (tb_columns tb))"
    and u: "u = (set_table t ?add s)\<lparr>ms_rows := map ?grow (ms_rows s)\<rparr>"
    using assms(2) by (auto split: option.splits if_splits)
  have s': "s' = (set_table t (\<lambda>tb. ?alter (?add tb)) s)\<lparr>ms_rows := map ?grow (ms_rows s)\<rparr>"
    using assms(3) by (auto simp: u set_table_ms_rows set_table_comp split: option.splits if_splits)
  have new: "?c \<notin> set (columns_of (ms_schema s) t)" using tb by (simp add: columns_of_def)
  have keep: "filter (\<lambda>col'. col_name col' \<noteq> ?c) (map (\<lambda>col'. if col_name col' = ?c then col'\<lparr>col_default := d\<rparr> else col') cs) = cs"
    if "?c \<notin> set (map col_name cs)" for cs :: "column list"
    using that by (induction cs) auto
  have "?drop (?alter (?add tb)) = tb"
  proof -
    have "filter (\<lambda>k. ?c \<notin> set (constraint_columns k)) (tb_constraints tb) = tb_constraints tb"
      "filter (\<lambda>(n, cs, u). ?c \<notin> set cs) (tb_indexes tb) = tb_indexes tb"
      using tb(2) state_ok_table [OF assms(1) tb(1)] unfolding table_ok_def list_all_iff filter_id_conv by blast+
    then show ?thesis using keep [OF tb(2)] by simp
  qed
  from set_table_same [OF assms(1) tb(1), of "\<lambda>tb. ?drop (?alter (?add tb))", OF this]
  have sc: "set_table t ?drop (set_table t (\<lambda>tb. ?alter (?add tb)) s) = s" by (simp add: set_table_comp)
  have "?shrink (?grow x) = x" if "x \<in> set (ms_rows s)" for x
  proof -
    have "set (map fst (snd x)) \<subseteq> set (columns_of (ms_schema s) (fst x))"
      using assms(1) that by (simp add: state_ok_def row_ok_def list_all_iff)
    with new show ?thesis by (cases x) (auto simp: filter_id_conv)
  qed
  then have rows: "map ?shrink (map ?grow (ms_rows s)) = ms_rows s"
    unfolding map_map by (intro map_idI) simp
  have sch: "ms_schema s' = ms_schema (set_table t (\<lambda>tb. ?alter (?add tb)) s)" by (simp add: s')
  have "map_of (ms_schema s') t = Some (?alter (?add tb))" using tb(1) by (simp add: sch map_of_set_table)
  moreover have "list_all (\<lambda>(t', tb'). list_all (\<lambda>k. \<not> refers_to_column t ?c k) (tb_constraints tb')) (ms_schema s')"
    unfolding sch by (rule no_reference [OF assms(1) new]) simp
  moreover have "?c \<in> set (map col_name (tb_columns (?alter (?add tb))))" by simp
  moreover have "(set_table t ?drop s')\<lparr>ms_rows := map ?shrink (ms_rows s')\<rparr> = s"
  proof -
    have "set_table t ?drop s' = s\<lparr>ms_rows := map ?grow (ms_rows s)\<rparr>" unfolding s' set_table_ms_rows sc ..
    moreover have "map ?shrink (ms_rows s') = ms_rows s" using rows by (simp only: s') simp
    ultimately show ?thesis by simp
  qed
  ultimately show ?thesis by (simp only: apply_op.simps option.case if_True simp_thms)
qed

section \<open>The scripts can be undone\<close>

lemma undo_02: "list_all2 undoes (rev downgrade_02) upgrade_02"
  by (simp add: downgrade_02_def upgrade_02_def undo_table undo_index)

lemma undo_04: "list_all2 undoes (rev downgrade_04) upgrade_04"
  by (simp add: downgrade_04_def upgrade_04_def undo_index)

lemma undo_05: "list_all2 undoes (rev downgrade_05) upgrade_05"
  by (simp add: downgrade_05_def upgrade_05_def undo_check)

lemma undo_06: "list_all2 undoes (rev (butlast downgrade_06)) (tl upgrade_06)"
  by (simp add: downgrade_06_def upgrade_06_def undo_table undo_index)

lemma undo_01: "run_ops upgrade_01 empty_state = Some s' \<Longrightarrow> run_ops downgrade_01 s' = Some empty_state"
proof -
  have "run_ops upgrade_01 empty_state \<noteq> None" "run_ops downgrade_01 (the (run_ops upgrade_01 empty_state)) = Some empty_state"
    by code_simp+
  then show "run_ops upgrade_01 empty_state = Some s' \<Longrightarrow> run_ops downgrade_01 s' = Some empty_state" by simp
qed

text \<open>
  C19: a downgrade undoes its upgrade. Whatever rows the database holds, if the upgrade of a script runs, its downgrade runs on the
  result and gives exactly the tables and the rows that were there before; so that no upgrade loses data. The first script is run on
  an empty database, and for the last one the password hashes have to be required and present before, as they are in the schema
  it upgrades.
\<close>

theorem downgrade_undoes_upgrade:
  assumes "m \<in> set migrations" and "state_ok s" and "run_ops (mg_upgrade m) s = Some s'"
    and "mg_down_revision m = None \<Longrightarrow> s = empty_state"
    and "m = migration_06 \<Longrightarrow> \<exists>tb. map_of (ms_schema s) ''users'' = Some tb
      \<and> list_all (\<lambda>col. col_name col = ''password_hash'' \<longrightarrow> \<not> col_nullable col) (tb_columns tb)
      \<and> list_all (\<lambda>r. cell r ''password_hash'' \<noteq> VNull) (rows_of ''users'' s)"
  shows "run_ops (mg_downgrade m) s' = Some s"
proof -
  consider "m = migration_01" | "m = migration_02" | "m = migration_03" | "m = migration_04" | "m = migration_05" | "m = migration_06"
    using assms(1) by (auto simp: migrations_def)
  then show ?thesis
  proof cases
    case 1
    then show ?thesis using assms(3,4) undo_01 by (simp add: migration_01_def)
  next
    case 2
    then show ?thesis using run_undo [OF undo_02 assms(2)] assms(3) by (simp add: migration_02_def)
  next
    case 3
    let ?col = "\<lparr>col_name = ''allowed_source_ip'', col_type = SqlString 45, col_nullable = False, col_default = DefaultText ''127.0.0.1''\<rparr>"
    obtain u where "apply_op (AddColumn ''listener_mappings'' ?col) s = Some u"
      "apply_op (AlterDefault ''listener_mappings'' (col_name ?col) NoDefault) u = Some s'"
      using assms(3) 3 by (auto simp: migration_03_def upgrade_03_def simp del: apply_op.simps split: option.splits)
    from undo_column [OF assms(2) this] show ?thesis
      by (simp add: 3 migration_03_def downgrade_03_def del: apply_op.simps)
  next
    case 4
    then show ?thesis using run_undo [OF undo_04 assms(2)] assms(3) by (simp add: migration_04_def)
  next
    case 5
    then show ?thesis using run_undo [OF undo_05 assms(2)] assms(3) by (simp add: migration_05_def)
  next
    case 6
    have ends: "upgrade_06 = AlterNullable ''users'' ''password_hash'' True # tl upgrade_06"
      "downgrade_06 = butlast downgrade_06 @ [AlterNullable ''users'' ''password_hash'' False]"
      by (simp_all add: upgrade_06_def downgrade_06_def)
    obtain u where u: "apply_op (AlterNullable ''users'' ''password_hash'' True) s = Some u" "run_ops (tl upgrade_06) u = Some s'"
      using assms(3) ends(1) 6 by (auto simp: migration_06_def simp del: apply_op.simps split: option.splits)
        (metis (no_types, lifting) option.case_eq_if option.collapse option.distinct(1) run_ops.simps(2))
    from undo_nullable [OF assms(2) u(1)] assms(5) [OF 6]
    have "state_ok u" "apply_op (AlterNullable ''users'' ''password_hash'' False) u = Some s" by auto
    with run_undo [OF undo_06 _ u(2)] have "run_ops (butlast downgrade_06 @ [AlterNullable ''users'' ''password_hash'' False]) s' = Some s"
      by (simp add: run_ops_append del: apply_op.simps)
    then show ?thesis using ends(2) by (simp add: 6 migration_06_def)
  qed
qed

definition sample_listeners :: migration_state where
  "sample_listeners = (let s = the (run_ops upgrade_01 empty_state) in s\<lparr>ms_rows := ms_rows s @ [(''listener_mappings'', [(''name'', VText ''lab'')])]\<rparr>)"

theorem downgrade_undoes_upgrade_witness:
  "\<exists>s'. run_ops upgrade_03 sample_listeners = Some s'
     \<and> rows_of ''listener_mappings'' s' = [[(''name'', VText ''lab''), (''allowed_source_ip'', VText ''127.0.0.1'')]]
     \<and> run_ops downgrade_03 s' = Some sample_listeners"
proof -
  have up: "map_option (rows_of ''listener_mappings'') (run_ops upgrade_03 sample_listeners)
      = Some [[(''name'', VText ''lab''), (''allowed_source_ip'', VText ''127.0.0.1'')]]" by code_simp
  then obtain s' where s': "run_ops upgrade_03 sample_listeners = Some s'"
    "rows_of ''listener_mappings'' s' = [[(''name'', VText ''lab''), (''allowed_source_ip'', VText ''127.0.0.1'')]]"
    by (cases "run_ops upgrade_03 sample_listeners") auto
  have "state_ok sample_listeners" by code_simp
  moreover have "migration_03 \<in> set migrations" by (simp add: migrations_def)
  moreover have "migration_03 \<noteq> migration_06" by (simp add: migration_03_def migration_06_def)
  ultimately have "run_ops (mg_downgrade migration_03) s' = Some sample_listeners"
    using downgrade_undoes_upgrade [of migration_03 sample_listeners s'] s'(1) by (simp add: migration_03_def)
  with s' show ?thesis by (simp add: migration_03_def)
qed

section \<open>A downgrade that is refused\<close>

fun op_table :: "migration_op \<Rightarrow> string" where
  "op_table (CreateTable t cols ks) = t"
| "op_table (DropTable t) = t"
| "op_table (CreateIndex n t cs uniq) = t"
| "op_table (DropIndex n t) = t"
| "op_table (AddColumn t col) = t"
| "op_table (DropColumn t c) = t"
| "op_table (AlterDefault t c d) = t"
| "op_table (AlterNullable t c b) = t"
| "op_table (CreateCheck n t x) = t"
| "op_table (DropCheck n t) = t"
| "op_table (BulkInsert t r) = t"

lemma filter_other:
  "(\<And>x. (case f x of (t', r) \<Rightarrow> t' = t) = (case x of (t', r) \<Rightarrow> t' = t)) \<Longrightarrow> (\<And>x. fst x = t \<Longrightarrow> f x = x) \<Longrightarrow>
   map snd (filter (\<lambda>(t', r). t' = t) (map f xs)) = map snd (filter (\<lambda>(t', r). t' = t) xs)"
  by (induction xs) (auto split: prod.splits)

lemma rows_frame: "apply_op x s = Some s' \<Longrightarrow> op_table x \<noteq> t \<Longrightarrow> rows_of t s' = rows_of t s"
proof (cases x)
  case (DropTable t')
  assume "apply_op x s = Some s'" "op_table x \<noteq> t"
  moreover have "filter (\<lambda>(u, r). u = t) (filter (\<lambda>(u, r). u \<noteq> t') xs) = filter (\<lambda>(u, r). u = t) xs"
    if "t \<noteq> t'" for xs :: "(string \<times> sql_row) list"
    using that by (induction xs) auto
  ultimately show ?thesis using DropTable by (auto simp: rows_of_def split: if_splits)
qed (auto simp: rows_of_def set_table_def split: option.splits if_splits intro!: filter_other)

lemma rows_frame_run: "run_ops xs s = Some s' \<Longrightarrow> t \<notin> op_table ` set xs \<Longrightarrow> rows_of t s' = rows_of t s"
proof (induction xs arbitrary: s)
  case (Cons x xs)
  then obtain u where "apply_op x s = Some u" "run_ops xs u = Some s'" by (auto simp del: apply_op.simps split: option.splits)
  moreover have "op_table x \<noteq> t" using Cons.prems by auto
  ultimately show ?case using Cons rows_frame [of x s u t] by simp
qed simp

text \<open>
  C20: the identity migration cannot be taken back while an invitation is open. An invited user has no password hash until the invitation is
  accepted; with such a row the downgrade of the last script is refused, whatever else the database holds.
\<close>

theorem downgrade_06_refused:
  assumes "r \<in> set (rows_of ''users'' s)" and "cell r ''password_hash'' = VNull"
  shows "run_ops downgrade_06 s = None"
proof -
  have split: "downgrade_06 = butlast downgrade_06 @ [AlterNullable ''users'' ''password_hash'' False]"
    by (simp add: downgrade_06_def)
  show ?thesis
  proof (cases "run_ops (butlast downgrade_06) s")
    case None
    then show ?thesis by (subst split) (simp add: run_ops_append)
  next
    case (Some u)
    then have "rows_of ''users'' u = rows_of ''users'' s" by (rule rows_frame_run) (simp add: downgrade_06_def)
    with assms have "apply_op (AlterNullable ''users'' ''password_hash'' False) u = None"
      by (auto simp: list_all_iff split: option.split)
    then show ?thesis by (subst split) (simp add: run_ops_append Some del: apply_op.simps)
  qed
qed

theorem downgrade_06_refused_witness:
  "run_ops downgrade_06 ((snd head_state)\<lparr>ms_rows := [(''users'', [(''username'', VText ''ann''), (''password_hash'', VNull)])]\<rparr>) = None"
  by (rule downgrade_06_refused [of "[(''username'', VText ''ann''), (''password_hash'', VNull)]"])
    (simp_all add: rows_of_def cell_def)

end
