(* ===== verification/Spec2Isabelle.thy ===== *)
theory Spec2Isabelle
  imports Headless_Listener Host_Examples Managed_Listener Web_App Migration_Runs
begin

text \<open>
  A verification development of WOLT, a wake-on-LAN translator. WOLT receives UDP magic packets and, for each
  one it accepts, has a FortiGate firewall broadcast the wake from one of its interfaces, over SSH.

  \<^bold>\<open>The program.\<close> There are two programs and a helper.
  \<^item> The headless translator (\<^verbatim>\<open>app/main.py\<close>, \<^verbatim>\<open>app/config.py\<close>, \<^verbatim>\<open>app/listener.py\<close>, \<^verbatim>\<open>app/parser.py\<close>,
    \<^verbatim>\<open>app/rate_limit.py\<close>, \<^verbatim>\<open>app/fortigate.py\<close>) reads its settings from the environment and its ports from a
    YAML file, and runs one listener per port.
  \<^item> The web application keeps users, devices and listeners in a database (\<^verbatim>\<open>app/application/\<close>,
    \<^verbatim>\<open>app/drivers/\<close>, \<^verbatim>\<open>app/infrastructure/\<close>, \<^verbatim>\<open>app/web/\<close>) and runs the listeners itself
    (\<^verbatim>\<open>engine_runtime.py\<close>). The services are called by the HTTP routes, each call one transaction; the engine is
    reconciled with the database after every change to devices and listeners.
  \<^item> The host agent (\<^verbatim>\<open>host_agent/server.py\<close>) runs on the host and changes firewall and deployment on request.

  \<^bold>\<open>Shared theories.\<close> \<^verbatim>\<open>Prelude\<close> has results (\<open>'a result\<close>, a sum with the exception on the left), Python's
  string and integer functions and the row operations on tables. \<^verbatim>\<open>Py_Values\<close> has the exceptions, JSON values
  and floats. \<^verbatim>\<open>Regex\<close>, \<^verbatim>\<open>Ip_Address\<close>, \<^verbatim>\<open>Base64\<close> and \<^verbatim>\<open>Json_Text\<close> model what the sources use of \<^verbatim>\<open>re\<close>,
  \<^verbatim>\<open>ipaddress\<close>, \<^verbatim>\<open>base64\<close> and \<^verbatim>\<open>json\<close>, with matching decided by the language of the pattern and the round trips
  of printing and reading. \<^verbatim>\<open>Transition_System\<close> has reachability, the locale \<open>invariant_system\<close> and the
  locale \<open>stepwise\<close>.

  \<^bold>\<open>The headless translator.\<close>
  \<^item> \<^verbatim>\<open>Magic_Packet\<close> (\<^verbatim>\<open>parser.py\<close>): \<open>parse_magic_packet\<close> accepts exactly the payloads with a magic packet and
    returns its address.
  \<^item> \<^verbatim>\<open>Rate_Limit\<close> (\<^verbatim>\<open>rate_limit.py\<close> and the login limiter of \<^verbatim>\<open>auth_routes.py\<close>): both limiters satisfy the
    locale \<open>keyed_limiter\<close> and are equivalent to references that keep the whole history; wakes of one key are
    spaced, a login window never admits more than its limit.
  \<^item> \<^verbatim>\<open>Headless_Config\<close> (\<^verbatim>\<open>config.py\<close>): what a settings record and a mapping file that load satisfy.
  \<^item> \<^verbatim>\<open>Fortigate\<close> (\<^verbatim>\<open>fortigate.py\<close>): the wake command, its shape, and the SSH client, which always closes.
  \<^item> \<^verbatim>\<open>Headless_Listener\<close> (\<^verbatim>\<open>listener.py\<close>, \<^verbatim>\<open>main.py\<close>): the receive loop over any sequence of socket events.

  \<^bold>\<open>The web application.\<close>
  \<^item> \<^verbatim>\<open>Credential_Cipher\<close> (\<^verbatim>\<open>crypto/credentials.py\<close>) and \<^verbatim>\<open>Device_Driver\<close> (\<^verbatim>\<open>drivers/\<close>): the envelope round
    trip under \<open>aead_correct\<close>; the locale \<open>device_driver\<close>, interpreted by the FortiGate driver.
  \<^item> \<^verbatim>\<open>Database\<close> (\<^verbatim>\<open>database/models.py\<close>, \<^verbatim>\<open>connection.py\<close>): the tables as a record \<open>db\<close> of row lists,
    the constraints as \<open>integrity\<close>, a session that commits or leaves the database as it was.
  \<^item> \<^verbatim>\<open>Device_Service\<close>, \<^verbatim>\<open>Listener_Service\<close> (\<^verbatim>\<open>operations_service.py\<close>): devices, encrypted credentials, listener
    mappings, port allocation, versions, the engine's row.
  \<^item> \<^verbatim>\<open>Engine_Runtime\<close> (\<^verbatim>\<open>engine_runtime.py\<close>): the managed listeners, a datagram's handling, start, stop,
    restart, reconcile and resume. \<^verbatim>\<open>Managed_Listener\<close>: a listener's receive loop as a run of the application.
  \<^item> \<^verbatim>\<open>Observability\<close> (\<^verbatim>\<open>observability_service.py\<close>): pages, CSV export, dashboard, settings, retention.
  \<^item> \<^verbatim>\<open>Auth_Service\<close>, \<^verbatim>\<open>Email\<close>, \<^verbatim>\<open>Identity_Service\<close> (\<^verbatim>\<open>auth_service.py\<close>, \<^verbatim>\<open>email.py\<close>,
    \<^verbatim>\<open>identity_service.py\<close>): owner setup, login, sessions, recovery, mail, users, invitations, resets.
  \<^item> \<^verbatim>\<open>Stored_Data\<close> says of every operation what it keeps; \<^verbatim>\<open>Web_System\<close> is the state machine of all of them
    (\<open>web_step\<close>), whose invariants this theory states for whole runs.

  \<^bold>\<open>The host agent.\<close> \<^verbatim>\<open>Host_System\<close> has the machine the agent works on: a file system of text files, links
  and directories with its failures, the log of the commands that were run, and a monad of
  operations that raise exceptions and keep what they did (\<open>h_bind\<close>, \<open>h_catch\<close>, \<open>h_finally\<close>), with the rules of a
  weakest precondition calculus (\<open>wp\<close>, \<open>keeps\<close>). The functions of \<^verbatim>\<open>host_agent/server.py\<close> follow in its order.
  \<^item> \<^verbatim>\<open>Host_Agent\<close>: configuration, the state file, releases, the image and its signature, the environment
    file, the health check. \<^verbatim>\<open>Host_Firewall\<close>: the rules of ufw, with a specification of what the agent leaves
    in force. \<^verbatim>\<open>Host_Runtime\<close>: database backups, unpacking and replacing the runtime files.
  \<^item> \<^verbatim>\<open>Host_Jobs\<close>: deployment, upgrade and rollback as whole jobs, their undoing included. \<^verbatim>\<open>Host_Http\<close>: the
    agent's socket protocol and the client of \<^verbatim>\<open>infrastructure/host_agent.py\<close> on the other side of it.
  \<^item> \<^verbatim>\<open>Host_Invariants\<close>: the state machine of requests and jobs (\<open>agent_step\<close>); the locales
    \<open>agent_invariant\<close> and \<open>agent_trace_invariant\<close> reduce a property of all runs to the commands and files each
    function touches. \<^verbatim>\<open>Host_Examples\<close> runs the agent on a concrete machine.

  \<^bold>\<open>The HTTP interface and the whole system.\<close> \<^verbatim>\<open>Web_Config\<close> (\<^verbatim>\<open>web/config.py\<close>) reads the settings of the web application.
  \<^verbatim>\<open>Web_Http\<close> has the state of its process, the guards and the translation of errors that the route modules share, and
  \<^verbatim>\<open>Web_Routes\<close> a function per route (\<^verbatim>\<open>auth_routes.py\<close>, \<^verbatim>\<open>identity_routes.py\<close>, \<^verbatim>\<open>host_routes.py\<close>,
  \<^verbatim>\<open>operations_routes.py\<close>, \<^verbatim>\<open>observability_routes.py\<close>).
  \<^item> \<^verbatim>\<open>Web_Api\<close>: the requests as datatypes, \<open>api\<close>, which answers one, and the access matrix \<open>api_access\<close>: who may not make a
    request gets 401 or 403 and changes nothing.
  \<^item> \<^verbatim>\<open>Web_Runs\<close>: the locale \<open>route_relation\<close> reduces a relation between the states before and after a request to the
    calls that routes make; its interpretations show that every request is a run of the services (\<open>served\<close>), that only host requests
    reach the host (\<open>hostless\<close>), and that what they do there is a run of the agent (\<open>agent_served\<close>).
  \<^item> \<^verbatim>\<open>Whole_System\<close>: requests, datagrams, the retention worker, the engine's start and stop and the agent's own steps as one
    step relation (\<open>system_step\<close>), with the invariant of all runs.
  \<^item> \<^verbatim>\<open>Web_App\<close> (\<^verbatim>\<open>application.py\<close>, \<^verbatim>\<open>__main__.py\<close>): the health and setup answers, the pages of the front end, which lie inside its
    directory, the response headers, and the start of the process, which fails without a master key that the engine needs.

  \<^bold>\<open>The schema.\<close> \<^verbatim>\<open>Migrations\<close> has the scripts of \<^verbatim>\<open>migrations/versions/\<close> as lists of operations, which \<open>apply_op\<close> performs on a
  schema with its rows, and the tables of \<^verbatim>\<open>models.py\<close>. \<^verbatim>\<open>Migration_Runs\<close> shows that the scripts build exactly those tables, that a
  downgrade undoes its upgrade for any rows, and when the last one is refused.

  \<^bold>\<open>Code outside the repository.\<close> Argon2, SHA-256, AES-GCM, paramiko, smtplib, the SQL text functions, the clock, the
  commands the host agent runs (ufw, docker, cosign, pg_dump) and what it downloads are fields of the records \<open>auth_env\<close>, \<open>host_lib\<close>, \<open>crypto_lib\<close>, \<open>ssh_lib\<close>, \<open>smtp_lib\<close>, \<open>sql_lib\<close> and of the environments of
  the operations. What a theorem needs of them is a named hypothesis (\<open>aead_correct\<close>, \<open>hasher_correct\<close>), and
  the witnesses give functions that satisfy it.

  \<^bold>\<open>Bounds.\<close> Integers are unbounded, as in Python; bytes of a datagram are 8-bit words. The JSON reader has fuel
  \<open>Suc (length s)\<close>, more than the nesting of any text; the base64 quartets have the length of the text; the exponent
  of a float is searched below 1075, the smallest exponent of a double. The export stops at 10000 rows because
  the code does.

  \<^bold>\<open>Not modelled.\<close> Lengths of database columns when rows are written, and the order of rows that tie under \<^verbatim>\<open>ORDER BY\<close>; other
  transactions between two statements of one transaction; threads, which run one event after the other here; the rounding
  of decimal literals to doubles; characters above code point 255; the text of log lines. \<^verbatim>\<open>migrations/env.py\<close>, the socket
  server and \<^verbatim>\<open>main\<close> of the host agent and the inclusion of the routers in \<^verbatim>\<open>application.py\<close> are calls of Alembic, of
  Python's servers and of FastAPI; the files under \<^verbatim>\<open>/assets\<close> are served by Starlette. Request bodies arrive as records of the declared
  fields; FastAPI's parsing is taken as documented.
\<close>

section \<open>Runs of the web application\<close>

text \<open>
  C3: stored documents stay valid. Starting from a database that satisfies its constraints and whose
  documents are valid, every state the application can reach, by any sequence of service calls, failing ones
  included, has a consistent database in which every device configuration and every listener's
  parameters validate to themselves, every credential under the current key decrypts to one that validates,
  every source address is in normal form and every UDP port lies in the configured range, which
  has at most 100 ports between 1024 and 65535.
\<close>

theorem web_stored_invariant:
  assumes "reach (web_step e0) (rt, d) (rt', d')" and "aead_correct (e_crypto e0)"
    and "integrity d" and "stored_ok e0 d" and "runtime_ok e0 rt"
  shows "integrity d' \<and> stored_ok e0 d' \<and> runtime_ok e0 rt'
    \<and> (\<forall>st m. app_settings d' = Some st \<and> m \<in> set (listener_mappings d') \<longrightarrow>
         1024 \<le> as_udp_port_start st \<and> as_udp_port_start st \<le> m_udp_port m \<and> m_udp_port m \<le> as_udp_port_end st
         \<and> as_udp_port_end st \<le> 65535 \<and> as_udp_port_end st - as_udp_port_start st < 100)"
proof -
  have "web_inv e0 (rt', d')"
    using web.reach_inv [OF assms(1)] assms(2-5) by (simp add: web_inv_def)
  then have inv: "integrity d'" "stored_ok e0 d'" "runtime_ok e0 rt'" by (simp_all add: web_inv_def)
  have "1024 \<le> as_udp_port_start st \<and> as_udp_port_start st \<le> m_udp_port m \<and> m_udp_port m \<le> as_udp_port_end st
         \<and> as_udp_port_end st \<le> 65535 \<and> as_udp_port_end st - as_udp_port_start st < 100"
    if "app_settings d' = Some st" "m \<in> set (listener_mappings d')" for st m
    using inv(1,2) that by (auto simp: integrity_def settings_ok_def stored_ok_def port_ok_def list_all_iff)
  with inv show ?thesis by blast
qed

lemma sample_env_like: "env_like sample_env sample_env"
  by (simp add: env_like_def sample_env_simps)

lemma sample_db_stored: "stored_ok sample_env sample_db" "integrity sample_db"
  by (simp_all add: stored_ok_def sample_db_def empty_db_def integrity_defs sample_owner_def)

lemma idle_ok: "runtime_ok e idle_runtime"
  by (simp add: runtime_ok_def idle_runtime_def)

lemma sample_run:
  "\<exists>v d'. device_create sample_env ''fw'' ''fortigate_ssh'' sample_conf sample_cred True 1 ''10.0.0.9'' sample_db = (Inr v, d')
     \<and> reach (web_op sample_env) (idle_runtime, sample_db) (idle_runtime, d')"
proof -
  obtain v d' where c: "device_create sample_env ''fw'' ''fortigate_ssh'' sample_conf sample_cred True 1 ''10.0.0.9'' sample_db
      = (Inr v, d')" using sample_create by blast
  have "web_op sample_env (idle_runtime, sample_db) (idle_runtime, d')"
    using op_device_create [OF sample_env_like, of idle_runtime sample_db "''fw''" "''fortigate_ssh''" sample_conf sample_cred
        True 1 "''10.0.0.9''"] c by simp
  with c show ?thesis by (auto intro: reach.intros)
qed

lemma reach_op_step: "reach (web_op e0) s t \<Longrightarrow> reach (web_step e0) s t"
  by (induction rule: reach.induct) (auto intro: reach.intros step_op)

lemma sample_crypto_ok: "aead_correct (e_crypto sample_env)"
  by (simp add: sample_env_simps sample_crypto_correct)

theorem web_stored_invariant_witness:
  "\<exists>v d'. device_create sample_env ''fw'' ''fortigate_ssh'' sample_conf sample_cred True 1 ''10.0.0.9'' sample_db = (Inr v, d')
     \<and> stored_ok sample_env d'"
proof -
  obtain v d' where c: "device_create sample_env ''fw'' ''fortigate_ssh'' sample_conf sample_cred True 1 ''10.0.0.9'' sample_db
      = (Inr v, d')" "reach (web_op sample_env) (idle_runtime, sample_db) (idle_runtime, d')" using sample_run by blast
  from web_stored_invariant [OF reach_op_step [OF c(2)] sample_crypto_ok sample_db_stored(2,1) idle_ok] c(1)
  show ?thesis by blast
qed

text \<open>
  C6: nobody can remove the last owner. From a state with an enabled owner, every state that any sequence of
  service calls reaches has an enabled owner, so that the setup stays closed: creating an owner is refused.
\<close>

theorem web_owner_kept:
  assumes "reach (web_step e0) (rt, d) (rt', d')" and "aead_correct (e_crypto e0)"
    and "integrity d" and "stored_ok e0 d" and "runtime_ok e0 rt" and "owner_exists d"
  shows "owner_exists d' \<and> (app_settings d' \<noteq> None \<longrightarrow>
    create_owner e name email password ip d' = (Inl SetupAlreadyCompletedError, d'))"
proof -
  have o: "owner_exists d'"
    using owners.reach_inv [OF assms(1)] assms(2-6) by (simp add: web_inv_def)
  then have "filter (\<lambda>u. u_role u = ''owner'') (users d') \<noteq> []"
    by (auto simp: owner_exists_iff filter_empty_conv)
  with o show ?thesis by (auto simp: create_owner_def atomic_def)
qed

theorem web_owner_kept_witness: "\<exists>d'. reach (web_step sample_env) (idle_runtime, sample_db) (idle_runtime, d') \<and> owner_exists d'"
proof -
  obtain d' where c: "reach (web_step sample_env) (idle_runtime, sample_db) (idle_runtime, d')"
    using sample_run reach_op_step by blast
  moreover have "owner_exists sample_db" by (simp add: owner_exists_iff sample_db_def sample_owner_def)
  ultimately show ?thesis using web_owner_kept [OF c sample_crypto_ok sample_db_stored(2,1) idle_ok] by blast
qed





text \<open>
  C4: a datagram never brings a running listener down. In every reachable state with the master
  key configured, whatever arrives at a running listener is handled and answered by log lines, or
  the wake event could not be recorded because its row violates a constraint of the database (the listener or
  its device was deleted meanwhile); no validation, decryption or SSH failure escapes.
\<close>

theorem datagram_never_escapes:
  assumes "reach (web_step e0) (rt, d) (rt', d')" and "aead_correct (e_crypto e0)"
    and "integrity d" and "stored_ok e0 d" and "runtime_ok e0 rt"
    and "env_like e0 e" and "e_cipher e0 \<noteq> None" and "(k, rm) \<in> set (rt_listeners rt')"
  shows "fst (managed_handle e rm data ip sport (rt_limiter rt') d') = Inl IntegrityError
    \<or> (\<exists>logs. fst (managed_handle e rm data ip sport (rt_limiter rt') d') = Inr logs)"
proof -
  have inv: "web_inv e0 (rt', d')"
    using web.reach_inv [OF assms(1)] assms(2-5) by (simp add: web_inv_def)
  obtain ci where ci: "e_cipher e0 = Some ci" using assms(7) by blast
  have rm: "runtime_mapping_ok e0 rm" using inv assms(8) by (auto simp: web_inv_def runtime_ok_def list_all_iff)
  have rec: "fst (record_wake e rm mac ip sport result t d') = Inl IntegrityError
      \<or> (\<exists>logs. fst (record_wake e rm mac ip sport result t d') = Inr logs)" for mac result t
    by (auto simp: record_wake_def Let_def commit_def atomic_def)
  show ?thesis
  proof (cases "ip = rm_allowed_source_ip rm \<and> (\<exists>p. parse_magic_packet data = Inr p)")
    case False
    then show ?thesis
      by (auto simp: managed_handle_def split: sum.split dest: parse_magic_packet_Inl)
  next
    case True
    then obtain p where p: "parse_magic_packet data = Inr p" by blast
    obtain result where res: "wake_result (fst (wake_attempt e rm (mac_address p) d')) = Inr result"
      using wake_result_handled [OF _ assms(6) ci rm p] inv by (auto simp: web_inv_def)
    obtain b rl where a: "rate_allow (rm_port rm) (mac_address p) (e_mono e 1) (rt_limiter rt') = (b, rl)" by fastforce
    show ?thesis
      using True p res a rec [of "mac_address p" "''rate_limited''" "e_mono e 0"] rec [of "mac_address p" result "e_mono e 0"]
      by (cases b) (auto simp: managed_handle_def Let_def split: prod.split)
  qed
qed

lemma sample_db2_stored: "stored_ok sample_env sample_db2"
proof -
  have "device_ok sample_env sample_device"
    using sample_conf_valid_again by (simp add: device_ok_def sample_device_def new_device_def sample_env_simps
        registry_get_def registry_drivers_def type_key_def py_strip_def is_space_def)
  moreover have "credential_ok sample_env (new_credential sample_env sample_cipher 100 sample_cred 1000)"
    by (rule new_credential_ok [OF sample_env_like sample_crypto_ok _ sample_cred_validates]) (simp add: sample_env_simps)
  moreover have "stored_mapping_ok sample_env sample_mapping" "port_ok (app_settings sample_db2) sample_mapping"
    by (simp_all add: stored_mapping_ok_def sample_mapping_def new_mapping_def sample_env_simps sample_params_validates
        port_ok_def sample_db2_def sample_db_def py_eval)
  ultimately show ?thesis by (simp add: stored_ok_def) (simp add: sample_db2_def)
qed

theorem datagram_never_escapes_witness:
  "\<exists>(rt' :: runtime) rm. (200, rm) \<in> set (rt_listeners rt')
     \<and> fst (managed_handle sample_env rm [] ''10.0.0.9'' 5 (rt_limiter rt') sample_db2) \<in> insert (Inl IntegrityError) (range Inr)"
proof -
  define rt where "rt = idle_runtime\<lparr>rt_listeners := [(200, runtime_of sample_mapping)]\<rparr>"
  have l: "(200, runtime_of sample_mapping) \<in> set (rt_listeners rt)" by (simp add: rt_def)
  have "runtime_rows sample_db2 = [sample_mapping]" "m_id sample_mapping = 200"
    by (simp_all add: sample_db2_rows) (simp add: sample_mapping_def)
  then have "runtime_ok sample_env rt"
    using runtime_rows_ok [OF sample_db2_stored, of "[(200, runtime_of sample_mapping)]"]
    by (simp add: runtime_ok_def rt_def)
  moreover have "e_cipher sample_env \<noteq> None" by (simp add: sample_env_simps)
  ultimately have "fst (managed_handle sample_env (runtime_of sample_mapping) [] ''10.0.0.9'' 5 (rt_limiter rt) sample_db2)
      \<in> insert (Inl IntegrityError) (range Inr)"
    using datagram_never_escapes [OF reach_refl sample_crypto_ok sample_db2_integrity sample_db2_stored _ sample_env_like _ l,
        of "[]" "''10.0.0.9''" 5] by auto
  with l show ?thesis by blast
qed

end
